(* ===== verification/Prelude.thy ===== *)
theory Prelude
  imports Main "HOL-Library.Monad_Syntax" "HOL-Library.Word"
begin

text \<open>
  What every component of the development shares: the vocabulary for Go run-time behaviour
  (a run-time panic is \<open>None\<close> of the result type \<open>'a go\<close>; a Go map is a partial function),
  the lemmas on partial functions and lists that the components use, and the two interfaces
  that several components implement:
  \<^item> \<open>registry\<close>: a keyed table with a lookup, a store and a removal (Go's \<open>sync.Map\<close> as the
    managers of the program wrap it);
  \<^item> \<open>step_system\<close>: a state with a step relation and an invariant kept by every step.
\<close>

section \<open>Results, tables and collections of lemmas\<close>

type_synonym 'a go = "'a option"
type_synonym go_error = "string option"
type_synonym int64 = "64 word"
type_synonym int32 = "32 word"

abbreviation Panic :: "'a go" where "Panic \<equiv> None"
abbreviation Ret :: "'a \<Rightarrow> 'a go" where "Ret \<equiv> Some"
abbreviation nil_error :: go_error where "nil_error \<equiv> None"

named_theorems go_defs \<open>definitions that a proof unfolds as a group\<close>
named_theorems go_splits \<open>case splits for the branches of the modelled code\<close>

lemmas go_case_splits = option.splits if_splits prod.splits sum.splits bool.splits

lemma bind_eq_Some_go: "Option.bind x f = Some y \<longleftrightarrow> (\<exists>a. x = Some a \<and> f a = Some y)"
  by (cases x) auto

lemma map_remove_apply [simp]: "(m(k := None)) j = (if j = k then None else m j)"
  by simp

lemma dom_remove [simp]: "dom (m(k := None)) = dom m - {k}"
  by (auto simp: dom_def)

lemma finite_dom_upd [simp]: "finite (dom (m(k \<mapsto> v))) = finite (dom m)"
  by simp

lemma card_dom_insert:
  "finite (dom m) \<Longrightarrow> m k = None \<Longrightarrow> card (dom (m(k \<mapsto> v))) = Suc (card (dom m))"
  by (simp add: card_insert_if domIff)

lemma card_dom_overwrite:
  "finite (dom m) \<Longrightarrow> m k \<noteq> None \<Longrightarrow> card (dom (m(k \<mapsto> v))) = card (dom m)"
  by (simp add: card_insert_if domIff insert_absorb)

lemma card_dom_remove:
  "finite (dom m) \<Longrightarrow> m k \<noteq> None \<Longrightarrow> Suc (card (dom (m(k := None)))) = card (dom m)"
  using card_Suc_Diff1 [of "dom m" k] by (simp only: dom_remove domIff not_False_eq_True)

section \<open>Keyed tables\<close>

locale registry =
  fixes lookup_r :: "'s \<Rightarrow> 'k \<Rightarrow> 'v option"
    and store_r :: "'k \<Rightarrow> 'v \<Rightarrow> 's \<Rightarrow> 's"
    and remove_r :: "'k \<Rightarrow> 's \<Rightarrow> 's"
  assumes lookup_store: "lookup_r (store_r k v s) j = (if j = k then Some v else lookup_r s j)"
    and lookup_remove: "lookup_r (remove_r k s) j = (if j = k then None else lookup_r s j)"
begin

lemma lookup_store_same [simp]: "lookup_r (store_r k v s) k = Some v"
  by (simp add: lookup_store)

lemma store_keeps_others: "j \<noteq> k \<Longrightarrow> lookup_r (store_r k v s) j = lookup_r s j"
  by (simp add: lookup_store)

lemma remove_keeps_others: "j \<noteq> k \<Longrightarrow> lookup_r (remove_r k s) j = lookup_r s j"
  by (simp add: lookup_remove)

lemma dom_store: "dom (lookup_r (store_r k v s)) = insert k (dom (lookup_r s))"
  by (auto simp: lookup_store dom_def)

lemma dom_removed: "dom (lookup_r (remove_r k s)) = dom (lookup_r s) - {k}"
  by (auto simp: lookup_remove dom_def)

lemma store_remove: "lookup_r (remove_r k (store_r k v s)) = lookup_r (remove_r k s)"
  by (rule ext) (simp add: lookup_store lookup_remove)

lemma finite_store: "finite (dom (lookup_r s)) \<Longrightarrow> finite (dom (lookup_r (store_r k v s)))"
  by (simp add: dom_store)

lemma finite_removed: "finite (dom (lookup_r s)) \<Longrightarrow> finite (dom (lookup_r (remove_r k s)))"
  by (simp add: dom_removed)

lemma card_store:
  assumes "finite (dom (lookup_r s))"
  shows "card (dom (lookup_r (store_r k v s))) =
    (if lookup_r s k = None then Suc (card (dom (lookup_r s))) else card (dom (lookup_r s)))"
  using assms by (auto simp: dom_store card_insert_if domIff)

lemma card_removed:
  assumes "finite (dom (lookup_r s))" and "lookup_r s k \<noteq> None"
  shows "Suc (card (dom (lookup_r (remove_r k s)))) = card (dom (lookup_r s))"
  using assms card_Suc_Diff1 [of "dom (lookup_r s)" k]
  by (simp only: dom_removed domIff not_False_eq_True)

end

section \<open>State machines with an invariant\<close>

inductive reach :: "('s \<Rightarrow> bool) \<Rightarrow> ('s \<Rightarrow> 's \<Rightarrow> bool) \<Rightarrow> 's \<Rightarrow> bool" for start step where
  reach_start: "start s \<Longrightarrow> reach start step s"
| reach_step: "reach start step s \<Longrightarrow> step s t \<Longrightarrow> reach start step t"

locale step_system =
  fixes start :: "'s \<Rightarrow> bool"
    and step :: "'s \<Rightarrow> 's \<Rightarrow> bool"
    and inv :: "'s \<Rightarrow> bool"
  assumes inv_start: "start s \<Longrightarrow> inv s"
    and inv_step: "inv s \<Longrightarrow> step s t \<Longrightarrow> inv t"
begin

lemma reach_inv: "reach start step s \<Longrightarrow> inv s"
  by (induction rule: reach.induct) (auto intro: inv_start inv_step)

lemma steps_inv: "step\<^sup>*\<^sup>* s t \<Longrightarrow> inv s \<Longrightarrow> inv t"
  by (induction rule: rtranclp_induct) (auto intro: inv_step)

end

end
