(* ===== verification/Message.thy ===== *)
theory Message
  imports GoStrings
begin

text \<open>
  The messages that flow through the program, and what the program takes from packages that are
  not part of the repository.

  A message is the record of the fields of the beehive message that the sources read or write:
  its header (ID, parent ID, resource version), its router (source, group, operation, resource)
  and its content, whose type is the parameter \<open>'c\<close>.

  The record \<open>'c ext\<close> collects the string constants of the beehive model, of the common
  constants and of the meta server, and the functions on a content that come from the
  Kubernetes libraries (the metadata accessor) or from Go itself (a type assertion). Every
  definition that uses one of them takes the record as an argument; what a theorem needs of it
  is a hypothesis of that theorem.
\<close>

record 'c message =
  msg_ID :: string
  msg_ParentID :: string
  msg_ResourceVersion :: string
  msg_Source :: string
  msg_Group :: string
  msg_Operation :: string
  msg_Resource :: string
  msg_Content :: 'c

record objmeta =
  om_UID :: string
  om_DeletionTimestamp :: "int option"
  om_ResourceVersion :: string

record 'c ext =
  InsertOperation :: string
  DeleteOperation :: string
  UpdateOperation :: string
  ResponseOperation :: string
  ResponseErrorOperation :: string
  UploadOperation :: string
  ResourceTypeNode :: string
  ResourceTypeLease :: string
  ResourceTypeNodePatch :: string
  ResourceTypePodPatch :: string
  ResourceTypePodStatus :: string
  ResourceTypePod :: string
  ResourceTypePodlist :: string
  ResourceTypeServiceAccountToken :: string
  ResourceSep :: string
  CSIResourceTypeVolume :: string
  CSIOperationTypeCreateVolume :: string
  CSIOperationTypeDeleteVolume :: string
  CSIOperationTypeControllerPublishVolume :: string
  CSIOperationTypeControllerUnpublishVolume :: string
  MessageSuccessfulContent :: string
  DefaultContextSendModuleName :: string
  ApplicationResp :: string
  MetaServerSource :: string
  meta_Accessor :: "'c \<Rightarrow> string + objmeta"
  GetMessageAPIVersion :: "'c message \<Rightarrow> string"
  GetMessageResourceType :: "'c message \<Rightarrow> string"
  assert_string :: "'c \<Rightarrow> string option"
  assert_error :: "'c \<Rightarrow> bool"

type_synonym 'a result = "string + 'a"

text \<open>\<open>BuildRouter\<close>, \<open>FillBody\<close>, \<open>SetResourceVersion\<close> and \<open>SetResourceOperation\<close> as the
  sources call them: they set the fields they name.\<close>

definition BuildRouter :: "'c message \<Rightarrow> string \<Rightarrow> string \<Rightarrow> string \<Rightarrow> string \<Rightarrow> 'c message" where
  "BuildRouter m source grp res op =
     m\<lparr>msg_Source := source, msg_Group := grp, msg_Resource := res, msg_Operation := op\<rparr>"

definition SetResourceOperation :: "'c message \<Rightarrow> string \<Rightarrow> string \<Rightarrow> 'c message" where
  "SetResourceOperation m res op = m\<lparr>msg_Resource := res, msg_Operation := op\<rparr>"

declare BuildRouter_def [simp] SetResourceOperation_def [simp]

text \<open>The values that the constants have in the released packages, for concrete runs.\<close>

definition ext_of :: "('c \<Rightarrow> string + objmeta) \<Rightarrow> ('c \<Rightarrow> string option) \<Rightarrow> ('c \<Rightarrow> bool) \<Rightarrow> 'c ext" where
  "ext_of acc str err = \<lparr>
     InsertOperation = ''insert'', DeleteOperation = ''delete'', UpdateOperation = ''update'',
     ResponseOperation = ''response'', ResponseErrorOperation = ''error'',
     UploadOperation = ''upload'',
     ResourceTypeNode = ''node'', ResourceTypeLease = ''lease'',
     ResourceTypeNodePatch = ''nodepatch'', ResourceTypePodPatch = ''podpatch'',
     ResourceTypePodStatus = ''podstatus'', ResourceTypePod = ''pod'',
     ResourceTypePodlist = ''podlist'',
     ResourceTypeServiceAccountToken = ''serviceaccounttoken'',
     ResourceSep = ''/'',
     CSIResourceTypeVolume = ''volume'', CSIOperationTypeCreateVolume = ''createvolume'',
     CSIOperationTypeDeleteVolume = ''deletevolume'',
     CSIOperationTypeControllerPublishVolume = ''controllerpublishvolume'',
     CSIOperationTypeControllerUnpublishVolume = ''controllerunpublishvolume'',
     MessageSuccessfulContent = ''OK'', DefaultContextSendModuleName = ''cloudhub'',
     ApplicationResp = ''applicationResponse'', MetaServerSource = ''metaserver'',
     meta_Accessor = acc, GetMessageAPIVersion = (\<lambda>_. ''v1''),
     GetMessageResourceType = (\<lambda>_. ''Pod''),
     assert_string = str, assert_error = err\<rparr>"

end
