(* ===== verification/MessageLayer.thy ===== *)
theory MessageLayer
  imports Message
begin

text \<open>
  The resource paths of messages: \<open>codes/cloud/pkg/common/messagelayer/util.go\<close>. The builders
  put a path together, the getters read one segment of it. The locale \<open>sep_path\<close> states what
  the builders have in common (a path is the join of its segments), and gives once that the
  segments are read back and that two different lists of segments never give the same path; it
  is interpreted for the two builders.
\<close>

section \<open>Builders and getters\<close>

abbreviation ResourceNode :: string where "ResourceNode \<equiv> ''node''"
abbreviation ResourceNodeIDIndex :: nat where "ResourceNodeIDIndex \<equiv> 1"
abbreviation ResourceNamespaceIndex :: nat where "ResourceNamespaceIndex \<equiv> 2"
abbreviation ResourceResourceTypeIndex :: nat where "ResourceResourceTypeIndex \<equiv> 3"
abbreviation ResourceResourceNameIndex :: nat where "ResourceResourceNameIndex \<equiv> 4"
abbreviation ResourceDeviceIndex :: nat where "ResourceDeviceIndex \<equiv> 2"
abbreviation ResourceDeviceIDIndex :: nat where "ResourceDeviceIDIndex \<equiv> 3"
abbreviation ResourceDevice :: string where "ResourceDevice \<equiv> ''device''"
abbreviation ResourceTypeTwinEdgeUpdated :: string where
  "ResourceTypeTwinEdgeUpdated \<equiv> ''twin/edge_updated''"
abbreviation ResourceTypeMembershipDetail :: string where
  "ResourceTypeMembershipDetail \<equiv> ''membership/detail''"

definition BuildResource ::
  "'c ext \<Rightarrow> string \<Rightarrow> string \<Rightarrow> string \<Rightarrow> string \<Rightarrow> string result" where
  "BuildResource E nodeID namespace resourceType resourceID =
     (if namespace = [] \<or> resourceType = [] \<or> nodeID = []
      then Inl ''required parameter are not set (node id, namespace or resource type)''
      else
        let resource = ResourceNode @ ResourceSep E @ nodeID @ ResourceSep E @ namespace
                         @ ResourceSep E @ resourceType
        in if resourceID \<noteq> [] then Inr (resource @ ResourceSep E @ resourceID)
           else Inr resource)"

definition getElementByIndex :: "'c ext \<Rightarrow> 'c message \<Rightarrow> nat \<Rightarrow> string" where
  "getElementByIndex E msg index =
     (let sli = Split (msg_Resource msg) (ResourceSep E)
      in if length sli \<le> index then [] else sli ! index)"

definition GetNodeID :: "'c ext \<Rightarrow> 'c message \<Rightarrow> string result" where
  "GetNodeID E msg =
     (let res = getElementByIndex E msg ResourceNodeIDIndex
      in if res = [] then Inl ''node id not found'' else Inr res)"

definition GetNamespace :: "'c ext \<Rightarrow> 'c message \<Rightarrow> string result" where
  "GetNamespace E msg =
     (let res = getElementByIndex E msg ResourceNamespaceIndex
      in if res = [] then Inl ''namespace not found'' else Inr res)"

definition GetResourceType :: "'c ext \<Rightarrow> 'c message \<Rightarrow> string result" where
  "GetResourceType E msg =
     (let res = getElementByIndex E msg ResourceResourceTypeIndex
      in if res = [] then Inl ''resource type not found'' else Inr res)"

definition GetResourceName :: "'c ext \<Rightarrow> 'c message \<Rightarrow> string result" where
  "GetResourceName E msg =
     (let res = getElementByIndex E msg ResourceResourceNameIndex
      in if res = [] then Inl ''resource name not found'' else Inr res)"

text \<open>\<open>x, _ := f(...)\<close>: the value a Go getter leaves when its error is ignored.\<close>

definition ignore_err :: "string result \<Rightarrow> string" where
  "ignore_err r = (case r of Inl _ \<Rightarrow> [] | Inr s \<Rightarrow> s)"

lemma ignore_err_simps [simp]: "ignore_err (Inl e) = []" "ignore_err (Inr s) = s"
  by (simp_all add: ignore_err_def)

definition BuildResourceForRouter :: "'c ext \<Rightarrow> string \<Rightarrow> string \<Rightarrow> string result" where
  "BuildResourceForRouter E resourceType resourceID =
     (if resourceID = [] \<or> resourceType = []
      then Inl ''required parameter are not set (resourceID or resource type)''
      else Inr (resourceType @ ResourceSep E @ resourceID))"

definition BuildResourceForDevice ::
  "'c ext \<Rightarrow> string \<Rightarrow> string \<Rightarrow> string \<Rightarrow> string result" where
  "BuildResourceForDevice E nodeID resourceType resourceID =
     (if nodeID = [] \<or> resourceType = []
      then Inl ''required parameter are not set (node id, namespace or resource type)''
      else
        let resource = ResourceNode @ ResourceSep E @ nodeID @ ResourceSep E @ resourceType
        in if resourceID \<noteq> [] then Inr (resource @ ResourceSep E @ resourceID)
           else Inr resource)"

definition GetDeviceID :: "string \<Rightarrow> string result" where
  "GetDeviceID resource =
     (let res = Split resource ''/''
      in if length res \<ge> ResourceDeviceIDIndex + 1 \<and> res ! ResourceDeviceIndex = ResourceDevice
         then Inr (res ! ResourceDeviceIDIndex)
         else Inl ''failed to get device id'')"

definition GetResourceTypeForDevice :: "string \<Rightarrow> string result" where
  "GetResourceTypeForDevice resource =
     (if Contains resource ResourceTypeTwinEdgeUpdated then Inr ResourceTypeTwinEdgeUpdated
      else if Contains resource ResourceTypeMembershipDetail
      then Inr ResourceTypeMembershipDetail
      else Inl (''unknown resource, found: '' @ resource))"

section \<open>Paths of separated segments\<close>

locale sep_path =
  fixes sep :: char
    and valid :: "'a \<Rightarrow> bool"
    and parts :: "'a \<Rightarrow> string list"
    and build :: "'a \<Rightarrow> string result"
  assumes build_join: "valid a \<Longrightarrow> build a = Inr (Join (parts a) [sep])"
    and parts_nonempty: "valid a \<Longrightarrow> parts a \<noteq> []"
    and parts_free: "valid a \<Longrightarrow> w \<in> set (parts a) \<Longrightarrow> sep \<notin> set w"
begin

lemma split_build: "valid a \<Longrightarrow> build a = Inr r \<Longrightarrow> split_on sep r = parts a"
  by (auto simp: build_join parts_nonempty parts_free intro!: split_on_Join)

lemma build_inject: "valid a \<Longrightarrow> valid b \<Longrightarrow> build a = build b \<Longrightarrow> parts a = parts b"
  by (metis build_join split_build)

lemma build_total: "valid a \<Longrightarrow> \<exists>r. build a = Inr r"
  by (simp add: build_join)

end

definition slash_free :: "string \<Rightarrow> bool" where
  "slash_free s \<longleftrightarrow> CHR ''/'' \<notin> set s"

definition resource_args_ok :: "'c ext \<times> string \<times> string \<times> string \<times> string \<Rightarrow> bool" where
  "resource_args_ok a =
     (case a of (E, nodeID, ns, t, r) \<Rightarrow> ResourceSep E = ''/'' \<and>
        nodeID \<noteq> [] \<and> ns \<noteq> [] \<and> t \<noteq> [] \<and>
        slash_free nodeID \<and> slash_free ns \<and> slash_free t \<and> slash_free r)"

definition resource_parts :: "'c ext \<times> string \<times> string \<times> string \<times> string \<Rightarrow> string list" where
  "resource_parts a =
     (case a of (E, nodeID, ns, t, r) \<Rightarrow>
        [ResourceNode, nodeID, ns, t] @ (if r = [] then [] else [r]))"

definition device_args_ok :: "'c ext \<times> string \<times> string \<times> string \<Rightarrow> bool" where
  "device_args_ok a =
     (case a of (E, nodeID, t, r) \<Rightarrow> ResourceSep E = ''/'' \<and> nodeID \<noteq> [] \<and> t \<noteq> [] \<and>
        slash_free nodeID \<and> slash_free t \<and> slash_free r)"

definition device_parts :: "'c ext \<times> string \<times> string \<times> string \<Rightarrow> string list" where
  "device_parts a =
     (case a of (E, nodeID, t, r) \<Rightarrow> [ResourceNode, nodeID, t] @ (if r = [] then [] else [r]))"

interpretation res_path: sep_path "CHR ''/''" resource_args_ok resource_parts
  "\<lambda>(E, nodeID, ns, t, r). BuildResource E nodeID ns t r"
  by unfold_locales
    (auto simp: resource_args_ok_def resource_parts_def slash_free_def BuildResource_def
      split: if_splits)

interpretation dev_path: sep_path "CHR ''/''" device_args_ok device_parts
  "\<lambda>(E, nodeID, t, r). BuildResourceForDevice E nodeID t r"
  by unfold_locales
    (auto simp: device_args_ok_def device_parts_def slash_free_def BuildResourceForDevice_def
      split: if_splits)

lemma getElementByIndex_built:
  assumes "resource_args_ok (E, n, ns, t, r)"
    and "BuildResource E n ns t r = Inr (msg_Resource msg)"
  shows "getElementByIndex E msg i =
    (let ps = resource_parts (E, n, ns, t, r) in if length ps \<le> i then [] else ps ! i)"
proof -
  have "split_on CHR ''/'' (msg_Resource msg) = resource_parts (E, n, ns, t, r)"
    using res_path.split_build [OF assms(1)] assms(2) by simp
  then show ?thesis
    using assms(1) by (simp add: getElementByIndex_def resource_args_ok_def)
qed

lemma BuildResource_prefix: "BuildResource E n ns t r = Inr s \<Longrightarrow> HasPrefix s ResourceNode"
  by (auto simp: BuildResource_def HasPrefix_def Let_def split: if_splits)

section \<open>Properties\<close>

text \<open>C20. Round trip of resource paths: from a message whose resource is what \<open>BuildResource\<close>
  made of arguments without a separator, the four getters read the node ID, the namespace, the
  resource type and the resource name back (an empty resource name reads as the error of
  \<open>GetResourceName\<close>).\<close>

theorem BuildResource_getters:
  assumes "resource_args_ok (E, nodeID, ns, t, r)"
    and "BuildResource E nodeID ns t r = Inr (msg_Resource msg)"
  shows "GetNodeID E msg = Inr nodeID \<and> GetNamespace E msg = Inr ns \<and>
    GetResourceType E msg = Inr t \<and>
    GetResourceName E msg = (if r = [] then Inl ''resource name not found'' else Inr r)"
  using getElementByIndex_built [OF assms] assms(1)
  by (auto simp: GetNodeID_def GetNamespace_def GetResourceType_def GetResourceName_def
      resource_parts_def resource_args_ok_def Let_def)

theorem BuildResource_getters_witness:
  "\<exists>(E :: unit ext) msg.
     GetNodeID E msg = Inr ''edge-1'' \<and> GetResourceName E msg = Inr ''nginx''"
proof -
  let ?E = "ext_of (\<lambda>_::unit. Inl ''no object'') (\<lambda>_. None) (\<lambda>_. False)"
  let ?m = "\<lparr>msg_ID = ''1'', msg_ParentID = [], msg_ResourceVersion = [], msg_Source = [],
     msg_Group = [], msg_Operation = [],
     msg_Resource = ''node/edge-1/default/pod/nginx'', msg_Content = ()\<rparr>"
  have ok: "resource_args_ok (?E, ''edge-1'', ''default'', ''pod'', ''nginx'')"
    by (simp add: resource_args_ok_def ext_of_def slash_free_def)
  have b: "BuildResource ?E ''edge-1'' ''default'' ''pod'' ''nginx'' = Inr (msg_Resource ?m)"
    by (simp add: BuildResource_def ext_of_def)
  show ?thesis using BuildResource_getters [OF ok b] by (intro exI [of _ ?E] exI [of _ ?m]) simp
qed

text \<open>C21. Two resource paths agree only if node, namespace, type and name agree: the path of a
  resource identifies it, so no message of one resource is taken for another.\<close>

theorem BuildResource_injective:
  assumes "resource_args_ok (E, n1, ns1, t1, r1)" and "resource_args_ok (E, n2, ns2, t2, r2)"
    and "BuildResource E n1 ns1 t1 r1 = BuildResource E n2 ns2 t2 r2"
  shows "n1 = n2 \<and> ns1 = ns2 \<and> t1 = t2 \<and> r1 = r2"
  using res_path.build_inject [OF assms(1,2)] assms(3)
  by (auto simp: resource_parts_def split: if_splits)

theorem BuildResource_injective_witness:
  "\<exists>(E :: unit ext). resource_args_ok (E, ''n'', ''ns'', ''pod'', []) \<and>
     BuildResource E ''n'' ''ns'' ''pod'' [] \<noteq> BuildResource E ''n'' ''ns'' ''pod'' ''a''"
proof -
  let ?E = "ext_of (\<lambda>_::unit. Inl ''no object'') (\<lambda>_. None) (\<lambda>_. False)"
  have ok: "resource_args_ok (?E, ''n'', ''ns'', ''pod'', [])"
    and ok2: "resource_args_ok (?E, ''n'', ''ns'', ''pod'', ''a'')"
    by (simp_all add: resource_args_ok_def ext_of_def slash_free_def)
  show ?thesis
    using ok BuildResource_injective [OF ok ok2] by (intro exI [of _ ?E]) auto
qed

text \<open>C22. A path built for a device message names the device to the device controller exactly
  when the resource type is \<open>device\<close>: \<open>GetDeviceID\<close> inverts \<open>BuildResourceForDevice\<close>.\<close>

theorem GetDeviceID_inverts:
  assumes "device_args_ok (E, nodeID, t, r)"
    and "BuildResourceForDevice E nodeID t r = Inr path"
  shows "GetDeviceID path = Inr d \<longleftrightarrow> t = ''device'' \<and> r \<noteq> [] \<and> d = r"
proof -
  have "split_on CHR ''/'' path = device_parts (E, nodeID, t, r)"
    using dev_path.split_build [OF assms(1)] assms(2) by simp
  then show ?thesis by (auto simp: GetDeviceID_def device_parts_def)
qed

theorem GetDeviceID_inverts_witness:
  "GetDeviceID ''node/edge-1/device/sensor'' = Inr ''sensor''"
proof -
  let ?E = "ext_of (\<lambda>_::unit. Inl ''no object'') (\<lambda>_. None) (\<lambda>_. False)"
  have ok: "device_args_ok (?E, ''edge-1'', ''device'', ''sensor'')"
    by (simp add: device_args_ok_def ext_of_def slash_free_def)
  have b: "BuildResourceForDevice ?E ''edge-1'' ''device'' ''sensor''
    = Inr ''node/edge-1/device/sensor''"
    by (simp add: BuildResourceForDevice_def ext_of_def)
  show ?thesis using GetDeviceID_inverts [OF ok b, of "''sensor''"] by simp
qed

end
