(* ===== verification/HubCommon.thy ===== *)
theory HubCommon
  imports MessageLayer
begin

text \<open>
  The helpers that CloudHub's dispatcher and sessions share:
  \<open>codes/cloud/pkg/cloudhub/common/model/types.go\<close> (which messages go to the edge, which come
  from it, when a node is stopped) and \<open>codes/cloud/pkg/cloudhub/common/helper.go\<close> (trimming
  the node prefix of a resource, the keys under which messages are stored, copies).
\<close>

section \<open>model/types.go\<close>

abbreviation ResNode :: string where "ResNode \<equiv> ''node''"
abbreviation ResMember :: string where "ResMember \<equiv> ''membership''"
abbreviation ResTwin :: string where "ResTwin \<equiv> ''twin''"
abbreviation ResAuth :: string where "ResAuth \<equiv> ''auth_info''"
abbreviation OpGet :: string where "OpGet \<equiv> ''get''"
abbreviation OpDelta :: string where "OpDelta \<equiv> ''delta''"
abbreviation OpDoc :: string where "OpDoc \<equiv> ''document''"
abbreviation OpDelete :: string where "OpDelete \<equiv> ''deleted''"
abbreviation OpConnect :: string where "OpConnect \<equiv> ''connected''"
abbreviation OpDisConnect :: string where "OpDisConnect \<equiv> ''disconnected''"
abbreviation OpKeepalive :: string where "OpKeepalive \<equiv> ''keepalive''"
abbreviation GpResource :: string where "GpResource \<equiv> ''resource''"
abbreviation SrcCloudHub :: string where "SrcCloudHub \<equiv> ''cloudhub''"
abbreviation SrcManager :: string where "SrcManager \<equiv> ''edgemgr''"

text \<open>The module names of \<open>codes/cloud/pkg/common/modules/modules.go\<close>.\<close>

abbreviation CloudHubModuleName :: string where "CloudHubModuleName \<equiv> ''cloudhub''"
abbreviation EdgeControllerModuleName :: string where
  "EdgeControllerModuleName \<equiv> ''edgecontroller''"
abbreviation EdgeControllerGroupName :: string where
  "EdgeControllerGroupName \<equiv> ''edgecontroller''"
abbreviation DeviceControllerModuleName :: string where
  "DeviceControllerModuleName \<equiv> ''devicecontroller''"
abbreviation DeviceControllerModuleGroup :: string where
  "DeviceControllerModuleGroup \<equiv> ''devicecontroller''"
abbreviation NodeUpgradeJobControllerModuleName :: string where
  "NodeUpgradeJobControllerModuleName \<equiv> ''nodeupgradejobcontroller''"
abbreviation SyncControllerModuleName :: string where
  "SyncControllerModuleName \<equiv> ''synccontroller''"
abbreviation DynamicControllerModuleName :: string where
  "DynamicControllerModuleName \<equiv> ''dynamiccontroller''"
abbreviation CloudStreamModuleName :: string where "CloudStreamModuleName \<equiv> ''cloudStream''"
abbreviation RouterModuleName :: string where "RouterModuleName \<equiv> ''router''"
abbreviation UserGroup :: string where "UserGroup \<equiv> ''user''"
abbreviation GroupResource :: string where "GroupResource \<equiv> ''resource''"
abbreviation GroupTwin :: string where "GroupTwin \<equiv> ''twin''"
abbreviation NullNamespace :: string where "NullNamespace \<equiv> ''null''"

definition cloudModuleArray :: "string list" where
  "cloudModuleArray = [CloudHubModuleName, CloudStreamModuleName, DeviceControllerModuleName,
     EdgeControllerModuleName, SyncControllerModuleName]"

record HubInfo =
  hi_ProjectID :: string
  hi_NodeID :: string

definition NewResource :: "'c ext \<Rightarrow> string \<Rightarrow> string \<Rightarrow> HubInfo option \<Rightarrow> string" where
  "NewResource E resType resID info =
     (let prefix = (case info of
                      None \<Rightarrow> []
                    | Some i \<Rightarrow> ResourceTypeNode E @ ''/'' @ hi_NodeID i @ ''/'')
      in if resID = [] then prefix @ resType else prefix @ resType @ ''/'' @ resID)"

definition IsNodeStopped :: "'c ext \<Rightarrow> 'c message \<Rightarrow> bool" where
  "IsNodeStopped E msg =
     (if ignore_err (GetResourceType E msg) \<noteq> ResourceTypeNode E then False
      else msg_Operation msg = DeleteOperation E)"

definition IsFromEdge :: "'c message \<Rightarrow> bool" where
  "IsFromEdge msg = (\<not> list_ex (\<lambda>item. msg_Source msg = item) cloudModuleArray)"

text \<open>The map of \<open>IsToEdge\<close>; the order in which Go ranges over it does not matter, as any hit
  gives the same answer.\<close>

definition resOpMap :: "(string \<times> string list) list" where
  "resOpMap = [(ResMember, [OpGet]), (ResTwin, [OpDelta, OpDoc, OpGet]), (ResAuth, [OpGet]),
     (ResNode, [OpDelete])]"

definition IsToEdge :: "'c message \<Rightarrow> bool" where
  "IsToEdge msg =
     (if msg_Source msg \<noteq> SrcManager then True
      else
        let resource =
              (if HasPrefix (msg_Resource msg) ResNode
               then let tokens = Split (msg_Resource msg) ''/''
                    in if length tokens \<ge> 3 then Join (drop 2 tokens) ''/''
                       else msg_Resource msg
               else msg_Resource msg)
        in \<not> list_ex (\<lambda>(res, ops).
               list_ex (\<lambda>op. msg_Operation msg = op \<and> Contains resource res) ops) resOpMap)"

section \<open>helper.go\<close>

definition word_char :: "char \<Rightarrow> bool" where
  "word_char c = (let n = of_char c :: nat in
     48 \<le> n \<and> n \<le> 57 \<or> 65 \<le> n \<and> n \<le> 90 \<or> 97 \<le> n \<and> n \<le> 122 \<or> n = 95)"

definition name_char :: "char \<Rightarrow> bool" where
  "name_char c \<longleftrightarrow> word_char c \<or> c = CHR ''-'' \<or> c = CHR ''.'' \<or> c = CHR ''+''"

text \<open>
  The regular expression \<open>^\w[-\w.+]*/volume/\w[-\w.+]*\<close>, with the volume constant taken as
  plain text: the first segment is the text before the first slash, and the match is not
  anchored at its end, so one word character after the second slash is enough.
\<close>

definition IsVolumeResource :: "'c ext \<Rightarrow> string \<Rightarrow> bool" where
  "IsVolumeResource E resource =
     (let seg = takeWhile (\<lambda>c. c \<noteq> CHR ''/'') resource;
          rest = dropWhile (\<lambda>c. c \<noteq> CHR ''/'') resource;
          mid = ''/'' @ CSIResourceTypeVolume E @ ''/''
      in (case seg of [] \<Rightarrow> False | c # cs \<Rightarrow> word_char c \<and> list_all name_char cs) \<and>
         HasPrefix rest mid \<and>
         (case drop (length mid) rest of [] \<Rightarrow> False | c # _ \<Rightarrow> word_char c))"

definition GetMessageUID :: "'c ext \<Rightarrow> 'c message \<Rightarrow> string result" where
  "GetMessageUID E msg =
     (case meta_Accessor E (msg_Content msg) of Inl e \<Rightarrow> Inl e | Inr om \<Rightarrow> Inr (om_UID om))"

definition GetMessageDeletionTimestamp :: "'c ext \<Rightarrow> 'c message \<Rightarrow> int option result" where
  "GetMessageDeletionTimestamp E msg =
     (case meta_Accessor E (msg_Content msg) of
        Inl e \<Rightarrow> Inl e
      | Inr om \<Rightarrow> Inr (om_DeletionTimestamp om))"

definition TrimMessage :: "'c message \<Rightarrow> 'c message" where
  "TrimMessage msg =
     (let resource = msg_Resource msg
      in if HasPrefix resource ResNode
         then let tokens = Split resource ''/''
              in if length tokens < 3 then msg
                 else SetResourceOperation msg (Join (drop 2 tokens) ''/'') (msg_Operation msg)
         else msg)"

text \<open>\<open>ConstructConnectMessage\<close>: the identifier of the fresh message and the encoding of the
  body (event type, time, client ID) are arguments.\<close>

definition ConstructConnectMessage ::
  "'c ext \<Rightarrow> (string \<Rightarrow> string \<Rightarrow> 'c) \<Rightarrow> string \<Rightarrow> HubInfo \<Rightarrow> bool \<Rightarrow> 'c message" where
  "ConstructConnectMessage E body newID info isConnected =
     (let connected = (if \<not> isConnected then OpDisConnect else OpConnect)
      in BuildRouter
           \<lparr>msg_ID = newID, msg_ParentID = [], msg_ResourceVersion = [], msg_Source = [],
            msg_Group = [], msg_Operation = [], msg_Resource = [],
            msg_Content = body connected (hi_NodeID info)\<rparr>
           SrcCloudHub GpResource (NewResource E ResNode (hi_NodeID info) None) connected)"

definition DeepCopy :: "'c message option \<Rightarrow> 'c message option" where
  "DeepCopy msg =
     (case msg of
        None \<Rightarrow> None
      | Some m \<Rightarrow> Some \<lparr>msg_ID = msg_ID m, msg_ParentID = msg_ParentID m,
          msg_ResourceVersion = msg_ResourceVersion m, msg_Source = msg_Source m,
          msg_Group = msg_Group m, msg_Operation = msg_Operation m,
          msg_Resource = msg_Resource m, msg_Content = msg_Content m\<rparr>)"

definition AckMessageKeyFunc :: "'c ext \<Rightarrow> 'c message \<Rightarrow> string result" where
  "AckMessageKeyFunc E msg =
     (if msg_Group msg = GroupResource then GetMessageUID E msg
      else Inl ''failed to get message key'')"

definition NoAckMessageKeyFunc :: "'c message \<Rightarrow> string result" where
  "NoAckMessageKeyFunc msg = Inr (msg_ID msg)"

section \<open>Properties\<close>

lemma DeepCopy_Some [simp]: "DeepCopy (Some m) = Some m"
  by (simp add: DeepCopy_def)

lemma TrimMessage_fields [simp]:
  "msg_ID (TrimMessage m) = msg_ID m"
  "msg_ResourceVersion (TrimMessage m) = msg_ResourceVersion m"
  "msg_Operation (TrimMessage m) = msg_Operation m"
  "msg_Content (TrimMessage m) = msg_Content m"
  "msg_Source (TrimMessage m) = msg_Source m"
  "msg_Group (TrimMessage m) = msg_Group m"
  by (simp_all add: TrimMessage_def Let_def)

text \<open>C23. What CloudHub sends has no node prefix: of a message for a resource built by the
  message layer, \<open>TrimMessage\<close> keeps exactly the path from the namespace on, and no other
  field changes.\<close>

theorem TrimMessage_built:
  assumes "resource_args_ok (E, nodeID, ns, t, r)"
    and "BuildResource E nodeID ns t r = Inr (msg_Resource msg)"
  shows "TrimMessage msg =
    msg\<lparr>msg_Resource := ns @ ''/'' @ t @ (if r = [] then [] else ''/'' @ r)\<rparr>"
proof -
  have s: "split_on CHR ''/'' (msg_Resource msg) = resource_parts (E, nodeID, ns, t, r)"
    using res_path.split_build [OF assms(1)] assms(2) by simp
  moreover have "HasPrefix (msg_Resource msg) ResNode"
    using assms(2) by (rule BuildResource_prefix)
  ultimately show ?thesis
    by (auto simp: TrimMessage_def resource_parts_def Let_def)
qed

theorem TrimMessage_built_witness:
  "msg_Resource (TrimMessage \<lparr>msg_ID = ''1'', msg_ParentID = [], msg_ResourceVersion = ''3'',
     msg_Source = [], msg_Group = ''resource'', msg_Operation = ''update'',
     msg_Resource = ''node/edge-1/default/pod/nginx'', msg_Content = ()\<rparr>)
   = ''default/pod/nginx''"
proof -
  let ?E = "ext_of (\<lambda>_::unit. Inl ''no object'') (\<lambda>_. None) (\<lambda>_. False)"
  let ?m = "\<lparr>msg_ID = ''1'', msg_ParentID = [], msg_ResourceVersion = ''3'',
     msg_Source = [], msg_Group = ''resource'', msg_Operation = ''update'',
     msg_Resource = ''node/edge-1/default/pod/nginx'', msg_Content = ()\<rparr>"
  have ok: "resource_args_ok (?E, ''edge-1'', ''default'', ''pod'', ''nginx'')"
    by (simp add: resource_args_ok_def ext_of_def slash_free_def)
  have b: "BuildResource ?E ''edge-1'' ''default'' ''pod'' ''nginx'' = Inr (msg_Resource ?m)"
    by (simp add: BuildResource_def ext_of_def)
  show ?thesis using TrimMessage_built [OF ok b] by simp
qed

end
