(* ===== verification/SyncController.thy ===== *)
theory SyncController
  imports HubCommon
begin

text \<open>
  The sync controller (\<open>codes/cloud/pkg/synccontroller\<close>): every five seconds it compares, for
  each ObjectSync and ClusterObjectSync, the version last confirmed by the edge node with the
  version in the cluster, and sends an update or a delete message through CloudHub; it also
  removes the records of nodes that are gone.

  What the controller asks of its environment (parsing a group version, the informer's lister,
  the node lister, building an unstructured object) is the record \<open>'c sync_env\<close>; what it does is
  the list of its actions, in order. A run-time panic (a malformed version, a nil message) is
  \<open>Panic\<close>.
\<close>

section \<open>Names and versions\<close>

definition BuildObjectSyncName :: "string \<Rightarrow> string \<Rightarrow> string" where
  "BuildObjectSyncName nodeName UID = nodeName @ ''.'' @ UID"

definition getNodeName :: "string \<Rightarrow> string" where
  "getNodeName syncName = (let tmps = Split syncName ''.'' in Join (take (length tmps - 1) tmps) ''.'')"

definition getObjectUID :: "string \<Rightarrow> string" where
  "getObjectUID syncName = (let tmps = Split syncName ''.'' in tmps ! (length tmps - 1))"

definition CompareResourceVersion :: "string \<Rightarrow> string \<Rightarrow> int go" where
  "CompareResourceVersion rva rvb =
     (case ParseUint rva of
        None \<Rightarrow> Panic
      | Some a \<Rightarrow>
          (case ParseUint rvb of
             None \<Rightarrow> Panic
           | Some b \<Rightarrow> if a > b then Ret 1 else if a = b then Ret 0 else Ret (- 1)))"

definition GetObjectResourceVersion :: "'c ext \<Rightarrow> 'c option \<Rightarrow> string" where
  "GetObjectResourceVersion E obj =
     (case obj of
        None \<Rightarrow> []
      | Some c \<Rightarrow> (case meta_Accessor E c of Inl _ \<Rightarrow> [] | Inr om \<Rightarrow> om_ResourceVersion om))"

section \<open>Records, environment, actions\<close>

text \<open>The ObjectSync and ClusterObjectSync resources as the sources use them; a cluster-wide
  record has no namespace.\<close>

record object_sync =
  os_Name :: string
  os_Namespace :: string
  os_ObjectAPIVersion :: string
  os_ObjectKind :: string
  os_ObjectName :: string
  os_StatusVersion :: string

datatype 'c lister_result = LNotFound | LError string | LFound "'c option"

datatype node_result = NodeFound | NodeNotFound | NodeError string

record 'c sync_env =
  ParseGroupVersion_ok :: "string \<Rightarrow> bool"
  lister_Get :: "string \<Rightarrow> string \<Rightarrow> string \<Rightarrow> string \<Rightarrow> 'c lister_result option"
  cluster_lister_Get :: "string \<Rightarrow> string \<Rightarrow> string \<Rightarrow> 'c lister_result option"
  nodeLister_Get :: "string \<Rightarrow> node_result"
  unstructured_object :: "string option \<Rightarrow> string \<Rightarrow> string \<Rightarrow> 'c"

datatype 'c sync_action =
    Send string "'c message"
  | DeleteObjectSync string string
  | DeleteClusterObjectSync string

definition new_message :: "string \<Rightarrow> 'c \<Rightarrow> 'c message" where
  "new_message newID body = \<lparr>msg_ID = newID, msg_ParentID = [], msg_ResourceVersion = [],
     msg_Source = [], msg_Group = [], msg_Operation = [], msg_Resource = [], msg_Content = body\<rparr>"

definition buildEdgeControllerMessage ::
  "'c ext \<Rightarrow> string \<Rightarrow> string \<Rightarrow> string \<Rightarrow> string \<Rightarrow> string \<Rightarrow> string \<Rightarrow> 'c \<Rightarrow> 'c message option" where
  "buildEdgeControllerMessage E newID nodeName namespace resourceType resourceName operationType obj =
     (case BuildResource E nodeName namespace resourceType resourceName of
        Inl _ \<Rightarrow> None
      | Inr resource \<Rightarrow>
          let resourceVersion = GetObjectResourceVersion E (Some obj)
          in Some ((BuildRouter (new_message newID obj) EdgeControllerModuleName GroupResource
                      resource operationType)\<lparr>msg_ResourceVersion := resourceVersion\<rparr>))"

section \<open>Reconciling namespaced objects\<close>

definition gcOrphanedObjectSync ::
  "'c ext \<Rightarrow> 'c sync_env \<Rightarrow> string \<Rightarrow> object_sync \<Rightarrow> 'c sync_action list" where
  "gcOrphanedObjectSync E env newID sync =
     (let resourceType = ToLower (os_ObjectKind sync);
          nodeName = getNodeName (os_Name sync);
          object = unstructured_object env (Some (os_Namespace sync)) (os_ObjectName sync)
                     (getObjectUID (os_Name sync))
      in case buildEdgeControllerMessage E newID nodeName (os_Namespace sync) resourceType
                (os_ObjectName sync) (DeleteOperation E) object of
           Some msg \<Rightarrow> [Send (DefaultContextSendModuleName E) msg]
         | None \<Rightarrow> [DeleteObjectSync (os_Namespace sync) (os_Name sync)])"

definition sendEvents ::
  "'c ext \<Rightarrow> string \<Rightarrow> string \<Rightarrow> object_sync \<Rightarrow> string \<Rightarrow> string \<Rightarrow> 'c \<Rightarrow> 'c sync_action list go" where
  "sendEvents E newID nodeName sync resourceType objectResourceVersion obj =
     (if os_StatusVersion sync = [] then Ret []
      else do {
        c \<leftarrow> CompareResourceVersion objectResourceVersion (os_StatusVersion sync);
        if c > 0
        then case buildEdgeControllerMessage E newID nodeName (os_Namespace sync) resourceType
                    (os_ObjectName sync) (UpdateOperation E) obj of
               None \<Rightarrow> Panic
             | Some msg \<Rightarrow> Ret [Send (DefaultContextSendModuleName E) msg]
        else Ret []
      })"

definition reconcileObjectSync ::
  "'c ext \<Rightarrow> 'c sync_env \<Rightarrow> string \<Rightarrow> object_sync \<Rightarrow> 'c sync_action list go" where
  "reconcileObjectSync E env newID sync =
     (if \<not> ParseGroupVersion_ok env (os_ObjectAPIVersion sync) then Ret []
      else
        let nodeName = getNodeName (os_Name sync);
            resourceType = ToLower (os_ObjectKind sync)
        in case lister_Get env (os_ObjectAPIVersion sync) (os_ObjectKind sync)
                  (os_Namespace sync) (os_ObjectName sync) of
             None \<Rightarrow> Ret []
           | Some LNotFound \<Rightarrow> Ret (gcOrphanedObjectSync E env newID sync)
           | Some (LError _) \<Rightarrow> Ret []
           | Some (LFound None) \<Rightarrow> Ret []
           | Some (LFound (Some ret)) \<Rightarrow>
               (case meta_Accessor E ret of
                  Inl _ \<Rightarrow> Ret []
                | Inr object \<Rightarrow>
                    if getObjectUID (os_Name sync) \<noteq> om_UID object
                    then Ret (gcOrphanedObjectSync E env newID sync)
                    else sendEvents E newID nodeName sync resourceType
                           (om_ResourceVersion object) ret))"

text \<open>One pass over all the records; each message gets the next fresh identifier. A panic ends
  the pass.\<close>

fun reconcileObjectSyncs ::
  "'c ext \<Rightarrow> 'c sync_env \<Rightarrow> (nat \<Rightarrow> string) \<Rightarrow> object_sync list \<Rightarrow> 'c sync_action list go" where
  "reconcileObjectSyncs E env ids [] = Ret []"
| "reconcileObjectSyncs E env ids (sync # rest) = do {
     acts \<leftarrow> reconcileObjectSync E env (ids 0) sync;
     more \<leftarrow> reconcileObjectSyncs E env (\<lambda>n. ids (Suc n)) rest;
     Ret (acts @ more)
   }"

section \<open>Reconciling cluster-wide objects\<close>

definition gcOrphanedClusterObjectSync ::
  "'c ext \<Rightarrow> 'c sync_env \<Rightarrow> string \<Rightarrow> object_sync \<Rightarrow> 'c sync_action list" where
  "gcOrphanedClusterObjectSync E env newID sync =
     (let resourceType = ToLower (os_ObjectKind sync);
          nodeName = getNodeName (os_Name sync);
          object = unstructured_object env None (os_ObjectName sync) (getObjectUID (os_Name sync))
      in case buildEdgeControllerMessage E newID nodeName NullNamespace resourceType
                (os_ObjectName sync) (DeleteOperation E) object of
           Some msg \<Rightarrow> [Send (DefaultContextSendModuleName E) msg]
         | None \<Rightarrow> [DeleteClusterObjectSync (os_Name sync)])"

definition sendClusterObjectSyncEvent ::
  "'c ext \<Rightarrow> string \<Rightarrow> string \<Rightarrow> object_sync \<Rightarrow> string \<Rightarrow> string \<Rightarrow> 'c \<Rightarrow> 'c sync_action list go" where
  "sendClusterObjectSyncEvent E newID nodeName sync resourceType objectResourceVersion obj =
     (if os_StatusVersion sync = [] then Ret []
      else do {
        c \<leftarrow> CompareResourceVersion objectResourceVersion (os_StatusVersion sync);
        if c > 0
        then case buildEdgeControllerMessage E newID nodeName NullNamespace resourceType
                    (os_ObjectName sync) (UpdateOperation E) obj of
               None \<Rightarrow> Panic
             | Some msg \<Rightarrow> Ret [Send (DefaultContextSendModuleName E) msg]
        else Ret []
      })"

definition reconcileClusterObjectSync ::
  "'c ext \<Rightarrow> 'c sync_env \<Rightarrow> string \<Rightarrow> object_sync \<Rightarrow> 'c sync_action list go" where
  "reconcileClusterObjectSync E env newID sync =
     (if \<not> ParseGroupVersion_ok env (os_ObjectAPIVersion sync) then Ret []
      else
        let nodeName = getNodeName (os_Name sync);
            resourceType = ToLower (os_ObjectKind sync)
        in case cluster_lister_Get env (os_ObjectAPIVersion sync) (os_ObjectKind sync)
                  (os_ObjectName sync) of
             None \<Rightarrow> Ret []
           | Some LNotFound \<Rightarrow> Ret (gcOrphanedClusterObjectSync E env newID sync)
           | Some (LError _) \<Rightarrow> Ret []
           | Some (LFound None) \<Rightarrow> Ret []
           | Some (LFound (Some ret)) \<Rightarrow>
               (case meta_Accessor E ret of
                  Inl _ \<Rightarrow> Ret []
                | Inr object \<Rightarrow>
                    if getObjectUID (os_Name sync) \<noteq> om_UID object
                    then Ret (gcOrphanedClusterObjectSync E env newID sync)
                    else sendClusterObjectSyncEvent E newID nodeName sync resourceType
                           (om_ResourceVersion object) ret))"

section \<open>Records of nodes that are gone\<close>

definition checkObjectSync :: "'c sync_env \<Rightarrow> object_sync \<Rightarrow> bool \<times> go_error" where
  "checkObjectSync env sync =
     (case nodeLister_Get env (getNodeName (os_Name sync)) of
        NodeNotFound \<Rightarrow> (True, nil_error)
      | NodeError e \<Rightarrow> (False, Some e)
      | NodeFound \<Rightarrow> (False, nil_error))"

fun deleteObjectSyncs :: "'c sync_env \<Rightarrow> object_sync list \<Rightarrow> 'c sync_action list" where
  "deleteObjectSyncs env [] = []"
| "deleteObjectSyncs env (sync # rest) =
     (case checkObjectSync env sync of
        (isGarbage, Some _) \<Rightarrow> deleteObjectSyncs env rest
      | (isGarbage, None) \<Rightarrow>
          (if isGarbage then [DeleteObjectSync (os_Namespace sync) (os_Name sync)] else [])
            @ deleteObjectSyncs env rest)"

fun deleteClusterObjectSyncs :: "'c sync_env \<Rightarrow> object_sync list \<Rightarrow> 'c sync_action list" where
  "deleteClusterObjectSyncs env [] = []"
| "deleteClusterObjectSyncs env (sync # rest) =
     (case checkObjectSync env sync of
        (isGarbage, Some _) \<Rightarrow> deleteClusterObjectSyncs env rest
      | (isGarbage, None) \<Rightarrow>
          (if isGarbage then [DeleteClusterObjectSync (os_Name sync)] else [])
            @ deleteClusterObjectSyncs env rest)"

section \<open>Lemmas\<close>

lemma CompareResourceVersion_parsed:
  "ParseUint a = Some m \<Longrightarrow> ParseUint b = Some n \<Longrightarrow>
   CompareResourceVersion a b = Ret (if m > n then 1 else if m = n then 0 else - 1)"
  by (simp add: CompareResourceVersion_def)

lemma CompareResourceVersion_positive:
  "CompareResourceVersion a b = Ret c \<Longrightarrow>
   c > 0 \<longleftrightarrow> the (ParseUint a) > the (ParseUint b)"
  by (auto simp: CompareResourceVersion_def split: option.splits if_splits)

lemma CompareResourceVersion_Ret_iff:
  "(\<exists>c. CompareResourceVersion a b = Ret c) \<longleftrightarrow> ParseUint a \<noteq> None \<and> ParseUint b \<noteq> None"
  by (auto simp: CompareResourceVersion_def split: option.splits)

lemma split_on_last: "c \<notin> set u \<Longrightarrow> split_on c (w @ c # u) = split_on c w @ [u]"
proof (induction w)
  case Nil
  then show ?case by (simp add: split_on_free)
next
  case (Cons x xs)
  then show ?case by (auto split: list.splits simp: append_eq_Cons_conv)
qed

section \<open>Properties\<close>

text \<open>\<open>CompareResourceVersion\<close> is the order of the two 64-bit numbers the versions denote,
  and it panics exactly when one of them is not a decimal number below \<open>2 ^ 64\<close>.\<close>

theorem CompareResourceVersion_spec:
  "CompareResourceVersion a b =
     (case (ParseUint a, ParseUint b) of
        (Some m, Some n) \<Rightarrow> Ret (sgn (int m - int n))
      | _ \<Rightarrow> Panic)"
  by (auto simp: CompareResourceVersion_def split: option.splits)

text \<open>C24. The name of an ObjectSync gives back the node and the UID it was built from, whatever
  dots the node name has, as long as the UID has none: so the controller and CloudHub agree on
  which node and which object a record is about.\<close>

theorem ObjectSyncName_roundtrip:
  assumes "CHR ''.'' \<notin> set UID"
  shows "getNodeName (BuildObjectSyncName nodeName UID) = nodeName \<and>
    getObjectUID (BuildObjectSyncName nodeName UID) = UID"
  using assms
  by (simp add: getNodeName_def getObjectUID_def BuildObjectSyncName_def split_on_last
      Join_split_on)

theorem ObjectSyncName_roundtrip_witness:
  "getNodeName (BuildObjectSyncName ''edge.example.com'' ''a1b2-c3'') = ''edge.example.com''"
proof -
  have "CHR ''.'' \<notin> set ''a1b2-c3''" by simp
  from ObjectSyncName_roundtrip [OF this, of "''edge.example.com''"] show ?thesis by simp
qed

text \<open>C16. Reconciling an object that is in the cluster under the UID of its record: nothing is
  sent when the confirmed version is the cluster's version or newer, and when the cluster's
  version is newer exactly one update is sent, for the record's node, carrying the object and
  the cluster's version.\<close>

theorem reconcileObjectSync_found:
  assumes "ParseGroupVersion_ok env (os_ObjectAPIVersion sync)"
    and "lister_Get env (os_ObjectAPIVersion sync) (os_ObjectKind sync) (os_Namespace sync)
           (os_ObjectName sync) = Some (LFound (Some obj))"
    and "meta_Accessor E obj = Inr om" and "om_UID om = getObjectUID (os_Name sync)"
    and "ParseUint (om_ResourceVersion om) = Some v"
    and "ParseUint (os_StatusVersion sync) = Some w"
    and "BuildResource E (getNodeName (os_Name sync)) (os_Namespace sync)
           (ToLower (os_ObjectKind sync)) (os_ObjectName sync) = Inr path"
  shows "reconcileObjectSync E env newID sync = Ret (if v \<le> w then [] else
    [Send (DefaultContextSendModuleName E)
       \<lparr>msg_ID = newID, msg_ParentID = [], msg_ResourceVersion = om_ResourceVersion om,
        msg_Source = ''edgecontroller'', msg_Group = ''resource'',
        msg_Operation = UpdateOperation E, msg_Resource = path, msg_Content = obj\<rparr>])"
proof -
  have "os_StatusVersion sync \<noteq> []" using assms(6) by auto
  with assms show ?thesis
    by (simp add: reconcileObjectSync_def sendEvents_def CompareResourceVersion_parsed
        buildEdgeControllerMessage_def new_message_def GetObjectResourceVersion_def)
qed

definition demo_sync :: object_sync where
  "demo_sync = \<lparr>os_Name = ''edge-1.u1'', os_Namespace = ''default'', os_ObjectAPIVersion = ''v1'',
     os_ObjectKind = ''Pod'', os_ObjectName = ''nginx'', os_StatusVersion = ''7''\<rparr>"

definition demo_meta :: "string \<Rightarrow> string + objmeta" where
  "demo_meta c = Inr \<lparr>om_UID = ''u1'', om_DeletionTimestamp = None, om_ResourceVersion = c\<rparr>"

definition demo_ext :: "string ext" where
  "demo_ext = ext_of demo_meta Some (\<lambda>_. False)"

definition demo_env :: "string sync_env" where
  "demo_env = \<lparr>ParseGroupVersion_ok = (\<lambda>_. True),
     lister_Get = (\<lambda>_ _ _ _. Some (LFound (Some ''9''))),
     cluster_lister_Get = (\<lambda>_ _ _. None), nodeLister_Get = (\<lambda>_. NodeFound),
     unstructured_object = (\<lambda>_ _ _. [])\<rparr>"

theorem reconcileObjectSync_found_witness:
  "reconcileObjectSync demo_ext demo_env ''m1'' demo_sync = Ret
    [Send ''cloudhub''
       \<lparr>msg_ID = ''m1'', msg_ParentID = [], msg_ResourceVersion = ''9'',
        msg_Source = ''edgecontroller'', msg_Group = ''resource'',
        msg_Operation = ''update'', msg_Resource = ''node/edge-1/default/pod/nginx'',
        msg_Content = ''9''\<rparr>]"
proof -
  let ?om = "\<lparr>om_UID = ''u1'', om_DeletionTimestamp = None, om_ResourceVersion = ''9''\<rparr>"
  have 1: "ParseGroupVersion_ok demo_env (os_ObjectAPIVersion demo_sync)"
    and 2: "lister_Get demo_env (os_ObjectAPIVersion demo_sync) (os_ObjectKind demo_sync)
      (os_Namespace demo_sync) (os_ObjectName demo_sync) = Some (LFound (Some ''9''))"
    and 3: "meta_Accessor demo_ext ''9'' = Inr ?om"
    by (simp_all add: demo_env_def demo_ext_def demo_meta_def ext_of_def)
  have 4: "om_UID ?om = getObjectUID (os_Name demo_sync)"
    and 5: "ParseUint (om_ResourceVersion ?om) = Some 9"
    and 6: "ParseUint (os_StatusVersion demo_sync) = Some 7"
    by (simp_all add: getObjectUID_def demo_sync_def ParseUint_def digit_val_def)
  have low: "ToLower (os_ObjectKind demo_sync) = ''pod''"
    by code_simp
  have 7: "BuildResource demo_ext (getNodeName (os_Name demo_sync)) (os_Namespace demo_sync)
      (ToLower (os_ObjectKind demo_sync)) (os_ObjectName demo_sync)
    = Inr ''node/edge-1/default/pod/nginx''"
    by (simp add: low) (simp add: BuildResource_def getNodeName_def demo_sync_def demo_ext_def
        ext_of_def)
  show ?thesis
    using reconcileObjectSync_found [OF 1 2 3 4 5 6 7, of "''m1''"]
    by (simp add: demo_ext_def ext_of_def)
qed

text \<open>C17. Reconciling an object that is gone from the cluster, or that was deleted and created
  again under another UID, never sends an update: the only action is one delete message for the
  old object, or, where no resource path can be built, the removal of the record.\<close>

theorem reconcileObjectSync_orphan:
  assumes "ParseGroupVersion_ok env (os_ObjectAPIVersion sync)"
    and "lister_Get env (os_ObjectAPIVersion sync) (os_ObjectKind sync) (os_Namespace sync)
           (os_ObjectName sync) = Some LNotFound \<or>
         (\<exists>obj om. lister_Get env (os_ObjectAPIVersion sync) (os_ObjectKind sync)
           (os_Namespace sync) (os_ObjectName sync) = Some (LFound (Some obj)) \<and>
           meta_Accessor E obj = Inr om \<and> om_UID om \<noteq> getObjectUID (os_Name sync))"
  shows "reconcileObjectSync E env newID sync =
    Ret (case BuildResource E (getNodeName (os_Name sync)) (os_Namespace sync)
                (ToLower (os_ObjectKind sync)) (os_ObjectName sync) of
           Inl _ \<Rightarrow> [DeleteObjectSync (os_Namespace sync) (os_Name sync)]
         | Inr path \<Rightarrow>
             let obj = unstructured_object env (Some (os_Namespace sync)) (os_ObjectName sync)
                         (getObjectUID (os_Name sync))
             in [Send (DefaultContextSendModuleName E)
                  \<lparr>msg_ID = newID, msg_ParentID = [],
                   msg_ResourceVersion = GetObjectResourceVersion E (Some obj),
                   msg_Source = ''edgecontroller'', msg_Group = ''resource'',
                   msg_Operation = DeleteOperation E, msg_Resource = path, msg_Content = obj\<rparr>])"
  using assms
  by (auto simp: reconcileObjectSync_def gcOrphanedObjectSync_def buildEdgeControllerMessage_def
      new_message_def Let_def split: sum.splits)

theorem reconcileObjectSync_orphan_witness:
  "reconcileObjectSync demo_ext (demo_env\<lparr>lister_Get := \<lambda>_ _ _ _. Some LNotFound\<rparr>) ''m1''
     (demo_sync\<lparr>os_Namespace := []\<rparr>) = Ret [DeleteObjectSync [] ''edge-1.u1'']"
proof -
  let ?env = "demo_env\<lparr>lister_Get := \<lambda>_ _ _ _. Some LNotFound\<rparr>"
  let ?s = "demo_sync\<lparr>os_Namespace := []\<rparr>"
  have 1: "ParseGroupVersion_ok ?env (os_ObjectAPIVersion ?s)"
    and 2: "lister_Get ?env (os_ObjectAPIVersion ?s) (os_ObjectKind ?s) (os_Namespace ?s)
           (os_ObjectName ?s) = Some LNotFound"
    by (simp_all add: demo_env_def)
  show ?thesis
    using reconcileObjectSync_orphan [OF 1 disjI1, OF 2, of demo_ext "''m1''"]
    by (simp add: BuildResource_def demo_sync_def)
qed

text \<open>C25. The garbage collection removes exactly the records whose node does not exist any more:
  a record is deleted if and only if the node lister reports its node as not found; a lister
  error deletes nothing.\<close>

theorem deleteObjectSyncs_exact:
  "set (deleteObjectSyncs env syncs) =
     {DeleteObjectSync (os_Namespace s) (os_Name s) |s.
        s \<in> set syncs \<and> nodeLister_Get env (getNodeName (os_Name s)) = NodeNotFound}"
proof (induction syncs)
  case Nil
  then show ?case by simp
next
  case (Cons s rest)
  then show ?case
    by (cases "nodeLister_Get env (getNodeName (os_Name s))") (auto simp: checkObjectSync_def)
qed

end
