(* ===== verification/MessagePool.thy ===== *)
theory MessagePool
  imports SyncController
begin

text \<open>
  A node's message pool (\<open>codes/cloud/pkg/cloudhub/common/message_pool.go\<close>): a store and a queue
  for the messages that the edge node must acknowledge, and a store and a queue for the others.
  The stores and queues are client-go's; here they are the parameters \<open>store_ops\<close> and
  \<open>queue_ops\<close>, and \<open>store_laws\<close> states what client-go documents for a store (an object is
  found under the key its key function gives, until it is replaced or deleted). The client for
  the ObjectSync resources is the parameter \<open>sync_client\<close>.
\<close>

section \<open>Interfaces of the libraries\<close>

datatype 'c stored = SMsg "'c message" | SNilMsg | SOther

record ('st, 'c) store_ops =
  st_New :: 'st
  st_Add :: "'st \<Rightarrow> 'c message \<Rightarrow> 'st \<times> go_error"
  st_GetByKey :: "'st \<Rightarrow> string \<Rightarrow> 'c stored option result"
  st_Delete :: "'st \<Rightarrow> 'c message \<Rightarrow> 'st \<times> go_error"

definition store_laws ::
  "('st, 'c) store_ops \<Rightarrow> ('c message \<Rightarrow> string result) \<Rightarrow> bool" where
  "store_laws S kf \<longleftrightarrow>
     (\<forall>j. st_GetByKey S (st_New S) j = Inr None) \<and>
     (\<forall>st m k. kf m = Inr k \<longrightarrow> snd (st_Add S st m) = nil_error) \<and>
     (\<forall>st m k j. kf m = Inr k \<longrightarrow>
        st_GetByKey S (fst (st_Add S st m)) j =
          (if j = k then Inr (Some (SMsg m)) else st_GetByKey S st j)) \<and>
     (\<forall>st m e. kf m = Inl e \<longrightarrow> st_Add S st m = (st, Some e)) \<and>
     (\<forall>st m k j. kf m = Inr k \<longrightarrow>
        st_GetByKey S (fst (st_Delete S st m)) j =
          (if j = k then Inr None else st_GetByKey S st j))"

datatype 'q get_result = QItem string 'q | QQuit

text \<open>\<open>q_Get\<close> is the call of \<open>Get\<close> that returns: it waits for an item or for the shutdown.\<close>

record 'q queue_ops =
  q_New :: 'q
  q_Add :: "string \<Rightarrow> 'q \<Rightarrow> 'q"
  q_AddRateLimited :: "string \<Rightarrow> 'q \<Rightarrow> 'q"
  q_Get :: "'q \<Rightarrow> 'q get_result"
  q_Forget :: "string \<Rightarrow> 'q \<Rightarrow> 'q"
  q_Done :: "string \<Rightarrow> 'q \<Rightarrow> 'q"
  q_ShutDown :: "'q \<Rightarrow> 'q"

text \<open>The client of the ObjectSync and ClusterObjectSync resources over the state \<open>'a\<close> of the
  API server: reads, creation, status update, deletion. \<open>sy_Lister\<close> is the informer's lister.\<close>

datatype scope = InNamespace string | ClusterWide

datatype sync_get = SyncFound object_sync | SyncNotFound | SyncGetError string

datatype sync_delete = SyncDeleted | SyncDeleteNotFound | SyncDeleteError string

record 'a sync_client =
  sy_Lister :: "scope \<Rightarrow> string \<Rightarrow> 'a \<Rightarrow> sync_get"
  sy_Get :: "scope \<Rightarrow> string \<Rightarrow> 'a \<Rightarrow> sync_get"
  sy_Create :: "scope \<Rightarrow> object_sync \<Rightarrow> 'a \<Rightarrow> 'a \<times> object_sync result"
  sy_UpdateStatus :: "scope \<Rightarrow> object_sync \<Rightarrow> 'a \<Rightarrow> 'a \<times> go_error"
  sy_Delete :: "scope \<Rightarrow> string \<Rightarrow> 'a \<Rightarrow> 'a \<times> sync_delete"

record ('c, 'st, 'q, 'a) hub_ops =
  h_ext :: "'c ext"
  h_ackStore :: "('st, 'c) store_ops"
  h_noAckStore :: "('st, 'c) store_ops"
  h_queue :: "'q queue_ops"
  h_client :: "'a sync_client"

section \<open>The pool\<close>

record ('st, 'q) NodeMessagePool =
  AckMessageStore :: 'st
  AckMessageQueue :: 'q
  NoAckMessageStore :: 'st
  NoAckMessageQueue :: 'q

definition InitNodeMessagePool ::
  "('c, 'st, 'q, 'a) hub_ops \<Rightarrow> ('st, 'q) NodeMessagePool" where
  "InitNodeMessagePool H =
     \<lparr>AckMessageStore = st_New (h_ackStore H), AckMessageQueue = q_New (h_queue H),
      NoAckMessageStore = st_New (h_noAckStore H), NoAckMessageQueue = q_New (h_queue H)\<rparr>"

definition GetAckMessage ::
  "('c, 'st, 'q, 'a) hub_ops \<Rightarrow> ('st, 'q) NodeMessagePool \<Rightarrow> string \<Rightarrow> 'c message result" where
  "GetAckMessage H nsp key =
     (case st_GetByKey (h_ackStore H) (AckMessageStore nsp) key of
        Inl err \<Rightarrow> Inl (''get message '' @ key @ '' err: '' @ err)
      | Inr None \<Rightarrow> Inl (''message '' @ key @ '' not found'')
      | Inr (Some SOther) \<Rightarrow> Inl ''message type is invalid''
      | Inr (Some SNilMsg) \<Rightarrow> Inl (''message is nil for key: '' @ key)
      | Inr (Some (SMsg msg)) \<Rightarrow> Inr msg)"

definition GetNoAckMessage ::
  "('c, 'st, 'q, 'a) hub_ops \<Rightarrow> ('st, 'q) NodeMessagePool \<Rightarrow> string \<Rightarrow> 'c message result" where
  "GetNoAckMessage H nsp key =
     (case st_GetByKey (h_noAckStore H) (NoAckMessageStore nsp) key of
        Inl err \<Rightarrow> Inl (''get message '' @ key @ '' err: '' @ err)
      | Inr None \<Rightarrow> Inl (''message '' @ key @ '' not found'')
      | Inr (Some SOther) \<Rightarrow> Inl ''message type is invalid''
      | Inr (Some SNilMsg) \<Rightarrow> Inl (''message is nil for key: '' @ key)
      | Inr (Some (SMsg msg)) \<Rightarrow> Inr msg)"

definition ShutDown ::
  "('c, 'st, 'q, 'a) hub_ops \<Rightarrow> ('st, 'q) NodeMessagePool \<Rightarrow> ('st, 'q) NodeMessagePool" where
  "ShutDown H nsp =
     nsp\<lparr>AckMessageQueue := q_ShutDown (h_queue H) (AckMessageQueue nsp),
         NoAckMessageQueue := q_ShutDown (h_queue H) (NoAckMessageQueue nsp)\<rparr>"

section \<open>What is stored under a key\<close>

definition ack_stored ::
  "('c, 'st, 'q, 'a) hub_ops \<Rightarrow> ('st, 'q) NodeMessagePool \<Rightarrow> string \<Rightarrow> 'c message option" where
  "ack_stored H p key = (case GetAckMessage H p key of Inl _ \<Rightarrow> None | Inr m \<Rightarrow> Some m)"

abbreviation ack_laws :: "('c, 'st, 'q, 'a) hub_ops \<Rightarrow> bool" where
  "ack_laws H \<equiv> store_laws (h_ackStore H) (AckMessageKeyFunc (h_ext H))"

abbreviation noack_laws :: "('c, 'st, 'q, 'a) hub_ops \<Rightarrow> bool" where
  "noack_laws H \<equiv> store_laws (h_noAckStore H) NoAckMessageKeyFunc"

lemma store_laws_Add:
  "store_laws S kf \<Longrightarrow> kf m = Inr k \<Longrightarrow>
   st_GetByKey S (fst (st_Add S st m)) j =
     (if j = k then Inr (Some (SMsg m)) else st_GetByKey S st j)"
  unfolding store_laws_def by blast

lemma store_laws_Add_ok: "store_laws S kf \<Longrightarrow> kf m = Inr k \<Longrightarrow> snd (st_Add S st m) = nil_error"
  unfolding store_laws_def by blast

lemma store_laws_Delete:
  "store_laws S kf \<Longrightarrow> kf m = Inr k \<Longrightarrow>
   st_GetByKey S (fst (st_Delete S st m)) j =
     (if j = k then Inr None else st_GetByKey S st j)"
  unfolding store_laws_def by blast

lemma store_laws_New: "store_laws S kf \<Longrightarrow> st_GetByKey S (st_New S) j = Inr None"
  unfolding store_laws_def by blast

lemma ack_stored_Init: "ack_laws H \<Longrightarrow> ack_stored H (InitNodeMessagePool H) key = None"
  by (simp add: ack_stored_def GetAckMessage_def InitNodeMessagePool_def store_laws_New)

lemma ack_stored_upd_queue [simp]:
  "ack_stored H (p\<lparr>AckMessageQueue := q\<rparr>) key = ack_stored H p key"
  "ack_stored H (p\<lparr>NoAckMessageQueue := q\<rparr>) key = ack_stored H p key"
  "ack_stored H (p\<lparr>NoAckMessageStore := s\<rparr>) key = ack_stored H p key"
  by (simp_all add: ack_stored_def GetAckMessage_def)

lemma ack_stored_ShutDown [simp]: "ack_stored H (ShutDown H p) key = ack_stored H p key"
  by (simp add: ShutDown_def ack_stored_def GetAckMessage_def)

lemma ack_stored_Add:
  assumes "ack_laws H" and "AckMessageKeyFunc (h_ext H) m = Inr k"
  shows "ack_stored H
      (p\<lparr>AckMessageStore := fst (st_Add (h_ackStore H) (AckMessageStore p) m)\<rparr>) j =
    (if j = k then Some m else ack_stored H p j)"
  using store_laws_Add [OF assms] by (simp add: ack_stored_def GetAckMessage_def)

lemma ack_stored_Delete:
  assumes "ack_laws H" and "AckMessageKeyFunc (h_ext H) m = Inr k"
  shows "ack_stored H
      (p\<lparr>AckMessageStore := fst (st_Delete (h_ackStore H) (AckMessageStore p) m)\<rparr>) j =
    (if j = k then None else ack_stored H p j)"
  using store_laws_Delete [OF assms] by (simp add: ack_stored_def GetAckMessage_def)

section \<open>A reference store and queue\<close>

text \<open>The store as a map and the queue as a list: an instance that satisfies the laws, for
  concrete runs.\<close>

definition map_store :: "('c message \<Rightarrow> string result) \<Rightarrow> (string \<Rightarrow> 'c message option, 'c) store_ops"
  where
  "map_store kf = \<lparr>
     st_New = Map.empty,
     st_Add = (\<lambda>st m. case kf m of Inl e \<Rightarrow> (st, Some e) | Inr k \<Rightarrow> (st(k \<mapsto> m), None)),
     st_GetByKey = (\<lambda>st k. Inr (map_option SMsg (st k))),
     st_Delete = (\<lambda>st m. case kf m of Inl e \<Rightarrow> (st, Some e) | Inr k \<Rightarrow> (st(k := None), None))\<rparr>"

lemma map_store_laws: "store_laws (map_store kf) kf"
  by (auto simp: store_laws_def map_store_def)

definition list_queue :: "(string list \<times> bool) queue_ops" where
  "list_queue = \<lparr>
     q_New = ([], False),
     q_Add = (\<lambda>k (xs, down). if down \<or> k \<in> set xs then (xs, down) else (xs @ [k], down)),
     q_AddRateLimited = (\<lambda>k (xs, down). if down \<or> k \<in> set xs then (xs, down) else (xs @ [k], down)),
     q_Get = (\<lambda>(xs, down). case xs of [] \<Rightarrow> QQuit | k # ks \<Rightarrow> QItem k (ks, down)),
     q_Forget = (\<lambda>_ q. q), q_Done = (\<lambda>_ q. q),
     q_ShutDown = (\<lambda>(xs, down). (xs, True))\<rparr>"

end
