(* ===== verification/Dispatcher.thy ===== *)
theory Dispatcher
  imports MessagePool
begin

text \<open>
  CloudHub's message dispatcher (\<open>codes/cloud/pkg/cloudhub/dispatcher/message_dispatcher.go\<close>):
  downstream it puts each message into the pool of its node, in the queue with or without
  acknowledgement; upstream it routes what the edge nodes send.

  The pools are shared by reference (a session keeps a pointer to the pool it serves, and a
  pool is removed only if it is still the same object), so the dispatcher's state has a heap of
  pools and, per node, the address of its pool.
\<close>

section \<open>State\<close>

record ('st, 'q, 'a) messageDispatcher =
  NodeMessagePools :: "string \<rightharpoonup> nat"
  pool_heap :: "nat \<Rightarrow> ('st, 'q) NodeMessagePool"
  next_pool :: nat
  sync_state :: 'a

definition pool_of ::
  "('st, 'q, 'a) messageDispatcher \<Rightarrow> string \<Rightarrow> ('st, 'q) NodeMessagePool option" where
  "pool_of md nodeID = map_option (pool_heap md) (NodeMessagePools md nodeID)"

definition set_pool ::
  "nat \<Rightarrow> ('st, 'q) NodeMessagePool \<Rightarrow> ('st, 'q, 'a) messageDispatcher
     \<Rightarrow> ('st, 'q, 'a) messageDispatcher" where
  "set_pool a p md = md\<lparr>pool_heap := (pool_heap md)(a := p)\<rparr>"

definition alloc_pool ::
  "('st, 'q) NodeMessagePool \<Rightarrow> ('st, 'q, 'a) messageDispatcher
     \<Rightarrow> nat \<times> ('st, 'q, 'a) messageDispatcher" where
  "alloc_pool p md =
     (next_pool md, md\<lparr>pool_heap := (pool_heap md)(next_pool md := p),
                       next_pool := Suc (next_pool md)\<rparr>)"

section \<open>Pools of nodes\<close>

definition AddNodeMessagePool ::
  "string \<Rightarrow> nat \<Rightarrow> ('st, 'q, 'a) messageDispatcher \<Rightarrow> ('st, 'q, 'a) messageDispatcher" where
  "AddNodeMessagePool nodeID pool md =
     md\<lparr>NodeMessagePools := (NodeMessagePools md)(nodeID \<mapsto> pool)\<rparr>"

definition forget_pool ::
  "string \<Rightarrow> ('st, 'q, 'a) messageDispatcher \<Rightarrow> ('st, 'q, 'a) messageDispatcher" where
  "forget_pool nodeID md = md\<lparr>NodeMessagePools := (NodeMessagePools md)(nodeID := None)\<rparr>"

definition GetNodeMessagePool ::
  "('c, 'st, 'q, 'a) hub_ops \<Rightarrow> string \<Rightarrow> ('st, 'q, 'a) messageDispatcher
     \<Rightarrow> nat \<times> ('st, 'q, 'a) messageDispatcher" where
  "GetNodeMessagePool H nodeID md =
     (case NodeMessagePools md nodeID of
        None \<Rightarrow>
          let (a, md') = alloc_pool (InitNodeMessagePool H) md
          in (a, AddNodeMessagePool nodeID a md')
      | Some a \<Rightarrow> (a, md))"

definition DeleteNodeMessagePool ::
  "string \<Rightarrow> nat \<Rightarrow> ('st, 'q, 'a) messageDispatcher \<Rightarrow> ('st, 'q, 'a) messageDispatcher" where
  "DeleteNodeMessagePool nodeID pool md =
     (case NodeMessagePools md nodeID of
        None \<Rightarrow> md
      | Some a \<Rightarrow> if a \<noteq> pool then md else forget_pool nodeID md)"

section \<open>Classifying messages\<close>

definition isDeleteMessage :: "'c ext \<Rightarrow> 'c message \<Rightarrow> bool" where
  "isDeleteMessage E msg =
     (if msg_Operation msg = DeleteOperation E then True
      else case GetMessageDeletionTimestamp E msg of
             Inl _ \<Rightarrow> False
           | Inr (Some _) \<Rightarrow> True
           | Inr None \<Rightarrow> False)"

text \<open>The loop of the dispatcher's \<open>GetNodeID\<close>: the first token \<open>node\<close> with a non-empty token
  after it.\<close>

fun node_after :: "string list \<Rightarrow> string option" where
  "node_after (t # u # ts) = (if t = ResNode \<and> u \<noteq> [] then Some u else node_after (u # ts))"
| "node_after _ = None"

definition dispatcher_GetNodeID :: "'c ext \<Rightarrow> 'c message \<Rightarrow> string result" where
  "dispatcher_GetNodeID E msg =
     (case node_after (Split (msg_Resource msg) (ResourceSep E)) of
        Some n \<Rightarrow> Inr n
      | None \<Rightarrow> Inl (''no nodeID in Message.Router.Resource: '' @ msg_Resource msg))"

definition isVolumeOperation :: "'c ext \<Rightarrow> string \<Rightarrow> bool" where
  "isVolumeOperation E op \<longleftrightarrow>
     op = CSIOperationTypeCreateVolume E \<or> op = CSIOperationTypeDeleteVolume E \<or>
     op = CSIOperationTypeControllerPublishVolume E \<or>
     op = CSIOperationTypeControllerUnpublishVolume E"

definition noAckRequired :: "'c ext \<Rightarrow> 'c message \<Rightarrow> bool" where
  "noAckRequired E msg =
     (let msgResource = msg_Resource msg;
          default_case =
            (if msg_Source msg = EdgeControllerModuleName
             then let resourceType = ignore_err (GetResourceType E msg)
                  in resourceType = ResourceTypeNode E \<or> resourceType = ResourceTypeLease E \<or>
                     resourceType = ResourceTypeNodePatch E \<or>
                     resourceType = ResourceTypePodPatch E \<or>
                     resourceType = ResourceTypePodStatus E \<or>
                     (resourceType = ResourceTypePod E \<and>
                      msg_Operation msg = ResponseOperation E)
             else False)
      in if Contains msgResource (ResourceTypePodlist E) then True
         else if Contains msgResource ''membership'' then True
         else if Contains msgResource ''twin/cloud_updated'' then True
         else if Contains msgResource (ResourceTypeServiceAccountToken E) then True
         else if isVolumeOperation E (msg_Operation msg) then True
         else if msg_Operation msg = ApplicationResp E then True
         else if msg_Group msg = UserGroup then True
         else if msg_Source msg = NodeUpgradeJobControllerModuleName then True
         else if msg_Operation msg = ResponseOperation E
         then (if assert_string E (msg_Content msg) = Some (MessageSuccessfulContent E) then True
               else if assert_error E (msg_Content msg) then True
               else default_case)
         else default_case)"

section \<open>Enqueueing\<close>

definition enqueueNoAckMessage ::
  "('c, 'st, 'q, 'a) hub_ops \<Rightarrow> string \<Rightarrow> 'c message \<Rightarrow> ('st, 'q, 'a) messageDispatcher
     \<Rightarrow> ('st, 'q, 'a) messageDispatcher" where
  "enqueueNoAckMessage H nodeID msg md =
     (let (a, md1) = GetNodeMessagePool H nodeID md;
          pool = pool_heap md1 a;
          messageKey = ignore_err (NoAckMessageKeyFunc msg)
      in case st_Add (h_noAckStore H) (NoAckMessageStore pool) msg of
           (st, Some _) \<Rightarrow> set_pool a (pool\<lparr>NoAckMessageStore := st\<rparr>) md1
         | (st, None) \<Rightarrow>
             set_pool a (pool\<lparr>NoAckMessageStore := st,
               NoAckMessageQueue := q_Add (h_queue H) messageKey (NoAckMessageQueue pool)\<rparr>) md1)"

definition new_object_sync ::
  "'c ext \<Rightarrow> string \<Rightarrow> string \<Rightarrow> string \<Rightarrow> 'c message \<Rightarrow> object_sync" where
  "new_object_sync E name namespace resourceName msg =
     \<lparr>os_Name = name, os_Namespace = namespace,
      os_ObjectAPIVersion = GetMessageAPIVersion E msg,
      os_ObjectKind = GetMessageResourceType E msg,
      os_ObjectName = resourceName, os_StatusVersion = []\<rparr>"

definition enqueueNonNamespacedResource ::
  "('c, 'st, 'q, 'a) hub_ops \<Rightarrow> string \<Rightarrow> 'c message \<Rightarrow> 'a \<Rightarrow> (bool \<times> 'a) go" where
  "enqueueNonNamespacedResource H nodeID msg api =
     (let E = h_ext H; C = h_client H; resourceName = ignore_err (GetResourceName E msg)
      in case GetMessageUID E msg of
           Inl _ \<Rightarrow> Ret (False, api)
         | Inr resourceUID \<Rightarrow>
             let clusterObjectSyncName = BuildObjectSyncName nodeID resourceUID
             in case sy_Lister C ClusterWide clusterObjectSyncName api of
                  SyncFound s \<Rightarrow>
                    if os_StatusVersion s \<noteq> []
                    then do {
                      c \<leftarrow> CompareResourceVersion (msg_ResourceVersion msg) (os_StatusVersion s);
                      Ret (c > 0, api)
                    }
                    else Ret (False, api)
                | SyncNotFound \<Rightarrow>
                    (case sy_Create C ClusterWide
                            (new_object_sync E clusterObjectSyncName [] resourceName msg) api of
                       (api1, Inl _) \<Rightarrow> Ret (False, api1)
                     | (api1, Inr s) \<Rightarrow>
                         (case sy_UpdateStatus C ClusterWide (s\<lparr>os_StatusVersion := ''0''\<rparr>) api1 of
                            (api2, Some _) \<Rightarrow> Ret (False, api2)
                          | (api2, None) \<Rightarrow> Ret (True, api2)))
                | SyncGetError _ \<Rightarrow> Ret (False, api))"

definition enqueueNamespacedResource ::
  "('c, 'st, 'q, 'a) hub_ops \<Rightarrow> string \<Rightarrow> 'c message \<Rightarrow> 'a \<Rightarrow> (bool \<times> 'a) go" where
  "enqueueNamespacedResource H nodeID msg api =
     (let E = h_ext H; C = h_client H;
          resourceNamespace = ignore_err (GetNamespace E msg);
          resourceName = ignore_err (GetResourceName E msg)
      in case GetMessageUID E msg of
           Inl _ \<Rightarrow> Ret (False, api)
         | Inr resourceUID \<Rightarrow>
             let objectSyncName = BuildObjectSyncName nodeID resourceUID
             in case sy_Lister C (InNamespace resourceNamespace) objectSyncName api of
                  SyncFound s \<Rightarrow>
                    if os_StatusVersion s \<noteq> []
                    then do {
                      c \<leftarrow> CompareResourceVersion (msg_ResourceVersion msg) (os_StatusVersion s);
                      Ret (c > 0, api)
                    }
                    else Ret (False, api)
                | SyncNotFound \<Rightarrow>
                    (case sy_Create C (InNamespace resourceNamespace)
                            (new_object_sync E objectSyncName resourceNamespace resourceName msg) api of
                       (api1, Inl _) \<Rightarrow> Ret (False, api1)
                     | (api1, Inr s) \<Rightarrow>
                         (case sy_UpdateStatus C (InNamespace resourceNamespace)
                                 (s\<lparr>os_StatusVersion := ''0''\<rparr>) api1 of
                            (api2, Some _) \<Rightarrow> Ret (False, api2)
                          | (api2, None) \<Rightarrow> Ret (True, api2)))
                | SyncGetError _ \<Rightarrow> Ret (False, api))"

text \<open>The decision of \<open>enqueueAckMessage\<close> for a message with a key, from what is stored under
  the key to the records of the API server.\<close>

definition shouldEnqueue ::
  "('c, 'st, 'q, 'a) hub_ops \<Rightarrow> string \<Rightarrow> 'c message \<Rightarrow> string \<Rightarrow> ('st, 'q) NodeMessagePool
     \<Rightarrow> 'a \<Rightarrow> (bool \<times> 'a) go" where
  "shouldEnqueue H nodeID msg messageKey pool api =
     (let E = h_ext H
      in if isDeleteMessage E msg \<or> msg_Operation msg = ResponseOperation E
         then Ret (True, api)
         else case st_GetByKey (h_ackStore H) (AckMessageStore pool) messageKey of
                Inr (Some (SMsg msgInStore)) \<Rightarrow>
                  if isDeleteMessage E msgInStore then Ret (False, api)
                  else do {
                    c \<leftarrow> CompareResourceVersion (msg_ResourceVersion msg)
                          (msg_ResourceVersion msgInStore);
                    Ret (\<not> c \<le> 0, api)
                  }
              | Inr (Some _) \<Rightarrow> Panic
              | _ \<Rightarrow>
                  if ignore_err (GetNamespace E msg) = NullNamespace
                  then enqueueNonNamespacedResource H nodeID msg api
                  else enqueueNamespacedResource H nodeID msg api)"

definition enqueueAckMessage ::
  "('c, 'st, 'q, 'a) hub_ops \<Rightarrow> string \<Rightarrow> 'c message \<Rightarrow> ('st, 'q, 'a) messageDispatcher
     \<Rightarrow> ('st, 'q, 'a) messageDispatcher go" where
  "enqueueAckMessage H nodeID msg md =
     (let E = h_ext H
      in if msg_ResourceVersion msg = [] \<and> \<not> isDeleteMessage E msg then Ret md
         else
           let (a, md1) = GetNodeMessagePool H nodeID md; pool = pool_heap md1 a
           in case AckMessageKeyFunc E msg of
                Inl _ \<Rightarrow> Ret md1
              | Inr messageKey \<Rightarrow> do {
                  (should, api) \<leftarrow> shouldEnqueue H nodeID msg messageKey pool (sync_state md1);
                  let md2 = md1\<lparr>sync_state := api\<rparr>
                  in if should
                     then (case st_Add (h_ackStore H) (AckMessageStore pool) msg of
                             (st, Some _) \<Rightarrow> Ret (set_pool a (pool\<lparr>AckMessageStore := st\<rparr>) md2)
                           | (st, None) \<Rightarrow>
                               Ret (set_pool a (pool\<lparr>AckMessageStore := st,
                                 AckMessageQueue :=
                                   q_Add (h_queue H) messageKey (AckMessageQueue pool)\<rparr>) md2))
                     else Ret md2
                })"

text \<open>One turn of the loop of \<open>DispatchDownstream\<close>, on a message received for CloudHub.\<close>

definition dispatch_downstream ::
  "('c, 'st, 'q, 'a) hub_ops \<Rightarrow> 'c message \<Rightarrow> ('st, 'q, 'a) messageDispatcher
     \<Rightarrow> ('st, 'q, 'a) messageDispatcher go" where
  "dispatch_downstream H msg md =
     (case dispatcher_GetNodeID (h_ext H) msg of
        Inl _ \<Rightarrow> Ret md
      | Inr nodeID \<Rightarrow>
          if nodeID = [] then Ret md
          else if \<not> IsToEdge msg then Ret md
          else if noAckRequired (h_ext H) msg then Ret (enqueueNoAckMessage H nodeID msg md)
          else enqueueAckMessage H nodeID msg md)"

fun DispatchDownstream ::
  "('c, 'st, 'q, 'a) hub_ops \<Rightarrow> 'c message list \<Rightarrow> ('st, 'q, 'a) messageDispatcher
     \<Rightarrow> ('st, 'q, 'a) messageDispatcher go" where
  "DispatchDownstream H [] md = Ret md"
| "DispatchDownstream H (msg # msgs) md =
     Option.bind (dispatch_downstream H msg md) (DispatchDownstream H msgs)"

section \<open>Upstream\<close>

datatype dest = ToModule string | ToGroup string

datatype 'c upstream =
    UKeepAlive string
  | USendResp "'c message"
  | UAck string string
  | ULogError
  | UForward dest "'c message"
  | UDropped

definition Publish :: "'c ext \<Rightarrow> 'c message \<Rightarrow> 'c upstream" where
  "Publish E msg =
     (if msg_Source msg = MetaServerSource E then UForward (ToModule DynamicControllerModuleName) msg
      else if msg_Source msg = ResTwin then UForward (ToGroup DeviceControllerModuleGroup) msg
      else UForward (ToGroup EdgeControllerGroupName) msg)"

definition PubToController :: "'c ext \<Rightarrow> HubInfo \<Rightarrow> 'c message \<Rightarrow> 'c upstream" where
  "PubToController E info msg =
     (let m = SetResourceOperation msg (''node/'' @ hi_NodeID info @ ''/'' @ msg_Resource msg)
                (msg_Operation msg)
      in if IsFromEdge m then Publish E m else UDropped)"

definition DispatchUpstream :: "'c ext \<Rightarrow> 'c message \<Rightarrow> HubInfo \<Rightarrow> 'c upstream" where
  "DispatchUpstream E message info =
     (if msg_Operation message = OpKeepalive then UKeepAlive (hi_NodeID info)
      else if IsVolumeResource E (msg_Resource message) then USendResp message
      else if msg_Operation message = ResponseOperation E
      then UAck (hi_NodeID info) (msg_ParentID message)
      else if msg_Operation message = ResponseErrorOperation E then ULogError
      else if msg_Operation message = UploadOperation E \<and> msg_Group message = UserGroup
      then UForward (ToModule RouterModuleName)
             (message\<lparr>msg_Resource := ''node/'' @ hi_NodeID info @ ''/'' @ msg_Resource message\<rparr>)
      else PubToController E info message)"

section \<open>The table of pools\<close>

interpretation pools: registry
  "NodeMessagePools :: ('st, 'q, 'a) messageDispatcher \<Rightarrow> string \<Rightarrow> nat option"
  AddNodeMessagePool forget_pool
  by unfold_locales (simp_all add: AddNodeMessagePool_def forget_pool_def)

text \<open>Well-formed: every pool of the table is allocated, and no two nodes share a pool.\<close>

definition disp_ok :: "('st, 'q, 'a) messageDispatcher \<Rightarrow> bool" where
  "disp_ok md \<longleftrightarrow>
     (\<forall>n a. NodeMessagePools md n = Some a \<longrightarrow> a < next_pool md) \<and>
     (\<forall>n n' a. NodeMessagePools md n = Some a \<longrightarrow> NodeMessagePools md n' = Some a \<longrightarrow> n = n')"

lemma GetNodeMessagePool_found:
  "NodeMessagePools md nodeID = Some a \<Longrightarrow> GetNodeMessagePool H nodeID md = (a, md)"
  by (simp add: GetNodeMessagePool_def)

lemma GetNodeMessagePool_fresh:
  "NodeMessagePools md nodeID = None \<Longrightarrow> GetNodeMessagePool H nodeID md =
     (next_pool md,
      md\<lparr>pool_heap := (pool_heap md)(next_pool md := InitNodeMessagePool H),
         next_pool := Suc (next_pool md),
         NodeMessagePools := (NodeMessagePools md)(nodeID \<mapsto> next_pool md)\<rparr>)"
  by (simp add: GetNodeMessagePool_def alloc_pool_def AddNodeMessagePool_def)

lemma disp_ok_less: "disp_ok md \<Longrightarrow> NodeMessagePools md n = Some a \<Longrightarrow> a < next_pool md"
  by (simp add: disp_ok_def)

lemma disp_ok_inj:
  "disp_ok md \<Longrightarrow> NodeMessagePools md n = Some a \<Longrightarrow> NodeMessagePools md n' = Some a \<Longrightarrow> n = n'"
  by (simp add: disp_ok_def)

lemma disp_ok_alloc:
  assumes "disp_ok md"
  shows "disp_ok (md\<lparr>pool_heap := h, next_pool := Suc (next_pool md),
    NodeMessagePools := (NodeMessagePools md)(nodeID \<mapsto> next_pool md)\<rparr>)"
  using disp_ok_less [OF assms] disp_ok_inj [OF assms]
  by (fastforce simp: disp_ok_def less_SucI)

text \<open>The pool that a node has, or the one it would get.\<close>

definition the_pool ::
  "('c, 'st, 'q, 'a) hub_ops \<Rightarrow> ('st, 'q, 'a) messageDispatcher \<Rightarrow> string
     \<Rightarrow> ('st, 'q) NodeMessagePool" where
  "the_pool H md nodeID = (case pool_of md nodeID of None \<Rightarrow> InitNodeMessagePool H | Some p \<Rightarrow> p)"

lemma pool_of_alloc:
  assumes "disp_ok md" and "n \<noteq> nodeID"
  shows "pool_of (md\<lparr>pool_heap := (pool_heap md)(next_pool md := p),
      next_pool := k, NodeMessagePools := (NodeMessagePools md)(nodeID \<mapsto> b)\<rparr>) n = pool_of md n"
  using assms(2) disp_ok_less [OF assms(1), of n]
  by (cases "NodeMessagePools md n") (auto simp: pool_of_def)

lemma GetNodeMessagePool_others:
  assumes "disp_ok md" and "GetNodeMessagePool H nodeID md = (a, md1)" and "n \<noteq> nodeID"
  shows "pool_of md1 n = pool_of md n"
proof (cases "NodeMessagePools md nodeID")
  case None
  then have "md1 = snd (GetNodeMessagePool H nodeID md)" using assms(2) by simp
  with None show ?thesis by (simp add: GetNodeMessagePool_fresh pool_of_alloc [OF assms(1,3)])
next
  case (Some b)
  with assms(2) show ?thesis by (simp add: GetNodeMessagePool_found)
qed

lemma GetNodeMessagePool_ok:
  assumes "disp_ok md" and "GetNodeMessagePool H nodeID md = (a, md1)"
  shows "disp_ok md1" and "NodeMessagePools md1 nodeID = Some a"
    and "pool_heap md1 a = the_pool H md nodeID" and "sync_state md1 = sync_state md"
  using assms
  by (cases "NodeMessagePools md nodeID";
      force simp: GetNodeMessagePool_fresh GetNodeMessagePool_found the_pool_def
        disp_ok_alloc pool_of_def)+

lemma set_pool_ok [simp]: "disp_ok (set_pool a p md) = disp_ok md"
  "disp_ok (md\<lparr>sync_state := s\<rparr>) = disp_ok md"
  by (simp_all add: disp_ok_def set_pool_def)

lemma pool_of_set_pool:
  assumes "disp_ok md" and "NodeMessagePools md nodeID = Some a"
  shows "pool_of (set_pool a p md) n = (if n = nodeID then Some p else pool_of md n)"
  using assms by (cases "NodeMessagePools md n") (auto simp: pool_of_def set_pool_def disp_ok_def)

lemma pool_of_sync_state [simp]: "pool_of (md\<lparr>sync_state := s\<rparr>) n = pool_of md n"
  by (simp add: pool_of_def)

lemma the_pool_set_pool:
  assumes "disp_ok md" and "NodeMessagePools md nodeID = Some a"
  shows "the_pool H (set_pool a p md) n = (if n = nodeID then p else the_pool H md n)"
  by (simp add: the_pool_def pool_of_set_pool [OF assms])

lemma the_pool_sync_state [simp]: "the_pool H (md\<lparr>sync_state := s\<rparr>) n = the_pool H md n"
  by (simp add: the_pool_def)

lemma the_pool_Get:
  assumes "disp_ok md" and "GetNodeMessagePool H nodeID md = (a, md1)"
  shows "the_pool H md1 n = the_pool H md n"
proof (cases "n = nodeID")
  case True
  then show ?thesis
    using GetNodeMessagePool_ok [OF assms] by (simp add: the_pool_def pool_of_def)
next
  case False
  then show ?thesis using GetNodeMessagePool_others [OF assms] by (simp add: the_pool_def)
qed

section \<open>Enqueueing as an update of one pool\<close>

text \<open>Every enqueueing of a message is one update of the pool of its node: what the update is
  depends on the pool and on the records of the API server only.\<close>

definition ack_update ::
  "('c, 'st, 'q, 'a) hub_ops \<Rightarrow> 'c message \<Rightarrow> string \<Rightarrow> ('st, 'q) NodeMessagePool
     \<Rightarrow> ('st, 'q) NodeMessagePool" where
  "ack_update H msg key p =
     p\<lparr>AckMessageStore := fst (st_Add (h_ackStore H) (AckMessageStore p) msg),
       AckMessageQueue := q_Add (h_queue H) key (AckMessageQueue p)\<rparr>"

lemma ack_stored_update:
  assumes "ack_laws H" and "AckMessageKeyFunc (h_ext H) msg = Inr key"
  shows "ack_stored H (ack_update H msg key p) j = (if j = key then Some msg else ack_stored H p j)"
proof -
  have "ack_stored H (ack_update H msg key p) j = ack_stored H
      (p\<lparr>AckMessageStore := fst (st_Add (h_ackStore H) (AckMessageStore p) msg)\<rparr>) j"
    by (simp add: ack_update_def ack_stored_def GetAckMessage_def)
  with ack_stored_Add [OF assms] show ?thesis by simp
qed

lemma enqueueAckMessage_outcome:
  assumes "ack_laws H" and "disp_ok md"
    and "msg_ResourceVersion msg \<noteq> [] \<or> isDeleteMessage (h_ext H) msg"
    and "AckMessageKeyFunc (h_ext H) msg = Inr key"
    and "shouldEnqueue H nodeID msg key (the_pool H md nodeID) (sync_state md) = Ret (should, api)"
  shows "\<exists>md'. enqueueAckMessage H nodeID msg md = Ret md' \<and> disp_ok md' \<and> sync_state md' = api \<and>
    the_pool H md' nodeID = (if should then ack_update H msg key (the_pool H md nodeID)
                             else the_pool H md nodeID) \<and>
    (\<forall>n. n \<noteq> nodeID \<longrightarrow> the_pool H md' n = the_pool H md n)"
proof -
  obtain a md1 where g: "GetNodeMessagePool H nodeID md = (a, md1)" by force
  note ok = GetNodeMessagePool_ok [OF assms(2) g] and p = the_pool_Get [OF assms(2) g]
  obtain st e where a: "st_Add (h_ackStore H) (AckMessageStore (the_pool H md nodeID)) msg = (st, e)"
    by force
  have e: "e = None"
    using store_laws_Add_ok [OF assms(1,4)] a by (metis snd_conv)
  define md' where "md' = (if should then set_pool a (ack_update H msg key (the_pool H md nodeID))
       (md1\<lparr>sync_state := api\<rparr>) else md1\<lparr>sync_state := api\<rparr>)"
  have "enqueueAckMessage H nodeID msg md = Ret md'"
    using assms(3-5) g ok a e by (auto simp: enqueueAckMessage_def Let_def md'_def ack_update_def)
  moreover have "disp_ok md'" and "sync_state md' = api"
    using ok by (simp_all add: md'_def set_pool_def disp_ok_def)
  moreover have "the_pool H md' n = (if n = nodeID \<and> should
      then ack_update H msg key (the_pool H md nodeID) else the_pool H md n)" for n
    using ok p by (simp add: md'_def the_pool_set_pool)
  ultimately show ?thesis by auto
qed

lemma GetByKey_ack_stored:
  "ack_stored H p key = Some m \<Longrightarrow>
   st_GetByKey (h_ackStore H) (AckMessageStore p) key = Inr (Some (SMsg m))"
  by (auto simp: ack_stored_def GetAckMessage_def split: sum.splits option.splits stored.splits)

section \<open>The newest message wins\<close>

text \<open>Which of two messages for one object stays in the pool: deletes and responses replace
  everything, a stored delete stays, otherwise the higher version stays.\<close>

definition newer :: "'c ext \<Rightarrow> 'c message \<Rightarrow> 'c message \<Rightarrow> bool" where
  "newer E old msg \<longleftrightarrow>
     isDeleteMessage E msg \<or> msg_Operation msg = ResponseOperation E \<or>
     (\<not> isDeleteMessage E old \<and>
      the (ParseUint (msg_ResourceVersion old)) < the (ParseUint (msg_ResourceVersion msg)))"

lemma shouldEnqueue_stored:
  assumes "ack_stored H p key = Some old"
    and "ParseUint (msg_ResourceVersion old) \<noteq> None" and "ParseUint (msg_ResourceVersion msg) \<noteq> None"
  shows "shouldEnqueue H nodeID msg key p api = Ret (newer (h_ext H) old msg, api)"
  using assms(2,3) GetByKey_ack_stored [OF assms(1)]
  by (auto simp: shouldEnqueue_def newer_def Let_def CompareResourceVersion_def)

lemma enqueue_over_stored:
  assumes "ack_laws H" and "disp_ok md"
    and "AckMessageKeyFunc (h_ext H) msg = Inr key"
    and "ack_stored H (the_pool H md nodeID) key = Some old"
    and "ParseUint (msg_ResourceVersion old) \<noteq> None"
    and "ParseUint (msg_ResourceVersion msg) \<noteq> None"
  shows "\<exists>md'. enqueueAckMessage H nodeID msg md = Ret md' \<and> disp_ok md' \<and>
    (\<forall>j. ack_stored H (the_pool H md' nodeID) j =
       (if j = key then Some (if newer (h_ext H) old msg then msg else old)
        else ack_stored H (the_pool H md nodeID) j)) \<and>
    AckMessageQueue (the_pool H md' nodeID) =
       (if newer (h_ext H) old msg
        then q_Add (h_queue H) key (AckMessageQueue (the_pool H md nodeID))
        else AckMessageQueue (the_pool H md nodeID)) \<and>
    sync_state md' = sync_state md \<and>
    (\<forall>n. n \<noteq> nodeID \<longrightarrow> the_pool H md' n = the_pool H md n)"
proof -
  have "msg_ResourceVersion msg \<noteq> []" using assms(6) by auto
  from enqueueAckMessage_outcome [OF assms(1,2) _ assms(3) shouldEnqueue_stored [OF assms(4-6)]] this
  obtain md' where "enqueueAckMessage H nodeID msg md = Ret md'" "disp_ok md'"
    "sync_state md' = sync_state md"
    "the_pool H md' nodeID = (if newer (h_ext H) old msg
       then ack_update H msg key (the_pool H md nodeID) else the_pool H md nodeID)"
    "\<forall>n. n \<noteq> nodeID \<longrightarrow> the_pool H md' n = the_pool H md n"
    by blast
  with ack_stored_update [OF assms(1,3)] assms(4) show ?thesis
    by (auto simp: ack_update_def)
qed


section \<open>Concrete runs\<close>

definition demo_hub ::
  "(string, string \<Rightarrow> string message option, string list \<times> bool, object_sync list) hub_ops" where
  "demo_hub = \<lparr>h_ext = demo_ext, h_ackStore = map_store (AckMessageKeyFunc demo_ext),
     h_noAckStore = map_store NoAckMessageKeyFunc, h_queue = list_queue,
     h_client = \<lparr>
       sy_Lister = (\<lambda>_ name syncs. case find (\<lambda>s. os_Name s = name) syncs of
          None \<Rightarrow> SyncNotFound | Some s \<Rightarrow> SyncFound s),
       sy_Get = (\<lambda>_ name syncs. case find (\<lambda>s. os_Name s = name) syncs of
          None \<Rightarrow> SyncNotFound | Some s \<Rightarrow> SyncFound s),
       sy_Create = (\<lambda>_ s syncs. (s # syncs, Inr s)),
       sy_UpdateStatus = (\<lambda>_ s syncs.
          (map (\<lambda>r. if os_Name r = os_Name s then s else r) syncs, nil_error)),
       sy_Delete = (\<lambda>_ name syncs.
          (filter (\<lambda>s. os_Name s \<noteq> name) syncs, SyncDeleted))\<rparr>\<rparr>"

definition demo_msg :: "string \<Rightarrow> string message" where
  "demo_msg v = \<lparr>msg_ID = ''m'' @ v, msg_ParentID = [], msg_ResourceVersion = v,
     msg_Source = ''edgecontroller'', msg_Group = ''resource'', msg_Operation = ''update'',
     msg_Resource = ''node/edge-1/default/configmap/conf'', msg_Content = v\<rparr>"

definition demo_disp ::
  "(string \<Rightarrow> string message option, string list \<times> bool, object_sync list) messageDispatcher" where
  "demo_disp = \<lparr>NodeMessagePools = [''edge-1'' \<mapsto> 0],
     pool_heap = (\<lambda>_. \<lparr>AckMessageStore = [''u1'' \<mapsto> demo_msg ''7''], AckMessageQueue = ([], False),
        NoAckMessageStore = Map.empty, NoAckMessageQueue = ([], False)\<rparr>),
     next_pool = 1, sync_state = []\<rparr>"

lemma demo_ack_laws: "ack_laws demo_hub"
  by (simp add: demo_hub_def map_store_laws)

lemma demo_disp_ok: "disp_ok demo_disp"
  by (simp add: disp_ok_def demo_disp_def)

lemma demo_msg_fields [simp]:
  "msg_Operation (demo_msg v) = ''update''" "msg_ResourceVersion (demo_msg v) = v"
  "msg_Content (demo_msg v) = v" "msg_Group (demo_msg v) = ''resource''"
  "msg_Source (demo_msg v) = ''edgecontroller''"
  "msg_Resource (demo_msg v) = ''node/edge-1/default/configmap/conf''"
  by (simp_all add: demo_msg_def)

lemma demo_msg_key: "AckMessageKeyFunc (h_ext demo_hub) (demo_msg v) = Inr ''u1''"
  by (simp add: AckMessageKeyFunc_def GetMessageUID_def demo_hub_def demo_ext_def ext_of_def
      demo_meta_def)

lemma demo_msg_update:
  "\<not> isDeleteMessage (h_ext demo_hub) (demo_msg v)"
  "msg_Operation (demo_msg v) \<noteq> ResponseOperation (h_ext demo_hub)"
  by (simp_all add: isDeleteMessage_def GetMessageDeletionTimestamp_def demo_hub_def demo_ext_def
      ext_of_def demo_meta_def)

lemma demo_stored: "ack_stored demo_hub (the_pool demo_hub demo_disp ''edge-1'') ''u1''
    = Some (demo_msg ''7'')"
  by (simp add: ack_stored_def GetAckMessage_def the_pool_def pool_of_def demo_disp_def
      demo_hub_def map_store_def)


section \<open>A run of updates\<close>

text \<open>An update for one object of one node that must be acknowledged.\<close>

definition plain_update :: "'c ext \<Rightarrow> string \<Rightarrow> string \<Rightarrow> 'c message \<Rightarrow> bool" where
  "plain_update E nodeID key msg \<longleftrightarrow>
     dispatcher_GetNodeID E msg = Inr nodeID \<and> nodeID \<noteq> [] \<and> IsToEdge msg \<and>
     \<not> noAckRequired E msg \<and> AckMessageKeyFunc E msg = Inr key \<and>
     \<not> isDeleteMessage E msg \<and> msg_Operation msg \<noteq> ResponseOperation E \<and>
     ParseUint (msg_ResourceVersion msg) \<noteq> None"

abbreviation version_of :: "'c message \<Rightarrow> nat" where
  "version_of m \<equiv> the (ParseUint (msg_ResourceVersion m))"

definition max_version :: "'c message \<Rightarrow> 'c message \<Rightarrow> 'c message" where
  "max_version m old = (if version_of old < version_of m then m else old)"

lemma dispatch_plain_update:
  "plain_update (h_ext H) nodeID key msg \<Longrightarrow>
   dispatch_downstream H msg md = enqueueAckMessage H nodeID msg md"
  by (simp add: plain_update_def dispatch_downstream_def)

lemma version_of_fold_max:
  "version_of (fold max_version msgs old) = Max (set (map version_of (old # msgs)))"
proof (induction msgs arbitrary: old)
  case Nil
  then show ?case by simp
next
  case (Cons m ms)
  have "version_of (max_version m old) = max (version_of m) (version_of old)"
    by (simp add: max_version_def)
  with Cons.IH [of "max_version m old"] show ?case
    by (simp add: insert_commute max.assoc)
       (cases "ms = []"; simp add: max.left_commute max.commute)
qed


lemma demo_plain_update:
  "ParseUint v \<noteq> None \<Longrightarrow> plain_update (h_ext demo_hub) ''edge-1'' ''u1'' (demo_msg v)"
  unfolding plain_update_def
  by (simp add: demo_msg_key demo_msg_update)
     (simp add: dispatcher_GetNodeID_def IsToEdge_def noAckRequired_def isVolumeOperation_def
      demo_hub_def demo_ext_def ext_of_def GetResourceType_def getElementByIndex_def HasPrefix_def)


section \<open>First contact\<close>

text \<open>C19. The first message for an object: nothing is waiting under its key, and the lister knows
  no record for the node and the object. If the API server accepts the creation and the status
  update, a record with the object's kind and name and the confirmed version \<open>0\<close> is what the
  server is asked to keep, in the namespace of the resource or cluster-wide for the null
  namespace, and the message waits in the pool with its key in the queue.\<close>

theorem enqueueAckMessage_first_contact:
  assumes "ack_laws H" and "disp_ok md"
    and "msg_ResourceVersion msg \<noteq> []"
    and "\<not> isDeleteMessage (h_ext H) msg" and "msg_Operation msg \<noteq> ResponseOperation (h_ext H)"
    and "AckMessageKeyFunc (h_ext H) msg = Inr key" and "GetMessageUID (h_ext H) msg = Inr uid"
    and "st_GetByKey (h_ackStore H) (AckMessageStore (the_pool H md nodeID)) key = Inr None"
    and "ns = ignore_err (GetNamespace (h_ext H) msg)"
    and "sc = (if ns = NullNamespace then ClusterWide else InNamespace ns)"
    and "sy_Lister (h_client H) sc (BuildObjectSyncName nodeID uid) (sync_state md) = SyncNotFound"
    and "sy_Create (h_client H) sc
           \<lparr>os_Name = nodeID @ ''.'' @ uid, os_Namespace = (if ns = NullNamespace then [] else ns),
            os_ObjectAPIVersion = GetMessageAPIVersion (h_ext H) msg,
            os_ObjectKind = GetMessageResourceType (h_ext H) msg,
            os_ObjectName = ignore_err (GetResourceName (h_ext H) msg),
            os_StatusVersion = []\<rparr> (sync_state md) = (api1, Inr created)"
    and "sy_UpdateStatus (h_client H) sc (created\<lparr>os_StatusVersion := ''0''\<rparr>) api1
           = (api2, nil_error)"
  shows "\<exists>md'. enqueueAckMessage H nodeID msg md = Ret md' \<and> disp_ok md' \<and> sync_state md' = api2 \<and>
    ack_stored H (the_pool H md' nodeID) key = Some msg \<and>
    AckMessageQueue (the_pool H md' nodeID) =
      q_Add (h_queue H) key (AckMessageQueue (the_pool H md nodeID))"
proof -
  have "shouldEnqueue H nodeID msg key (the_pool H md nodeID) (sync_state md) = Ret (True, api2)"
    using assms(4-13)
    by (simp add: shouldEnqueue_def enqueueNonNamespacedResource_def enqueueNamespacedResource_def
        new_object_sync_def BuildObjectSyncName_def Let_def split: if_splits)
  from enqueueAckMessage_outcome [OF assms(1,2) disjI1 [OF assms(3)] assms(6) this]
  show ?thesis
    using ack_stored_update [OF assms(1,6)] by (auto simp: ack_update_def)
qed

theorem enqueueAckMessage_first_contact_witness:
  "\<exists>md'. enqueueAckMessage demo_hub ''edge-2'' (demo_msg ''9'') demo_disp = Ret md' \<and>
    sync_state md' = [\<lparr>os_Name = ''edge-2.u1'', os_Namespace = ''default'',
      os_ObjectAPIVersion = ''v1'', os_ObjectKind = ''Pod'', os_ObjectName = ''conf'',
      os_StatusVersion = ''0''\<rparr>]"
proof -
  let ?s = "\<lparr>os_Name = ''edge-2.u1'', os_Namespace = ''default'',
      os_ObjectAPIVersion = ''v1'', os_ObjectKind = ''Pod'', os_ObjectName = ''conf'',
      os_StatusVersion = []\<rparr>"
  have ns: "ignore_err (GetNamespace (h_ext demo_hub) (demo_msg ''9'')) = ''default''"
    "ignore_err (GetResourceName (h_ext demo_hub) (demo_msg ''9'')) = ''conf''"
    by (simp_all add: GetNamespace_def GetResourceName_def getElementByIndex_def demo_hub_def
        demo_ext_def ext_of_def)
  have 1: "msg_ResourceVersion (demo_msg ''9'') \<noteq> []" by simp
  have 2: "GetMessageUID (h_ext demo_hub) (demo_msg ''9'') = Inr ''u1''"
    by (simp add: GetMessageUID_def demo_hub_def demo_ext_def ext_of_def demo_meta_def)
  have 3: "st_GetByKey (h_ackStore demo_hub) (AckMessageStore (the_pool demo_hub demo_disp ''edge-2''))
      ''u1'' = Inr None"
    by (simp add: the_pool_def pool_of_def demo_disp_def InitNodeMessagePool_def demo_hub_def
        map_store_def)
  have 4: "sy_Lister (h_client demo_hub) (InNamespace ''default'')
      (BuildObjectSyncName ''edge-2'' ''u1'') (sync_state demo_disp) = SyncNotFound"
    by (simp add: demo_hub_def demo_disp_def)
  have 5: "sy_Create (h_client demo_hub) (InNamespace ''default'') ?s (sync_state demo_disp)
      = ([?s], Inr ?s)"
    and 6: "sy_UpdateStatus (h_client demo_hub) (InNamespace ''default'')
      (?s\<lparr>os_StatusVersion := ''0''\<rparr>) [?s] = ([?s\<lparr>os_StatusVersion := ''0''\<rparr>], nil_error)"
    by (simp_all add: demo_hub_def demo_disp_def)
  have 7: "GetMessageAPIVersion (h_ext demo_hub) (demo_msg ''9'') = ''v1''"
    "GetMessageResourceType (h_ext demo_hub) (demo_msg ''9'') = ''Pod''"
    by (simp_all add: demo_hub_def demo_ext_def ext_of_def)
  show ?thesis
    using enqueueAckMessage_first_contact [OF demo_ack_laws demo_disp_ok 1 demo_msg_update
        demo_msg_key 2 3 refl refl, of "[?s]" ?s "[?s\<lparr>os_StatusVersion := ''0''\<rparr>]"] 4 5 6 7
    by (auto simp: ns)
qed

section \<open>Upstream messages\<close>

text \<open>C14. What a node sends can only reach the controllers under that node's own name: a message
  that \<open>DispatchUpstream\<close> forwards to a module or group carries the sender's node prefix in
  front of the resource the node gave, all its other fields are as received, keep-alives and
  acknowledgements act on the sender's session only, and nothing whose source is a cloud module
  is published to the controllers.\<close>

theorem DispatchUpstream_own_prefix:
  "case DispatchUpstream E msg info of
     UForward d m \<Rightarrow>
       m = msg\<lparr>msg_Resource := ''node/'' @ hi_NodeID info @ ''/'' @ msg_Resource msg\<rparr> \<and>
       (if d = ToModule RouterModuleName
        then msg_Operation msg = UploadOperation E \<and> msg_Group msg = UserGroup
        else msg_Source msg \<notin> set cloudModuleArray \<and>
             d \<in> {ToModule DynamicControllerModuleName, ToGroup DeviceControllerModuleGroup,
                   ToGroup EdgeControllerGroupName})
   | UAck node parent \<Rightarrow> node = hi_NodeID info \<and> parent = msg_ParentID msg
   | UKeepAlive node \<Rightarrow> node = hi_NodeID info \<and> msg_Operation msg = OpKeepalive
   | USendResp m \<Rightarrow> m = msg
   | ULogError \<Rightarrow> msg_Operation msg = ResponseErrorOperation E
   | UDropped \<Rightarrow> msg_Source msg \<in> set cloudModuleArray"
  by (auto simp: DispatchUpstream_def PubToController_def Publish_def IsFromEdge_def Let_def
      list_ex_iff)

section \<open>Removing a pool\<close>


end
