(* ===== verification/NodeSession.thy ===== *)
theory NodeSession
  imports Dispatcher
begin

text \<open>
  The session of one connected edge node (\<open>codes/cloud/pkg/cloudhub/session/node_session.go\<close>).

  Sessions and pools are shared by reference, so the operations work on the state of CloudHub:
  the dispatcher with its heap of pools, and a heap of sessions; a session is named by its
  address. The connection is what has been written to it and how often it was closed.

  Waiting is made explicit. \<open>sendMessageWithRetry\<close> is a state machine driven by events: an
  acknowledgement is delivered, the \<open>select\<close> takes the acknowledgement, the retry timer fires (with
  the result of the write that follows), other goroutines change the pools and the records of the
  API server. A call that has not come back is \<open>Blocked\<close>.
\<close>

section \<open>State\<close>

datatype TerminateErr = NoErr | TransportErr | NodeStopErr | QueueShutdownErr

record 'c connection =
  conn_written :: "'c message list"
  conn_closes :: nat

record 'c NodeSession =
  ns_nodeID :: string
  ns_projectID :: string
  ns_connection :: "'c connection"
  ns_keepaliveInterval :: int
  ns_keepaliveChan :: bool
  ns_nodeMessagePool :: nat
  ns_ackMessageCache :: "string \<rightharpoonup> nat"
  ns_closedChans :: "nat set"
  ns_nextChan :: nat
  ns_terminateErr :: TerminateErr
  ns_stopOnce :: bool
  ns_ctxDone :: bool

record ('c, 'st, 'q, 'a) cloudhub =
  ch_dispatcher :: "('st, 'q, 'a) messageDispatcher"
  ch_sessions :: "nat \<Rightarrow> 'c NodeSession"
  ch_next :: nat

definition upd_session ::
  "nat \<Rightarrow> ('c NodeSession \<Rightarrow> 'c NodeSession) \<Rightarrow> ('c, 'st, 'q, 'a) cloudhub
     \<Rightarrow> ('c, 'st, 'q, 'a) cloudhub" where
  "upd_session ns f w = w\<lparr>ch_sessions := (ch_sessions w)(ns := f (ch_sessions w ns))\<rparr>"

definition pool_at ::
  "nat \<Rightarrow> ('c, 'st, 'q, 'a) cloudhub \<Rightarrow> ('st, 'q) NodeMessagePool" where
  "pool_at ns w = pool_heap (ch_dispatcher w) (ns_nodeMessagePool (ch_sessions w ns))"

definition upd_pool ::
  "nat \<Rightarrow> (('st, 'q) NodeMessagePool \<Rightarrow> ('st, 'q) NodeMessagePool) \<Rightarrow> ('c, 'st, 'q, 'a) cloudhub
     \<Rightarrow> ('c, 'st, 'q, 'a) cloudhub" where
  "upd_pool ns f w =
     w\<lparr>ch_dispatcher := set_pool (ns_nodeMessagePool (ch_sessions w ns)) (f (pool_at ns w))
         (ch_dispatcher w)\<rparr>"

definition api_of :: "('c, 'st, 'q, 'a) cloudhub \<Rightarrow> 'a" where
  "api_of w = sync_state (ch_dispatcher w)"

definition set_api :: "'a \<Rightarrow> ('c, 'st, 'q, 'a) cloudhub \<Rightarrow> ('c, 'st, 'q, 'a) cloudhub" where
  "set_api a w = w\<lparr>ch_dispatcher := (ch_dispatcher w)\<lparr>sync_state := a\<rparr>\<rparr>"

definition NewNodeSession :: "string \<Rightarrow> string \<Rightarrow> int \<Rightarrow> nat \<Rightarrow> 'c NodeSession" where
  "NewNodeSession nodeID projectID keepaliveInterval nodeMessagePool =
     \<lparr>ns_nodeID = nodeID, ns_projectID = projectID,
      ns_connection = \<lparr>conn_written = [], conn_closes = 0\<rparr>,
      ns_keepaliveInterval = keepaliveInterval, ns_keepaliveChan = False,
      ns_nodeMessagePool = nodeMessagePool, ns_ackMessageCache = Map.empty, ns_closedChans = {},
      ns_nextChan = 0, ns_terminateErr = NoErr, ns_stopOnce = False, ns_ctxDone = False\<rparr>"

section \<open>Keep-alives, acknowledgements, termination\<close>

text \<open>The keep-alive channel has room for one token: a second one is dropped.\<close>

definition KeepAliveMessage :: "nat \<Rightarrow> ('c, 'st, 'q, 'a) cloudhub \<Rightarrow> ('c, 'st, 'q, 'a) cloudhub" where
  "KeepAliveMessage ns = upd_session ns (\<lambda>s. s\<lparr>ns_keepaliveChan := True\<rparr>)"

definition ReceiveMessageAck ::
  "nat \<Rightarrow> string \<Rightarrow> ('c, 'st, 'q, 'a) cloudhub \<Rightarrow> ('c, 'st, 'q, 'a) cloudhub" where
  "ReceiveMessageAck ns parentID =
     upd_session ns (\<lambda>s. case ns_ackMessageCache s parentID of
        None \<Rightarrow> s
      | Some ch \<Rightarrow> s\<lparr>ns_closedChans := insert ch (ns_closedChans s),
                    ns_ackMessageCache := (ns_ackMessageCache s)(parentID := None)\<rparr>)"

definition Terminating ::
  "('c, 'st, 'q, 'a) hub_ops \<Rightarrow> nat \<Rightarrow> ('c, 'st, 'q, 'a) cloudhub \<Rightarrow> ('c, 'st, 'q, 'a) cloudhub" where
  "Terminating H ns w =
     (if ns_stopOnce (ch_sessions w ns) then w
      else
        upd_session ns (\<lambda>s. s\<lparr>ns_connection := (ns_connection s)
             \<lparr>conn_closes := Suc (conn_closes (ns_connection s))\<rparr>\<rparr>)
          (upd_pool ns (ShutDown H)
            (upd_session ns (\<lambda>s. s\<lparr>ns_stopOnce := True, ns_ctxDone := True\<rparr>) w)))"

definition SetTerminateErr ::
  "TerminateErr \<Rightarrow> nat \<Rightarrow> ('c, 'st, 'q, 'a) cloudhub \<Rightarrow> ('c, 'st, 'q, 'a) cloudhub" where
  "SetTerminateErr e ns =
     upd_session ns (\<lambda>s. if ns_terminateErr s \<noteq> NoErr then s else s\<lparr>ns_terminateErr := e\<rparr>)"

definition GetTerminateErr :: "nat \<Rightarrow> ('c, 'st, 'q, 'a) cloudhub \<Rightarrow> TerminateErr" where
  "GetTerminateErr ns w = ns_terminateErr (ch_sessions w ns)"

text \<open>One turn of \<open>KeepAliveCheck\<close>; the event says which case of the \<open>select\<close> is taken. The
  result says whether the loop goes on. The channel is never closed by the program.\<close>

datatype keepalive_event = KCtxDone | KToken | KTimer

definition KeepAliveCheck ::
  "('c, 'st, 'q, 'a) hub_ops \<Rightarrow> nat \<Rightarrow> keepalive_event \<Rightarrow> ('c, 'st, 'q, 'a) cloudhub
     \<Rightarrow> bool \<times> ('c, 'st, 'q, 'a) cloudhub" where
  "KeepAliveCheck H ns ev w =
     (case ev of
        KCtxDone \<Rightarrow> (False, w)
      | KToken \<Rightarrow> (True, upd_session ns (\<lambda>s. s\<lparr>ns_keepaliveChan := False\<rparr>) w)
      | KTimer \<Rightarrow> (True, Terminating H ns (SetTerminateErr TransportErr ns w)))"

section \<open>Recording what a node has confirmed\<close>

definition deleteSuccessPoint ::
  "('c, 'st, 'q, 'a) hub_ops \<Rightarrow> nat \<Rightarrow> string \<Rightarrow> string \<Rightarrow> 'c message \<Rightarrow> ('c, 'st, 'q, 'a) cloudhub
     \<Rightarrow> ('c, 'st, 'q, 'a) cloudhub" where
  "deleteSuccessPoint H ns resourceNamespace objectSyncName msg w =
     (let scp = (if resourceNamespace = NullNamespace then ClusterWide
                 else InNamespace resourceNamespace);
          w1 = set_api (fst (sy_Delete (h_client H) scp objectSyncName (api_of w))) w
      in upd_pool ns (\<lambda>p. p\<lparr>AckMessageStore :=
           fst (st_Delete (h_ackStore H) (AckMessageStore p) msg)\<rparr>) w1)"

definition saveNamespaceResourceSuccess ::
  "('c, 'st, 'q, 'a) hub_ops \<Rightarrow> nat \<Rightarrow> 'c message \<Rightarrow> ('c, 'st, 'q, 'a) cloudhub
     \<Rightarrow> ('c, 'st, 'q, 'a) cloudhub" where
  "saveNamespaceResourceSuccess H ns msg w =
     (let E = h_ext H; C = h_client H;
          resourceNamespace = ignore_err (GetNamespace E msg);
          resourceName = ignore_err (GetResourceName E msg);
          scp = InNamespace resourceNamespace;
          confirm = (\<lambda>s w'. set_api (fst (sy_UpdateStatus C scp
                        (s\<lparr>os_StatusVersion := msg_ResourceVersion msg\<rparr>) (api_of w'))) w')
      in case GetMessageUID E msg of
           Inl _ \<Rightarrow> w
         | Inr resourceUID \<Rightarrow>
             let objectSyncName = BuildObjectSyncName (ns_nodeID (ch_sessions w ns)) resourceUID
             in if msg_Operation msg = DeleteOperation E
                then deleteSuccessPoint H ns resourceNamespace objectSyncName msg w
                else case sy_Get C scp objectSyncName (api_of w) of
                       SyncFound s \<Rightarrow> confirm s w
                     | SyncNotFound \<Rightarrow>
                         let s = new_object_sync E objectSyncName resourceNamespace resourceName msg
                         in if os_ObjectKind s = [] then w
                            else (case sy_Create C scp s (api_of w) of
                                    (api1, Inl _) \<Rightarrow> set_api api1 w
                                  | (api1, Inr s') \<Rightarrow> confirm s' (set_api api1 w))
                     | SyncGetError _ \<Rightarrow> w)"

definition saveNonNamespaceResourceSuccess ::
  "('c, 'st, 'q, 'a) hub_ops \<Rightarrow> nat \<Rightarrow> 'c message \<Rightarrow> ('c, 'st, 'q, 'a) cloudhub
     \<Rightarrow> ('c, 'st, 'q, 'a) cloudhub" where
  "saveNonNamespaceResourceSuccess H ns msg w =
     (let E = h_ext H; C = h_client H;
          resourceNamespace = ignore_err (GetNamespace E msg);
          resourceName = ignore_err (GetResourceName E msg);
          confirm = (\<lambda>s w'. set_api (fst (sy_UpdateStatus C ClusterWide
                        (s\<lparr>os_StatusVersion := msg_ResourceVersion msg\<rparr>) (api_of w'))) w')
      in case GetMessageUID E msg of
           Inl _ \<Rightarrow> w
         | Inr resourceUID \<Rightarrow>
             let clusterObjectSyncName =
                   BuildObjectSyncName (ns_nodeID (ch_sessions w ns)) resourceUID
             in if msg_Operation msg = DeleteOperation E
                then deleteSuccessPoint H ns resourceNamespace clusterObjectSyncName msg w
                else case sy_Get C ClusterWide clusterObjectSyncName (api_of w) of
                       SyncFound s \<Rightarrow> confirm s w
                     | SyncNotFound \<Rightarrow>
                         let s = new_object_sync E clusterObjectSyncName [] resourceName msg
                         in if os_ObjectKind s = [] then w
                            else (case sy_Create C ClusterWide s (api_of w) of
                                    (api1, Inl _) \<Rightarrow> set_api api1 w
                                  | (api1, Inr s') \<Rightarrow> confirm s' (set_api api1 w))
                     | SyncGetError _ \<Rightarrow> w)"

definition saveSuccessPoint ::
  "('c, 'st, 'q, 'a) hub_ops \<Rightarrow> nat \<Rightarrow> 'c message \<Rightarrow> ('c, 'st, 'q, 'a) cloudhub
     \<Rightarrow> ('c, 'st, 'q, 'a) cloudhub" where
  "saveSuccessPoint H ns msg w =
     (if msg_Group msg = GroupTwin then w
      else if msg_Group msg = GroupResource
      then (if ignore_err (GetNamespace (h_ext H) msg) = NullNamespace
            then saveNonNamespaceResourceSuccess H ns msg w
            else saveNamespaceResourceSuccess H ns msg w)
      else w)"

section \<open>Sending with retries\<close>

datatype send_error = ErrWaitTimeout | WriteError string

record ('c, 'st, 'q, 'a) sending =
  sd_world :: "('c, 'st, 'q, 'a) cloudhub"
  sd_chan :: nat
  sd_retryCount :: nat
  sd_result :: "send_error option option"

text \<open>Events while a send waits: another goroutine receives an acknowledgement; the \<open>select\<close> takes
  the acknowledgement; the timer fires and the write has the given result; other goroutines leave
  other pools and another state of the API server.\<close>

datatype ('st, 'q, 'a) send_event =
    Deliver string
  | TakeAck
  | Tick go_error
  | Others "nat \<Rightarrow> ('st, 'q) NodeMessagePool" 'a

definition WriteMessageAsync ::
  "nat \<Rightarrow> 'c message \<Rightarrow> go_error \<Rightarrow> ('c, 'st, 'q, 'a) cloudhub \<Rightarrow> ('c, 'st, 'q, 'a) cloudhub" where
  "WriteMessageAsync ns m err w =
     (case err of
        Some _ \<Rightarrow> w
      | None \<Rightarrow> upd_session ns (\<lambda>s. s\<lparr>ns_connection := (ns_connection s)
           \<lparr>conn_written := conn_written (ns_connection s) @ [m]\<rparr>\<rparr>) w)"

definition send_begin ::
  "nat \<Rightarrow> 'c message \<Rightarrow> go_error \<Rightarrow> ('c, 'st, 'q, 'a) cloudhub \<Rightarrow> ('c, 'st, 'q, 'a) sending" where
  "send_begin ns copyMsg err w =
     (let ch = ns_nextChan (ch_sessions w ns);
          w1 = upd_session ns (\<lambda>s. s\<lparr>ns_nextChan := Suc ch,
                 ns_ackMessageCache := (ns_ackMessageCache s)(msg_ID copyMsg \<mapsto> ch)\<rparr>) w
      in \<lparr>sd_world = WriteMessageAsync ns copyMsg err w1, sd_chan = ch, sd_retryCount = 0,
          sd_result = (case err of None \<Rightarrow> None | Some e \<Rightarrow> Some (Some (WriteError e)))\<rparr>)"

definition send_event ::
  "('c, 'st, 'q, 'a) hub_ops \<Rightarrow> nat \<Rightarrow> 'c message \<Rightarrow> 'c message \<Rightarrow> ('st, 'q, 'a) send_event
     \<Rightarrow> ('c, 'st, 'q, 'a) sending \<Rightarrow> ('c, 'st, 'q, 'a) sending option" where
  "send_event H ns copyMsg msg ev sd =
     (let w = sd_world sd
      in if sd_result sd \<noteq> None then None
         else case ev of
           Deliver parentID \<Rightarrow> Some (sd\<lparr>sd_world := ReceiveMessageAck ns parentID w\<rparr>)
         | TakeAck \<Rightarrow>
             if sd_chan sd \<in> ns_closedChans (ch_sessions w ns)
             then Some (sd\<lparr>sd_world := saveSuccessPoint H ns msg w, sd_result := Some None\<rparr>)
             else None
         | Tick err \<Rightarrow>
             if sd_retryCount sd = 4 then Some (sd\<lparr>sd_result := Some (Some ErrWaitTimeout)\<rparr>)
             else (case err of
                     Some e \<Rightarrow> Some (sd\<lparr>sd_result := Some (Some (WriteError e))\<rparr>)
                   | None \<Rightarrow> Some (sd\<lparr>sd_world := WriteMessageAsync ns copyMsg None w,
                                     sd_retryCount := Suc (sd_retryCount sd)\<rparr>))
         | Others heap api \<Rightarrow>
             Some (sd\<lparr>sd_world := w\<lparr>ch_dispatcher :=
               (ch_dispatcher w)\<lparr>pool_heap := heap, sync_state := api\<rparr>\<rparr>\<rparr>))"

text \<open>The run of a send on a list of events; an event that cannot happen is skipped.\<close>

fun send_run ::
  "('c, 'st, 'q, 'a) hub_ops \<Rightarrow> nat \<Rightarrow> 'c message \<Rightarrow> 'c message \<Rightarrow> ('st, 'q, 'a) send_event list
     \<Rightarrow> ('c, 'st, 'q, 'a) sending \<Rightarrow> ('c, 'st, 'q, 'a) sending" where
  "send_run H ns copyMsg msg [] sd = sd"
| "send_run H ns copyMsg msg (ev # evs) sd =
     send_run H ns copyMsg msg evs
       (case send_event H ns copyMsg msg ev sd of None \<Rightarrow> sd | Some sd' \<Rightarrow> sd')"

datatype 'a blocking = Blocked | Returned 'a

definition sendMessageWithRetry ::
  "('c, 'st, 'q, 'a) hub_ops \<Rightarrow> nat \<Rightarrow> 'c message \<Rightarrow> 'c message \<Rightarrow> go_error
     \<Rightarrow> ('st, 'q, 'a) send_event list \<Rightarrow> ('c, 'st, 'q, 'a) cloudhub
     \<Rightarrow> (send_error option \<times> ('c, 'st, 'q, 'a) cloudhub) blocking" where
  "sendMessageWithRetry H ns copyMsg msg err evs w =
     (let sd = send_run H ns copyMsg msg evs (send_begin ns copyMsg err w)
      in case sd_result sd of None \<Rightarrow> Blocked | Some r \<Rightarrow> Returned (r, sd_world sd))"

section \<open>Serving the queues\<close>

definition show_send_error :: "send_error \<Rightarrow> string" where
  "show_send_error e =
     (case e of ErrWaitTimeout \<Rightarrow> ''timed out waiting for the condition'' | WriteError s \<Rightarrow> s)"

definition syncAckMessage ::
  "('c, 'st, 'q, 'a) hub_ops \<Rightarrow> nat \<Rightarrow> go_error \<Rightarrow> ('st, 'q, 'a) send_event list
     \<Rightarrow> ('c, 'st, 'q, 'a) cloudhub
     \<Rightarrow> (bool \<times> go_error \<times> ('c, 'st, 'q, 'a) cloudhub) blocking" where
  "syncAckMessage H ns err evs w =
     (let Q = h_queue H;
          on_queue = (\<lambda>f. upd_pool ns (\<lambda>p. p\<lparr>AckMessageQueue := f (AckMessageQueue p)\<rparr>))
      in case q_Get Q (AckMessageQueue (pool_at ns w)) of
           QQuit \<Rightarrow> Returned (True, Some ''AckMessageQueue has shutdown'',
                      SetTerminateErr QueueShutdownErr ns w)
         | QItem key q \<Rightarrow>
             let w1 = on_queue (\<lambda>_. q) w
             in case GetAckMessage H (pool_at ns w1) key of
                  Inl e \<Rightarrow> Returned (False, Some e, on_queue (q_Done Q key) w1)
                | Inr msg \<Rightarrow>
                    let copyMsg = TrimMessage (the (DeepCopy (Some msg)))
                    in case sendMessageWithRetry H ns copyMsg msg err evs w1 of
                         Blocked \<Rightarrow> Blocked
                       | Returned (None, w2) \<Rightarrow>
                           Returned (False, nil_error,
                             on_queue (q_Done Q key) (on_queue (q_Forget Q key) w2))
                       | Returned (Some ErrWaitTimeout, w2) \<Rightarrow>
                           Returned (False, Some (show_send_error ErrWaitTimeout),
                             on_queue (q_Done Q key) (on_queue (q_AddRateLimited Q key) w2))
                       | Returned (Some (WriteError e), w2) \<Rightarrow>
                           Returned (True, Some e,
                             on_queue (q_Done Q key) (SetTerminateErr TransportErr ns w2)))"

definition syncNoAckMessage ::
  "('c, 'st, 'q, 'a) hub_ops \<Rightarrow> nat \<Rightarrow> go_error \<Rightarrow> ('c, 'st, 'q, 'a) cloudhub
     \<Rightarrow> bool \<times> go_error \<times> ('c, 'st, 'q, 'a) cloudhub" where
  "syncNoAckMessage H ns err w =
     (let Q = h_queue H;
          finish = (\<lambda>key. upd_pool ns (\<lambda>p. p\<lparr>NoAckMessageQueue :=
                      q_Done Q key (q_Forget Q key (NoAckMessageQueue p))\<rparr>));
          drop_msg = (\<lambda>msg. upd_pool ns (\<lambda>p. p\<lparr>NoAckMessageStore :=
                      fst (st_Delete (h_noAckStore H) (NoAckMessageStore p) msg)\<rparr>))
      in case q_Get Q (NoAckMessageQueue (pool_at ns w)) of
           QQuit \<Rightarrow> (True, Some ''NoAckMessageQueue has shutdown'',
                      SetTerminateErr QueueShutdownErr ns w)
         | QItem key q \<Rightarrow>
             let w1 = upd_pool ns (\<lambda>p. p\<lparr>NoAckMessageQueue := q\<rparr>) w
             in case GetNoAckMessage H (pool_at ns w1) key of
                  Inl e \<Rightarrow> (False, Some e, finish key w1)
                | Inr msg \<Rightarrow>
                    if IsNodeStopped (h_ext H) msg
                    then (True, nil_error,
                          finish key (drop_msg msg (SetTerminateErr NodeStopErr ns w1)))
                    else
                      let m = TrimMessage msg;
                          w2 = WriteMessageAsync ns m err w1
                      in (case err of
                            Some e \<Rightarrow> (True, Some (''send message to edge node err: '' @ e),
                                finish key (drop_msg m (SetTerminateErr TransportErr ns w2)))
                          | None \<Rightarrow> (False, nil_error, finish key (drop_msg m w2))))"

text \<open>One turn of the loops of \<open>SendAckMessage\<close> and \<open>SendNoAckMessage\<close>; the result says whether
  the loop goes on.\<close>

definition SendAckMessage ::
  "('c, 'st, 'q, 'a) hub_ops \<Rightarrow> nat \<Rightarrow> go_error \<Rightarrow> ('st, 'q, 'a) send_event list
     \<Rightarrow> ('c, 'st, 'q, 'a) cloudhub \<Rightarrow> (bool \<times> ('c, 'st, 'q, 'a) cloudhub) blocking" where
  "SendAckMessage H ns err evs w =
     (if ns_ctxDone (ch_sessions w ns) then Returned (False, w)
      else case syncAckMessage H ns err evs w of
             Blocked \<Rightarrow> Blocked
           | Returned (exit, _, w') \<Rightarrow>
               if exit then Returned (False, Terminating H ns w') else Returned (True, w'))"

definition SendNoAckMessage ::
  "('c, 'st, 'q, 'a) hub_ops \<Rightarrow> nat \<Rightarrow> go_error \<Rightarrow> ('c, 'st, 'q, 'a) cloudhub
     \<Rightarrow> bool \<times> ('c, 'st, 'q, 'a) cloudhub" where
  "SendNoAckMessage H ns err w =
     (if ns_ctxDone (ch_sessions w ns) then (False, w)
      else case syncNoAckMessage H ns err w of
             (exit, _, w') \<Rightarrow> if exit then (False, Terminating H ns w') else (True, w'))"

section \<open>What the operations leave alone\<close>

lemma upd_session_simps [simp]:
  "ch_sessions (upd_session ns f w) n = (if n = ns then f (ch_sessions w ns) else ch_sessions w n)"
  "ch_dispatcher (upd_session ns f w) = ch_dispatcher w"
  "api_of (upd_session ns f w) = api_of w"
  by (simp_all add: upd_session_def api_of_def)

lemma upd_pool_simps [simp]:
  "ch_sessions (upd_pool ns f w) = ch_sessions w"
  "api_of (upd_pool ns f w) = api_of w"
  "NodeMessagePools (ch_dispatcher (upd_pool ns f w)) = NodeMessagePools (ch_dispatcher w)"
  "pool_at ns (upd_pool ns f w) = f (pool_at ns w)"
  by (simp_all add: upd_pool_def api_of_def set_pool_def pool_at_def)

lemma set_api_simps [simp]:
  "ch_sessions (set_api a w) = ch_sessions w" "api_of (set_api a w) = a"
  "pool_at ns (set_api a w) = pool_at ns w"
  by (simp_all add: set_api_def api_of_def pool_at_def)

lemma saveSuccessPoint_sessions [simp]: "ch_sessions (saveSuccessPoint H ns msg w) = ch_sessions w"
  by (simp add: saveSuccessPoint_def saveNamespaceResourceSuccess_def
      saveNonNamespaceResourceSuccess_def deleteSuccessPoint_def Let_def
      split: sum.split sync_get.split prod.split)

lemma WriteMessageAsync_simps [simp]:
  "api_of (WriteMessageAsync ns m e w) = api_of w"
  "ch_dispatcher (WriteMessageAsync ns m e w) = ch_dispatcher w"
  by (simp_all add: WriteMessageAsync_def split: option.split)

lemma written_WriteMessageAsync [simp]:
  "conn_written (ns_connection (ch_sessions (WriteMessageAsync ns m e w) ns)) =
     conn_written (ns_connection (ch_sessions w ns)) @ (if e = None then [m] else [])"
  "ns_ackMessageCache (ch_sessions (WriteMessageAsync ns m e w) ns) =
     ns_ackMessageCache (ch_sessions w ns)"
  "ns_closedChans (ch_sessions (WriteMessageAsync ns m e w) ns) = ns_closedChans (ch_sessions w ns)"
  "ns_nextChan (ch_sessions (WriteMessageAsync ns m e w) ns) = ns_nextChan (ch_sessions w ns)"
  by (simp_all add: WriteMessageAsync_def split: option.split)

section \<open>The send as a state machine\<close>

inductive send_step ::
  "('c, 'st, 'q, 'a) hub_ops \<Rightarrow> nat \<Rightarrow> 'c message \<Rightarrow> 'c message \<Rightarrow> ('c, 'st, 'q, 'a) sending
     \<Rightarrow> ('c, 'st, 'q, 'a) sending \<Rightarrow> bool"
  for H ns copyMsg msg where
  send_stepI: "send_event H ns copyMsg msg ev sd = Some sd' \<Longrightarrow> send_step H ns copyMsg msg sd sd'"

inductive_cases send_stepE: "send_step H ns copyMsg msg sd sd'"

text \<open>A session whose channels are all allocated, as every session the program creates.\<close>

definition session_ok :: "'c NodeSession \<Rightarrow> bool" where
  "session_ok s \<longleftrightarrow>
     (\<forall>j c. ns_ackMessageCache s j = Some c \<longrightarrow> c < ns_nextChan s) \<and>
     (\<forall>c\<in>ns_closedChans s. c < ns_nextChan s)"

definition send_start ::
  "nat \<Rightarrow> 'c message \<Rightarrow> 'c message list \<Rightarrow> ('c, 'st, 'q, 'a) sending \<Rightarrow> bool" where
  "send_start ns copyMsg base sd \<longleftrightarrow>
     (\<exists>err w. sd = send_begin ns copyMsg err w \<and> session_ok (ch_sessions w ns) \<and>
        conn_written (ns_connection (ch_sessions w ns)) = base)"

text \<open>The invariant: what was written since the start is a number of copies of the one message,
  one more than the retries while the send waits and never more than five; a timeout means five;
  the message's channel is closed or still registered under its identifier, under no other.\<close>

definition writes_ok ::
  "'c message \<Rightarrow> 'c message list \<Rightarrow> 'c message list \<Rightarrow> nat \<Rightarrow> send_error option option \<Rightarrow> bool" where
  "writes_ok copyMsg base written retryCount result \<longleftrightarrow>
     retryCount \<le> 4 \<and>
     (\<exists>k \<le> 5. written = base @ replicate k copyMsg \<and>
        (result = None \<longrightarrow> k = Suc retryCount) \<and> (result = Some (Some ErrWaitTimeout) \<longrightarrow> k = 5))"

definition chan_ok :: "string \<Rightarrow> nat \<Rightarrow> 'c NodeSession \<Rightarrow> bool" where
  "chan_ok ident ch s \<longleftrightarrow>
     (ch \<in> ns_closedChans s \<or> ns_ackMessageCache s ident = Some ch) \<and>
     (\<forall>j. ns_ackMessageCache s j = Some ch \<longrightarrow> j = ident)"

definition send_inv ::
  "nat \<Rightarrow> 'c message \<Rightarrow> 'c message list \<Rightarrow> ('c, 'st, 'q, 'a) sending \<Rightarrow> bool" where
  "send_inv ns copyMsg base sd \<longleftrightarrow>
     writes_ok copyMsg base (conn_written (ns_connection (ch_sessions (sd_world sd) ns)))
       (sd_retryCount sd) (sd_result sd) \<and>
     (sd_result sd = Some None \<longrightarrow> sd_chan sd \<in> ns_closedChans (ch_sessions (sd_world sd) ns)) \<and>
     chan_ok (msg_ID copyMsg) (sd_chan sd) (ch_sessions (sd_world sd) ns)"

lemma writes_ok_begin:
  "writes_ok c base (base @ [c]) 0 None" "writes_ok c base base 0 (Some (Some (WriteError e)))"
  unfolding writes_ok_def by (rule conjI, simp, rule exI [of _ 1], simp)
    (rule conjI, simp, rule exI [of _ 0], simp)

lemma writes_ok_retry:
  "writes_ok c base ws n None \<Longrightarrow> n \<noteq> 4 \<Longrightarrow> writes_ok c base (ws @ [c]) (Suc n) None"
  unfolding writes_ok_def by (auto simp: replicate_append_same)

lemma writes_ok_return:
  assumes "writes_ok c base ws n None" and "r = Some (Some ErrWaitTimeout) \<longrightarrow> n = 4"
  shows "writes_ok c base ws n r"
proof -
  from assms(1) have "n \<le> 4" and "ws = base @ replicate (Suc n) c" by (auto simp: writes_ok_def)
  with assms(2) show ?thesis unfolding writes_ok_def by (intro conjI exI [of _ "Suc n"]) auto
qed

lemma chan_ok_fresh:
  assumes "session_ok s"
  shows "chan_ok ident (ns_nextChan s) (s\<lparr>ns_nextChan := n,
    ns_ackMessageCache := (ns_ackMessageCache s)(ident \<mapsto> ns_nextChan s)\<rparr>)"
  using assms by (fastforce simp: chan_ok_def session_ok_def)

lemma chan_ok_receive:
  assumes "chan_ok ident ch (ch_sessions w ns)"
  shows "chan_ok ident ch (ch_sessions (ReceiveMessageAck ns p w) ns)"
proof (cases "ns_ackMessageCache (ch_sessions w ns) p")
  case None
  with assms show ?thesis by (simp add: ReceiveMessageAck_def)
next
  case (Some d)
  show ?thesis
  proof (cases "p = ident")
    case True
    with Some assms show ?thesis by (auto simp: ReceiveMessageAck_def chan_ok_def)
  next
    case False
    with Some assms show ?thesis by (simp add: ReceiveMessageAck_def chan_ok_def)
  qed
qed

lemma receive_fields [simp]:
  "conn_written (ns_connection (ch_sessions (ReceiveMessageAck ns p w) ns)) =
     conn_written (ns_connection (ch_sessions w ns))"
  by (simp add: ReceiveMessageAck_def split: option.split)

lemma chan_ok_write [simp]:
  "chan_ok ident ch (ch_sessions (WriteMessageAsync ns m e w) ns) = chan_ok ident ch (ch_sessions w ns)"
  by (simp add: chan_ok_def)

lemma send_inv_begin:
  assumes "send_start ns copyMsg base sd" shows "send_inv ns copyMsg base sd"
proof -
  from assms obtain err w where sd: "sd = send_begin ns copyMsg err w"
    and ok: "session_ok (ch_sessions w ns)"
    and b: "conn_written (ns_connection (ch_sessions w ns)) = base"
    unfolding send_start_def by blast
  show ?thesis
    using b chan_ok_fresh [OF ok] writes_ok_begin
    by (cases err) (simp_all add: sd send_inv_def send_begin_def Let_def)
qed

lemma send_event_waiting: "send_event H ns c m ev sd = Some sd' \<Longrightarrow> sd_result sd = None"
  by (simp add: send_event_def Let_def split: if_splits)

lemma send_inv_event:
  assumes "send_inv ns c base sd" and "send_event H ns c m ev sd = Some sd'"
  shows "send_inv ns c base sd'"
proof -
  note r = send_event_waiting [OF assms(2)]
  have w: "writes_ok c base (conn_written (ns_connection (ch_sessions (sd_world sd) ns)))
      (sd_retryCount sd) None" and ch: "chan_ok (msg_ID c) (sd_chan sd) (ch_sessions (sd_world sd) ns)"
    using assms(1) r by (simp_all add: send_inv_def)
  show ?thesis
  proof (cases ev)
    case (Deliver p)
    with assms(2) r w chan_ok_receive [OF ch] show ?thesis
      by (auto simp: send_event_def send_inv_def)
  next
    case TakeAck
    with assms(2) r ch writes_ok_return [OF w] show ?thesis
      by (auto simp: send_event_def send_inv_def Let_def split: if_splits)
  next
    case (Tick err)
    with assms(2) r ch writes_ok_return [OF w] writes_ok_retry [OF w] show ?thesis
      by (auto simp: send_event_def send_inv_def Let_def split: if_splits option.splits)
  next
    case (Others heap api)
    with assms(2) r w ch show ?thesis by (auto simp: send_event_def send_inv_def Let_def)
  qed
qed

lemma send_inv_step: "send_inv ns c base sd \<Longrightarrow> send_step H ns c m sd sd' \<Longrightarrow> send_inv ns c base sd'"
  by (auto elim: send_stepE intro: send_inv_event)

interpretation sending: step_system "send_start ns copyMsg base" "send_step H ns copyMsg msg"
  "send_inv ns copyMsg base" for H ns copyMsg msg base
  by unfold_locales (auto intro: send_inv_begin send_inv_step)

lemma send_run_steps: "(send_step H ns c m)\<^sup>*\<^sup>* sd (send_run H ns c m evs sd)"
proof (induction evs arbitrary: sd)
  case Nil
  then show ?case by simp
next
  case (Cons ev evs)
  show ?case
  proof (cases "send_event H ns c m ev sd")
    case None
    with Cons show ?thesis by simp
  next
    case (Some sd')
    then have "send_step H ns c m sd sd'" by (rule send_stepI)
    with Cons [of sd'] Some show ?thesis by (simp add: converse_rtranclp_into_rtranclp)
  qed
qed

lemma send_run_inv:
  assumes "session_ok (ch_sessions w ns)"
  shows "send_inv ns c (conn_written (ns_connection (ch_sessions w ns)))
     (send_run H ns c m evs (send_begin ns c err w))"
proof -
  have "send_start ns c (conn_written (ns_connection (ch_sessions w ns))) (send_begin ns c err w)"
    using assms unfolding send_start_def by blast
  then show ?thesis using send_run_steps sending.steps_inv sending.inv_start by blast
qed

lemma send_run_done: "sd_result sd \<noteq> None \<Longrightarrow> send_run H ns c m evs sd = sd"
  by (induction evs) (auto simp: send_event_def)

lemma send_run_append:
  "send_run H ns c m (xs @ ys) sd = send_run H ns c m ys (send_run H ns c m xs sd)"
  by (induction xs arbitrary: sd) auto

text \<open>C9. A message that must be acknowledged is written at most five times, always the same
  copy, whatever acknowledgements, timers and other goroutines do in between; the send gives up
  with a timeout only after five writes.\<close>

theorem send_at_most_five_writes:
  assumes "session_ok (ch_sessions w ns)"
    and "sendMessageWithRetry H ns copyMsg msg err evs w = Returned (r, w')"
  shows "\<exists>k \<le> 5. conn_written (ns_connection (ch_sessions w' ns)) =
      conn_written (ns_connection (ch_sessions w ns)) @ replicate k copyMsg \<and>
    (r = Some ErrWaitTimeout \<longrightarrow> k = 5)"
  using send_run_inv [OF assms(1), of copyMsg H msg evs err] assms(2)
  by (auto simp: sendMessageWithRetry_def Let_def send_inv_def writes_ok_def split: option.splits)

definition demo_world ::
  "(string, string \<Rightarrow> string message option, string list \<times> bool, object_sync list) cloudhub" where
  "demo_world = \<lparr>ch_dispatcher = demo_disp,
     ch_sessions = (\<lambda>_. NewNodeSession ''edge-1'' ''p'' 30 0), ch_next = 1\<rparr>"

lemma session_ok_New [simp]: "session_ok (NewNodeSession n p k a)"
  by (simp add: session_ok_def NewNodeSession_def)

lemma demo_session_ok: "session_ok (ch_sessions demo_world 0)"
  by (simp add: demo_world_def)

theorem send_at_most_five_writes_witness:
  "\<exists>w'. sendMessageWithRetry demo_hub 0 (demo_msg ''9'') (demo_msg ''9'') nil_error
      [Tick nil_error, Tick (Some ''broken pipe'')] demo_world
      = Returned (Some (WriteError ''broken pipe''), w') \<and>
    length (conn_written (ns_connection (ch_sessions w' 0))) \<le> 5"
proof -
  let ?run = "sendMessageWithRetry demo_hub 0 (demo_msg ''9'') (demo_msg ''9'') nil_error
      [Tick nil_error, Tick (Some ''broken pipe'')] demo_world"
  obtain w' where r: "?run = Returned (Some (WriteError ''broken pipe''), w')"
    by (simp add: sendMessageWithRetry_def send_begin_def send_event_def Let_def)
  have "length (conn_written (ns_connection (ch_sessions w' 0))) \<le> 5"
    using send_at_most_five_writes [OF demo_session_ok r]
    by (auto simp: demo_world_def NewNodeSession_def)
  with r show ?thesis by blast
qed

section \<open>A send comes back, and only an acknowledgement makes it succeed\<close>

primrec is_Tick :: "('st, 'q, 'a) send_event \<Rightarrow> bool" where
  "is_Tick (Deliver _) \<longleftrightarrow> False"
| "is_Tick TakeAck \<longleftrightarrow> False"
| "is_Tick (Tick _) \<longleftrightarrow> True"
| "is_Tick (Others _ _) \<longleftrightarrow> False"

lemma send_event_Tick:
  "sd_result sd = None \<Longrightarrow> \<exists>sd'. send_event H ns c m (Tick err) sd = Some sd' \<and>
     (sd_result sd' = None \<longrightarrow> sd_retryCount sd' = Suc (sd_retryCount sd) \<and> sd_retryCount sd \<noteq> 4)"
  by (cases err) (auto simp: send_event_def Let_def)

lemma send_event_retryCount:
  "send_event H ns c m ev sd = Some sd' \<Longrightarrow> \<not> is_Tick ev \<Longrightarrow> sd_retryCount sd' = sd_retryCount sd"
  by (cases ev) (auto simp: send_event_def Let_def split: if_splits)

lemma send_run_ticks:
  assumes "sd_result (send_run H ns c m evs sd) = None" and "sd_retryCount sd \<le> 4"
  shows "sd_retryCount sd + length (filter is_Tick evs) \<le> 4"
  using assms
proof (induction evs arbitrary: sd)
  case Nil
  then show ?case by simp
next
  case (Cons ev evs)
  have r: "sd_result sd = None"
    using Cons.prems(1) send_run_done [of sd H ns c m "ev # evs"] by (cases "sd_result sd") auto
  show ?case
  proof (cases "is_Tick ev")
    case True
    then obtain err where ev: "ev = Tick err" by (cases ev) auto
    obtain sd' where s: "send_event H ns c m ev sd = Some sd'"
      and n: "sd_result sd' = None \<longrightarrow> sd_retryCount sd' = Suc (sd_retryCount sd) \<and>
        sd_retryCount sd \<noteq> 4"
      using send_event_Tick [OF r, of H ns c m err] ev by auto
    have "sd_result sd' = None"
      using Cons.prems(1) s send_run_done [of sd' H ns c m evs] by (cases "sd_result sd'") auto
    with Cons.IH [of sd'] Cons.prems s n True show ?thesis by simp
  next
    case False
    show ?thesis
    proof (cases "send_event H ns c m ev sd")
      case None
      with False Cons show ?thesis by simp
    next
      case (Some sd')
      with False Cons.IH [of sd'] Cons.prems send_event_retryCount [OF Some False] show ?thesis
        by simp
    qed
  qed
qed

text \<open>C15. A send always comes back: once the retry timer has fired five times, whatever else
  happened in between, \<open>sendMessageWithRetry\<close> has returned.\<close>

theorem sendMessageWithRetry_returns:
  assumes "5 \<le> length (filter is_Tick evs)"
  shows "\<exists>r w'. sendMessageWithRetry H ns copyMsg msg err evs w = Returned (r, w')"
proof -
  have "sd_retryCount (send_begin ns copyMsg err w) = 0" by (simp add: send_begin_def Let_def)
  then have "sd_result (send_run H ns copyMsg msg evs (send_begin ns copyMsg err w)) \<noteq> None"
    using send_run_ticks [of H ns copyMsg msg evs "send_begin ns copyMsg err w"] assms by auto
  then show ?thesis by (auto simp: sendMessageWithRetry_def Let_def)
qed

theorem sendMessageWithRetry_returns_witness:
  "\<exists>r w'. sendMessageWithRetry demo_hub 0 (demo_msg ''9'') (demo_msg ''9'') nil_error
      [Tick nil_error, Deliver ''other'', Tick nil_error, Tick nil_error, TakeAck, Tick nil_error,
       Tick nil_error] demo_world = Returned (r, w')"
  by (rule sendMessageWithRetry_returns) simp

text \<open>The message's channel is open as long as its own identifier was not acknowledged.\<close>

definition unacked :: "nat \<Rightarrow> string \<Rightarrow> ('c, 'st, 'q, 'a) sending \<Rightarrow> bool" where
  "unacked ns ident sd \<longleftrightarrow>
     sd_chan sd \<notin> ns_closedChans (ch_sessions (sd_world sd) ns) \<and> sd_result sd \<noteq> Some None \<and>
     (\<forall>j. ns_ackMessageCache (ch_sessions (sd_world sd) ns) j = Some (sd_chan sd) \<longrightarrow> j = ident)"

lemma unacked_begin:
  "session_ok (ch_sessions w ns) \<Longrightarrow> unacked ns (msg_ID c) (send_begin ns c err w)"
  by (cases err) (auto simp: unacked_def send_begin_def Let_def session_ok_def split: if_splits)

lemma unacked_Deliver:
  "unacked ns ident sd \<Longrightarrow> p \<noteq> ident \<Longrightarrow>
   unacked ns ident (sd\<lparr>sd_world := ReceiveMessageAck ns p (sd_world sd)\<rparr>)"
  unfolding unacked_def ReceiveMessageAck_def
  by (cases "ns_ackMessageCache (ch_sessions (sd_world sd) ns) p") auto

lemma unacked_event:
  assumes "unacked ns ident sd" and "ev \<noteq> Deliver ident" and "send_event H ns c m ev sd = Some sd'"
  shows "unacked ns ident sd'"
proof (cases ev)
  case (Deliver p)
  with assms unacked_Deliver [OF assms(1)] show ?thesis
    by (auto simp: send_event_def Let_def split: if_splits)
next
  case TakeAck
  with assms show ?thesis by (auto simp: send_event_def Let_def unacked_def split: if_splits)
next
  case (Tick err)
  with assms show ?thesis
    by (auto simp: send_event_def Let_def unacked_def split: if_splits option.splits)
next
  case (Others heap api)
  with assms show ?thesis by (auto simp: send_event_def Let_def unacked_def split: if_splits)
qed

lemma unacked_run:
  "unacked ns ident sd \<Longrightarrow> Deliver ident \<notin> set evs \<Longrightarrow>
   unacked ns ident (send_run H ns c m evs sd)"
proof (induction evs arbitrary: sd)
  case Nil
  then show ?case by simp
next
  case (Cons ev evs)
  then show ?case
    using unacked_event [of ns ident sd ev H c m] by (auto split: option.split)
qed

lemma Deliver_then_TakeAck:
  assumes "send_inv ns c base sd" and "sd_result sd = None"
  shows "send_run H ns c m [Deliver (msg_ID c), TakeAck] sd =
    sd\<lparr>sd_world := saveSuccessPoint H ns m (ReceiveMessageAck ns (msg_ID c) (sd_world sd)),
       sd_result := Some None\<rparr>"
  using assms
  by (auto simp: send_event_def Let_def send_inv_def chan_ok_def ReceiveMessageAck_def
      split: option.splits)

text \<open>C8. A send succeeds exactly through the acknowledgement of its own message: it never returns
  success unless an acknowledgement with the message's identifier was delivered; and as long as it
  waits, that acknowledgement makes it return success after recording the success point.\<close>

theorem send_success_iff_acknowledged:
  assumes "session_ok (ch_sessions w ns)"
  shows "(\<forall>w'. sendMessageWithRetry H ns copyMsg msg err evs w = Returned (None, w') \<longrightarrow>
            Deliver (msg_ID copyMsg) \<in> set evs) \<and>
    (sendMessageWithRetry H ns copyMsg msg err evs w = Blocked \<longrightarrow>
       (\<exists>w1. sendMessageWithRetry H ns copyMsg msg err (evs @ [Deliver (msg_ID copyMsg), TakeAck]) w
         = Returned (None, saveSuccessPoint H ns msg (ReceiveMessageAck ns (msg_ID copyMsg) w1))))"
proof (intro conjI allI impI)
  fix w'
  assume "sendMessageWithRetry H ns copyMsg msg err evs w = Returned (None, w')"
  then have "sd_result (send_run H ns copyMsg msg evs (send_begin ns copyMsg err w)) = Some None"
    by (auto simp: sendMessageWithRetry_def Let_def split: option.splits)
  then show "Deliver (msg_ID copyMsg) \<in> set evs"
    using unacked_run [OF unacked_begin [OF assms, of copyMsg err], of evs H copyMsg msg]
    by (auto simp: unacked_def)
next
  let ?sd = "send_run H ns copyMsg msg evs (send_begin ns copyMsg err w)"
  assume "sendMessageWithRetry H ns copyMsg msg err evs w = Blocked"
  then have "sd_result ?sd = None"
    by (auto simp: sendMessageWithRetry_def Let_def split: option.splits)
  from Deliver_then_TakeAck [OF send_run_inv [OF assms] this]
  show "\<exists>w1. sendMessageWithRetry H ns copyMsg msg err (evs @ [Deliver (msg_ID copyMsg), TakeAck]) w
      = Returned (None, saveSuccessPoint H ns msg (ReceiveMessageAck ns (msg_ID copyMsg) w1))"
    by (simp only: sendMessageWithRetry_def Let_def send_run_append) auto
qed

theorem send_success_iff_acknowledged_witness:
  "\<exists>w1. sendMessageWithRetry demo_hub 0 (demo_msg ''9'') (demo_msg ''9'') nil_error
      ([Tick nil_error] @ [Deliver (msg_ID (demo_msg ''9'')), TakeAck]) demo_world
    = Returned (None, saveSuccessPoint demo_hub 0 (demo_msg ''9'')
        (ReceiveMessageAck 0 (msg_ID (demo_msg ''9'')) w1))"
proof -
  have "sendMessageWithRetry demo_hub 0 (demo_msg ''9'') (demo_msg ''9'') nil_error
      [Tick nil_error] demo_world = Blocked"
    by (simp add: sendMessageWithRetry_def send_begin_def send_event_def Let_def)
  with send_success_iff_acknowledged [OF demo_session_ok] show ?thesis by blast
qed

section \<open>What no operation of a session changes\<close>

text \<open>The identity of every session, the pool it serves, and the dispatcher's table of pools.\<close>

definition frame :: "('c, 'st, 'q, 'a) cloudhub \<Rightarrow> ('c, 'st, 'q, 'a) cloudhub \<Rightarrow> bool" where
  "frame w w' \<longleftrightarrow>
     (\<forall>a. ns_nodeID (ch_sessions w' a) = ns_nodeID (ch_sessions w a) \<and>
          ns_nodeMessagePool (ch_sessions w' a) = ns_nodeMessagePool (ch_sessions w a)) \<and>
     ch_next w' = ch_next w \<and>
     NodeMessagePools (ch_dispatcher w') = NodeMessagePools (ch_dispatcher w) \<and>
     next_pool (ch_dispatcher w') = next_pool (ch_dispatcher w)"

named_theorems frame_intros \<open>operations that keep the frame\<close>

lemma frame_refl [simp, frame_intros]: "frame w w"
  by (simp add: frame_def)

lemma frame_trans: "frame w w1 \<Longrightarrow> frame w1 w2 \<Longrightarrow> frame w w2"
  by (simp add: frame_def)

lemma frame_upd_session:
  "(\<And>s. ns_nodeID (f s) = ns_nodeID s) \<Longrightarrow>
   (\<And>s. ns_nodeMessagePool (f s) = ns_nodeMessagePool s) \<Longrightarrow> frame w w' \<Longrightarrow>
   frame w (upd_session ns f w')"
  by (simp add: frame_def) (simp add: upd_session_def)

lemma frame_upd_pool [frame_intros]: "frame w w' \<Longrightarrow> frame w (upd_pool ns f w')"
  by (simp add: frame_def) (simp add: upd_pool_def set_pool_def)

lemma frame_set_api [frame_intros]: "frame w w' \<Longrightarrow> frame w (set_api a w')"
  by (simp add: frame_def) (simp add: set_api_def)

lemma frame_SetTerminateErr [frame_intros]: "frame w w' \<Longrightarrow> frame w (SetTerminateErr e ns w')"
  unfolding SetTerminateErr_def by (rule frame_upd_session) auto

lemma frame_KeepAliveMessage [frame_intros]: "frame w w' \<Longrightarrow> frame w (KeepAliveMessage ns w')"
  unfolding KeepAliveMessage_def by (rule frame_upd_session) auto

lemma frame_ReceiveMessageAck [frame_intros]: "frame w w' \<Longrightarrow> frame w (ReceiveMessageAck ns p w')"
  unfolding ReceiveMessageAck_def by (rule frame_upd_session) (auto split: option.split)

lemma frame_Terminating [frame_intros]: "frame w w' \<Longrightarrow> frame w (Terminating H ns w')"
  unfolding Terminating_def
  by (cases "ns_stopOnce (ch_sessions w' ns)") (auto intro!: frame_upd_session frame_upd_pool)

lemma frame_WriteMessageAsync [frame_intros]: "frame w w' \<Longrightarrow> frame w (WriteMessageAsync ns m e w')"
  unfolding WriteMessageAsync_def by (cases e) (auto intro!: frame_upd_session)

lemma frame_saveSuccessPoint [frame_intros]: "frame w w' \<Longrightarrow> frame w (saveSuccessPoint H ns m w')"
  by (auto simp: saveSuccessPoint_def saveNamespaceResourceSuccess_def
      saveNonNamespaceResourceSuccess_def deleteSuccessPoint_def Let_def
      split: sum.split sync_get.split prod.split intro: frame_intros)

lemma frame_send_event:
  "frame w (sd_world sd) \<Longrightarrow> send_event H ns c m ev sd = Some sd' \<Longrightarrow> frame w (sd_world sd')"
  by (cases ev) (auto simp: send_event_def Let_def split: if_splits option.splits
      intro: frame_intros, auto simp: frame_def)

lemma frame_send_run: "frame w (sd_world sd) \<Longrightarrow> frame w (sd_world (send_run H ns c m evs sd))"
proof (induction evs arbitrary: sd)
  case Nil
  then show ?case by simp
next
  case (Cons ev evs)
  then show ?case by (auto split: option.split intro: frame_send_event)
qed

lemma frame_sendMessageWithRetry:
  assumes "frame w w1" and "sendMessageWithRetry H ns c m err evs w1 = Returned (r, w')"
  shows "frame w w'"
proof -
  have "frame w (sd_world (send_begin ns c err w1))"
    using assms(1) by (auto simp: send_begin_def Let_def intro!: frame_WriteMessageAsync
        frame_upd_session)
  then show ?thesis
    using frame_send_run assms(2)
    by (fastforce simp: sendMessageWithRetry_def Let_def split: option.splits)
qed

lemma frame_KeepAliveCheck: "KeepAliveCheck H ns ev w = (go, w') \<Longrightarrow> frame w w'"
  by (cases ev) (auto simp: KeepAliveCheck_def intro!: frame_intros frame_upd_session)

lemma frame_syncNoAckMessage: "syncNoAckMessage H ns err w = (ex, e, w') \<Longrightarrow> frame w w'"
  by (auto simp: syncNoAckMessage_def Let_def split: get_result.splits sum.splits if_splits
      option.splits intro!: frame_intros)

lemma frame_syncAckMessage:
  "syncAckMessage H ns err evs w = Returned (ex, e, w') \<Longrightarrow> frame w w'"
  by (auto simp: syncAckMessage_def Let_def split: get_result.splits sum.splits blocking.splits
      option.splits send_error.splits prod.splits
      intro!: frame_intros intro: frame_sendMessageWithRetry)

lemma frame_SendNoAckMessage: "SendNoAckMessage H ns err w = (go, w') \<Longrightarrow> frame w w'"
  by (auto simp: SendNoAckMessage_def split: if_splits prod.splits
      intro: frame_syncNoAckMessage frame_Terminating)

lemma frame_SendAckMessage: "SendAckMessage H ns err evs w = Returned (go, w') \<Longrightarrow> frame w w'"
  by (auto simp: SendAckMessage_def split: if_splits prod.splits blocking.splits
      intro: frame_syncAckMessage frame_Terminating)

section \<open>Success points\<close>

text \<open>C27. Recording the success of a delete message: the record of the node and the object is
  deleted at the API server, in the object's namespace or cluster-wide, and the delete message
  itself leaves the pool of the session, while the messages of all other objects stay.\<close>

theorem saveSuccessPoint_delete:
  assumes "ack_laws H" and "AckMessageKeyFunc (h_ext H) msg = Inr key"
    and "msg_Operation msg = DeleteOperation (h_ext H)"
    and "ns_node = ignore_err (GetNamespace (h_ext H) msg)"
  shows "api_of (saveSuccessPoint H ns msg w) =
      fst (sy_Delete (h_client H)
        (if ns_node = NullNamespace then ClusterWide else InNamespace ns_node)
        (BuildObjectSyncName (ns_nodeID (ch_sessions w ns)) key) (api_of w)) \<and>
    (\<forall>j. ack_stored H (pool_at ns (saveSuccessPoint H ns msg w)) j =
       (if j = key then None else ack_stored H (pool_at ns w) j))"
proof -
  have g: "msg_Group msg = GroupResource" and u: "GetMessageUID (h_ext H) msg = Inr key"
    using assms(2) by (auto simp: AckMessageKeyFunc_def split: if_splits)
  have "saveSuccessPoint H ns msg w = deleteSuccessPoint H ns ns_node
      (BuildObjectSyncName (ns_nodeID (ch_sessions w ns)) key) msg w"
    using g u assms(3,4)
    by (simp add: saveSuccessPoint_def saveNamespaceResourceSuccess_def
        saveNonNamespaceResourceSuccess_def Let_def)
  then show ?thesis
    using ack_stored_Delete [OF assms(1,2)] by (simp add: deleteSuccessPoint_def Let_def)
qed

theorem saveSuccessPoint_delete_witness:
  "ack_stored demo_hub (pool_at 0 demo_world) ''u1'' = Some (demo_msg ''7'') \<and>
   ack_stored demo_hub (pool_at 0 (saveSuccessPoint demo_hub 0
     ((demo_msg ''8'')\<lparr>msg_Operation := ''delete''\<rparr>) demo_world)) ''u1'' = None"
proof -
  let ?m = "(demo_msg ''8'')\<lparr>msg_Operation := ''delete''\<rparr>"
  have k: "AckMessageKeyFunc (h_ext demo_hub) ?m = Inr ''u1''"
    by (simp add: AckMessageKeyFunc_def GetMessageUID_def demo_hub_def demo_ext_def ext_of_def
        demo_meta_def)
  have d: "msg_Operation ?m = DeleteOperation (h_ext demo_hub)"
    by (simp add: demo_hub_def demo_ext_def ext_of_def)
  have "pool_at 0 demo_world = the_pool demo_hub demo_disp ''edge-1''"
    by (simp add: pool_at_def demo_world_def the_pool_def pool_of_def demo_disp_def
        NewNodeSession_def)
  then show ?thesis
    using saveSuccessPoint_delete [OF demo_ack_laws k d refl, of 0 demo_world] demo_stored by simp
qed

section \<open>Termination of a session\<close>


end
