(* ===== verification/SessionManager.thy ===== *)
theory SessionManager
  imports NodeSession
begin

text \<open>
  The session manager (\<open>codes/cloud/pkg/cloudhub/session/session_manager.go\<close>) and the connection
  handler (\<open>codes/cloud/pkg/cloudhub/handler/message_handler.go\<close>): the table of sessions with its
  32-bit counter, what happens when a node connects, and what the goroutine of a connection
  cleans up when its session ends. The invariant of the table is stated for the system of all
  these steps in any order.
\<close>

section \<open>Manager\<close>

record Manager =
  NodeNumber :: int32
  NodeLimit :: int32
  NodeSessions :: "string \<rightharpoonup> nat"

definition NewSessionManager :: "int32 \<Rightarrow> Manager" where
  "NewSessionManager nodeLimit =
     \<lparr>NodeNumber = 0, NodeLimit = nodeLimit, NodeSessions = Map.empty\<rparr>"

definition store_session :: "string \<Rightarrow> nat \<Rightarrow> Manager \<Rightarrow> Manager" where
  "store_session nodeID ns sm = sm\<lparr>NodeSessions := (NodeSessions sm)(nodeID \<mapsto> ns)\<rparr>"

definition drop_session :: "string \<Rightarrow> Manager \<Rightarrow> Manager" where
  "drop_session nodeID sm = sm\<lparr>NodeSessions := (NodeSessions sm)(nodeID := None)\<rparr>"

text \<open>\<open>AddSession\<close> in its two parts: \<open>LoadAndDelete\<close> with the end of the old session, and the
  \<open>Store\<close> with the count. Each part is atomic in the code, the whole is not.\<close>

definition AddSession_load ::
  "('c, 'st, 'q, 'a) hub_ops \<Rightarrow> nat \<Rightarrow> Manager \<times> ('c, 'st, 'q, 'a) cloudhub
     \<Rightarrow> Manager \<times> ('c, 'st, 'q, 'a) cloudhub" where
  "AddSession_load H session st =
     (let (sm, w) = st; nodeID = ns_nodeID (ch_sessions w session)
      in case NodeSessions sm nodeID of
           None \<Rightarrow> (sm, w)
         | Some oldSession \<Rightarrow>
             ((drop_session nodeID sm)\<lparr>NodeNumber := NodeNumber sm - 1\<rparr>, Terminating H oldSession w))"

definition AddSession_store ::
  "nat \<Rightarrow> Manager \<times> ('c, 'st, 'q, 'a) cloudhub \<Rightarrow> Manager \<times> ('c, 'st, 'q, 'a) cloudhub" where
  "AddSession_store session st =
     (let (sm, w) = st; sm1 = store_session (ns_nodeID (ch_sessions w session)) session sm
      in (sm1\<lparr>NodeNumber := NodeNumber sm1 + 1\<rparr>, w))"

definition AddSession ::
  "('c, 'st, 'q, 'a) hub_ops \<Rightarrow> nat \<Rightarrow> Manager \<times> ('c, 'st, 'q, 'a) cloudhub
     \<Rightarrow> Manager \<times> ('c, 'st, 'q, 'a) cloudhub" where
  "AddSession H session st = AddSession_store session (AddSession_load H session st)"

definition GetSession :: "Manager \<Rightarrow> string \<Rightarrow> nat option" where
  "GetSession sm nodeID = NodeSessions sm nodeID"

definition DeleteSession ::
  "nat \<Rightarrow> Manager \<times> ('c, 'st, 'q, 'a) cloudhub \<Rightarrow> Manager \<times> ('c, 'st, 'q, 'a) cloudhub" where
  "DeleteSession session st =
     (let (sm, w) = st; nodeID = ns_nodeID (ch_sessions w session)
      in case GetSession sm nodeID of
           None \<Rightarrow> (sm, w)
         | Some cacheSession \<Rightarrow>
             if cacheSession \<noteq> session then (sm, w)
             else ((drop_session nodeID sm)\<lparr>NodeNumber := NodeNumber sm - 1\<rparr>, w))"

definition ReachLimit :: "Manager \<Rightarrow> bool" where
  "ReachLimit sm \<longleftrightarrow> sint (NodeNumber sm) \<ge> sint (NodeLimit sm)"

definition sm_KeepAliveMessage ::
  "string \<Rightarrow> Manager \<times> ('c, 'st, 'q, 'a) cloudhub
     \<Rightarrow> go_error \<times> Manager \<times> ('c, 'st, 'q, 'a) cloudhub" where
  "sm_KeepAliveMessage nodeID st =
     (let (sm, w) = st
      in case GetSession sm nodeID of
           None \<Rightarrow> (Some (''session not found for node '' @ nodeID), sm, w)
         | Some session \<Rightarrow> (nil_error, sm, KeepAliveMessage session w))"

definition sm_ReceiveMessageAck ::
  "string \<Rightarrow> string \<Rightarrow> Manager \<times> ('c, 'st, 'q, 'a) cloudhub
     \<Rightarrow> go_error \<times> Manager \<times> ('c, 'st, 'q, 'a) cloudhub" where
  "sm_ReceiveMessageAck nodeID parentID st =
     (let (sm, w) = st
      in case GetSession sm nodeID of
           None \<Rightarrow> (Some (''session not found for node '' @ nodeID), sm, w)
         | Some session \<Rightarrow> (nil_error, sm, ReceiveMessageAck session parentID w))"

section \<open>Connections\<close>

text \<open>The state of CloudHub with the messages published to the controllers so far.\<close>

record ('c, 'st, 'q, 'a) hub_state =
  hs_manager :: Manager
  hs_hub :: "('c, 'st, 'q, 'a) cloudhub"
  hs_published :: "'c upstream list"

text \<open>The encoding of the connect event's body and the fresh message identifier are arguments,
  as in \<open>ConstructConnectMessage\<close>; \<open>Publish\<close> has no failing case.\<close>

definition OnEdgeNodeConnect ::
  "'c ext \<Rightarrow> (string \<Rightarrow> string \<Rightarrow> 'c) \<Rightarrow> string \<Rightarrow> HubInfo \<Rightarrow> ('c, 'st, 'q, 'a) hub_state
     \<Rightarrow> ('c, 'st, 'q, 'a) hub_state" where
  "OnEdgeNodeConnect E body newID info hs = hs\<lparr>hs_published :=
     hs_published hs @ [Publish E (ConstructConnectMessage E body newID info True)]\<rparr>"

definition OnEdgeNodeDisconnect ::
  "'c ext \<Rightarrow> (string \<Rightarrow> string \<Rightarrow> 'c) \<Rightarrow> string \<Rightarrow> HubInfo \<Rightarrow> ('c, 'st, 'q, 'a) hub_state
     \<Rightarrow> ('c, 'st, 'q, 'a) hub_state" where
  "OnEdgeNodeDisconnect E body newID info hs = hs\<lparr>hs_published :=
     hs_published hs @ [Publish E (ConstructConnectMessage E body newID info False)]\<rparr>"

text \<open>\<open>HandleConnection\<close> up to the start of the session: the new session's address, if the
  connection is served. The fresh pool is linked to the node before the session is added.\<close>

definition HandleConnection ::
  "('c, 'st, 'q, 'a) hub_ops \<Rightarrow> int \<Rightarrow> (string \<Rightarrow> string \<Rightarrow> 'c) \<Rightarrow> string \<Rightarrow> string \<Rightarrow> string
     \<Rightarrow> ('c, 'st, 'q, 'a) hub_state \<Rightarrow> nat option \<times> ('c, 'st, 'q, 'a) hub_state" where
  "HandleConnection H KeepaliveInterval body newID nodeID projectID hs =
     (if ReachLimit (hs_manager hs) then (None, hs)
      else
        let info = \<lparr>hi_ProjectID = projectID, hi_NodeID = nodeID\<rparr>;
            hs1 = OnEdgeNodeConnect (h_ext H) body newID info hs;
            w = hs_hub hs1;
            (pool, md) = alloc_pool (InitNodeMessagePool H) (ch_dispatcher w);
            md1 = AddNodeMessagePool nodeID pool md;
            session = ch_next w;
            w1 = w\<lparr>ch_dispatcher := md1, ch_next := Suc session,
                   ch_sessions := (ch_sessions w)(session :=
                     NewNodeSession nodeID projectID (KeepaliveInterval * 1000000000) pool)\<rparr>;
            (sm, w2) = AddSession H session (hs_manager hs1, w1)
        in (Some session, hs1\<lparr>hs_manager := sm, hs_hub := w2\<rparr>))"

text \<open>The rest of the goroutine, after \<open>Start\<close> has returned.\<close>

definition connection_cleanup ::
  "('c, 'st, 'q, 'a) hub_ops \<Rightarrow> (string \<Rightarrow> string \<Rightarrow> 'c) \<Rightarrow> string \<Rightarrow> nat \<Rightarrow> ('c, 'st, 'q, 'a) hub_state
     \<Rightarrow> ('c, 'st, 'q, 'a) hub_state" where
  "connection_cleanup H body newID session hs =
     (let w = hs_hub hs; s = ch_sessions w session;
          info = \<lparr>hi_ProjectID = ns_projectID s, hi_NodeID = ns_nodeID s\<rparr>;
          w1 = w\<lparr>ch_dispatcher :=
                 DeleteNodeMessagePool (ns_nodeID s) (ns_nodeMessagePool s) (ch_dispatcher w)\<rparr>;
          (sm, w2) = DeleteSession session (hs_manager hs, w1)
      in OnEdgeNodeDisconnect (h_ext H) body newID info (hs\<lparr>hs_manager := sm, hs_hub := w2\<rparr>))"

definition OnReadTransportErr ::
  "('c, 'st, 'q, 'a) hub_ops \<Rightarrow> string \<Rightarrow> ('c, 'st, 'q, 'a) hub_state \<Rightarrow> ('c, 'st, 'q, 'a) hub_state" where
  "OnReadTransportErr H nodeID hs =
     (case GetSession (hs_manager hs) nodeID of
        None \<Rightarrow> hs
      | Some session \<Rightarrow> hs\<lparr>hs_hub := Terminating H session (hs_hub hs)\<rparr>)"

text \<open>\<open>HandleMessage\<close>: a message from a node, dispatched upstream. Keep-alives and
  acknowledgements act on the sessions, everything else is published.\<close>

definition HandleMessage ::
  "('c, 'st, 'q, 'a) hub_ops \<Rightarrow> string \<Rightarrow> string \<Rightarrow> 'c message option \<Rightarrow> ('c, 'st, 'q, 'a) hub_state
     \<Rightarrow> ('c, 'st, 'q, 'a) hub_state" where
  "HandleMessage H nodeID projectID message hs =
     (case message of
        None \<Rightarrow> hs
      | Some m \<Rightarrow>
          let out = DispatchUpstream (h_ext H) m \<lparr>hi_ProjectID = projectID, hi_NodeID = nodeID\<rparr>;
              st = (hs_manager hs, hs_hub hs)
          in case out of
               UKeepAlive n \<Rightarrow> hs\<lparr>hs_hub := snd (snd (sm_KeepAliveMessage n st))\<rparr>
             | UAck n parent \<Rightarrow> hs\<lparr>hs_hub := snd (snd (sm_ReceiveMessageAck n parent st))\<rparr>
             | _ \<Rightarrow> hs\<lparr>hs_published := hs_published hs @ [out]\<rparr>)"

section \<open>The table of sessions\<close>

interpretation sessions: registry NodeSessions store_session drop_session
  by unfold_locales (simp_all add: store_session_def drop_session_def)

definition mgr_ok :: "Manager \<Rightarrow> bool" where
  "mgr_ok sm \<longleftrightarrow> finite (dom (NodeSessions sm)) \<and> NodeNumber sm = of_nat (card (dom (NodeSessions sm)))"

lemma mgr_ok_number [simp]: "NodeSessions (sm\<lparr>NodeNumber := k\<rparr>) = NodeSessions sm"
  by simp

lemma mgr_ok_drop:
  assumes "mgr_ok sm" and "NodeSessions sm n \<noteq> None"
  shows "mgr_ok ((drop_session n sm)\<lparr>NodeNumber := NodeNumber sm - 1\<rparr>)"
proof -
  have f: "finite (dom (NodeSessions sm))" using assms(1) by (simp add: mgr_ok_def)
  have "(of_nat (Suc (card (dom (NodeSessions (drop_session n sm))))) :: int32) = NodeNumber sm"
    using assms sessions.card_removed [OF f assms(2)] by (simp only: mgr_ok_def)
  then have "NodeNumber sm - 1 = of_nat (card (dom (NodeSessions (drop_session n sm))))"
    by (simp add: algebra_simps)
  with sessions.finite_removed [OF f] show ?thesis by (simp add: mgr_ok_def)
qed

lemma mgr_ok_store:
  assumes "mgr_ok sm" and "NodeSessions sm n = None"
  shows "mgr_ok ((store_session n a sm)\<lparr>NodeNumber := NodeNumber sm + 1\<rparr>)"
proof -
  have f: "finite (dom (NodeSessions sm))" using assms(1) by (simp add: mgr_ok_def)
  show ?thesis
    using assms sessions.card_store [OF f, of n a] sessions.finite_store [OF f, of n a]
    by (simp add: mgr_ok_def)
qed

lemma Terminating_nodeID [simp]:
  "ns_nodeID (ch_sessions (Terminating H ns w) a) = ns_nodeID (ch_sessions w a)"
  using frame_Terminating [OF frame_refl, of w H ns] by (simp add: frame_def)

lemma drop_then_store [simp]: "store_session n a (drop_session n sm) = store_session n a sm"
  by (simp add: store_session_def drop_session_def)

lemma AddSession_outcome:
  fixes w :: "('c, 'st, 'q, 'a) cloudhub"
  assumes "mgr_ok sm" and "AddSession H ns (sm, w) = (sm', w')"
  shows "mgr_ok sm'"
    and "NodeSessions sm' = (NodeSessions sm)(ns_nodeID (ch_sessions w ns) \<mapsto> ns)"
    and "NodeLimit sm' = NodeLimit sm"
    and "frame w w'"
    and "w' = (case NodeSessions sm (ns_nodeID (ch_sessions w ns)) of
               None \<Rightarrow> w | Some old \<Rightarrow> Terminating H old w)"
proof -
  let ?n = "ns_nodeID (ch_sessions w ns)"
  have num: "NodeNumber (store_session n a s) = NodeNumber s"
    "NodeNumber (drop_session n s) = NodeNumber s" for n a s
    by (simp_all add: store_session_def drop_session_def)
  show "mgr_ok sm'"
  proof (cases "NodeSessions sm ?n")
    case None
    with assms mgr_ok_store [OF assms(1) None, of ns] show ?thesis
      by (auto simp: AddSession_def AddSession_load_def AddSession_store_def Let_def num)
  next
    case (Some old)
    let ?d = "(drop_session ?n sm)\<lparr>NodeNumber := NodeNumber sm - 1\<rparr>"
    have "mgr_ok ?d" using mgr_ok_drop [OF assms(1)] Some by simp
    moreover have "NodeSessions ?d ?n = None" by (simp add: drop_session_def)
    ultimately have "mgr_ok ((store_session ?n ns ?d)\<lparr>NodeNumber := NodeNumber ?d + 1\<rparr>)"
      by (rule mgr_ok_store)
    with Some assms(2) show ?thesis by (auto simp: AddSession_def AddSession_load_def AddSession_store_def Let_def num)
  qed
  show "NodeSessions sm' = (NodeSessions sm)(?n \<mapsto> ns)" "NodeLimit sm' = NodeLimit sm" "frame w w'"
    "w' = (case NodeSessions sm ?n of None \<Rightarrow> w | Some old \<Rightarrow> Terminating H old w)"
    using assms(2)
    by (auto simp: AddSession_def AddSession_load_def AddSession_store_def Let_def store_session_def drop_session_def
        split: option.splits intro: frame_intros)
qed

lemma DeleteSession_outcome:
  assumes "mgr_ok sm" and "DeleteSession ns (sm, w) = (sm', w')"
  shows "mgr_ok sm'" and "w' = w"
    and "NodeSessions sm' = (if NodeSessions sm (ns_nodeID (ch_sessions w ns)) = Some ns
           then (NodeSessions sm)(ns_nodeID (ch_sessions w ns) := None) else NodeSessions sm)"
  using assms mgr_ok_drop [OF assms(1)]
  by (auto simp: DeleteSession_def GetSession_def Let_def drop_session_def
      split: option.splits if_splits)

section \<open>All steps of CloudHub\<close>

inductive hub_step ::
  "('c, 'st, 'q, 'a) hub_ops \<Rightarrow> ('c, 'st, 'q, 'a) hub_state \<Rightarrow> ('c, 'st, 'q, 'a) hub_state \<Rightarrow> bool"
  for H where
  Connect: "HandleConnection H ka body newID nodeID projectID hs = (a, hs') \<Longrightarrow> hub_step H hs hs'"
| Cleanup: "ns < ch_next (hs_hub hs) \<Longrightarrow>
    hub_step H hs (connection_cleanup H body newID ns hs)"
| ReadErr: "hub_step H hs (OnReadTransportErr H nodeID hs)"
| FromNode: "hub_step H hs (HandleMessage H nodeID projectID m hs)"
| Downstream: "dispatch_downstream H m (ch_dispatcher (hs_hub hs)) = Ret md \<Longrightarrow>
    hub_step H hs (hs\<lparr>hs_hub := (hs_hub hs)\<lparr>ch_dispatcher := md\<rparr>\<rparr>)"
| Ack: "SendAckMessage H ns err evs (hs_hub hs) = Returned (go, w) \<Longrightarrow>
    hub_step H hs (hs\<lparr>hs_hub := w\<rparr>)"
| NoAck: "SendNoAckMessage H ns err (hs_hub hs) = (go, w) \<Longrightarrow> hub_step H hs (hs\<lparr>hs_hub := w\<rparr>)"
| KeepAlive: "KeepAliveCheck H ns ev (hs_hub hs) = (go, w) \<Longrightarrow> hub_step H hs (hs\<lparr>hs_hub := w\<rparr>)"

text \<open>No two sessions ever created serve the same pool.\<close>

definition pools_distinct :: "('c, 'st, 'q, 'a) cloudhub \<Rightarrow> bool" where
  "pools_distinct w \<longleftrightarrow>
     (\<forall>a. a < ch_next w \<longrightarrow> ns_nodeMessagePool (ch_sessions w a) < next_pool (ch_dispatcher w)) \<and>
     (\<forall>a b. a < ch_next w \<longrightarrow> b < ch_next w \<longrightarrow>
        ns_nodeMessagePool (ch_sessions w a) = ns_nodeMessagePool (ch_sessions w b) \<longrightarrow> a = b)"

lemma pools_distinct_frame: "frame w w' \<Longrightarrow> pools_distinct w' = pools_distinct w"
  by (simp add: frame_def pools_distinct_def)

lemma pools_distinct_grow:
  assumes "pools_distinct w" and "next_pool (ch_dispatcher w) \<le> next_pool md"
  shows "pools_distinct (w\<lparr>ch_dispatcher := md\<rparr>)"
  using assms by (auto simp: pools_distinct_def intro: less_le_trans)

lemma pools_distinct_new:
  assumes "pools_distinct w" and "ns_nodeMessagePool s = next_pool (ch_dispatcher w)"
    and "next_pool md = Suc (next_pool (ch_dispatcher w))"
  shows "pools_distinct (w\<lparr>ch_dispatcher := md, ch_next := Suc (ch_next w),
    ch_sessions := (ch_sessions w)(ch_next w := s)\<rparr>)"
  using assms by (auto simp: pools_distinct_def less_Suc_eq)

text \<open>The invariant: the counter counts the table; the registered session of a node is an allocated
  session of that node, and the pool it serves is the pool the dispatcher fills for the node.\<close>

definition hub_inv :: "('c, 'st, 'q, 'a) hub_state \<Rightarrow> bool" where
  "hub_inv hs \<longleftrightarrow>
     mgr_ok (hs_manager hs) \<and> disp_ok (ch_dispatcher (hs_hub hs)) \<and>
     (\<forall>n a. NodeSessions (hs_manager hs) n = Some a \<longrightarrow>
        a < ch_next (hs_hub hs) \<and> ns_nodeID (ch_sessions (hs_hub hs) a) = n \<and>
        NodeMessagePools (ch_dispatcher (hs_hub hs)) n =
          Some (ns_nodeMessagePool (ch_sessions (hs_hub hs) a))) \<and>
     pools_distinct (hs_hub hs)"

definition hub_start :: "('c, 'st, 'q, 'a) hub_state \<Rightarrow> bool" where
  "hub_start hs \<longleftrightarrow>
     (\<exists>limit. hs_manager hs = NewSessionManager limit) \<and>
     NodeMessagePools (ch_dispatcher (hs_hub hs)) = Map.empty \<and> ch_next (hs_hub hs) = 0"

lemma hub_inv_start: "hub_start hs \<Longrightarrow> hub_inv hs"
  by (auto simp: hub_start_def hub_inv_def NewSessionManager_def mgr_ok_def disp_ok_def
      pools_distinct_def)

lemma disp_ok_table:
  "NodeMessagePools md' = NodeMessagePools md \<Longrightarrow> next_pool md' = next_pool md \<Longrightarrow>
   disp_ok md' = disp_ok md"
  by (simp add: disp_ok_def)

lemma hub_inv_frame: "hub_inv hs \<Longrightarrow> frame (hs_hub hs) w \<Longrightarrow> hub_inv (hs\<lparr>hs_hub := w\<rparr>)"
  using disp_ok_table [of "ch_dispatcher w" "ch_dispatcher (hs_hub hs)"] pools_distinct_frame [of "hs_hub hs" w]
  by (simp add: hub_inv_def frame_def)

lemma hub_inv_published [simp]: "hub_inv (hs\<lparr>hs_published := p\<rparr>) = hub_inv hs"
  by (simp add: hub_inv_def)

lemma hub_inv_DeletePool:
  assumes "disp_ok md"
  shows "disp_ok (DeleteNodeMessagePool n p md)"
  using assms by (auto simp: DeleteNodeMessagePool_def forget_pool_def disp_ok_def split: option.split)

lemma hub_inv_Connect:
  assumes "hub_inv hs" and "HandleConnection H ka body newID nodeID projectID hs = (r, hs')"
  shows "hub_inv hs'"
proof (cases "ReachLimit (hs_manager hs)")
  case True
  with assms show ?thesis by (simp add: HandleConnection_def)
next
  case False
  let ?w = "hs_hub hs"
  let ?md = "ch_dispatcher ?w"
  let ?s = "NewNodeSession nodeID projectID (ka * 1000000000) (next_pool ?md)"
  let ?w1 = "?w\<lparr>ch_dispatcher := ?md\<lparr>pool_heap := (pool_heap ?md)(next_pool ?md := InitNodeMessagePool H),
       next_pool := Suc (next_pool ?md),
       NodeMessagePools := (NodeMessagePools ?md)(nodeID \<mapsto> next_pool ?md)\<rparr>,
     ch_next := Suc (ch_next ?w), ch_sessions := (ch_sessions ?w)(ch_next ?w := ?s)\<rparr>"
  obtain sm w2 where a: "AddSession H (ch_next ?w) (hs_manager hs, ?w1) = (sm, w2)" by force
  have m: "mgr_ok (hs_manager hs)" and d: "disp_ok ?md" using assms(1) by (auto simp: hub_inv_def)
  note o1 = AddSession_outcome [OF m a]
  have hs': "hs_manager hs' = sm" "hs_hub hs' = w2"
    using assms(2) False a
    by (auto simp: HandleConnection_def OnEdgeNodeConnect_def alloc_pool_def AddNodeMessagePool_def
        Let_def)
  have t: "NodeSessions sm = (NodeSessions (hs_manager hs))(nodeID \<mapsto> ch_next ?w)"
    using o1(2) by (simp add: NewNodeSession_def)
  have "disp_ok (ch_dispatcher w2)"
    using disp_ok_alloc [OF d] disp_ok_table [of "ch_dispatcher w2" "ch_dispatcher ?w1"] o1(4)
    by (simp add: frame_def)
  moreover have "b < ch_next w2 \<and> ns_nodeID (ch_sessions w2 b) = n \<and>
      NodeMessagePools (ch_dispatcher w2) n = Some (ns_nodeMessagePool (ch_sessions w2 b))"
    if "NodeSessions sm n = Some b" for n b
  proof (cases "n = nodeID")
    case True
    with that t o1(4) show ?thesis by (auto simp: frame_def NewNodeSession_def)
  next
    case False
    with that t have "NodeSessions (hs_manager hs) n = Some b" by simp
    then have "b < ch_next ?w \<and> ns_nodeID (ch_sessions ?w b) = n \<and>
        NodeMessagePools ?md n = Some (ns_nodeMessagePool (ch_sessions ?w b))"
      using assms(1) by (simp add: hub_inv_def)
    with False o1(4) show ?thesis by (simp add: frame_def)
  qed
  moreover have "pools_distinct w2"
    using pools_distinct_new [of ?w ?s] assms(1) pools_distinct_frame [OF o1(4)]
    by (simp add: hub_inv_def NewNodeSession_def)
  ultimately show ?thesis using o1(1) hs' by (simp add: hub_inv_def)
qed

lemma hub_inv_Cleanup:
  assumes "hub_inv hs" and "ns < ch_next (hs_hub hs)"
  shows "hub_inv (connection_cleanup H body newID ns hs)"
proof -
  let ?w = "hs_hub hs"
  let ?s = "ch_sessions ?w ns"
  let ?w1 = "?w\<lparr>ch_dispatcher := DeleteNodeMessagePool (ns_nodeID ?s) (ns_nodeMessagePool ?s)
     (ch_dispatcher ?w)\<rparr>"
  obtain sm w2 where d: "DeleteSession ns (hs_manager hs, ?w1) = (sm, w2)" by force
  have m: "mgr_ok (hs_manager hs)" and ok: "disp_ok (ch_dispatcher ?w)"
    using assms(1) by (auto simp: hub_inv_def)
  note o1 = DeleteSession_outcome [OF m d]
  have c: "connection_cleanup H body newID ns hs =
      OnEdgeNodeDisconnect (h_ext H) body newID
        \<lparr>hi_ProjectID = ns_projectID ?s, hi_NodeID = ns_nodeID ?s\<rparr>
        (hs\<lparr>hs_manager := sm, hs_hub := w2\<rparr>)"
    using d by (simp add: connection_cleanup_def Let_def)
  have "b < ch_next ?w1 \<and> ns_nodeID (ch_sessions ?w1 b) = n \<and>
      NodeMessagePools (ch_dispatcher ?w1) n = Some (ns_nodeMessagePool (ch_sessions ?w1 b))"
    if "NodeSessions sm n = Some b" for n b
  proof -
    have old: "NodeSessions (hs_manager hs) n = Some b" and ne: "n = ns_nodeID ?s \<longrightarrow> b \<noteq> ns"
      using that o1(3) by (auto split: if_splits)
    then have l: "b < ch_next ?w \<and> ns_nodeID (ch_sessions ?w b) = n \<and>
        NodeMessagePools (ch_dispatcher ?w) n = Some (ns_nodeMessagePool (ch_sessions ?w b))"
      using assms(1) by (simp add: hub_inv_def)
    have "ns_nodeMessagePool (ch_sessions ?w b) \<noteq> ns_nodeMessagePool ?s" if "n = ns_nodeID ?s"
      using assms l ne that by (auto simp: hub_inv_def pools_distinct_def)
    with l show ?thesis
      by (auto simp: DeleteNodeMessagePool_def forget_pool_def split: option.split)
  qed
  moreover have "pools_distinct ?w1"
    by (rule pools_distinct_grow) (use assms(1) in \<open>auto simp: hub_inv_def DeleteNodeMessagePool_def
      forget_pool_def split: option.split\<close>)
  ultimately show ?thesis
    using o1(1,2) hub_inv_DeletePool [OF ok] by (simp add: c OnEdgeNodeDisconnect_def hub_inv_def)
qed

text \<open>The dispatcher only ever adds pools.\<close>

definition grows :: "('st, 'q, 'a) messageDispatcher \<Rightarrow> ('st, 'q, 'a) messageDispatcher \<Rightarrow> bool" where
  "grows md md' \<longleftrightarrow> disp_ok md' \<and> next_pool md \<le> next_pool md' \<and>
     (\<forall>n a. NodeMessagePools md n = Some a \<longrightarrow> NodeMessagePools md' n = Some a)"

lemma grows_refl: "disp_ok md \<Longrightarrow> grows md md"
  by (simp add: grows_def)

lemma grows_GetNodeMessagePool:
  assumes "disp_ok md" and "GetNodeMessagePool H n md = (a, md1)"
  shows "grows md md1"
  using assms GetNodeMessagePool_ok(1) [OF assms]
  by (cases "NodeMessagePools md n")
     (auto simp: grows_def GetNodeMessagePool_fresh GetNodeMessagePool_found)

lemma grows_upd [simp]:
  "grows md (set_pool a p md') = grows md md'" "grows md (md'\<lparr>sync_state := s\<rparr>) = grows md md'"
  by (simp_all add: grows_def disp_ok_def set_pool_def)

lemma grows_dispatch:
  assumes "disp_ok md" and "dispatch_downstream H m md = Ret md'"
  shows "grows md md'"
proof -
  have "grows md md2"
    if "GetNodeMessagePool H n md = (a, md1)" and
       "md2 = md1 \<or> (\<exists>p. md2 = set_pool a p md1) \<or> (\<exists>s. md2 = md1\<lparr>sync_state := s\<rparr>) \<or>
        (\<exists>p s. md2 = set_pool a p (md1\<lparr>sync_state := s\<rparr>))" for n a md1 md2
    using grows_GetNodeMessagePool [OF assms(1) that(1)] that(2) by auto
  then show ?thesis
    using assms grows_refl [OF assms(1)]
    by (fastforce simp: dispatch_downstream_def enqueueNoAckMessage_def enqueueAckMessage_def Let_def
        bind_eq_Some_go split: sum.splits if_splits prod.splits option.splits)
qed

lemma hub_inv_Downstream:
  assumes "hub_inv hs" and "dispatch_downstream H m (ch_dispatcher (hs_hub hs)) = Ret md"
  shows "hub_inv (hs\<lparr>hs_hub := (hs_hub hs)\<lparr>ch_dispatcher := md\<rparr>\<rparr>)"
proof -
  have "grows (ch_dispatcher (hs_hub hs)) md"
    using grows_dispatch assms by (auto simp: hub_inv_def)
  moreover from this have "pools_distinct ((hs_hub hs)\<lparr>ch_dispatcher := md\<rparr>)"
    using assms(1) by (intro pools_distinct_grow) (auto simp: hub_inv_def grows_def)
  ultimately show ?thesis using assms(1) by (simp add: hub_inv_def grows_def)
qed

lemma hub_inv_FromNode: "hub_inv hs \<Longrightarrow> hub_inv (HandleMessage H nodeID projectID m hs)"
  by (auto simp: HandleMessage_def Let_def sm_KeepAliveMessage_def sm_ReceiveMessageAck_def
      split: option.split upstream.split intro!: hub_inv_frame frame_intros)

lemma hub_inv_ReadErr: "hub_inv hs \<Longrightarrow> hub_inv (OnReadTransportErr H nodeID hs)"
  by (auto simp: OnReadTransportErr_def split: option.split intro!: hub_inv_frame frame_intros)

lemma hub_inv_step: "hub_inv hs \<Longrightarrow> hub_step H hs hs' \<Longrightarrow> hub_inv hs'"
  by (erule hub_step.cases)
     (auto intro: hub_inv_Connect hub_inv_Cleanup hub_inv_Downstream hub_inv_FromNode
        hub_inv_ReadErr hub_inv_frame frame_SendAckMessage frame_SendNoAckMessage
        frame_KeepAliveCheck)

interpretation hub: step_system hub_start "hub_step H" hub_inv for H
  by unfold_locales (auto intro: hub_inv_start hub_inv_step)


section \<open>Properties\<close>


definition demo_hub_state ::
  "(string, string \<Rightarrow> string message option, string list \<times> bool, object_sync list) hub_state" where
  "demo_hub_state = \<lparr>hs_manager = NewSessionManager 10,
     hs_hub = demo_world\<lparr>ch_dispatcher := demo_disp\<lparr>NodeMessagePools := Map.empty\<rparr>, ch_next := 0\<rparr>,
     hs_published = []\<rparr>"

lemma demo_hub_start: "hub_start demo_hub_state"
  unfolding hub_start_def demo_hub_state_def by (intro conjI exI [of _ 10]) simp_all

abbreviation demo_connect where
  "demo_connect hs \<equiv> snd (HandleConnection demo_hub 30 (\<lambda>e n. e) ''c1'' ''edge-1'' ''p'' hs)"


text \<open>C29. What the end of a connection removes: if its session is still the registered one, the
  session and the pool of its node leave the tables and the count goes down by one; if the node
  has reconnected meanwhile, neither the new session nor the new pool nor the count changes. A
  disconnect event for the node is published in both cases.\<close>

theorem connection_cleanup_exact:
  assumes "hub_inv hs" and "ns < ch_next (hs_hub hs)"
    and "s = ch_sessions (hs_hub hs) ns" and "hs' = connection_cleanup H body newID ns hs"
  shows "(NodeSessions (hs_manager hs) (ns_nodeID s) = Some ns \<longrightarrow>
      NodeSessions (hs_manager hs') = (NodeSessions (hs_manager hs))(ns_nodeID s := None) \<and>
      NodeMessagePools (ch_dispatcher (hs_hub hs')) =
        (NodeMessagePools (ch_dispatcher (hs_hub hs)))(ns_nodeID s := None) \<and>
      NodeNumber (hs_manager hs') = NodeNumber (hs_manager hs) - 1) \<and>
    (\<forall>b. NodeSessions (hs_manager hs) (ns_nodeID s) = Some b \<longrightarrow> b \<noteq> ns \<longrightarrow>
      hs_manager hs' = hs_manager hs \<and> hs_hub hs' = hs_hub hs) \<and>
    hs_published hs' = hs_published hs @ [Publish (h_ext H) (ConstructConnectMessage (h_ext H) body
      newID \<lparr>hi_ProjectID = ns_projectID s, hi_NodeID = ns_nodeID s\<rparr> False)]"
proof -
  have l: "NodeMessagePools (ch_dispatcher (hs_hub hs)) n = Some (ns_nodeMessagePool
      (ch_sessions (hs_hub hs) b)) \<and> b < ch_next (hs_hub hs)"
    if "NodeSessions (hs_manager hs) n = Some b" for n b
    using assms(1) that by (simp add: hub_inv_def)
  have d: "ns_nodeMessagePool (ch_sessions (hs_hub hs) b) \<noteq> ns_nodeMessagePool s"
    if "b \<noteq> ns" and "b < ch_next (hs_hub hs)" for b
    using assms that by (auto simp: hub_inv_def pools_distinct_def)
  show ?thesis
    using l d unfolding assms(3,4)
    by (auto simp: connection_cleanup_def OnEdgeNodeDisconnect_def DeleteSession_def GetSession_def
        drop_session_def DeleteNodeMessagePool_def forget_pool_def Let_def split: option.splits)
qed

theorem connection_cleanup_exact_witness:
  "hs_hub (connection_cleanup demo_hub (\<lambda>e n. e) ''d1'' 0 (demo_connect (demo_connect demo_hub_state)))
     = hs_hub (demo_connect (demo_connect demo_hub_state))"
proof -
  let ?hs = "demo_connect (demo_connect demo_hub_state)"
  have "hub_inv demo_hub_state"
    by (rule hub_inv_start [OF demo_hub_start])
  then have i: "hub_inv ?hs"
    by (rule hub_inv_Connect [OF hub_inv_Connect [OF _ surjective_pairing] surjective_pairing])
  have lim: "\<not> ReachLimit (hs_manager demo_hub_state)"
    "\<not> ReachLimit (hs_manager (demo_connect demo_hub_state))"
    by (simp_all add: ReachLimit_def HandleConnection_def demo_hub_state_def NewSessionManager_def
        AddSession_def AddSession_load_def AddSession_store_def Let_def alloc_pool_def
        OnEdgeNodeConnect_def NewNodeSession_def store_session_def)
  have n: "0 < ch_next (hs_hub ?hs)"
    and t: "NodeSessions (hs_manager ?hs) (ns_nodeID (ch_sessions (hs_hub ?hs) 0)) = Some 1"
    using lim
    by (simp_all add: HandleConnection_def demo_hub_state_def NewSessionManager_def
        AddSession_def AddSession_load_def AddSession_store_def Let_def alloc_pool_def
        OnEdgeNodeConnect_def NewNodeSession_def store_session_def drop_session_def
        Terminating_def upd_pool_def upd_session_def)
  show ?thesis
    using connection_cleanup_exact [OF i n refl refl, of demo_hub "\<lambda>e n. e" "''d1''"] t by blast
qed

text \<open>The two parts of \<open>AddSession\<close>, interleaved for two connections of one node: the counter goes
  up twice for one entry of the table, and the first session stays alive without being
  registered.\<close>

lemma AddSession_race:
  assumes "NodeSessions sm n = None" and "a \<noteq> b"
    and "ns_nodeID (ch_sessions w a) = n" and "ns_nodeID (ch_sessions w b) = n"
    and "(sm', w') = AddSession_store b (AddSession_store a
           (AddSession_load H b (AddSession_load H a (sm, w))))"
  shows "NodeNumber sm' = NodeNumber sm + 2" and "NodeSessions sm' = (NodeSessions sm)(n \<mapsto> b)"
    and "w' = w"
  using assms by (simp_all add: AddSession_load_def AddSession_store_def store_session_def)

end
