(* ===== verification/DtTypes.thy ===== *)
theory DtTypes
  imports Message "HOL-Library.Finite_Map"
begin

text \<open>
  The data of the edge's device twin: \<open>codes/edge/pkg/devicetwin/dttype\<close> (devices, attributes,
  twins, versions, the messages built of them), the validation of keys and values
  (\<open>dtcommon/util.go\<close>) and the rows of the edge database (\<open>dtclient\<close>).

  A Go pointer that may be nil is an option, a Go map is a finite map. Twin versions are 64-bit
  words compared as signed numbers. A message that arrives is the value its JSON decodes to, with
  the entries of its map in the order in which Go ranges over it; a message that leaves is the
  value that is encoded. A text column of the database that holds JSON is the value that
  decoding it yields, \<open>None\<close> for the empty text. Copies through JSON (\<open>CopyMsgTwin\<close>,
  \<open>CopyMsgAttr\<close>) give an equal value. Parsing a floating point number is an argument.
\<close>

section \<open>Constants of dtcommon and of the device controller\<close>

abbreviation TypeDeleted :: string where "TypeDeleted \<equiv> ''deleted''"
abbreviation stringType :: string where "stringType \<equiv> ''string''"
abbreviation DataTypeInt :: string where "DataTypeInt \<equiv> ''int''"
abbreviation DataTypeInteger :: string where "DataTypeInteger \<equiv> ''integer''"
abbreviation DataTypeString :: string where "DataTypeString \<equiv> ''string''"
abbreviation DataTypeFloat :: string where "DataTypeFloat \<equiv> ''float''"
abbreviation DataTypeBoolean :: string where "DataTypeBoolean \<equiv> ''boolean''"
abbreviation BadRequestCode :: int where "BadRequestCode \<equiv> 400"
abbreviation NotFoundCode :: int where "NotFoundCode \<equiv> 404"
abbreviation InternalErrorCode :: int where "InternalErrorCode \<equiv> 500"

section \<open>Validation\<close>

definition ValidateValue :: "(string \<Rightarrow> bool) \<Rightarrow> string \<Rightarrow> string \<Rightarrow> go_error" where
  "ValidateValue ParseFloat_ok valueType value =
     (if valueType = [] then nil_error
      else if valueType = DataTypeString then nil_error
      else if valueType = DataTypeInt \<or> valueType = DataTypeInteger
      then (case ParseInt value of
              None \<Rightarrow> Some ''the value is not int or integer'' | Some _ \<Rightarrow> nil_error)
      else if valueType = DataTypeFloat
      then (if ParseFloat_ok value then nil_error else Some ''the value is not float'')
      else if valueType = DataTypeBoolean
      then (if value \<noteq> ''true'' \<and> value \<noteq> ''false''
            then Some ''the bool value must be true or false'' else nil_error)
      else if valueType = TypeDeleted then nil_error
      else Some ''the value type is not allowed'')"

definition twin_char :: "char \<Rightarrow> bool" where
  "twin_char c = (let n = of_char c :: nat in
     97 \<le> n \<and> n \<le> 122 \<or> 65 \<le> n \<and> n \<le> 90 \<or> 48 \<le> n \<and> n \<le> 57 \<or> c \<in> set ''-_.,:/@#'')"

definition ValidateTwinKey :: "string \<Rightarrow> bool" where
  "ValidateTwinKey key \<longleftrightarrow> list_all twin_char key \<and> 1 \<le> length key \<and> length key \<le> 128"

definition ValidateTwinValue :: "string \<Rightarrow> bool" where
  "ValidateTwinValue value \<longleftrightarrow>
     list_all twin_char value \<and> 1 \<le> length value \<and> length value \<le> 512"

section \<open>Twins, attributes, devices\<close>

record TwinVersion =
  CloudVersion :: int64
  EdgeVersion :: int64

record ValueMetadata =
  vm_Timestamp :: int

record TypeMetadata =
  tm_Type :: string

record TwinValue =
  tv_Value :: "string option"
  tv_Metadata :: "ValueMetadata option"

record MsgTwin =
  Expected :: "TwinValue option"
  Actual :: "TwinValue option"
  Optional :: "bool option"
  Metadata :: "TypeMetadata option"
  ExpectedVersion :: "TwinVersion option"
  ActualVersion :: "TwinVersion option"

record MsgAttr =
  ma_Value :: string
  ma_Optional :: "bool option"
  ma_Metadata :: "TypeMetadata option"

record Device =
  dev_ID :: string
  dev_Name :: string
  dev_Description :: string
  dev_State :: string
  dev_LastOnline :: string
  dev_Attributes :: "(string, MsgAttr) fmap"
  dev_Twin :: "(string, MsgTwin) fmap"

abbreviation zero_version :: TwinVersion where
  "zero_version \<equiv> \<lparr>CloudVersion = 0, EdgeVersion = 0\<rparr>"

abbreviation empty_value :: TwinValue where
  "empty_value \<equiv> \<lparr>tv_Value = None, tv_Metadata = None\<rparr>"

abbreviation empty_twin :: MsgTwin where
  "empty_twin \<equiv> \<lparr>Expected = None, Actual = None, Optional = None, Metadata = None,
     ExpectedVersion = None, ActualVersion = None\<rparr>"

text \<open>Version operations of \<open>types.go\<close>. A version text is the version it decodes to, or \<open>None\<close>.\<close>

definition tv_UpdateCloudVersion :: "TwinVersion \<Rightarrow> TwinVersion" where
  "tv_UpdateCloudVersion tv = tv\<lparr>CloudVersion := CloudVersion tv + 1\<rparr>"

definition tv_UpdateEdgeVersion :: "TwinVersion \<Rightarrow> TwinVersion" where
  "tv_UpdateEdgeVersion tv = tv\<lparr>EdgeVersion := EdgeVersion tv + 1\<rparr>"

definition CompareWithCloud :: "TwinVersion \<Rightarrow> TwinVersion \<Rightarrow> bool" where
  "CompareWithCloud tv tvCloud \<longleftrightarrow> sint (EdgeVersion tvCloud) \<ge> sint (EdgeVersion tv)"

definition UpdateCloudVersion :: "TwinVersion option \<Rightarrow> TwinVersion result" where
  "UpdateCloudVersion version =
     (case version of None \<Rightarrow> Inl ''unmarshal'' | Some v \<Rightarrow> Inr (tv_UpdateCloudVersion v))"

definition UpdateEdgeVersion :: "TwinVersion option \<Rightarrow> TwinVersion result" where
  "UpdateEdgeVersion version =
     (case version of None \<Rightarrow> Inl ''unmarshal'' | Some v \<Rightarrow> Inr (tv_UpdateEdgeVersion v))"

definition CompareVersion :: "TwinVersion option \<Rightarrow> TwinVersion option \<Rightarrow> bool" where
  "CompareVersion cloudversion edgeversion =
     (case cloudversion of
        None \<Rightarrow> False
      | Some c \<Rightarrow> (case edgeversion of None \<Rightarrow> False | Some e \<Rightarrow> CompareWithCloud e c))"

section \<open>Messages that arrive\<close>

record BaseMessage =
  EventID :: string
  Timestamp :: int

record DeviceTwinUpdate =
  dtu_EventID :: string
  dtu_Twin :: "(string \<times> MsgTwin option) list option"

definition ErrorUnmarshal :: string where
  "ErrorUnmarshal = ''Unmarshal update request body failed, please check the request''"
definition ErrorUpdate :: string where
  "ErrorUpdate = ''Update twin error, key:twin does not exist''"
definition ErrorKey :: string where
  "ErrorKey = ''The key of twin must only include upper or lowercase letters, number, english, and special letter - _ . , : / @ # and the length of key should be less than 128 bytes''"
definition ErrorValue :: string where
  "ErrorValue = ''The value of twin must only include upper or lowercase letters, number, english, and special letter - _ . , : / @ # and the length of value should be less than 512 bytes''"

text \<open>The check of one side of a twin in \<open>UnmarshalDeviceTwinUpdate\<close>: a value that is present and
  not empty must match.\<close>

definition twin_value_ok :: "TwinValue option \<Rightarrow> bool" where
  "twin_value_ok tv =
     (case tv of
        None \<Rightarrow> True
      | Some t \<Rightarrow> (case tv_Value t of
                    None \<Rightarrow> True
                  | Some v \<Rightarrow> v = [] \<or> ValidateTwinValue v))"

fun check_twins :: "(string \<times> MsgTwin option) list \<Rightarrow> go_error" where
  "check_twins [] = nil_error"
| "check_twins ((key, value) # rest) =
     (if \<not> ValidateTwinKey key then Some ErrorKey
      else case value of
             None \<Rightarrow> check_twins rest
           | Some t \<Rightarrow>
               if \<not> twin_value_ok (Expected t) then Some ErrorValue
               else if \<not> twin_value_ok (Actual t) then Some ErrorValue
               else check_twins rest)"

definition UnmarshalDeviceTwinUpdate :: "DeviceTwinUpdate option \<Rightarrow> DeviceTwinUpdate result" where
  "UnmarshalDeviceTwinUpdate payload =
     (case payload of
        None \<Rightarrow> Inl ErrorUnmarshal
      | Some u \<Rightarrow>
          (case dtu_Twin u of
             None \<Rightarrow> Inl ErrorUpdate
           | Some twins \<Rightarrow>
               (case check_twins twins of Some e \<Rightarrow> Inl e | None \<Rightarrow> Inr u)))"

section \<open>Rows of the edge database\<close>

record db_Device =
  dbd_ID :: string
  dbd_Name :: string
  dbd_Description :: string
  dbd_State :: string
  dbd_LastOnline :: string

record db_DeviceAttr =
  dba_DeviceID :: string
  dba_Name :: string
  dba_Description :: string
  dba_Value :: string
  dba_Optional :: bool
  dba_AttrType :: string
  dba_Metadata :: "TypeMetadata option"

record db_DeviceTwin =
  dbt_DeviceID :: string
  dbt_Name :: string
  dbt_Description :: string
  dbt_Expected :: string
  dbt_Actual :: string
  dbt_ExpectedMeta :: "ValueMetadata option"
  dbt_ActualMeta :: "ValueMetadata option"
  dbt_ExpectedVersion :: "TwinVersion option"
  dbt_ActualVersion :: "TwinVersion option"
  dbt_Optional :: bool
  dbt_AttrType :: string
  dbt_Metadata :: "TypeMetadata option"

text \<open>The value of a column in an update: null, a text, a text pointer, a truth value, or the JSON
  text of a version or of metadata.\<close>

datatype col =
    CNull
  | CText string
  | CPtr "string option"
  | CBool bool
  | CVersion TwinVersion
  | CValueMeta ValueMetadata
  | CTypeMeta TypeMetadata

type_synonym cols = "(string, col) fmap"

record DeviceDelete =
  dd_DeviceID :: string
  dd_Name :: string

record db_Update =
  du_DeviceID :: string
  du_Name :: string
  du_Cols :: cols

section \<open>Conversions\<close>

text \<open>One turn of the loop of \<open>DeviceAttrToMsgAttr\<close> and of \<open>DeviceTwinToMsgTwin\<close>.\<close>

definition msg_of_attr :: "db_DeviceAttr \<Rightarrow> MsgAttr" where
  "msg_of_attr attr = \<lparr>ma_Value = dba_Value attr, ma_Optional = Some (dba_Optional attr),
     ma_Metadata = Some \<lparr>tm_Type = dba_AttrType attr\<rparr>\<rparr>"

definition DeviceAttrToMsgAttr :: "db_DeviceAttr list \<Rightarrow> (string, MsgAttr) fmap" where
  "DeviceAttrToMsgAttr attrs = fold (\<lambda>a m. fmupd (dba_Name a) (msg_of_attr a) m) attrs fmempty"

definition msg_of_twin :: "db_DeviceTwin \<Rightarrow> MsgTwin" where
  "msg_of_twin twin = \<lparr>
     Expected = (if dbt_Expected twin \<noteq> []
       then Some \<lparr>tv_Value = Some (dbt_Expected twin), tv_Metadata = dbt_ExpectedMeta twin\<rparr>
       else None),
     Actual = (if dbt_Actual twin \<noteq> []
       then Some \<lparr>tv_Value = Some (dbt_Actual twin), tv_Metadata = dbt_ActualMeta twin\<rparr>
       else None),
     Optional = Some (dbt_Optional twin), Metadata = Some \<lparr>tm_Type = dbt_AttrType twin\<rparr>,
     ExpectedVersion = dbt_ExpectedVersion twin, ActualVersion = dbt_ActualVersion twin\<rparr>"

definition DeviceTwinToMsgTwin :: "db_DeviceTwin list \<Rightarrow> (string, MsgTwin) fmap" where
  "DeviceTwinToMsgTwin twins = fold (\<lambda>t m. fmupd (dbt_Name t) (msg_of_twin t) m) twins fmempty"

definition MsgAttrToDeviceAttr :: "string \<Rightarrow> MsgAttr \<Rightarrow> db_DeviceAttr" where
  "MsgAttrToDeviceAttr name msgAttr = \<lparr>dba_DeviceID = [], dba_Name = name, dba_Description = [],
     dba_Value = [],
     dba_Optional = (case ma_Optional msgAttr of None \<Rightarrow> True | Some b \<Rightarrow> b),
     dba_AttrType = (case ma_Metadata msgAttr of None \<Rightarrow> ''string'' | Some m \<Rightarrow> tm_Type m),
     dba_Metadata = None\<rparr>"

definition MsgTwinToDeviceTwin :: "string \<Rightarrow> MsgTwin \<Rightarrow> db_DeviceTwin" where
  "MsgTwinToDeviceTwin name msgTwin = \<lparr>dbt_DeviceID = [], dbt_Name = name, dbt_Description = [],
     dbt_Expected = [], dbt_Actual = [], dbt_ExpectedMeta = None, dbt_ActualMeta = None,
     dbt_ExpectedVersion = None, dbt_ActualVersion = None,
     dbt_Optional = (case Optional msgTwin of None \<Rightarrow> True | Some b \<Rightarrow> b),
     dbt_AttrType = (case Metadata msgTwin of None \<Rightarrow> ''string'' | Some m \<Rightarrow> tm_Type m),
     dbt_Metadata = None\<rparr>"

definition CopyMsgTwin :: "MsgTwin \<Rightarrow> bool \<Rightarrow> MsgTwin" where
  "CopyMsgTwin msgTwin noVersion =
     (if noVersion then msgTwin\<lparr>ActualVersion := None, ExpectedVersion := None\<rparr> else msgTwin)"

definition CopyMsgAttr :: "MsgAttr \<Rightarrow> MsgAttr" where
  "CopyMsgAttr msgAttr = msgAttr"

section \<open>Messages that leave\<close>

record TwinDoc =
  LastState :: "MsgTwin option"
  CurrentState :: "MsgTwin option"

text \<open>A device as a membership message has it; the entries of its maps are in the order in which Go
  ranges over them, and may be null.\<close>

record MsgDevice =
  mdv_ID :: string
  mdv_Name :: string
  mdv_Description :: string
  mdv_State :: string
  mdv_Attributes :: "(string \<times> MsgAttr option) list option"
  mdv_Twin :: "(string \<times> MsgTwin option) list option"

datatype dt_payload =
    PEmpty
  | PError string int string
  | PTwinResult BaseMessage "(string, MsgTwin option) fmap"
  | PDelta BaseMessage "(string, MsgTwin) fmap" "(string, string) fmap"
  | PDocument BaseMessage "(string, TwinDoc) fmap"
  | PSyncTwin BaseMessage "(string, MsgTwin) fmap"
  | PDeviceState BaseMessage string string string
  | PAttrUpdate BaseMessage "(string, MsgAttr option) fmap"
  | PMembershipGet BaseMessage "Device list"
  | PMembershipUpdate BaseMessage "MsgDevice list" "MsgDevice list"
  | PDetailRequest string

definition type_deleted :: "MsgTwin \<Rightarrow> bool" where
  "type_deleted t \<longleftrightarrow> (case Metadata t of None \<Rightarrow> False | Some m \<Rightarrow> tm_Type m = TypeDeleted)"

definition BuildDeviceTwinResult ::
  "BaseMessage \<Rightarrow> (string, MsgTwin option) fmap \<Rightarrow> nat \<Rightarrow> dt_payload" where
  "BuildDeviceTwinResult baseMessage twins dealType =
     PTwinResult baseMessage
       (if dealType = 0
        then fmmap (map_option (\<lambda>t. CopyMsgTwin t True))
               (fmfilter (\<lambda>k. case fmlookup twins k of
                                Some (Some t) \<Rightarrow> \<not> type_deleted t | _ \<Rightarrow> True) twins)
        else twins)"

definition BuildErrorResult :: "string \<Rightarrow> int \<Rightarrow> string \<Rightarrow> dt_payload" where
  "BuildErrorResult eventID code reason = PError eventID code reason"

text \<open>The text of a side of a twin, empty where there is none.\<close>

definition value_text :: "TwinValue option \<Rightarrow> string" where
  "value_text tv = (case tv of None \<Rightarrow> [] | Some t \<Rightarrow> (case tv_Value t of None \<Rightarrow> [] | Some v \<Rightarrow> v))"

definition in_delta_result :: "MsgTwin \<Rightarrow> bool" where
  "in_delta_result v \<longleftrightarrow> \<not> type_deleted v \<and> value_text (Expected v) \<noteq> []"

definition in_delta :: "MsgTwin \<Rightarrow> bool" where
  "in_delta v \<longleftrightarrow> in_delta_result v \<and> value_text (Expected v) \<noteq> value_text (Actual v)"

definition fmrestrict :: "('v \<Rightarrow> bool) \<Rightarrow> ('k, 'v) fmap \<Rightarrow> ('k, 'v) fmap" where
  "fmrestrict P m = fmfilter (\<lambda>k. case fmlookup m k of Some v \<Rightarrow> P v | None \<Rightarrow> False) m"

definition BuildDeviceTwinDelta ::
  "BaseMessage \<Rightarrow> (string, MsgTwin) fmap \<Rightarrow> dt_payload \<times> bool" where
  "BuildDeviceTwinDelta baseMessage twins =
     (let result = fmmap (\<lambda>v. CopyMsgTwin v True) (fmrestrict in_delta_result twins);
          delta = fmmap (\<lambda>v. value_text (Expected v)) (fmrestrict in_delta twins)
      in (PDelta baseMessage result delta, delta \<noteq> fmempty))"

definition BuildDeviceTwinDocument ::
  "BaseMessage \<Rightarrow> (string, TwinDoc) fmap \<Rightarrow> dt_payload \<times> bool" where
  "BuildDeviceTwinDocument baseMessage twins = (PDocument baseMessage twins, True)"

definition BuildDeviceState :: "BaseMessage \<Rightarrow> Device \<Rightarrow> dt_payload" where
  "BuildDeviceState baseMessage device =
     PDeviceState baseMessage (dev_Name device) (dev_State device) (dev_LastOnline device)"

definition BuildDeviceAttrUpdate :: "BaseMessage \<Rightarrow> (string, MsgAttr option) fmap \<Rightarrow> dt_payload" where
  "BuildDeviceAttrUpdate baseMessage attrs = PAttrUpdate baseMessage attrs"

definition BuildMembershipGetResult :: "BaseMessage \<Rightarrow> Device list \<Rightarrow> dt_payload" where
  "BuildMembershipGetResult baseMessage devices =
     PMembershipGet baseMessage (map (\<lambda>v. v\<lparr>dev_Twin := fmempty\<rparr>) devices)"

text \<open>\<open>MarshalMembershipUpdate\<close>: deleted twins leave as null and no version leaves; a null twin is
  dereferenced.\<close>

fun marshal_twins :: "(string \<times> MsgTwin option) list \<Rightarrow> (string \<times> MsgTwin option) list go" where
  "marshal_twins [] = Ret []"
| "marshal_twins ((k, v) # rest) =
     (case v of
        None \<Rightarrow> Panic
      | Some t \<Rightarrow>
          do {
            rest' \<leftarrow> marshal_twins rest;
            Ret ((k, if type_deleted t then None else Some (CopyMsgTwin t True)) # rest')
          })"

definition marshal_device :: "MsgDevice \<Rightarrow> MsgDevice go" where
  "marshal_device d =
     (case mdv_Twin d of
        None \<Rightarrow> Ret d
      | Some ts \<Rightarrow> do { ts' \<leftarrow> marshal_twins ts; Ret (d\<lparr>mdv_Twin := Some ts'\<rparr>) })"

fun marshal_devices :: "MsgDevice list \<Rightarrow> MsgDevice list go" where
  "marshal_devices [] = Ret []"
| "marshal_devices (d # ds) =
     do { d' \<leftarrow> marshal_device d; ds' \<leftarrow> marshal_devices ds; Ret (d' # ds') }"

definition MarshalMembershipUpdate ::
  "BaseMessage \<Rightarrow> MsgDevice list \<Rightarrow> MsgDevice list \<Rightarrow> dt_payload go" where
  "MarshalMembershipUpdate bm added removed =
     do {
       a \<leftarrow> marshal_devices added;
       r \<leftarrow> marshal_devices removed;
       Ret (PMembershipUpdate bm a r)
     }"

end
