(* ===== verification/DtDb.thy ===== *)
theory DtDb
  imports DtTypes
begin

text \<open>
  The edge database as the device twin uses it (\<open>codes/edge/pkg/devicetwin/dtclient\<close>). The object
  mapper is a library: its operations are the record \<open>'d orm\<close> over the state \<open>'d\<close> of the
  database, and \<open>orm_laws\<close> states what a transaction promises (a rollback, or a begin that
  fails, leaves the tables as they were at the begin). The four transactions of the package have
  one shape, \<open>run_trans\<close>; the locale \<open>transaction\<close> states what each of them promises and is
  interpreted for all four.
\<close>

section \<open>The object mapper\<close>

type_synonym 'd db_op = "'d \<Rightarrow> 'd \<times> go_error"

record 'd orm =
  orm_Begin :: "'d db_op"
  orm_Commit :: "'d db_op"
  orm_Rollback :: "'d db_op"
  orm_InsertDevice :: "db_Device \<Rightarrow> 'd db_op"
  orm_InsertAttr :: "db_DeviceAttr \<Rightarrow> 'd db_op"
  orm_InsertTwin :: "db_DeviceTwin \<Rightarrow> 'd db_op"
  orm_DeleteDevice :: "string \<Rightarrow> 'd db_op"
  orm_DeleteAttrs :: "string \<Rightarrow> 'd db_op"
  orm_DeleteTwins :: "string \<Rightarrow> 'd db_op"
  orm_DeleteAttr :: "string \<Rightarrow> string \<Rightarrow> 'd db_op"
  orm_DeleteTwin :: "string \<Rightarrow> string \<Rightarrow> 'd db_op"
  orm_UpdateDevice :: "string \<Rightarrow> cols \<Rightarrow> 'd db_op"
  orm_UpdateAttr :: "string \<Rightarrow> string \<Rightarrow> cols \<Rightarrow> 'd db_op"
  orm_UpdateTwin :: "string \<Rightarrow> string \<Rightarrow> cols \<Rightarrow> 'd db_op"
  orm_QueryDevice :: "string \<Rightarrow> 'd \<Rightarrow> db_Device list result"
  orm_QueryDeviceAll :: "'d \<Rightarrow> db_Device list result"
  orm_QueryAttr :: "string \<Rightarrow> 'd \<Rightarrow> db_DeviceAttr list result"
  orm_QueryTwin :: "string \<Rightarrow> 'd \<Rightarrow> db_DeviceTwin list result"

section \<open>Statements\<close>

definition SaveDevice :: "'d orm \<Rightarrow> db_Device \<Rightarrow> 'd db_op" where
  "SaveDevice obm doc = orm_InsertDevice obm doc"

definition SaveDeviceAttr :: "'d orm \<Rightarrow> db_DeviceAttr \<Rightarrow> 'd db_op" where
  "SaveDeviceAttr obm doc = orm_InsertAttr obm doc"

definition SaveDeviceTwin :: "'d orm \<Rightarrow> db_DeviceTwin \<Rightarrow> 'd db_op" where
  "SaveDeviceTwin obm doc = orm_InsertTwin obm doc"

definition DeleteDeviceByID :: "'d orm \<Rightarrow> string \<Rightarrow> 'd db_op" where
  "DeleteDeviceByID obm ident = orm_DeleteDevice obm ident"

definition DeleteDeviceAttrByDeviceID :: "'d orm \<Rightarrow> string \<Rightarrow> 'd db_op" where
  "DeleteDeviceAttrByDeviceID obm deviceID = orm_DeleteAttrs obm deviceID"

definition DeleteDeviceTwinByDeviceID :: "'d orm \<Rightarrow> string \<Rightarrow> 'd db_op" where
  "DeleteDeviceTwinByDeviceID obm deviceID = orm_DeleteTwins obm deviceID"

definition DeleteDeviceAttr :: "'d orm \<Rightarrow> string \<Rightarrow> string \<Rightarrow> 'd db_op" where
  "DeleteDeviceAttr obm deviceID name = orm_DeleteAttr obm deviceID name"

definition DeleteDeviceTwin :: "'d orm \<Rightarrow> string \<Rightarrow> string \<Rightarrow> 'd db_op" where
  "DeleteDeviceTwin obm deviceID name = orm_DeleteTwin obm deviceID name"

definition UpdateDeviceFields :: "'d orm \<Rightarrow> string \<Rightarrow> cols \<Rightarrow> 'd db_op" where
  "UpdateDeviceFields obm deviceID cols = orm_UpdateDevice obm deviceID cols"

definition UpdateDeviceAttrFields :: "'d orm \<Rightarrow> string \<Rightarrow> string \<Rightarrow> cols \<Rightarrow> 'd db_op" where
  "UpdateDeviceAttrFields obm deviceID name cols = orm_UpdateAttr obm deviceID name cols"

definition UpdateDeviceTwinFields :: "'d orm \<Rightarrow> string \<Rightarrow> string \<Rightarrow> cols \<Rightarrow> 'd db_op" where
  "UpdateDeviceTwinFields obm deviceID name cols = orm_UpdateTwin obm deviceID name cols"

definition QueryDevice :: "'d orm \<Rightarrow> string \<Rightarrow> 'd \<Rightarrow> db_Device list result" where
  "QueryDevice obm ident d = orm_QueryDevice obm ident d"

definition QueryDeviceAll :: "'d orm \<Rightarrow> 'd \<Rightarrow> db_Device list result" where
  "QueryDeviceAll obm d = orm_QueryDeviceAll obm d"

definition QueryDeviceAttr :: "'d orm \<Rightarrow> string \<Rightarrow> 'd \<Rightarrow> db_DeviceAttr list result" where
  "QueryDeviceAttr obm deviceID d = orm_QueryAttr obm deviceID d"

definition QueryDeviceTwin :: "'d orm \<Rightarrow> string \<Rightarrow> 'd \<Rightarrow> db_DeviceTwin list result" where
  "QueryDeviceTwin obm deviceID d = orm_QueryTwin obm deviceID d"

text \<open>A sequence of statements stops at the first error.\<close>

fun run_ops :: "'d db_op list \<Rightarrow> 'd db_op" where
  "run_ops [] d = (d, nil_error)"
| "run_ops (f # fs) d = (case f d of (d1, Some e) \<Rightarrow> (d1, Some e) | (d1, None) \<Rightarrow> run_ops fs d1)"

definition UpdateDeviceMulti :: "'d orm \<Rightarrow> (string \<times> cols) list \<Rightarrow> 'd db_op" where
  "UpdateDeviceMulti obm updates = run_ops (map (\<lambda>(i, c). UpdateDeviceFields obm i c) updates)"

definition UpdateDeviceAttrMulti :: "'d orm \<Rightarrow> db_Update list \<Rightarrow> 'd db_op" where
  "UpdateDeviceAttrMulti obm updates =
     run_ops (map (\<lambda>u. UpdateDeviceAttrFields obm (du_DeviceID u) (du_Name u) (du_Cols u)) updates)"

definition UpdateDeviceTwinMulti :: "'d orm \<Rightarrow> db_Update list \<Rightarrow> 'd db_op" where
  "UpdateDeviceTwinMulti obm updates =
     run_ops (map (\<lambda>u. UpdateDeviceTwinFields obm (du_DeviceID u) (du_Name u) (du_Cols u)) updates)"

section \<open>Transactions\<close>

text \<open>
  The frame of every transaction: begin, the statements up to the first error, and the deferred
  function: a rollback on an error, otherwise the commit. The deferred function assigns the
  commit's error to the local variable after the result has been set, so the caller does not
  see it.
\<close>

definition run_trans :: "'d orm \<Rightarrow> 'd db_op list \<Rightarrow> 'd db_op" where
  "run_trans obm ops d =
     (case orm_Begin obm d of
        (d0, Some e) \<Rightarrow> (d0, Some e)
      | (d0, None) \<Rightarrow>
          (case run_ops ops d0 of
             (d1, Some e) \<Rightarrow> (fst (orm_Rollback obm d1), Some e)
           | (d1, None) \<Rightarrow> (fst (orm_Commit obm d1), nil_error)))"

definition twin_trans_ops ::
  "'d orm \<Rightarrow> db_DeviceTwin list \<Rightarrow> DeviceDelete list \<Rightarrow> db_Update list \<Rightarrow> 'd db_op list" where
  "twin_trans_ops obm adds deletes updates =
     map (SaveDeviceTwin obm) adds @
     map (\<lambda>x. DeleteDeviceTwin obm (dd_DeviceID x) (dd_Name x)) deletes @
     map (\<lambda>u. UpdateDeviceTwinFields obm (du_DeviceID u) (du_Name u) (du_Cols u)) updates"

definition DeviceTwinTrans ::
  "'d orm \<Rightarrow> db_DeviceTwin list \<Rightarrow> DeviceDelete list \<Rightarrow> db_Update list \<Rightarrow> 'd db_op" where
  "DeviceTwinTrans obm adds deletes updates = run_trans obm (twin_trans_ops obm adds deletes updates)"

definition attr_trans_ops ::
  "'d orm \<Rightarrow> db_DeviceAttr list \<Rightarrow> DeviceDelete list \<Rightarrow> db_Update list \<Rightarrow> 'd db_op list" where
  "attr_trans_ops obm adds deletes updates =
     map (SaveDeviceAttr obm) adds @
     map (\<lambda>x. DeleteDeviceAttr obm (dd_DeviceID x) (dd_Name x)) deletes @
     map (\<lambda>u. UpdateDeviceAttrFields obm (du_DeviceID u) (du_Name u) (du_Cols u)) updates"

definition DeviceAttrTrans ::
  "'d orm \<Rightarrow> db_DeviceAttr list \<Rightarrow> DeviceDelete list \<Rightarrow> db_Update list \<Rightarrow> 'd db_op" where
  "DeviceAttrTrans obm adds deletes updates = run_trans obm (attr_trans_ops obm adds deletes updates)"

definition AddDeviceTrans ::
  "'d orm \<Rightarrow> db_Device list \<Rightarrow> db_DeviceAttr list \<Rightarrow> db_DeviceTwin list \<Rightarrow> 'd db_op" where
  "AddDeviceTrans obm adds addAttrs addTwins =
     run_trans obm (map (SaveDevice obm) adds @ map (SaveDeviceAttr obm) addAttrs @
       map (SaveDeviceTwin obm) addTwins)"

definition DeleteDeviceTrans :: "'d orm \<Rightarrow> string list \<Rightarrow> 'd db_op" where
  "DeleteDeviceTrans obm deletes =
     run_trans obm (concat (map (\<lambda>x. [DeleteDeviceByID obm x, DeleteDeviceAttrByDeviceID obm x,
       DeleteDeviceTwinByDeviceID obm x]) deletes))"

text \<open>The retry loop around a transaction: at most five attempts, the last error is kept.\<close>

fun retry :: "nat \<Rightarrow> 'd db_op \<Rightarrow> 'd db_op" where
  "retry 0 f d = (d, nil_error)"
| "retry (Suc n) f d =
     (case f d of
        (d1, None) \<Rightarrow> (d1, nil_error)
      | (d1, Some e) \<Rightarrow> if n = 0 then (d1, Some e) else retry n f d1)"

abbreviation RetryTimes :: nat where "RetryTimes \<equiv> 5"

section \<open>What a transaction promises\<close>

text \<open>The tables of a database state are what its queries answer.\<close>

definition same_tables :: "'d orm \<Rightarrow> 'd \<Rightarrow> 'd \<Rightarrow> bool" where
  "same_tables obm d d' \<longleftrightarrow>
     (\<forall>i. orm_QueryDevice obm i d' = orm_QueryDevice obm i d) \<and>
     orm_QueryDeviceAll obm d' = orm_QueryDeviceAll obm d \<and>
     (\<forall>i. orm_QueryAttr obm i d' = orm_QueryAttr obm i d) \<and>
     (\<forall>i. orm_QueryTwin obm i d' = orm_QueryTwin obm i d)"

text \<open>The statements that a transaction may hold.\<close>

definition orm_statement :: "'d orm \<Rightarrow> 'd db_op \<Rightarrow> bool" where
  "orm_statement obm f \<longleftrightarrow>
     f \<in> range (orm_InsertDevice obm) \<union> range (orm_InsertAttr obm) \<union> range (orm_InsertTwin obm) \<union>
         range (orm_DeleteDevice obm) \<union> range (orm_DeleteAttrs obm) \<union> range (orm_DeleteTwins obm) \<union>
         {orm_DeleteAttr obm i n |i n. True} \<union> {orm_DeleteTwin obm i n |i n. True} \<union>
         {orm_UpdateAttr obm i n c |i n c. True} \<union> {orm_UpdateTwin obm i n c |i n c. True}"

definition orm_laws :: "'d orm \<Rightarrow> bool" where
  "orm_laws obm \<longleftrightarrow>
     (\<forall>d d0 e. orm_Begin obm d = (d0, Some e) \<longrightarrow> same_tables obm d d0) \<and>
     (\<forall>d d0 ops d1 e. orm_Begin obm d = (d0, None) \<longrightarrow> list_all (orm_statement obm) ops \<longrightarrow>
        run_ops ops d0 = (d1, Some e) \<longrightarrow> same_tables obm d (fst (orm_Rollback obm d1)))"

lemma same_tables_refl [simp]: "same_tables obm d d"
  by (simp add: same_tables_def)

lemma same_tables_trans: "same_tables obm a b \<Longrightarrow> same_tables obm b c \<Longrightarrow> same_tables obm a c"
  by (simp add: same_tables_def)

lemmas statement_defs = SaveDevice_def SaveDeviceAttr_def SaveDeviceTwin_def DeleteDeviceByID_def
  DeleteDeviceAttrByDeviceID_def DeleteDeviceTwinByDeviceID_def DeleteDeviceAttr_def
  DeleteDeviceTwin_def UpdateDeviceFields_def UpdateDeviceAttrFields_def UpdateDeviceTwinFields_def

lemma orm_statementI [simp]:
  "orm_statement obm (orm_InsertDevice obm r1)" "orm_statement obm (orm_InsertAttr obm r2)"
  "orm_statement obm (orm_InsertTwin obm r3)" "orm_statement obm (orm_DeleteDevice obm i)"
  "orm_statement obm (orm_DeleteAttrs obm i)" "orm_statement obm (orm_DeleteTwins obm i)"
  "orm_statement obm (orm_DeleteAttr obm i n)" "orm_statement obm (orm_DeleteTwin obm i n)"
  "orm_statement obm (orm_UpdateAttr obm i n c)" "orm_statement obm (orm_UpdateTwin obm i n c)"
  unfolding orm_statement_def by blast+

locale transaction =
  fixes trans :: "'d orm \<Rightarrow> 'x \<Rightarrow> 'd db_op"
    and statements :: "'d orm \<Rightarrow> 'x \<Rightarrow> 'd db_op list"
  assumes trans_frame: "trans obm x d = run_trans obm (statements obm x) d"
    and trans_statements: "list_all (orm_statement obm) (statements obm x)"
begin

lemma trans_error_no_effect:
  assumes "orm_laws obm" and "trans obm x d = (d', Some e)"
  shows "same_tables obm d d'"
proof -
  have "same_tables obm d (fst (orm_Rollback obm d1))"
    if "orm_Begin obm d = (d0, None)" and "run_ops (statements obm x) d0 = (d1, Some e1)" for d0 d1 e1
    using assms(1) that trans_statements unfolding orm_laws_def by blast
  moreover have "same_tables obm d d0" if "orm_Begin obm d = (d0, Some e1)" for d0 e1
    using assms(1) that unfolding orm_laws_def by blast
  ultimately show ?thesis
    using assms(2) by (auto simp: trans_frame run_trans_def split: prod.splits option.splits)
qed

lemma trans_success_all:
  assumes "trans obm x d = (d', None)"
  shows "\<exists>d0 d1. orm_Begin obm d = (d0, None) \<and> run_ops (statements obm x) d0 = (d1, None) \<and>
    d' = fst (orm_Commit obm d1)"
  using assms by (auto simp: trans_frame run_trans_def split: prod.splits option.splits)

lemma retry_error_no_effect:
  "orm_laws obm \<Longrightarrow> retry n (trans obm x) d = (d', Some e) \<Longrightarrow> same_tables obm d d'"
proof (induction n arbitrary: d)
  case 0
  then show ?case by simp
next
  case (Suc n)
  then show ?case
    by (auto split: prod.splits option.splits if_splits
        intro: same_tables_trans dest: trans_error_no_effect)
qed

lemma retry_success_all:
  "retry n (trans obm x) d = (d', None) \<Longrightarrow> n \<noteq> 0 \<Longrightarrow>
   \<exists>ds d0 d1. orm_Begin obm ds = (d0, None) \<and> run_ops (statements obm x) d0 = (d1, None) \<and>
    d' = fst (orm_Commit obm d1)"
proof (induction n arbitrary: d)
  case 0
  then show ?case by simp
next
  case (Suc n)
  from Suc.prems(1) consider (now) "trans obm x d = (d', None)"
    | (later) d1 where "n \<noteq> 0" and "retry n (trans obm x) d1 = (d', None)"
    by (auto split: prod.splits option.splits if_splits)
  then show ?case
  proof cases
    case now
    then show ?thesis using trans_success_all by blast
  next
    case later
    then show ?thesis using Suc.IH by blast
  qed
qed

end

interpretation twin_tx: transaction
  "\<lambda>obm (adds, deletes, updates). DeviceTwinTrans obm adds deletes updates"
  "\<lambda>obm (adds, deletes, updates). twin_trans_ops obm adds deletes updates"
  by unfold_locales (auto simp: DeviceTwinTrans_def twin_trans_ops_def list_all_iff
      statement_defs split: prod.split)

interpretation attr_tx: transaction
  "\<lambda>obm (adds, deletes, updates). DeviceAttrTrans obm adds deletes updates"
  "\<lambda>obm (adds, deletes, updates). attr_trans_ops obm adds deletes updates"
  by unfold_locales (auto simp: DeviceAttrTrans_def attr_trans_ops_def list_all_iff
      statement_defs split: prod.split)

interpretation add_tx: transaction
  "\<lambda>obm (adds, addAttrs, addTwins). AddDeviceTrans obm adds addAttrs addTwins"
  "\<lambda>obm (adds, addAttrs, addTwins). map (SaveDevice obm) adds @ map (SaveDeviceAttr obm) addAttrs @
       map (SaveDeviceTwin obm) addTwins"
  by unfold_locales (auto simp: AddDeviceTrans_def list_all_iff statement_defs
      split: prod.split)

interpretation delete_tx: transaction DeleteDeviceTrans
  "\<lambda>obm deletes. concat (map (\<lambda>x. [DeleteDeviceByID obm x, DeleteDeviceAttrByDeviceID obm x,
       DeleteDeviceTwinByDeviceID obm x]) deletes)"
  by unfold_locales (auto simp: DeleteDeviceTrans_def list_all_iff statement_defs)

section \<open>A small database\<close>

text \<open>Twin rows in a list, with the snapshot of an open transaction and a budget of statements
  after which the next one fails: an instance of the laws for concrete runs. Columns are applied
  as far as the runs need them.\<close>

record mini_db =
  md_twins :: "db_DeviceTwin list"
  md_snapshot :: "db_DeviceTwin list"
  md_budget :: nat

definition mini_step ::
  "(db_DeviceTwin list \<Rightarrow> db_DeviceTwin list) \<Rightarrow> mini_db db_op" where
  "mini_step f d = (if md_budget d = 0 then (d, Some ''disk full'')
     else (d\<lparr>md_twins := f (md_twins d), md_budget := md_budget d - 1\<rparr>, nil_error))"

definition mini_orm :: "mini_db orm" where
  "mini_orm = \<lparr>
     orm_Begin = (\<lambda>d. (d\<lparr>md_snapshot := md_twins d\<rparr>, nil_error)),
     orm_Commit = (\<lambda>d. (d, nil_error)),
     orm_Rollback = (\<lambda>d. (d\<lparr>md_twins := md_snapshot d\<rparr>, nil_error)),
     orm_InsertDevice = (\<lambda>_. mini_step id), orm_InsertAttr = (\<lambda>_. mini_step id),
     orm_InsertTwin = (\<lambda>r. mini_step (\<lambda>ts. ts @ [r])),
     orm_DeleteDevice = (\<lambda>_. mini_step id), orm_DeleteAttrs = (\<lambda>_. mini_step id),
     orm_DeleteTwins = (\<lambda>i. mini_step (filter (\<lambda>r. dbt_DeviceID r \<noteq> i))),
     orm_DeleteAttr = (\<lambda>_ _. mini_step id),
     orm_DeleteTwin = (\<lambda>i n. mini_step (filter (\<lambda>r. dbt_DeviceID r \<noteq> i \<or> dbt_Name r \<noteq> n))),
     orm_UpdateDevice = (\<lambda>_ _. mini_step id), orm_UpdateAttr = (\<lambda>_ _ _. mini_step id),
     orm_UpdateTwin = (\<lambda>i n c. mini_step id),
     orm_QueryDevice = (\<lambda>i d. Inr [\<lparr>dbd_ID = i, dbd_Name = [], dbd_Description = [],
        dbd_State = [], dbd_LastOnline = []\<rparr>]),
     orm_QueryDeviceAll = (\<lambda>d. Inr []), orm_QueryAttr = (\<lambda>_ d. Inr []),
     orm_QueryTwin = (\<lambda>i d. Inr (filter (\<lambda>r. dbt_DeviceID r = i) (md_twins d)))\<rparr>"

lemma mini_step_snapshot: "mini_step f d = (d', e) \<Longrightarrow> md_snapshot d' = md_snapshot d"
  by (auto simp: mini_step_def split: if_splits)

lemma mini_statement_snapshot:
  assumes "orm_statement mini_orm f" and "f d = (d', e)"
  shows "md_snapshot d' = md_snapshot d"
proof -
  have "\<exists>g. f = mini_step g" using assms(1) by (auto simp: orm_statement_def mini_orm_def)
  with assms(2) show ?thesis by (auto dest: mini_step_snapshot)
qed

lemma mini_run_snapshot:
  "list_all (orm_statement mini_orm) ops \<Longrightarrow> run_ops ops d = (d', e) \<Longrightarrow>
   md_snapshot d' = md_snapshot d"
proof (induction ops arbitrary: d)
  case Nil
  then show ?case by simp
next
  case (Cons f fs)
  obtain d1 e1 where f: "f d = (d1, e1)" by force
  have "md_snapshot d1 = md_snapshot d"
    using Cons.prems(1) f by (auto intro: mini_statement_snapshot)
  with Cons f show ?case by (cases e1) auto
qed

lemma mini_orm_laws: "orm_laws mini_orm"
  unfolding orm_laws_def
proof (intro conjI allI impI)
  fix d d0 :: mini_db and e
  assume "orm_Begin mini_orm d = (d0, Some e)"
  then show "same_tables mini_orm d d0" by (simp add: mini_orm_def)
next
  fix d d0 :: mini_db and ops d1 e
  assume "orm_Begin mini_orm d = (d0, None)" and "list_all (orm_statement mini_orm) ops"
    and "run_ops ops d0 = (d1, Some e)"
  then have "md_snapshot d1 = md_twins d"
    using mini_run_snapshot [of ops d0 d1] by (auto simp: mini_orm_def)
  then show "same_tables mini_orm d (fst (orm_Rollback mini_orm d1))"
    by (simp add: same_tables_def mini_orm_def)
qed

section \<open>Properties\<close>

text \<open>C13. A twin transaction is all or nothing, also under the retry loop: if the last of the five
  attempts fails, every query answers as before; if the loop ends without an error, then in one
  attempt every statement (the additions, the deletions, the updates, in this order) ran without
  an error before the commit.\<close>

theorem DeviceTwinTrans_all_or_nothing:
  assumes "orm_laws obm"
    and "retry RetryTimes (DeviceTwinTrans obm adds deletes updates) d = (d', err)"
  shows "case err of
     Some e \<Rightarrow> same_tables obm d d'
   | None \<Rightarrow> \<exists>ds d0 d1. orm_Begin obm ds = (d0, None) \<and>
       run_ops (twin_trans_ops obm adds deletes updates) d0 = (d1, None) \<and>
       d' = fst (orm_Commit obm d1)"
  using twin_tx.retry_error_no_effect [OF assms(1), of RetryTimes "(adds, deletes, updates)" d d']
    twin_tx.retry_success_all [of RetryTimes obm "(adds, deletes, updates)" d d'] assms(2)
  by (auto split: option.split)

theorem DeviceTwinTrans_all_or_nothing_witness:
  "\<exists>d' e. retry RetryTimes (DeviceTwinTrans mini_orm
       [MsgTwinToDeviceTwin ''a'' empty_twin, MsgTwinToDeviceTwin ''b'' empty_twin] [] [])
       \<lparr>md_twins = [], md_snapshot = [], md_budget = 1\<rparr> = (d', Some e) \<and>
     same_tables mini_orm \<lparr>md_twins = [], md_snapshot = [], md_budget = 1\<rparr> d'"
proof -
  let ?d = "\<lparr>md_twins = [], md_snapshot = [], md_budget = 1\<rparr>"
  let ?f = "DeviceTwinTrans mini_orm [MsgTwinToDeviceTwin ''a'' empty_twin,
      MsgTwinToDeviceTwin ''b'' empty_twin] [] []"
  obtain d' e where r: "retry RetryTimes ?f ?d = (d', Some e)"
    by (simp add: eval_nat_numeral DeviceTwinTrans_def run_trans_def twin_trans_ops_def
        SaveDeviceTwin_def mini_orm_def mini_step_def)
  with DeviceTwinTrans_all_or_nothing [OF mini_orm_laws r] show ?thesis by auto
qed

end
