(* ===== verification/DtTwin.thy ===== *)
theory DtTwin
  imports DtDb
begin

text \<open>
  How a twin update is worked out (\<open>codes/edge/pkg/devicetwin/dtmanager/twin.go\<close>): the versions,
  the deletion, comparison and addition of one twin, and the loop over an update's twins. The
  twins are changed in place in the code; here each operation returns the changed twin beside the
  result that collects the database changes, the answer, the document and the message for the
  cloud. A nil pointer that the code dereferences is \<open>Panic\<close>.

  The code repeats each step for the expected and for the actual side of a twin; here a step is
  stated once over \<open>side\<close>. The time at which a twin is handled is an argument.
\<close>

section \<open>Constants and results\<close>

abbreviation RestDealType :: nat where "RestDealType \<equiv> 0"
abbreviation SyncDealType :: nat where "SyncDealType \<equiv> 1"
abbreviation DetailDealType :: nat where "DetailDealType \<equiv> 2"
abbreviation SyncTwinDeleteDealType :: nat where "SyncTwinDeleteDealType \<equiv> 3"

record DealTwinResult =
  dr_Add :: "db_DeviceTwin list"
  dr_Delete :: "DeviceDelete list"
  dr_Update :: "db_Update list"
  dr_Result :: "(string, MsgTwin option) fmap"
  dr_SyncResult :: "(string, MsgTwin) fmap"
  dr_Document :: "(string, TwinDoc) fmap"
  dr_Err :: go_error

section \<open>The two sides of a twin\<close>

datatype side = SideExpected | SideActual

fun side_val :: "side \<Rightarrow> MsgTwin \<Rightarrow> TwinValue option" where
  "side_val SideExpected t = Expected t"
| "side_val SideActual t = Actual t"

fun set_side_val :: "side \<Rightarrow> TwinValue option \<Rightarrow> MsgTwin \<Rightarrow> MsgTwin" where
  "set_side_val SideExpected v t = t\<lparr>Expected := v\<rparr>"
| "set_side_val SideActual v t = t\<lparr>Actual := v\<rparr>"

fun side_ver :: "side \<Rightarrow> MsgTwin \<Rightarrow> TwinVersion option" where
  "side_ver SideExpected t = ExpectedVersion t"
| "side_ver SideActual t = ActualVersion t"

fun set_side_ver :: "side \<Rightarrow> TwinVersion option \<Rightarrow> MsgTwin \<Rightarrow> MsgTwin" where
  "set_side_ver SideExpected v t = t\<lparr>ExpectedVersion := v\<rparr>"
| "set_side_ver SideActual v t = t\<lparr>ActualVersion := v\<rparr>"

fun col_val :: "side \<Rightarrow> string" where
  "col_val SideExpected = ''expected''"
| "col_val SideActual = ''actual''"

fun col_meta :: "side \<Rightarrow> string" where
  "col_meta SideExpected = ''expected_meta''"
| "col_meta SideActual = ''actual_meta''"

fun col_ver :: "side \<Rightarrow> string" where
  "col_ver SideExpected = ''expected_version''"
| "col_ver SideActual = ''actual_version''"

section \<open>Versions\<close>

definition dealVersion ::
  "TwinVersion \<Rightarrow> TwinVersion option \<Rightarrow> nat \<Rightarrow> TwinVersion \<times> bool \<times> go_error" where
  "dealVersion version reqVersion dealType =
     (if dealType = RestDealType
      then (version\<lparr>EdgeVersion := EdgeVersion version + 1\<rparr>, True, nil_error)
      else if dealType \<ge> SyncDealType
      then (case reqVersion of
              None \<Rightarrow>
                if dealType = SyncTwinDeleteDealType then (version, True, nil_error)
                else (version, False, Some ''version not allowed be nil while syncing'')
            | Some req \<Rightarrow>
                if sint (CloudVersion version) > sint (CloudVersion req)
                then (version, False, Some ''version not allowed'')
                else if sint (EdgeVersion version) > sint (EdgeVersion req)
                then (version, False, Some ''not allowed to sync due to version conflict'')
                else (\<lparr>CloudVersion = CloudVersion req, EdgeVersion = EdgeVersion req\<rparr>, True,
                      nil_error))
      else (version, True, nil_error))"

section \<open>Deletion\<close>

record del_acc =
  da_twin :: MsgTwin
  da_cols :: cols
  da_sync :: MsgTwin
  da_isChange :: bool

text \<open>One side of \<open>dealTwinDelete\<close>. The first component is true where the code returns at once,
  after a rejected version.\<close>

definition delete_side :: "side \<Rightarrow> MsgTwin option \<Rightarrow> nat \<Rightarrow> del_acc \<Rightarrow> bool \<times> del_acc" where
  "delete_side s msgTwin dealType a =
     (let twin = da_twin a
      in case side_ver s twin of
           None \<Rightarrow> (False, a\<lparr>da_twin := set_side_ver s (Some zero_version) twin\<rparr>)
         | Some version \<Rightarrow>
             let msgVersion = (if dealType \<noteq> RestDealType
                               then (case msgTwin of None \<Rightarrow> None | Some m \<Rightarrow> side_ver s m) else None);
                 (version', ok, _) = dealVersion version msgVersion dealType
             in if \<not> ok
                then (if dealType \<noteq> RestDealType
                      then (True, a\<lparr>da_sync := CopyMsgTwin twin False\<rparr>) else (False, a))
                else
                  let twin' = (set_side_ver s (Some version') (set_side_val s (Some empty_value) twin))
                                \<lparr>Metadata := Some \<lparr>tm_Type = TypeDeleted\<rparr>\<rparr>;
                      cols' = fmupd (col_val s) CNull (fmupd (col_meta s) CNull
                                (fmupd ''attr_type'' (CText TypeDeleted)
                                  (fmupd (col_ver s) (CVersion version') (da_cols a))))
                  in (False, \<lparr>da_twin = twin', da_cols = cols',
                              da_sync = (if dealType = RestDealType then CopyMsgTwin twin' False
                                         else da_sync a),
                              da_isChange = True\<rparr>))"

text \<open>The guard of \<open>dealTwinDelete\<close>.\<close>

definition delete_guard :: "MsgTwin \<Rightarrow> MsgTwin option \<Rightarrow> nat \<Rightarrow> bool go" where
  "delete_guard twin msgTwin dealType =
     (if dealType = RestDealType
      then (if msgTwin = None then Optional twin else Ret False)
      else case msgTwin of
             None \<Rightarrow> Panic
           | Some m \<Rightarrow> (case Metadata m of None \<Rightarrow> Panic | Some md \<Rightarrow> Ret (tm_Type md = TypeDeleted)))"

definition dealTwinDelete ::
  "DealTwinResult \<Rightarrow> string \<Rightarrow> string \<Rightarrow> MsgTwin \<Rightarrow> MsgTwin option \<Rightarrow> nat
     \<Rightarrow> (DealTwinResult \<times> MsgTwin) go" where
  "dealTwinDelete r deviceID key twin msgTwin dealType =
     (let doc = \<lparr>LastState = Some (CopyMsgTwin twin True), CurrentState = None\<rparr>;
          r1 = r\<lparr>dr_Document := fmupd key doc (dr_Document r),
                 dr_SyncResult := fmupd key empty_twin (dr_SyncResult r)\<rparr>;
          nothing = r1\<lparr>dr_Document := fmdrop key (dr_Document r1),
                       dr_SyncResult := fmdrop key (dr_SyncResult r1)\<rparr>;
          rejected = (\<lambda>a. Ret (r1\<lparr>dr_Document := fmdrop key (dr_Document r1),
                       dr_SyncResult := fmupd key (da_sync a) (dr_SyncResult r1)\<rparr>, da_twin a))
      in do {
        guard \<leftarrow> delete_guard twin msgTwin dealType;
        if \<not> guard then Ret (nothing, twin)
        else if type_deleted twin then Ret (r1, twin)
        else
          let dealType' = (if dealType \<noteq> RestDealType then SyncTwinDeleteDealType else dealType);
              (stop, a) = delete_side SideExpected msgTwin dealType'
                 \<lparr>da_twin = twin, da_cols = fmempty, da_sync = empty_twin, da_isChange = False\<rparr>
          in if stop then rejected a
             else
               let (stop', b) = delete_side SideActual msgTwin dealType' a
               in if stop' then rejected b
                  else if \<not> da_isChange b then Ret (nothing, da_twin b)
                  else
                    let r2 = r1\<lparr>dr_Update := dr_Update r1 @
                               [\<lparr>du_DeviceID = deviceID, du_Name = key, du_Cols = da_cols b\<rparr>]\<rparr>
                    in Ret (if dealType' = RestDealType
                            then r2\<lparr>dr_Result := fmupd key None (dr_Result r2),
                                    dr_SyncResult := fmupd key (da_sync b) (dr_SyncResult r2)\<rparr>
                            else r2\<lparr>dr_SyncResult := fmdrop key (dr_SyncResult r2)\<rparr>, da_twin b)
      })"

section \<open>Comparison\<close>

definition isTwinValueDiff ::
  "(string \<Rightarrow> bool) \<Rightarrow> MsgTwin \<Rightarrow> MsgTwin \<Rightarrow> side \<Rightarrow> (bool \<times> go_error) go" where
  "isTwinValueDiff pf twin msgTwin s =
     (let hasTwin = (s = SideActual \<or> Expected twin \<noteq> None)
      in case Metadata twin of
           None \<Rightarrow> Panic
         | Some md \<Rightarrow>
             let valueType =
                   (if tm_Type md = TypeDeleted
                    then (case Metadata msgTwin of None \<Rightarrow> stringType | Some mm \<Rightarrow> tm_Type mm)
                    else tm_Type md)
             in case side_val s msgTwin of
                  None \<Rightarrow> Ret (False, nil_error)
                | Some msgTwinValue \<Rightarrow>
                    if hasTwin
                    then (case tv_Value msgTwinValue of
                            None \<Rightarrow> Panic
                          | Some v \<Rightarrow>
                              (case ValidateValue pf valueType v of
                                 Some e \<Rightarrow> Ret (False, Some e)
                               | None \<Rightarrow> Ret (True, nil_error)))
                    else Ret (True, nil_error))"

record cmp_acc =
  ca_twin :: MsgTwin
  ca_cols :: cols
  ca_sync :: MsgTwin
  ca_isChange :: bool
  ca_isSyncAllow :: bool

text \<open>One side of \<open>dealTwinCompare\<close>; \<open>Inl\<close> is the early return with an error.\<close>

definition compare_side ::
  "(string \<Rightarrow> bool) \<Rightarrow> int \<Rightarrow> side \<Rightarrow> MsgTwin \<Rightarrow> nat \<Rightarrow> cmp_acc \<Rightarrow> (string \<times> cmp_acc + cmp_acc) go" where
  "compare_side pf now s msgTwin dealType a =
     do {
       (valueOk, valueErr) \<leftarrow> isTwinValueDiff pf (ca_twin a) msgTwin s;
       if valueOk \<and> ca_isSyncAllow a
       then
         (let version = (case side_ver s (ca_twin a) of None \<Rightarrow> zero_version | Some v \<Rightarrow> v);
              twin = set_side_ver s (Some version) (ca_twin a);
              value = (case side_val s msgTwin of None \<Rightarrow> None | Some v \<Rightarrow> tv_Value v);
              msgVersion = (if dealType \<noteq> RestDealType then side_ver s msgTwin else None);
              (version', ok, err) = dealVersion version msgVersion dealType
          in if \<not> ok
             then (if dealType \<noteq> RestDealType
                   then do {
                     cur \<leftarrow> side_val s twin;
                     opt \<leftarrow> Optional twin;
                     Ret (Inr (a\<lparr>ca_twin := twin,
                       ca_sync := (set_side_ver s (Some version) (set_side_val s (Some cur) (ca_sync a)))
                         \<lparr>Optional := Some opt, Metadata := Metadata twin\<rparr>,
                       ca_isSyncAllow := False\<rparr>))
                   }
                   else Ret (Inl (the err, a\<lparr>ca_twin := twin\<rparr>)))
             else
               let meta = \<lparr>vm_Timestamp = now\<rparr>;
                   newval = Some \<lparr>tv_Value = value, tv_Metadata = Some meta\<rparr>;
                   twin' = set_side_ver s (Some version') (set_side_val s newval twin);
                   cols' = fmupd (col_ver s) (CVersion version')
                             (fmupd (col_meta s) (CValueMeta meta)
                               (fmupd (col_val s) (CPtr value) (ca_cols a)))
               in if dealType = RestDealType
                  then do {
                    opt \<leftarrow> Optional twin';
                    Ret (Inr (a\<lparr>ca_twin := twin', ca_cols := cols',
                      ca_sync := (set_side_ver s (Some version') (set_side_val s newval (ca_sync a)))
                        \<lparr>Optional := Some opt, Metadata := Metadata twin'\<rparr>,
                      ca_isChange := True\<rparr>))
                  }
                  else Ret (Inr (a\<lparr>ca_twin := twin', ca_cols := cols', ca_isChange := True\<rparr>)))
       else if valueErr \<noteq> nil_error \<and> dealType = RestDealType then Ret (Inl (the valueErr, a))
       else Ret (Inr a)
     }"

text \<open>The optional flag and the metadata in \<open>dealTwinCompare\<close>, when the sync is allowed.\<close>

definition compare_optional :: "MsgTwin \<Rightarrow> cmp_acc \<Rightarrow> cmp_acc go" where
  "compare_optional msgTwin a =
     (case Optional msgTwin of
        None \<Rightarrow> Ret a
      | Some mo \<Rightarrow>
          do {
            opt \<leftarrow> Optional (ca_twin a);
            Ret (if mo \<noteq> opt \<and> opt
                 then a\<lparr>ca_cols := fmupd ''optional'' (CBool mo) (ca_cols a),
                        ca_twin := (ca_twin a)\<lparr>Optional := Some mo\<rparr>,
                        ca_sync := (ca_sync a)\<lparr>Optional := Some mo\<rparr>,
                        ca_isChange := True\<rparr>
                 else a)
          })"

definition compare_metadata :: "MsgTwin \<Rightarrow> cmp_acc \<Rightarrow> cmp_acc" where
  "compare_metadata msgTwin a =
     (case Metadata msgTwin of
        Some mm \<Rightarrow>
          if Metadata (ca_twin a) \<noteq> Some mm
          then
            let cols' = fmupd ''metadata'' (CTypeMeta \<lparr>tm_Type = []\<rparr>) (ca_cols a)
            in if type_deleted (ca_twin a)
               then a\<lparr>ca_cols := fmupd ''attr_type'' (CText (tm_Type mm)) cols',
                      ca_twin := (ca_twin a)\<lparr>Metadata := Some mm\<rparr>,
                      ca_sync := (ca_sync a)\<lparr>Metadata := Some mm\<rparr>,
                      ca_isChange := True\<rparr>
               else a\<lparr>ca_cols := cols', ca_isChange := True\<rparr>
          else a
      | None \<Rightarrow>
          if type_deleted (ca_twin a)
          then a\<lparr>ca_cols := fmupd ''attr_type'' (CText stringType) (ca_cols a),
                 ca_twin := (ca_twin a)\<lparr>Metadata := Some \<lparr>tm_Type = stringType\<rparr>\<rparr>,
                 ca_sync := (ca_sync a)\<lparr>Metadata := Some \<lparr>tm_Type = stringType\<rparr>\<rparr>,
                 ca_isChange := True\<rparr>
          else a)"

text \<open>What \<open>dealTwinCompare\<close> leaves in the result once the twin is worked out.\<close>

definition compare_finish ::
  "DealTwinResult \<Rightarrow> string \<Rightarrow> string \<Rightarrow> TwinDoc \<Rightarrow> nat \<Rightarrow> cmp_acc \<Rightarrow> DealTwinResult" where
  "compare_finish r deviceID key doc dealType a =
     (let keep_sync = fmupd key (ca_sync a) (dr_SyncResult r);
          drop_sync = fmdrop key (dr_SyncResult r)
      in if ca_isChange a
         then
           let r1 = r\<lparr>dr_Update := dr_Update r @
                        [\<lparr>du_DeviceID = deviceID, du_Name = key, du_Cols = ca_cols a\<rparr>],
                      dr_Document := fmupd key
                        (doc\<lparr>CurrentState := Some (CopyMsgTwin (ca_twin a) True)\<rparr>) (dr_Document r)\<rparr>
           in if dealType = RestDealType
              then r1\<lparr>dr_Result := fmupd key (Some (CopyMsgTwin (ca_sync a) True)) (dr_Result r1),
                      dr_SyncResult := keep_sync\<rparr>
              else r1\<lparr>dr_SyncResult := (if \<not> ca_isSyncAllow a then keep_sync else drop_sync)\<rparr>
         else
           r\<lparr>dr_Document := fmdrop key (dr_Document r),
             dr_SyncResult := (if dealType \<noteq> RestDealType \<and> \<not> ca_isSyncAllow a then keep_sync
                               else drop_sync)\<rparr>)"

text \<open>The result is the collected result, the twin, and the error that stops the loop.\<close>

definition dealTwinCompare ::
  "(string \<Rightarrow> bool) \<Rightarrow> int \<Rightarrow> DealTwinResult \<Rightarrow> string \<Rightarrow> string \<Rightarrow> MsgTwin \<Rightarrow> MsgTwin option \<Rightarrow> nat
     \<Rightarrow> (DealTwinResult \<times> MsgTwin \<times> go_error) go" where
  "dealTwinCompare pf now r deviceID key twin msgTwin dealType =
     (case Metadata twin of
        None \<Rightarrow> Panic
      | Some md \<Rightarrow>
          let doc = \<lparr>LastState = (if tm_Type md = TypeDeleted then None
                                  else Some (CopyMsgTwin twin True)), CurrentState = None\<rparr>;
              r1 = r\<lparr>dr_Document := fmupd key doc (dr_Document r),
                     dr_SyncResult := fmupd key empty_twin (dr_SyncResult r)\<rparr>;
              failed = (\<lambda>e a. Ret (r1\<lparr>dr_Err := Some e,
                     dr_SyncResult := fmupd key (ca_sync a) (dr_SyncResult r1)\<rparr>, ca_twin a, Some e))
          in case msgTwin of
               None \<Rightarrow> Ret (r1, twin, nil_error)
             | Some m \<Rightarrow>
                 do {
                   res1 \<leftarrow> compare_side pf now SideExpected m dealType
                     \<lparr>ca_twin = twin, ca_cols = fmempty, ca_sync = empty_twin,
                      ca_isChange = False, ca_isSyncAllow = True\<rparr>;
                   (case res1 of
                      Inl (e, a) \<Rightarrow> failed e a
                    | Inr a \<Rightarrow>
                        do {
                          res2 \<leftarrow> compare_side pf now SideActual m dealType a;
                          (case res2 of
                             Inl (e, b) \<Rightarrow> failed e b
                           | Inr b \<Rightarrow>
                               if ca_isSyncAllow b
                               then do {
                                 c \<leftarrow> compare_optional m b;
                                 let d = compare_metadata m c
                                 in Ret (compare_finish r1 deviceID key doc dealType d, ca_twin d,
                                         nil_error)
                               }
                               else Ret (compare_finish r1 deviceID key doc dealType b, ca_twin b,
                                         nil_error))
                        })
                 })"

section \<open>Addition\<close>

fun set_row_side ::
  "side \<Rightarrow> string \<Rightarrow> ValueMetadata \<Rightarrow> TwinVersion \<Rightarrow> db_DeviceTwin \<Rightarrow> db_DeviceTwin" where
  "set_row_side SideExpected v m ver row =
     row\<lparr>dbt_ExpectedMeta := Some m, dbt_ExpectedVersion := Some ver, dbt_Expected := v\<rparr>"
| "set_row_side SideActual v m ver row =
     row\<lparr>dbt_ActualMeta := Some m, dbt_ActualVersion := Some ver, dbt_Actual := v\<rparr>"

datatype add_side_result = AddRow db_DeviceTwin | AddRejected string | AddInvalid string

text \<open>One side of \<open>dealTwinAdd\<close>: the row goes on, or the version is rejected, or the value is
  not valid.\<close>

definition add_side ::
  "(string \<Rightarrow> bool) \<Rightarrow> int \<Rightarrow> side \<Rightarrow> MsgTwin \<Rightarrow> nat \<Rightarrow> db_DeviceTwin \<Rightarrow> add_side_result go" where
  "add_side pf now s msgTwin dealType row =
     (case side_val s msgTwin of
        None \<Rightarrow> Ret (AddRow row)
      | Some tv \<Rightarrow>
          let msgVersion = (if dealType \<noteq> RestDealType then side_ver s msgTwin else None);
              (version, ok, err) = dealVersion zero_version msgVersion dealType
          in if \<not> ok then Ret (AddRejected (the err))
             else
               let valueType = (case Metadata msgTwin of None \<Rightarrow> stringType | Some m \<Rightarrow> tm_Type m)
               in case tv_Value tv of
                    None \<Rightarrow> Panic
                  | Some v \<Rightarrow>
                      (case ValidateValue pf valueType v of
                         Some e \<Rightarrow> Ret (AddInvalid e)
                       | None \<Rightarrow> Ret (AddRow (set_row_side s v \<lparr>vm_Timestamp = now\<rparr> version row))))"

text \<open>The row before the two sides: the versions of a deleted twin that is synced.\<close>

definition add_row ::
  "string \<Rightarrow> string \<Rightarrow> MsgTwin \<Rightarrow> nat \<Rightarrow> db_DeviceTwin go" where
  "add_row deviceID key msgTwin dealType =
     (let row = (MsgTwinToDeviceTwin key msgTwin)\<lparr>dbt_DeviceID := deviceID\<rparr>
      in if dealType = RestDealType then Ret row
         else case Metadata msgTwin of
                None \<Rightarrow> Panic
              | Some m \<Rightarrow>
                  if tm_Type m = TypeDeleted
                  then Ret (row\<lparr>dbt_ExpectedVersion := ExpectedVersion msgTwin,
                                dbt_ActualVersion := ActualVersion msgTwin\<rparr>)
                  else Ret row)"

text \<open>The result is the collected result, the new twin if there is one, and the error that stops
  the loop.\<close>

definition dealTwinAdd ::
  "(string \<Rightarrow> bool) \<Rightarrow> int \<Rightarrow> DealTwinResult \<Rightarrow> string \<Rightarrow> string \<Rightarrow> MsgTwin option \<Rightarrow> nat
     \<Rightarrow> (DealTwinResult \<times> MsgTwin option \<times> go_error) go" where
  "dealTwinAdd pf now r deviceID key msgTwin dealType =
     (let doc = \<lparr>LastState = None, CurrentState = None\<rparr>;
          r0 = r\<lparr>dr_Document := fmupd key doc (dr_Document r)\<rparr>
      in case msgTwin of
           None \<Rightarrow> Ret (r0, None, Some ''the request body is wrong'')
         | Some m \<Rightarrow>
             let r1 = r0\<lparr>dr_SyncResult := fmupd key empty_twin (dr_SyncResult r0)\<rparr>;
                 cleaned = r1\<lparr>dr_Document := fmdrop key (dr_Document r1),
                              dr_SyncResult := fmdrop key (dr_SyncResult r1)\<rparr>;
                 rejected = (\<lambda>e. Ret (if dealType = RestDealType
                              then (r1\<lparr>dr_Err := Some e\<rparr>, None, Some e)
                              else (r1, None, nil_error)));
                 invalid = (\<lambda>e. Ret (if dealType = RestDealType
                              then (cleaned\<lparr>dr_Err := Some e\<rparr>, None, Some e)
                              else (cleaned, None, nil_error)))
             in do {
               row \<leftarrow> add_row deviceID key m dealType;
               res1 \<leftarrow> add_side pf now SideExpected m dealType row;
               (case res1 of
                  AddRejected e \<Rightarrow> rejected e
                | AddInvalid e \<Rightarrow> invalid e
                | AddRow row1 \<Rightarrow>
                    do {
                      res2 \<leftarrow> add_side pf now SideActual m dealType row1;
                      (case res2 of
                         AddRejected e \<Rightarrow> rejected e
                       | AddInvalid e \<Rightarrow> invalid e
                       | AddRow row2 \<Rightarrow>
                           let row3 = row2\<lparr>dbt_Optional := (case Optional m of None \<Rightarrow> True | Some b \<Rightarrow> b),
                                 dbt_AttrType := (case Metadata m of None \<Rightarrow> stringType | Some mm \<Rightarrow> tm_Type mm),
                                 dbt_Metadata := (case Metadata m of None \<Rightarrow> dbt_Metadata row2
                                                  | Some mm \<Rightarrow> Some \<lparr>tm_Type = []\<rparr>)\<rparr>;
                               twin = msg_of_twin row3;
                               r2 = r1\<lparr>dr_Add := dr_Add r1 @ [row3],
                                 dr_Document := fmupd key \<lparr>LastState = None, CurrentState =
                                   (if type_deleted twin then None else Some (CopyMsgTwin twin True))\<rparr>
                                   (dr_Document r1)\<rparr>
                           in Ret (if dealType = RestDealType
                                   then (r2\<lparr>dr_Result := fmupd key (Some (CopyMsgTwin twin True)) (dr_Result r2),
                                            dr_SyncResult := fmupd key twin (dr_SyncResult r2)\<rparr>,
                                         Some twin, nil_error)
                                   else (r2\<lparr>dr_SyncResult := fmdrop key (dr_SyncResult r2)\<rparr>,
                                         Some twin, nil_error)))
                    })
             })"

section \<open>The loop over an update\<close>

definition empty_result :: DealTwinResult where
  "empty_result = \<lparr>dr_Add = [], dr_Delete = [], dr_Update = [], dr_Result = fmempty,
     dr_SyncResult = fmempty, dr_Document = fmempty, dr_Err = nil_error\<rparr>"

text \<open>Whether the loop takes the deletion for a twin that exists.\<close>

definition is_delete_request :: "MsgTwin option \<Rightarrow> nat \<Rightarrow> bool go" where
  "is_delete_request msgTwin dealType =
     (if dealType = RestDealType then Ret (msgTwin = None)
      else case msgTwin of
             None \<Rightarrow> Panic
           | Some m \<Rightarrow> (case Metadata m of None \<Rightarrow> Panic | Some md \<Rightarrow> Ret (tm_Type md = TypeDeleted)))"

text \<open>One turn of the loop: the collected result, the twins of the device, the error.\<close>

definition deal_one ::
  "(string \<Rightarrow> bool) \<Rightarrow> (string \<Rightarrow> int) \<Rightarrow> string \<Rightarrow> nat \<Rightarrow> string \<times> MsgTwin option
     \<Rightarrow> DealTwinResult \<times> (string, MsgTwin) fmap
     \<Rightarrow> (DealTwinResult \<times> (string, MsgTwin) fmap \<times> go_error) go" where
  "deal_one pf now deviceID dealType km st =
     (let (key, msgTwin) = km; (r, twins) = st
      in case fmlookup twins key of
           Some twin \<Rightarrow>
             do {
               del \<leftarrow> is_delete_request msgTwin dealType;
               if del
               then do {
                 (r', twin') \<leftarrow> dealTwinDelete r deviceID key twin msgTwin dealType;
                 Ret (r', fmupd key twin' twins, nil_error)
               }
               else do {
                 (r', twin', err) \<leftarrow> dealTwinCompare pf (now key) r deviceID key twin msgTwin dealType;
                 Ret (r', fmupd key twin' twins, err)
               }
             }
         | None \<Rightarrow>
             do {
               (r', twin', err) \<leftarrow> dealTwinAdd pf (now key) r deviceID key msgTwin dealType;
               Ret (r', (case twin' of None \<Rightarrow> twins | Some t \<Rightarrow> fmupd key t twins), err)
             })"

fun deal_all ::
  "(string \<Rightarrow> bool) \<Rightarrow> (string \<Rightarrow> int) \<Rightarrow> string \<Rightarrow> nat \<Rightarrow> (string \<times> MsgTwin option) list
     \<Rightarrow> DealTwinResult \<times> (string, MsgTwin) fmap \<Rightarrow> (DealTwinResult \<times> (string, MsgTwin) fmap) go" where
  "deal_all pf now deviceID dealType [] st = Ret st"
| "deal_all pf now deviceID dealType (km # kms) st =
     do {
       (r, twins, err) \<leftarrow> deal_one pf now deviceID dealType km st;
       if err \<noteq> nil_error then Ret (r, twins)
       else deal_all pf now deviceID dealType kms (r, twins)
     }"

text \<open>\<open>DealMsgTwin\<close>, on the device list of the context; \<open>device.Twin\<close> is changed in place.\<close>

definition DealMsgTwin ::
  "(string \<Rightarrow> bool) \<Rightarrow> (string \<Rightarrow> int) \<Rightarrow> (string, Device) fmap \<Rightarrow> string
     \<Rightarrow> (string \<times> MsgTwin option) list \<Rightarrow> nat \<Rightarrow> (DealTwinResult \<times> (string, Device) fmap) go" where
  "DealMsgTwin pf now devices deviceID msgTwins dealType =
     (case fmlookup devices deviceID of
        None \<Rightarrow> Ret (empty_result\<lparr>dr_Err := Some ''invalid device id''\<rparr>, devices)
      | Some device \<Rightarrow>
          do {
            (r, twins) \<leftarrow> deal_all pf now deviceID dealType msgTwins (empty_result, dev_Twin device);
            Ret (r, fmupd deviceID (device\<lparr>dev_Twin := twins\<rparr>) devices)
          })"

section \<open>Laws of the two sides\<close>

text \<open>A side of a twin is a pair of fields that can be read and set independently of the other
  side; the locale states this once, and what the steps above need of it.\<close>

locale twin_side =
  fixes val :: "MsgTwin \<Rightarrow> TwinValue option"
    and setval :: "TwinValue option \<Rightarrow> MsgTwin \<Rightarrow> MsgTwin"
    and ver :: "MsgTwin \<Rightarrow> TwinVersion option"
    and setver :: "TwinVersion option \<Rightarrow> MsgTwin \<Rightarrow> MsgTwin"
    and oval :: "MsgTwin \<Rightarrow> TwinValue option"
    and over :: "MsgTwin \<Rightarrow> TwinVersion option"
  assumes val_set: "val (setval v t) = v" "val (setver w t) = val t"
    and ver_set: "ver (setver w t) = w" "ver (setval v t) = ver t"
    and other: "oval (setval v t) = oval t" "oval (setver w t) = oval t"
      "over (setval v t) = over t" "over (setver w t) = over t"
    and rest: "Optional (setval v t) = Optional t" "Optional (setver w t) = Optional t"
      "Metadata (setval v t) = Metadata t" "Metadata (setver w t) = Metadata t"
    and meta: "val (t\<lparr>Metadata := m\<rparr>) = val t" "ver (t\<lparr>Metadata := m\<rparr>) = ver t"
      "val (t\<lparr>Optional := b\<rparr>) = val t" "ver (t\<lparr>Optional := b\<rparr>) = ver t"
begin

lemma set_both:
  "val (setver w (setval v t)) = v" "ver (setver w (setval v t)) = w"
  "oval (setver w (setval v t)) = oval t" "over (setver w (setval v t)) = over t"
  "Optional (setver w (setval v t)) = Optional t" "Metadata (setver w (setval v t)) = Metadata t"
  by (simp_all add: val_set ver_set other rest)

end

interpretation expected_side: twin_side "side_val SideExpected" "set_side_val SideExpected"
  "side_ver SideExpected" "set_side_ver SideExpected" "side_val SideActual" "side_ver SideActual"
  by unfold_locales simp_all

interpretation actual_side: twin_side "side_val SideActual" "set_side_val SideActual"
  "side_ver SideActual" "set_side_ver SideActual" "side_val SideExpected" "side_ver SideExpected"
  by unfold_locales simp_all

lemma side_ver_set [simp]:
  "side_ver s (set_side_ver s' v t) = (if s = s' then v else side_ver s t)"
  "side_ver s (set_side_val s' w t) = side_ver s t"
  "side_val s (set_side_val s' w t) = (if s = s' then w else side_val s t)"
  "side_val s (set_side_ver s' v t) = side_val s t"
  "side_ver s (t\<lparr>Metadata := m\<rparr>) = side_ver s t" "side_ver s (t\<lparr>Optional := b\<rparr>) = side_ver s t"
  "side_val s (t\<lparr>Metadata := m\<rparr>) = side_val s t" "side_val s (t\<lparr>Optional := b\<rparr>) = side_val s t"
  "Metadata (set_side_ver s v t) = Metadata t" "Metadata (set_side_val s w t) = Metadata t"
  "Optional (set_side_ver s v t) = Optional t" "Optional (set_side_val s w t) = Optional t"
  by (cases s; cases s'; simp)+

section \<open>Versions never go back\<close>

definition ver_le :: "TwinVersion \<Rightarrow> TwinVersion \<Rightarrow> bool" where
  "ver_le v w \<longleftrightarrow> sint (CloudVersion v) \<le> sint (CloudVersion w) \<and>
     sint (EdgeVersion v) \<le> sint (EdgeVersion w)"

definition twin_le :: "MsgTwin \<Rightarrow> MsgTwin \<Rightarrow> bool" where
  "twin_le t t' \<longleftrightarrow> (\<forall>s v. side_ver s t = Some v \<longrightarrow> (\<exists>w. side_ver s t' = Some w \<and> ver_le v w))"

lemma ver_le_refl [simp]: "ver_le v v"
  by (simp add: ver_le_def)

lemma ver_le_trans: "ver_le u v \<Longrightarrow> ver_le v w \<Longrightarrow> ver_le u w"
  by (auto simp: ver_le_def)

lemma twin_le_refl [simp]: "twin_le t t"
  by (auto simp: twin_le_def)

lemma twin_le_trans: "twin_le t u \<Longrightarrow> twin_le u v \<Longrightarrow> twin_le t v"
  unfolding twin_le_def by (meson ver_le_trans)

lemma twin_le_same_versions: "(\<And>s. side_ver s t' = side_ver s t) \<Longrightarrow> twin_le t t'"
  by (auto simp: twin_le_def)

lemma twin_le_one_side:
  assumes "\<And>s'. s' \<noteq> s \<Longrightarrow> side_ver s' t' = side_ver s' t"
    and "\<And>v. side_ver s t = Some v \<Longrightarrow> \<exists>w. side_ver s t' = Some w \<and> ver_le v w"
  shows "twin_le t t'"
  unfolding twin_le_def using assms by (metis ver_le_refl)

lemma dealVersion_cases:
  assumes "dealVersion version req dealType = (version', ok, err)"
  shows "(ok = (err = nil_error)) \<and> (\<not> ok \<longrightarrow> version' = version) \<and>
    (dealType \<noteq> RestDealType \<longrightarrow> ver_le version version') \<and>
    (dealType = RestDealType \<longrightarrow> ok)"
  using assms by (auto simp: dealVersion_def ver_le_def split: if_splits option.splits)

lemma delete_side_le:
  assumes "dealType \<noteq> RestDealType" and "delete_side s msgTwin dealType a = (stop, b)"
  shows "twin_le (da_twin a) (da_twin b)"
proof (cases "side_ver s (da_twin a)")
  case None
  with assms show ?thesis
    by (auto simp: delete_side_def intro!: twin_le_one_side [of s])
next
  case (Some version)
  obtain version' ok err where d: "dealVersion version (case msgTwin of None \<Rightarrow> None
      | Some m \<Rightarrow> side_ver s m) dealType = (version', ok, err)"
    by (metis prod_cases3)
  with dealVersion_cases [OF d] Some assms show ?thesis
    by (auto simp: delete_side_def Let_def intro!: twin_le_one_side [of s] split: if_splits)
qed

lemma dealTwinDelete_le:
  assumes "dealType \<noteq> RestDealType"
    and "dealTwinDelete r deviceID key twin msgTwin dealType = Ret (r', twin')"
  shows "twin_le twin twin'"
proof -
  let ?a = "\<lparr>da_twin = twin, da_cols = fmempty, da_sync = empty_twin, da_isChange = False\<rparr>"
  obtain s1 a where 1: "delete_side SideExpected msgTwin 3 ?a = (s1, a)" by force
  obtain s2 b where 2: "delete_side SideActual msgTwin 3 a = (s2, b)" by force
  have "twin_le twin (da_twin a)" using delete_side_le [OF _ 1] by simp
  moreover have "twin_le (da_twin a) (da_twin b)" using delete_side_le [OF _ 2] by simp
  ultimately show ?thesis
    using assms 1 2 twin_le_trans [of twin "da_twin a" "da_twin b"]
    by (auto simp: dealTwinDelete_def Let_def bind_eq_Some_go split: if_splits)
qed

lemma compare_side_le:
  assumes "dealType \<noteq> RestDealType" and "compare_side pf now s m dealType a = Ret res"
    and "res = Inr b \<or> res = Inl (e, b)"
  shows "twin_le (ca_twin a) (ca_twin b)"
proof -
  let ?v = "case side_ver s (ca_twin a) of None \<Rightarrow> zero_version | Some v \<Rightarrow> v"
  obtain version' ok err where d: "dealVersion ?v (side_ver s m) dealType = (version', ok, err)"
    by (metis prod_cases3)
  have "ver_le ?v version'" using dealVersion_cases [OF d] assms(1) by simp
  with assms d show ?thesis
    by (auto simp: compare_side_def bind_eq_Some_go Let_def split: if_splits option.splits
        intro!: twin_le_one_side [of s])
qed

lemma compare_optional_ver:
  "compare_optional m a = Ret b \<Longrightarrow> side_ver s (ca_twin b) = side_ver s (ca_twin a)"
  by (auto simp: compare_optional_def bind_eq_Some_go split: option.splits)

lemma compare_metadata_ver [simp]: "side_ver s (ca_twin (compare_metadata m a)) = side_ver s (ca_twin a)"
  by (auto simp: compare_metadata_def Let_def split: option.split)

lemma dealTwinCompare_le:
  assumes "dealType \<noteq> RestDealType"
    and "dealTwinCompare pf now r deviceID key twin msgTwin dealType = Ret (r', twin', err)"
  shows "twin_le twin twin'"
proof (cases msgTwin)
  case None
  with assms(2) show ?thesis by (auto simp: dealTwinCompare_def Let_def split: option.splits)
next
  case (Some m)
  let ?a = "\<lparr>ca_twin = twin, ca_cols = fmempty, ca_sync = empty_twin, ca_isChange = False,
    ca_isSyncAllow = True\<rparr>"
  from assms(2) Some obtain res1
    where 1: "compare_side pf now SideExpected m dealType ?a = Ret res1"
    by (auto simp: dealTwinCompare_def Let_def bind_eq_Some_go split: option.splits)
  show ?thesis
  proof (cases res1)
    case (Inl ea)
    with assms(2) Some 1 compare_side_le [OF assms(1) 1] show ?thesis
      by (auto simp: dealTwinCompare_def Let_def split: option.splits prod.splits)
  next
    case (Inr a)
    then have le1: "twin_le twin (ca_twin a)" using compare_side_le [OF assms(1) 1] by auto
    from assms(2) Some 1 Inr obtain res2
      where 2: "compare_side pf now SideActual m dealType a = Ret res2"
      by (auto simp: dealTwinCompare_def Let_def bind_eq_Some_go split: option.splits)
    obtain b e where b: "res2 = Inr b \<or> res2 = Inl (e, b)" by (cases res2) auto
    have le2: "twin_le (ca_twin a) (ca_twin b)" using compare_side_le [OF assms(1) 2 b] .
    have "twin_le (ca_twin b) twin'"
      using assms(2) Some 1 Inr 2 b compare_optional_ver
      by (auto simp: dealTwinCompare_def Let_def bind_eq_Some_go split: option.splits if_splits
          intro!: twin_le_same_versions)
    with le1 le2 show ?thesis by (blast intro: twin_le_trans)
  qed
qed

definition twins_le :: "(string, MsgTwin) fmap \<Rightarrow> (string, MsgTwin) fmap \<Rightarrow> bool" where
  "twins_le ts ts' \<longleftrightarrow> (\<forall>k t. fmlookup ts k = Some t \<longrightarrow> (\<exists>t'. fmlookup ts' k = Some t' \<and> twin_le t t'))"

lemma deal_one_le:
  assumes "dealType \<noteq> RestDealType"
    and "deal_one pf now deviceID dealType (key, m) (r, ts) = Ret (r', ts', err)"
  shows "twins_le ts ts'"
proof (cases "fmlookup ts key")
  case None
  with assms(2) show ?thesis
    by (auto simp: deal_one_def bind_eq_Some_go twins_le_def split: option.splits)
next
  case (Some twin)
  with assms(2) obtain del where del: "is_delete_request m dealType = Ret del"
    by (auto simp: deal_one_def bind_eq_Some_go)
  obtain twin' where u: "ts' = fmupd key twin' ts"
    and "dealTwinDelete r deviceID key twin m dealType = Ret (r', twin') \<or>
      dealTwinCompare pf (now key) r deviceID key twin m dealType = Ret (r', twin', err)"
    using assms(2) Some del
    by (cases del) (auto simp: deal_one_def bind_eq_Some_go)
  then have "twin_le twin twin'"
    using dealTwinDelete_le [OF assms(1)] dealTwinCompare_le [OF assms(1)] by blast
  with Some u show ?thesis by (auto simp: twins_le_def)
qed

lemma deal_all_le:
  assumes "dealType \<noteq> RestDealType"
    and "deal_all pf now deviceID dealType kms (r, ts) = Ret (r', ts')"
  shows "twins_le ts ts'"
  using assms(2)
proof (induction kms arbitrary: r ts)
  case Nil
  then show ?case by (auto simp: twins_le_def)
next
  case (Cons km kms)
  obtain key m where km: "km = (key, m)" by force
  from Cons.prems obtain r1 ts1 err
    where 1: "deal_one pf now deviceID dealType km (r, ts) = Ret (r1, ts1, err)"
      and 2: "(if err \<noteq> nil_error then Ret (r1, ts1)
               else deal_all pf now deviceID dealType kms (r1, ts1)) = Ret (r', ts')"
    by (auto simp: bind_eq_Some_go)
  have "twins_le ts ts1" using deal_one_le [OF assms(1)] 1 km by blast
  moreover have "twins_le ts1 ts'"
    using 2 Cons.IH by (auto simp: twins_le_def split: if_splits)
  ultimately show ?case unfolding twins_le_def by (meson twin_le_trans)
qed


lemmas deal_eval = DealMsgTwin_def deal_one_def is_delete_request_def dealTwinCompare_def
  compare_side_def isTwinValueDiff_def dealVersion_def compare_optional_def compare_metadata_def
  compare_finish_def type_deleted_def ValidateValue_def CopyMsgTwin_def empty_result_def Let_def

definition demo_twin :: "string \<Rightarrow> int64 \<Rightarrow> int64 \<Rightarrow> MsgTwin" where
  "demo_twin v cloud edge = \<lparr>Expected = Some \<lparr>tv_Value = Some v, tv_Metadata = None\<rparr>, Actual = None,
     Optional = Some True, Metadata = Some \<lparr>tm_Type = ''string''\<rparr>,
     ExpectedVersion = Some \<lparr>CloudVersion = cloud, EdgeVersion = edge\<rparr>, ActualVersion = None\<rparr>"

definition demo_device :: Device where
  "demo_device = \<lparr>dev_ID = ''d1'', dev_Name = ''sensor'', dev_Description = [], dev_State = ''online'',
     dev_LastOnline = [], dev_Attributes = fmempty,
     dev_Twin = fmupd ''temp'' (demo_twin ''20'' 1 1) fmempty\<rparr>"


section \<open>Well-formed twins and requests that cannot crash\<close>

text \<open>The twins of the context have an optional flag and metadata; a request has a value on every
  side it mentions.\<close>

definition twin_wf :: "MsgTwin \<Rightarrow> bool" where
  "twin_wf t \<longleftrightarrow> Optional t \<noteq> None \<and> Metadata t \<noteq> None"

definition request_ok :: "MsgTwin option \<Rightarrow> bool" where
  "request_ok m \<longleftrightarrow> (case m of None \<Rightarrow> True
     | Some t \<Rightarrow> \<forall>s tv. side_val s t = Some tv \<longrightarrow> tv_Value tv \<noteq> None)"

lemma request_value: "request_ok (Some m) \<Longrightarrow> side_val s m = Some tv \<Longrightarrow> \<exists>v. tv_Value tv = Some v"
  by (auto simp: request_ok_def)

lemma delete_side_rest:
  "delete_side s m RestDealType a = (stop, b) \<Longrightarrow> twin_wf (da_twin a) \<Longrightarrow> \<not> stop \<and> twin_wf (da_twin b)"
  by (auto simp: delete_side_def dealVersion_def twin_wf_def Let_def split: option.splits)

lemma dealTwinDelete_rest:
  assumes "twin_wf twin"
  shows "\<exists>r' twin'. dealTwinDelete r deviceID key twin None RestDealType = Ret (r', twin') \<and>
    twin_wf twin' \<and> dr_Err r' = dr_Err r"
proof -
  let ?a = "\<lparr>da_twin = twin, da_cols = fmempty, da_sync = empty_twin, da_isChange = False\<rparr>"
  obtain s1 a where 1: "delete_side SideExpected None RestDealType ?a = (s1, a)" by force
  obtain s2 b where 2: "delete_side SideActual None RestDealType a = (s2, b)" by force
  have "\<not> s1 \<and> twin_wf (da_twin a)" using delete_side_rest [OF 1] assms by simp
  with delete_side_rest [OF 2] have "\<not> s2 \<and> twin_wf (da_twin b)" by simp
  with \<open>\<not> s1 \<and> _\<close> 1 2 assms show ?thesis
    by (auto simp: dealTwinDelete_def delete_guard_def Let_def twin_wf_def)
qed

lemma isTwinValueDiff_total:
  "twin_wf twin \<Longrightarrow> request_ok (Some m) \<Longrightarrow> \<exists>ok err. isTwinValueDiff pf twin m s = Ret (ok, err)"
  by (auto simp: isTwinValueDiff_def twin_wf_def Let_def split: option.split
      dest: request_value request_value [where s = SideActual, simplified])

lemma compare_side_rest:
  assumes "twin_wf (ca_twin a)" and "request_ok (Some m)" and "ca_isSyncAllow a"
  shows "\<exists>res. compare_side pf now s m RestDealType a = Ret res \<and>
    (case res of Inl (e, b) \<Rightarrow> twin_wf (ca_twin b) | Inr b \<Rightarrow> twin_wf (ca_twin b) \<and> ca_isSyncAllow b)"
proof -
  obtain ok err where d: "isTwinValueDiff pf (ca_twin a) m s = Ret (ok, err)"
    using isTwinValueDiff_total [OF assms(1,2)] by blast
  obtain opt where "Optional (ca_twin a) = Some opt" using assms(1) by (auto simp: twin_wf_def)
  with d assms show ?thesis
    by (auto simp: compare_side_def dealVersion_def twin_wf_def Let_def)
qed

lemma compare_optional_wf:
  "twin_wf (ca_twin a) \<Longrightarrow> \<exists>b. compare_optional m a = Ret b \<and> twin_wf (ca_twin b)"
  by (auto simp: compare_optional_def twin_wf_def split: option.split)

lemma compare_metadata_wf: "twin_wf (ca_twin a) \<Longrightarrow> twin_wf (ca_twin (compare_metadata m a))"
  by (auto simp: compare_metadata_def twin_wf_def Let_def split: option.split)

lemma dealTwinCompare_rest:
  assumes "twin_wf twin" and "request_ok (Some m)"
  shows "\<exists>r' twin' err. dealTwinCompare pf now r deviceID key twin (Some m) RestDealType
      = Ret (r', twin', err) \<and> twin_wf twin'"
proof -
  let ?a = "\<lparr>ca_twin = twin, ca_cols = fmempty, ca_sync = empty_twin, ca_isChange = False,
    ca_isSyncAllow = True\<rparr>"
  obtain md where md: "Metadata twin = Some md" using assms(1) by (auto simp: twin_wf_def)
  obtain res1 where 1: "compare_side pf now SideExpected m RestDealType ?a = Ret res1"
    and w1: "case res1 of Inl (e, b) \<Rightarrow> twin_wf (ca_twin b)
      | Inr b \<Rightarrow> twin_wf (ca_twin b) \<and> ca_isSyncAllow b"
    using compare_side_rest [of ?a m pf now SideExpected] assms by auto
  show ?thesis
  proof (cases res1)
    case (Inl ea)
    with 1 w1 md show ?thesis by (auto simp: dealTwinCompare_def Let_def split: prod.splits)
  next
    case (Inr a)
    then obtain res2 where 2: "compare_side pf now SideActual m RestDealType a = Ret res2"
      and w2: "case res2 of Inl (e, b) \<Rightarrow> twin_wf (ca_twin b)
        | Inr b \<Rightarrow> twin_wf (ca_twin b) \<and> ca_isSyncAllow b"
      using compare_side_rest [of a m pf now SideActual] assms(2) w1 by auto
    show ?thesis
    proof (cases res2)
      case (Inl ea)
      with 1 Inr 2 w2 md show ?thesis by (auto simp: dealTwinCompare_def Let_def split: prod.splits)
    next
      case b: (Inr b)
      with w2 obtain c where "compare_optional m b = Ret c" and "twin_wf (ca_twin c)"
        using compare_optional_wf by auto
      with 1 Inr 2 b md w2 compare_metadata_wf show ?thesis
        by (auto simp: dealTwinCompare_def Let_def)
    qed
  qed
qed

lemma msg_of_twin_wf [simp]: "twin_wf (msg_of_twin row)"
  by (simp add: twin_wf_def msg_of_twin_def)

lemma add_side_rest:
  "request_ok (Some m) \<Longrightarrow> \<exists>res. add_side pf now s m RestDealType row = Ret res"
  by (auto simp: add_side_def dealVersion_def Let_def split: option.split dest: request_value)

lemma dealTwinAdd_rest:
  assumes "request_ok m"
  shows "\<exists>r' t err. dealTwinAdd pf now r deviceID key m RestDealType = Ret (r', t, err) \<and>
    (\<forall>twin. t = Some twin \<longrightarrow> twin_wf twin)"
proof (cases m)
  case None
  then show ?thesis by (simp add: dealTwinAdd_def Let_def)
next
  case (Some mt)
  obtain row where row: "add_row deviceID key mt RestDealType = Ret row"
    by (simp add: add_row_def Let_def)
  obtain res1 where 1: "add_side pf now SideExpected mt RestDealType row = Ret res1"
    using add_side_rest assms Some by blast
  show ?thesis
  proof (cases res1)
    case (AddRow row1)
    obtain res2 where 2: "add_side pf now SideActual mt RestDealType row1 = Ret res2"
      using add_side_rest assms Some by blast
    with Some row 1 AddRow show ?thesis
      by (cases res2) (auto simp: dealTwinAdd_def Let_def)
  qed (use Some row 1 in \<open>auto simp: dealTwinAdd_def Let_def\<close>)
qed

definition twins_wf :: "(string, MsgTwin) fmap \<Rightarrow> bool" where
  "twins_wf ts \<longleftrightarrow> fmpred (\<lambda>k t. twin_wf t) ts"

lemma twins_wf_iff: "twins_wf ts \<longleftrightarrow> (\<forall>k t. fmlookup ts k = Some t \<longrightarrow> twin_wf t)"
  by (simp add: twins_wf_def fmpred_iff)

lemma deal_one_rest:
  assumes "twins_wf ts" and "request_ok m"
  shows "\<exists>r' ts' err. deal_one pf now deviceID RestDealType (key, m) (r, ts) = Ret (r', ts', err) \<and>
    twins_wf ts'"
proof (cases "fmlookup ts key")
  case None
  with assms dealTwinAdd_rest [OF assms(2), of pf "now key" r deviceID key] show ?thesis
    by (auto simp: deal_one_def twins_wf_iff split: option.split)
next
  case (Some twin)
  then have "twin_wf twin" using assms(1) by (auto simp: twins_wf_iff)
  with Some assms show ?thesis
    using dealTwinDelete_rest [of twin r deviceID key]
      dealTwinCompare_rest [of twin _ pf "now key" r deviceID key]
    by (cases m) (fastforce simp: deal_one_def is_delete_request_def twins_wf_iff)+
qed

lemma deal_all_rest:
  assumes "twins_wf ts" and "list_all (\<lambda>(k, m). request_ok m) kms"
  shows "\<exists>r' ts'. deal_all pf now deviceID RestDealType kms (r, ts) = Ret (r', ts') \<and> twins_wf ts'"
  using assms
proof (induction kms arbitrary: r ts)
  case Nil
  then show ?case by simp
next
  case (Cons km kms)
  obtain key m where km: "km = (key, m)" by force
  obtain r1 ts1 err where 1: "deal_one pf now deviceID RestDealType km (r, ts) = Ret (r1, ts1, err)"
    and w: "twins_wf ts1"
    using deal_one_rest [of ts m pf now deviceID key r] Cons.prems km by auto
  show ?case
    using Cons.IH [OF w, of r1] Cons.prems 1 w by (cases err) auto
qed

text \<open>C12. A request from the edge whose sides all carry a value is always answered: \<open>DealMsgTwin\<close>
  runs to its end without a nil dereference, and the device keeps twins that have their optional
  flag and their metadata, which is what the next request relies on.\<close>

theorem DealMsgTwin_rest_total:
  assumes "fmlookup devices deviceID = Some device" and "twins_wf (dev_Twin device)"
    and "list_all (\<lambda>(k, m). request_ok m) msgTwins"
  shows "\<exists>r device'. DealMsgTwin pf now devices deviceID msgTwins RestDealType =
      Ret (r, fmupd deviceID device' devices) \<and> twins_wf (dev_Twin device')"
proof -
  obtain r ts where "deal_all pf now deviceID RestDealType msgTwins (empty_result, dev_Twin device)
      = Ret (r, ts)" and "twins_wf ts"
    using deal_all_rest [OF assms(2,3)] by blast
  with assms(1) show ?thesis
    by (intro exI [of _ r] exI [of _ "device\<lparr>dev_Twin := ts\<rparr>"]) (simp add: DealMsgTwin_def)
qed

theorem DealMsgTwin_rest_total_witness:
  "\<exists>r device'. DealMsgTwin (\<lambda>_. True) (\<lambda>_. 5) (fmupd ''d1'' demo_device fmempty) ''d1''
      [(''temp'', None), (''hum'', Some (demo_twin ''3'' 0 0))] RestDealType =
      Ret (r, fmupd ''d1'' device' (fmupd ''d1'' demo_device fmempty)) \<and> twins_wf (dev_Twin device')"
proof -
  have "side_val s (demo_twin ''3'' 0 0) = Some tv \<Longrightarrow> tv_Value tv \<noteq> None" for s tv
    by (cases s) (auto simp: demo_twin_def)
  then have "list_all (\<lambda>(k, m). request_ok m) [(''temp'', None), (''hum'', Some (demo_twin ''3'' 0 0))]"
    by (auto simp: request_ok_def)
  moreover have "twins_wf (dev_Twin demo_device)"
    by (auto simp: twins_wf_iff demo_device_def twin_wf_def demo_twin_def)
  ultimately show ?thesis by (intro DealMsgTwin_rest_total) simp_all
qed

end
