(* ===== verification/DtCoherence.thy ===== *)
theory DtCoherence
  imports DtTwin
begin

text \<open>
  The twins in memory and the rows of the database. A twin update changes both: the twins of the
  device in place, the rows by the additions and column updates that \<open>DealMsgTwin\<close> collects. This
  theory says what the column updates mean for a row, what of a twin both representations agree
  on (\<open>view\<close>), and shows that an update from the edge keeps them in agreement. It also holds the
  facts on the messages built from the twins, and the one case in which the agreement is lost.
\<close>

section \<open>The effect of a column update\<close>

fun col_text :: "col \<Rightarrow> string" where
  "col_text (CText v) = v"
| "col_text (CPtr (Some v)) = v"
| "col_text _ = []"

fun col_version :: "col \<Rightarrow> TwinVersion option" where
  "col_version (CVersion v) = Some v"
| "col_version _ = None"

fun col_vmeta :: "col \<Rightarrow> ValueMetadata option" where
  "col_vmeta (CValueMeta v) = Some v"
| "col_vmeta _ = None"

fun col_bool :: "col \<Rightarrow> bool" where
  "col_bool (CBool b) = b"
| "col_bool _ = False"

definition at_col :: "cols \<Rightarrow> string \<Rightarrow> (col \<Rightarrow> 'a) \<Rightarrow> 'a \<Rightarrow> 'a" where
  "at_col cols name f old = (case fmlookup cols name of None \<Rightarrow> old | Some c \<Rightarrow> f c)"

definition row_apply :: "cols \<Rightarrow> db_DeviceTwin \<Rightarrow> db_DeviceTwin" where
  "row_apply cols row = row\<lparr>
     dbt_Expected := at_col cols ''expected'' col_text (dbt_Expected row),
     dbt_Actual := at_col cols ''actual'' col_text (dbt_Actual row),
     dbt_ExpectedMeta := at_col cols ''expected_meta'' col_vmeta (dbt_ExpectedMeta row),
     dbt_ActualMeta := at_col cols ''actual_meta'' col_vmeta (dbt_ActualMeta row),
     dbt_ExpectedVersion := at_col cols ''expected_version'' col_version (dbt_ExpectedVersion row),
     dbt_ActualVersion := at_col cols ''actual_version'' col_version (dbt_ActualVersion row),
     dbt_Optional := at_col cols ''optional'' col_bool (dbt_Optional row),
     dbt_AttrType := at_col cols ''attr_type'' col_text (dbt_AttrType row)\<rparr>"

text \<open>What memory and database agree on: the two texts, the two versions (no version counts as the
  zero version), the optional flag, the type.\<close>

record twin_view =
  vw_Expected :: "string \<times> TwinVersion"
  vw_Actual :: "string \<times> TwinVersion"
  vw_Optional :: "bool option"
  vw_Type :: "string option"

abbreviation version_or_zero :: "TwinVersion option \<Rightarrow> TwinVersion" where
  "version_or_zero v \<equiv> (case v of None \<Rightarrow> zero_version | Some x \<Rightarrow> x)"

definition view :: "MsgTwin \<Rightarrow> twin_view" where
  "view t = \<lparr>vw_Expected = (value_text (Expected t), version_or_zero (ExpectedVersion t)),
     vw_Actual = (value_text (Actual t), version_or_zero (ActualVersion t)),
     vw_Optional = Optional t, vw_Type = map_option tm_Type (Metadata t)\<rparr>"

definition row_view :: "db_DeviceTwin \<Rightarrow> twin_view" where
  "row_view row = \<lparr>vw_Expected = (dbt_Expected row, version_or_zero (dbt_ExpectedVersion row)),
     vw_Actual = (dbt_Actual row, version_or_zero (dbt_ActualVersion row)),
     vw_Optional = Some (dbt_Optional row), vw_Type = Some (dbt_AttrType row)\<rparr>"

lemma view_msg_of_twin: "view (msg_of_twin row) = row_view row"
  by (simp add: row_view_def view_def msg_of_twin_def value_text_def)

fun put_side :: "side \<Rightarrow> string \<times> TwinVersion \<Rightarrow> twin_view \<Rightarrow> twin_view" where
  "put_side SideExpected p w = w\<lparr>vw_Expected := p\<rparr>"
| "put_side SideActual p w = w\<lparr>vw_Actual := p\<rparr>"

abbreviation opt_text :: "string option \<Rightarrow> string" where
  "opt_text v \<equiv> (case v of None \<Rightarrow> [] | Some x \<Rightarrow> x)"

lemma row_apply_empty [simp]: "row_apply fmempty row = row"
  by (simp add: row_apply_def at_col_def)

lemma col_text_CPtr [simp]: "col_text (CPtr v) = opt_text v"
  by (cases v) auto

text \<open>How the view of a row changes with each group of columns, and the view of a twin with each
  group of fields.\<close>

lemma row_view_side:
  "row_view (row_apply (fmupd (col_ver s) (CVersion v) (fmupd (col_meta s) mt
     (fmupd (col_val s) (CPtr val) cols))) row) = put_side s (opt_text val, v) (row_view (row_apply cols row))"
  by (cases s) (simp_all add: row_view_def row_apply_def at_col_def)

lemma row_view_delete_side:
  "row_view (row_apply (fmupd (col_val s) CNull (fmupd (col_meta s) CNull
     (fmupd ''attr_type'' (CText ty) (fmupd (col_ver s) (CVersion v) cols)))) row) =
   (put_side s ([], v) (row_view (row_apply cols row)))\<lparr>vw_Type := Some ty\<rparr>"
  by (cases s) (simp_all add: row_view_def row_apply_def at_col_def)

lemma row_view_flags:
  "row_view (row_apply (fmupd ''optional'' (CBool b) cols) row) =
     (row_view (row_apply cols row))\<lparr>vw_Optional := Some b\<rparr>"
  "row_view (row_apply (fmupd ''attr_type'' (CText ty) cols) row) =
     (row_view (row_apply cols row))\<lparr>vw_Type := Some ty\<rparr>"
  "row_view (row_apply (fmupd ''metadata'' c cols) row) = row_view (row_apply cols row)"
  by (simp_all add: row_view_def row_apply_def at_col_def)

lemma view_side:
  "view (set_side_ver s (Some v) (set_side_val s nv t)) = put_side s (value_text nv, v) (view t)"
  by (cases s) (simp_all add: view_def)

lemma view_zero_version:
  "view (set_side_ver s (Some (version_or_zero (side_ver s t))) t) = view t"
  by (cases s) (simp_all add: view_def)

lemma view_flags:
  "view (t\<lparr>Optional := Some b\<rparr>) = (view t)\<lparr>vw_Optional := Some b\<rparr>"
  "view (t\<lparr>Metadata := Some md\<rparr>) = (view t)\<lparr>vw_Type := Some (tm_Type md)\<rparr>"
  by (simp_all add: view_def)

lemma set_ver_twice [simp]:
  "set_side_ver s v (set_side_val s w (set_side_ver s u t)) = set_side_ver s v (set_side_val s w t)"
  by (cases s) simp_all

section \<open>One twin\<close>

definition cmp_coherent :: "db_DeviceTwin \<Rightarrow> cmp_acc \<Rightarrow> bool" where
  "cmp_coherent row a \<longleftrightarrow> row_view (row_apply (ca_cols a) row) = view (ca_twin a) \<and>
     (\<not> ca_isChange a \<longrightarrow> ca_cols a = fmempty)"

lemma compare_side_effect:
  assumes "compare_side pf now s m dealType a = Ret (Inr b)"
  shows "ca_cols b = ca_cols a \<and> ca_isChange b = ca_isChange a \<and> view (ca_twin b) = view (ca_twin a) \<or>
    (\<exists>v mt val. ca_cols b = fmupd (col_ver s) (CVersion v) (fmupd (col_meta s) mt
        (fmupd (col_val s) (CPtr val) (ca_cols a))) \<and> ca_isChange b \<and>
      view (ca_twin b) = put_side s (opt_text val, v) (view (ca_twin a)))"
proof -
  obtain ok err where d: "isTwinValueDiff pf (ca_twin a) m s = Ret (ok, err)"
    using assms by (cases "isTwinValueDiff pf (ca_twin a) m s") (auto simp: compare_side_def)
  obtain v' vok verr where v: "dealVersion (version_or_zero (side_ver s (ca_twin a)))
      (if dealType \<noteq> RestDealType then side_ver s m else None) dealType = (v', vok, verr)"
    by (metis prod_cases3)
  show ?thesis
  proof (cases "ok \<and> ca_isSyncAllow a")
    case False
    with assms d have "b = a" by (auto simp: compare_side_def split: if_splits)
    then show ?thesis by simp
  next
    case True
    show ?thesis
    proof (cases vok)
      case False
      with True assms d v have "ca_twin b = set_side_ver s (Some (version_or_zero
          (side_ver s (ca_twin a)))) (ca_twin a)" "ca_cols b = ca_cols a" "ca_isChange b = ca_isChange a"
        by (auto simp: compare_side_def bind_eq_Some_go Let_def split: if_splits)
      then show ?thesis by (simp add: view_zero_version)
    next
      case vok: True
      let ?val = "case side_val s m of None \<Rightarrow> None | Some x \<Rightarrow> tv_Value x"
      have "ca_twin b = set_side_ver s (Some v') (set_side_val s (Some \<lparr>tv_Value = ?val,
          tv_Metadata = Some \<lparr>vm_Timestamp = now\<rparr>\<rparr>) (ca_twin a)) \<and> ca_isChange b \<and>
        ca_cols b = fmupd (col_ver s) (CVersion v') (fmupd (col_meta s)
          (CValueMeta \<lparr>vm_Timestamp = now\<rparr>) (fmupd (col_val s) (CPtr ?val) (ca_cols a)))"
        using vok True assms d v
        by (auto simp: compare_side_def bind_eq_Some_go Let_def split: if_splits)
      then show ?thesis
        by (intro disjI2 exI [of _ v'] exI [of _ "CValueMeta \<lparr>vm_Timestamp = now\<rparr>"] exI [of _ ?val])
           (simp add: view_side value_text_def)
    qed
  qed
qed

lemma cmp_coherent_side:
  assumes "cmp_coherent row a" and "compare_side pf now s m dealType a = Ret (Inr b)"
  shows "cmp_coherent row b"
  using compare_side_effect [OF assms(2)] assms(1) by (auto simp: cmp_coherent_def row_view_side)

lemma cmp_coherent_optional:
  assumes "cmp_coherent row a" and "compare_optional m a = Ret b"
  shows "cmp_coherent row b"
  using assms
  by (auto simp: compare_optional_def cmp_coherent_def bind_eq_Some_go row_view_flags view_flags
      split: option.splits if_splits)

lemma cmp_coherent_metadata: "cmp_coherent row a \<Longrightarrow> cmp_coherent row (compare_metadata m a)"
  by (auto simp: compare_metadata_def cmp_coherent_def Let_def row_view_flags view_flags
      split: option.split)

text \<open>A change of one twin is coherent when the twin's new view is what the collected column
  update makes of the row, or nothing visible changed.\<close>

definition step_coherent ::
  "string \<Rightarrow> string \<Rightarrow> db_DeviceTwin \<Rightarrow> DealTwinResult \<Rightarrow> DealTwinResult \<Rightarrow> MsgTwin \<Rightarrow> bool" where
  "step_coherent deviceID key row r r' twin' \<longleftrightarrow>
     dr_Add r' = dr_Add r \<and>
     (dr_Update r' = dr_Update r \<and> view twin' = row_view row \<or>
      (\<exists>cols. dr_Update r' = dr_Update r @ [\<lparr>du_DeviceID = deviceID, du_Name = key, du_Cols = cols\<rparr>] \<and>
         view twin' = row_view (row_apply cols row)))"

lemma step_coherent_finish:
  assumes "cmp_coherent row a" and "dr_Add r1 = dr_Add r" and "dr_Update r1 = dr_Update r"
  shows "step_coherent deviceID key row r (compare_finish r1 deviceID key doc dealType a) (ca_twin a)"
  using assms by (auto simp: step_coherent_def compare_finish_def cmp_coherent_def Let_def)

lemma dealTwinCompare_coherent:
  assumes "row_view row = view twin"
    and "dealTwinCompare pf now r deviceID key twin msgTwin dealType = Ret (r', twin', nil_error)"
  shows "step_coherent deviceID key row r r' twin'"
proof (cases msgTwin)
  case None
  with assms show ?thesis
    by (auto simp: dealTwinCompare_def step_coherent_def Let_def split: option.splits)
next
  case (Some m)
  let ?a = "\<lparr>ca_twin = twin, ca_cols = fmempty, ca_sync = empty_twin, ca_isChange = False,
    ca_isSyncAllow = True\<rparr>"
  have 0: "cmp_coherent row ?a" using assms(1) by (simp add: cmp_coherent_def)
  obtain md where md: "Metadata twin = Some md"
    using assms(2) by (cases "Metadata twin") (auto simp: dealTwinCompare_def)
  obtain a where 1: "compare_side pf now SideExpected m dealType ?a = Ret (Inr a)"
    using assms(2) Some md by (cases "compare_side pf now SideExpected m dealType ?a")
      (auto simp: dealTwinCompare_def Let_def split: sum.splits)
  obtain b where 2: "compare_side pf now SideActual m dealType a = Ret (Inr b)"
    using assms(2) Some md 1 by (cases "compare_side pf now SideActual m dealType a")
      (auto simp: dealTwinCompare_def Let_def split: sum.splits)
  have cb: "cmp_coherent row b" by (rule cmp_coherent_side [OF cmp_coherent_side [OF 0 1] 2])
  show ?thesis
  proof (cases "ca_isSyncAllow b")
    case False
    with assms(2) Some 1 2 md cb show ?thesis
      by (auto simp: dealTwinCompare_def Let_def intro!: step_coherent_finish)
  next
    case True
    with assms(2) Some 1 2 md obtain c where c: "compare_optional m b = Ret c"
      by (cases "compare_optional m b") (auto simp: dealTwinCompare_def Let_def)
    have "cmp_coherent row (compare_metadata m c)"
      by (rule cmp_coherent_metadata [OF cmp_coherent_optional [OF cb c]])
    with True c assms(2) Some 1 2 md show ?thesis
      by (auto simp: dealTwinCompare_def Let_def intro!: step_coherent_finish)
  qed
qed

definition del_coherent :: "db_DeviceTwin \<Rightarrow> del_acc \<Rightarrow> bool" where
  "del_coherent row a \<longleftrightarrow> row_view (row_apply (da_cols a) row) = view (da_twin a) \<and>
     (\<not> da_isChange a \<longrightarrow> da_cols a = fmempty)"

lemma del_coherent_side:
  assumes "del_coherent row a" and "delete_side s m dealType a = (stop, b)"
  shows "del_coherent row b"
proof (cases "side_ver s (da_twin a)")
  case None
  then have "view (set_side_ver s (Some zero_version) (da_twin a)) = view (da_twin a)"
    using view_zero_version [of s "da_twin a"] by simp
  with None assms show ?thesis by (auto simp: delete_side_def del_coherent_def)
next
  case (Some v)
  obtain v' ok err where d: "dealVersion v (if dealType \<noteq> RestDealType
      then (case m of None \<Rightarrow> None | Some x \<Rightarrow> side_ver s x) else None) dealType = (v', ok, err)"
    by (metis prod_cases3)
  show ?thesis
  proof (cases ok)
    case False
    with Some d assms show ?thesis
      by (auto simp: delete_side_def del_coherent_def split: if_splits)
  next
    case True
    with Some d assms show ?thesis
      by (auto simp: delete_side_def del_coherent_def Let_def row_view_delete_side view_side
          view_flags value_text_def)
  qed
qed

lemma dealTwinDelete_coherent:
  assumes "row_view row = view twin"
    and "dealTwinDelete r deviceID key twin None RestDealType = Ret (r', twin')"
  shows "step_coherent deviceID key row r r' twin'"
proof -
  let ?a = "\<lparr>da_twin = twin, da_cols = fmempty, da_sync = empty_twin, da_isChange = False\<rparr>"
  obtain s1 a where 1: "delete_side SideExpected None RestDealType ?a = (s1, a)" by force
  obtain s2 b where 2: "delete_side SideActual None RestDealType a = (s2, b)" by force
  have "\<not> s1" "\<not> s2"
    using 1 2 by (auto simp: delete_side_def dealVersion_def Let_def split: option.splits)
  moreover have "del_coherent row ?a" using assms(1) by (simp add: del_coherent_def)
  then have "del_coherent row b" using del_coherent_side 1 2 by blast
  ultimately show ?thesis
    using assms 1 2
    by (auto simp: dealTwinDelete_def step_coherent_def del_coherent_def bind_eq_Some_go Let_def
        split: if_splits)
qed

section \<open>A whole update\<close>

definition upd_row :: "db_Update \<Rightarrow> (string, db_DeviceTwin) fmap \<Rightarrow> (string, db_DeviceTwin) fmap" where
  "upd_row u rows = (case fmlookup rows (du_Name u) of
      None \<Rightarrow> rows | Some row \<Rightarrow> fmupd (du_Name u) (row_apply (du_Cols u) row) rows)"

text \<open>The rows of a device after the additions and then the updates of a result.\<close>

definition apply_result ::
  "DealTwinResult \<Rightarrow> (string, db_DeviceTwin) fmap \<Rightarrow> (string, db_DeviceTwin) fmap" where
  "apply_result r rows =
     fold upd_row (dr_Update r) (fold (\<lambda>row. fmupd (dbt_Name row) row) (dr_Add r) rows)"

definition rows_match :: "(string, db_DeviceTwin) fmap \<Rightarrow> (string, MsgTwin) fmap \<Rightarrow> bool" where
  "rows_match rows ts \<longleftrightarrow>
     (\<forall>k. rel_option (\<lambda>row t. row_view row = view t) (fmlookup rows k) (fmlookup ts k))"

abbreviation updated_names :: "DealTwinResult \<Rightarrow> string set" where
  "updated_names r \<equiv> set (map du_Name (dr_Update r))"

lemma rows_match_update:
  "rows_match rows ts \<Longrightarrow> row_view row = view t \<Longrightarrow> rows_match (fmupd k row rows) (fmupd k t ts)"
  by (simp add: rows_match_def)

lemma rows_match_lookup:
  assumes "rows_match rows ts" and "fmlookup ts k = Some t"
  obtains row where "fmlookup rows k = Some row" and "row_view row = view t"
proof -
  have "rel_option (\<lambda>row t. row_view row = view t) (fmlookup rows k) (Some t)"
    using assms unfolding rows_match_def by metis
  then show ?thesis using that by (cases "fmlookup rows k") auto
qed

lemma rows_match_twin_only:
  assumes "rows_match rows ts" and "fmlookup rows k = Some row" and "row_view row = view t"
  shows "rows_match rows (fmupd k t ts)"
  using assms by (simp add: rows_match_def)

lemma upd_rows_fmupd:
  "k \<notin> set (map du_Name us) \<Longrightarrow> fold upd_row us (fmupd k row m) = fmupd k row (fold upd_row us m)"
proof (induction us arbitrary: m)
  case Nil
  then show ?case by simp
next
  case (Cons u us)
  then have ne: "du_Name u \<noteq> k" and k: "k \<notin> set (map du_Name us)" by auto
  have "upd_row u (fmupd k row m) = fmupd k row (upd_row u m)"
    using ne by (cases "fmlookup m (du_Name u)") (auto simp: upd_row_def fmupd_reorder_neq)
  with Cons.IH [OF k] show ?case by simp
qed

lemma apply_result_add:
  assumes "dr_Add r' = dr_Add r @ [row]" and "dr_Update r' = dr_Update r"
    and "dbt_Name row \<notin> updated_names r"
  shows "apply_result r' rows = fmupd (dbt_Name row) row (apply_result r rows)"
  using assms by (simp add: apply_result_def upd_rows_fmupd)

lemma rows_match_step:
  assumes "rows_match (apply_result r rows) ts" and "fmlookup (apply_result r rows) key = Some row"
    and "step_coherent deviceID key row r r' twin'"
  shows "rows_match (apply_result r' rows) (fmupd key twin' ts) \<and>
    updated_names r' \<subseteq> insert key (updated_names r)"
proof (cases "dr_Update r' = dr_Update r")
  case True
  with assms(3) have "dr_Add r' = dr_Add r" "view twin' = row_view row"
    by (auto simp: step_coherent_def)
  with True have "apply_result r' rows = apply_result r rows" by (simp add: apply_result_def)
  with True \<open>view twin' = row_view row\<close> rows_match_twin_only [OF assms(1,2), of twin'] show ?thesis
    by auto
next
  case False
  with assms(3) obtain cols where
    u: "dr_Update r' = dr_Update r @ [\<lparr>du_DeviceID = deviceID, du_Name = key, du_Cols = cols\<rparr>]"
    and v: "view twin' = row_view (row_apply cols row)" and a: "dr_Add r' = dr_Add r"
    by (auto simp: step_coherent_def)
  have "apply_result r' rows = fmupd key (row_apply cols row) (apply_result r rows)"
    using assms(2) by (simp add: apply_result_def u a upd_row_def)
  then show ?thesis using rows_match_update [OF assms(1)] v u by auto
qed

lemma add_side_name: "add_side pf now s m dealType row = Ret (AddRow row') \<Longrightarrow> dbt_Name row' = dbt_Name row"
  by (cases s) (auto simp: add_side_def Let_def split: option.splits prod.splits if_splits)

lemma dealTwinAdd_outcome:
  assumes "dealTwinAdd pf now r deviceID key m dealType = Ret (r', t, err)"
  shows "dr_Update r' = dr_Update r \<and> (t = None \<and> dr_Add r' = dr_Add r \<or>
    (\<exists>row. t = Some (msg_of_twin row) \<and> dbt_Name row = key \<and> dr_Add r' = dr_Add r @ [row]))"
proof (cases m)
  case None
  with assms show ?thesis by (auto simp: dealTwinAdd_def Let_def)
next
  case (Some mt)
  with assms obtain row res1 where row: "add_row deviceID key mt dealType = Ret row"
    and 1: "add_side pf now SideExpected mt dealType row = Ret res1"
    by (auto simp: dealTwinAdd_def Let_def bind_eq_Some_go)
  have n: "dbt_Name row = key"
    using row by (auto simp: add_row_def MsgTwinToDeviceTwin_def Let_def split: if_splits option.splits)
  show ?thesis
  proof (cases res1)
    case (AddRow row1)
    with assms Some row 1 obtain res2 where 2: "add_side pf now SideActual mt dealType row1 = Ret res2"
      by (auto simp: dealTwinAdd_def Let_def bind_eq_Some_go)
    note names = n add_side_name [of pf now SideExpected mt dealType row]
      add_side_name [of pf now SideActual mt dealType row1]
    from assms Some row 1 2 AddRow names show ?thesis
      by (cases res2) (auto simp: dealTwinAdd_def Let_def split: if_splits)
  qed (use assms Some row 1 in \<open>auto simp: dealTwinAdd_def Let_def split: if_splits\<close>)
qed

lemma compare_finish_err [simp]: "dr_Err (compare_finish r d k doc ty a) = dr_Err r"
  by (simp add: compare_finish_def Let_def)

lemma dealTwinCompare_err:
  assumes "dealTwinCompare pf now r deviceID key twin msgTwin dealType = Ret (r', twin', err)"
  shows "dr_Err r' = (if err = nil_error then dr_Err r else err)"
proof (cases msgTwin)
  case None
  with assms show ?thesis by (auto simp: dealTwinCompare_def Let_def split: option.splits)
next
  case (Some m)
  let ?a = "\<lparr>ca_twin = twin, ca_cols = fmempty, ca_sync = empty_twin, ca_isChange = False,
    ca_isSyncAllow = True\<rparr>"
  obtain md where md: "Metadata twin = Some md"
    using assms by (cases "Metadata twin") (auto simp: dealTwinCompare_def)
  obtain res1 where 1: "compare_side pf now SideExpected m dealType ?a = Ret res1"
    using assms Some md by (cases "compare_side pf now SideExpected m dealType ?a")
      (auto simp: dealTwinCompare_def Let_def)
  show ?thesis
  proof (cases res1)
    case (Inl ea)
    with assms Some md 1 show ?thesis by (cases ea) (auto simp: dealTwinCompare_def Let_def)
  next
    case (Inr a)
    obtain res2 where 2: "compare_side pf now SideActual m dealType a = Ret res2"
      using assms Some md 1 Inr by (cases "compare_side pf now SideActual m dealType a")
        (auto simp: dealTwinCompare_def Let_def)
    show ?thesis
    proof (cases res2)
      case (Inl ea)
      with assms Some md 1 Inr 2 show ?thesis by (cases ea) (auto simp: dealTwinCompare_def Let_def)
    next
      case b: (Inr b)
      with assms Some md 1 Inr 2 show ?thesis
        by (cases "ca_isSyncAllow b"; cases "compare_optional m b")
           (auto simp: dealTwinCompare_def Let_def)
    qed
  qed
qed

lemma dealTwinDelete_err:
  assumes "dealTwinDelete r deviceID key twin m dealType = Ret (r', twin')"
  shows "dr_Err r' = dr_Err r"
  using assms
  by (auto simp: dealTwinDelete_def Let_def bind_eq_Some_go split: if_splits prod.splits)

lemma dealTwinAdd_err:
  assumes "dealTwinAdd pf now r deviceID key m dealType = Ret (r', t, nil_error)"
  shows "dr_Err r' = dr_Err r"
proof (cases m)
  case None
  with assms show ?thesis by (auto simp: dealTwinAdd_def Let_def)
next
  case (Some mt)
  with assms obtain row res1 where row: "add_row deviceID key mt dealType = Ret row"
    and 1: "add_side pf now SideExpected mt dealType row = Ret res1"
    by (auto simp: dealTwinAdd_def Let_def bind_eq_Some_go)
  show ?thesis
  proof (cases res1)
    case (AddRow row1)
    with assms Some row 1 obtain res2 where 2: "add_side pf now SideActual mt dealType row1 = Ret res2"
      by (auto simp: dealTwinAdd_def Let_def bind_eq_Some_go)
    from assms Some row 1 2 AddRow show ?thesis
      by (cases res2) (auto simp: dealTwinAdd_def Let_def split: if_splits)
  qed (use assms Some row 1 in \<open>auto simp: dealTwinAdd_def Let_def split: if_splits\<close>)
qed

lemma deal_one_err:
  assumes "deal_one pf now deviceID dealType (key, m) (r, ts) = Ret (r', ts', nil_error)"
  shows "dr_Err r' = dr_Err r"
proof (cases "fmlookup ts key")
  case None
  with assms obtain t where "dealTwinAdd pf (now key) r deviceID key m dealType = Ret (r', t, nil_error)"
    by (auto simp: deal_one_def bind_eq_Some_go)
  then show ?thesis by (rule dealTwinAdd_err)
next
  case (Some twin)
  with assms obtain del where "is_delete_request m dealType = Ret del"
    by (auto simp: deal_one_def bind_eq_Some_go)
  with assms Some dealTwinDelete_err [of r deviceID key twin m dealType r']
    dealTwinCompare_err [of pf "now key" r deviceID key twin m dealType r' _ nil_error]
  show ?thesis by (cases del) (auto simp: deal_one_def bind_eq_Some_go)
qed

lemma deal_one_coherent:
  assumes "rows_match (apply_result r rows) ts" and "key \<notin> updated_names r"
    and "deal_one pf now deviceID RestDealType (key, m) (r, ts) = Ret (r', ts', err)"
    and "dr_Err r' = nil_error"
  shows "rows_match (apply_result r' rows) ts' \<and> updated_names r' \<subseteq> insert key (updated_names r)"
proof (cases "fmlookup ts key")
  case None
  with assms(3) obtain t where t: "dealTwinAdd pf (now key) r deviceID key m RestDealType = Ret (r', t, err)"
    and ts': "ts' = (case t of None \<Rightarrow> ts | Some t \<Rightarrow> fmupd key t ts)"
    by (auto simp: deal_one_def bind_eq_Some_go)
  from dealTwinAdd_outcome [OF t] show ?thesis
  proof (elim conjE disjE exE)
    assume "dr_Update r' = dr_Update r" "t = None" "dr_Add r' = dr_Add r"
    with assms(1) ts' show ?thesis by (auto simp: apply_result_def)
  next
    fix row
    assume u: "dr_Update r' = dr_Update r" and "t = Some (msg_of_twin row)" "dbt_Name row = key"
      "dr_Add r' = dr_Add r @ [row]"
    with assms(1,2) ts' apply_result_add [of r' r row rows] show ?thesis
      by (auto intro: rows_match_update simp: view_msg_of_twin)
  qed
next
  case (Some twin)
  obtain row where row: "fmlookup (apply_result r rows) key = Some row" "row_view row = view twin"
    using rows_match_lookup [OF assms(1) Some] .
  show ?thesis
  proof (cases m)
    case None
    with assms(3) Some obtain twin' where d: "dealTwinDelete r deviceID key twin None RestDealType
        = Ret (r', twin')" and ts': "ts' = fmupd key twin' ts"
      by (auto simp: deal_one_def is_delete_request_def bind_eq_Some_go)
    from rows_match_step [OF assms(1) row(1) dealTwinDelete_coherent [OF row(2) d]] ts'
    show ?thesis by simp
  next
    case (Some mt)
    with assms(3) \<open>fmlookup ts key = Some twin\<close> obtain twin' where
      c: "dealTwinCompare pf (now key) r deviceID key twin m RestDealType = Ret (r', twin', err)"
      and ts': "ts' = fmupd key twin' ts"
      by (auto simp: deal_one_def is_delete_request_def bind_eq_Some_go)
    have "err = nil_error" using dealTwinCompare_err [OF c] assms(4) by (auto split: if_splits)
    with c have "dealTwinCompare pf (now key) r deviceID key twin m RestDealType
        = Ret (r', twin', nil_error)" by simp
    from rows_match_step [OF assms(1) row(1) dealTwinCompare_coherent [OF row(2) this]] ts'
    show ?thesis by simp
  qed
qed

lemma deal_all_coherent:
  assumes "rows_match (apply_result r rows) ts" and "updated_names r \<inter> set (map fst kms) = {}"
    and "distinct (map fst kms)" and "dr_Err r = nil_error"
    and "deal_all pf now deviceID RestDealType kms (r, ts) = Ret (r', ts')" and "dr_Err r' = nil_error"
  shows "rows_match (apply_result r' rows) ts'"
  using assms
proof (induction kms arbitrary: r ts)
  case Nil
  then show ?case by simp
next
  case (Cons km kms)
  obtain key m where km: "km = (key, m)" by force
  from Cons.prems(5) obtain r1 ts1 err
    where 1: "deal_one pf now deviceID RestDealType km (r, ts) = Ret (r1, ts1, err)"
      and 2: "(if err \<noteq> nil_error then Ret (r1, ts1)
               else deal_all pf now deviceID RestDealType kms (r1, ts1)) = Ret (r', ts')"
    by (auto simp: bind_eq_Some_go)
  show ?case
  proof (cases "dr_Err r1")
    case (Some e)
    have "err \<noteq> nil_error" using 1 Some Cons.prems(4) km deal_one_err by fastforce
    with 2 Some Cons.prems(6) show ?thesis by simp
  next
    case None
    have c: "rows_match (apply_result r1 rows) ts1 \<and> updated_names r1 \<subseteq> insert key (updated_names r)"
      using deal_one_coherent [OF Cons.prems(1) _ 1 [unfolded km] None] Cons.prems(2) km by auto
    show ?thesis
    proof (cases err)
      case (Some e)
      with 2 c show ?thesis by simp
    next
      case err: None
      with Cons.IH [of r1 ts1] c 2 Cons.prems(2,3,6) None km show ?thesis by auto
    qed
  qed
qed


definition demo_row :: db_DeviceTwin where
  "demo_row = \<lparr>dbt_DeviceID = ''d1'', dbt_Name = ''temp'', dbt_Description = [], dbt_Expected = ''20'',
     dbt_Actual = [], dbt_ExpectedMeta = None, dbt_ActualMeta = None,
     dbt_ExpectedVersion = Some \<lparr>CloudVersion = 1, EdgeVersion = 1\<rparr>, dbt_ActualVersion = None,
     dbt_Optional = True, dbt_AttrType = ''string'', dbt_Metadata = None\<rparr>"

lemma demo_rows_match: "rows_match (fmupd ''temp'' demo_row fmempty) (dev_Twin demo_device)"
  by (simp add: rows_match_def demo_device_def demo_row_def demo_twin_def row_view_def view_def
      value_text_def)


section \<open>Where the agreement is lost\<close>

text \<open>C36. A deletion from the cloud that is accepted for the expected side and rejected for the
  actual side is half done: the twin in memory is marked deleted and loses its expected value,
  and no column update is collected, so the database still has the twin.\<close>

theorem dealTwinDelete_half_done:
  assumes "Expected twin = Some ev" and "tv_Value ev = Some v" and "v \<noteq> []"
    and "\<not> type_deleted twin" and "Metadata m = Some \<lparr>tm_Type = TypeDeleted\<rparr>"
    and "ExpectedVersion twin = Some e" and "ExpectedVersion m = Some e'" and "ver_le e e'"
    and "ActualVersion twin = Some a" and "ActualVersion m = Some a'" and "\<not> ver_le a a'"
  shows "\<exists>r' twin'. dealTwinDelete r deviceID key twin (Some m) SyncDealType = Ret (r', twin') \<and>
    dr_Update r' = dr_Update r \<and> type_deleted twin' \<and> view twin' \<noteq> view twin"
proof -
  have e: "dealVersion e (Some e') SyncTwinDeleteDealType =
      (\<lparr>CloudVersion = CloudVersion e', EdgeVersion = EdgeVersion e'\<rparr>, True, nil_error)"
    using assms(8) by (simp add: dealVersion_def ver_le_def)
  obtain err where a: "dealVersion a (Some a') SyncTwinDeleteDealType = (a, False, err)"
    using assms(11) by (cases "sint (CloudVersion a') < sint (CloudVersion a)")
      (auto simp: dealVersion_def ver_le_def)
  show ?thesis
    using assms e a
    by (auto simp: dealTwinDelete_def delete_guard_def delete_side_def Let_def type_deleted_def
        view_def value_text_def)
qed

theorem dealTwinDelete_half_done_witness:
  "\<exists>r' twin'. dealTwinDelete empty_result ''d1'' ''temp''
      ((demo_twin ''20'' 1 1)\<lparr>ActualVersion := Some \<lparr>CloudVersion = 0, EdgeVersion = 3\<rparr>\<rparr>)
      (Some \<lparr>Expected = None, Actual = None, Optional = None,
         Metadata = Some \<lparr>tm_Type = TypeDeleted\<rparr>,
         ExpectedVersion = Some \<lparr>CloudVersion = 2, EdgeVersion = 1\<rparr>,
         ActualVersion = Some \<lparr>CloudVersion = 2, EdgeVersion = 2\<rparr>\<rparr>) SyncDealType = Ret (r', twin') \<and>
     dr_Update r' = [] \<and> type_deleted twin'"
proof -
  let ?t = "(demo_twin ''20'' 1 1)\<lparr>ActualVersion := Some \<lparr>CloudVersion = 0, EdgeVersion = 3\<rparr>\<rparr>"
  have 1: "Expected ?t = Some \<lparr>tv_Value = Some ''20'', tv_Metadata = None\<rparr>"
    "\<not> type_deleted ?t" "ExpectedVersion ?t = Some \<lparr>CloudVersion = 1, EdgeVersion = 1\<rparr>"
    by (simp_all add: demo_twin_def type_deleted_def)
  have 2: "ver_le \<lparr>CloudVersion = 1, EdgeVersion = 1\<rparr> \<lparr>CloudVersion = 2, EdgeVersion = 1\<rparr>"
    "\<not> ver_le \<lparr>CloudVersion = 0, EdgeVersion = 3\<rparr> \<lparr>CloudVersion = 2, EdgeVersion = 2\<rparr>"
    by (simp_all add: ver_le_def)
  let ?m = "\<lparr>Expected = None, Actual = None, Optional = None, Metadata = Some \<lparr>tm_Type = TypeDeleted\<rparr>,
     ExpectedVersion = Some \<lparr>CloudVersion = 2, EdgeVersion = 1\<rparr>,
     ActualVersion = Some \<lparr>CloudVersion = 2, EdgeVersion = 2\<rparr>\<rparr>"
  have 3: "tv_Value \<lparr>tv_Value = Some ''20'', tv_Metadata = None\<rparr> = Some ''20''" "''20'' \<noteq> []"
    "Metadata ?m = Some \<lparr>tm_Type = TypeDeleted\<rparr>"
    "ExpectedVersion ?m = Some \<lparr>CloudVersion = 2, EdgeVersion = 1\<rparr>"
    "ActualVersion ?t = Some \<lparr>CloudVersion = 0, EdgeVersion = 3\<rparr>"
    "ActualVersion ?m = Some \<lparr>CloudVersion = 2, EdgeVersion = 2\<rparr>"
    by simp_all
  obtain r' twin' where "dealTwinDelete empty_result ''d1'' ''temp'' ?t (Some ?m) SyncDealType
      = Ret (r', twin')" and "dr_Update r' = dr_Update empty_result" and "type_deleted twin'"
    using dealTwinDelete_half_done [OF 1(1) 3(1,2) 1(2) 3(3) 1(3) 3(4) 2(1) 3(5,6) 2(2),
      of empty_result "''d1''" "''temp''"] by blast
  then show ?thesis by (intro exI [of _ r'] exI [of _ twin']) (simp add: empty_result_def)
qed

section \<open>Deletion from the edge\<close>



section \<open>The delta\<close>

lemma fmlookup_fmrestrict:
  "fmlookup (fmrestrict P m) k = (case fmlookup m k of Some v \<Rightarrow> if P v then Some v else None | None \<Rightarrow> None)"
  by (simp add: fmrestrict_def split: option.split)

text \<open>C31. The delta message has exactly the twins whose expected value is set and differs from the
  actual one and that are not deleted, each with the expected value; it is announced if and only if
  there is such a twin, and no version leaves with it.\<close>

theorem BuildDeviceTwinDelta_exact:
  "\<exists>result delta. BuildDeviceTwinDelta bm twins =
      (PDelta bm result delta, \<exists>k t. fmlookup twins k = Some t \<and> in_delta t) \<and>
    (\<forall>k v. (fmlookup delta k = Some v) = (\<exists>t. fmlookup twins k = Some t \<and> \<not> type_deleted t \<and>
       v = value_text (Expected t) \<and> v \<noteq> [] \<and> v \<noteq> value_text (Actual t))) \<and>
    (\<forall>k. fmlookup result k = (case fmlookup twins k of
        Some t \<Rightarrow> if type_deleted t then None else if value_text (Expected t) = [] then None
                 else Some (t\<lparr>ActualVersion := None, ExpectedVersion := None\<rparr>)
      | None \<Rightarrow> None))"
proof -
  let ?delta = "fmmap (\<lambda>v. value_text (Expected v)) (fmrestrict in_delta twins)"
  let ?result = "fmmap (\<lambda>v. CopyMsgTwin v True) (fmrestrict in_delta_result twins)"
  have "(?delta \<noteq> fmempty) = (\<exists>k t. fmlookup twins k = Some t \<and> in_delta t)"
  proof
    assume "?delta \<noteq> fmempty"
    then obtain k where "fmlookup ?delta k \<noteq> None" by (metis fmap_ext fmempty_lookup)
    then show "\<exists>k t. fmlookup twins k = Some t \<and> in_delta t"
      by (auto simp: fmlookup_fmrestrict split: option.splits if_splits)
  next
    assume "\<exists>k t. fmlookup twins k = Some t \<and> in_delta t"
    then obtain k t where "fmlookup twins k = Some t" "in_delta t" by blast
    then have "fmlookup ?delta k \<noteq> None" by (simp add: fmlookup_fmrestrict)
    then show "?delta \<noteq> fmempty" by (metis fmempty_lookup)
  qed
  moreover have "(fmlookup ?delta k = Some v) = (\<exists>t. fmlookup twins k = Some t \<and> \<not> type_deleted t \<and>
       v = value_text (Expected t) \<and> v \<noteq> [] \<and> v \<noteq> value_text (Actual t))" for k v
    by (auto simp: fmlookup_fmrestrict in_delta_def in_delta_result_def split: option.splits)
  moreover have "fmlookup ?result k = (case fmlookup twins k of
        Some t \<Rightarrow> if type_deleted t then None else if value_text (Expected t) = [] then None
                 else Some (t\<lparr>ActualVersion := None, ExpectedVersion := None\<rparr>)
      | None \<Rightarrow> None)" for k
    by (auto simp: fmlookup_fmrestrict in_delta_result_def CopyMsgTwin_def split: option.splits)
  ultimately show ?thesis
    by (intro exI [of _ ?result] exI [of _ ?delta]) (simp add: BuildDeviceTwinDelta_def Let_def)
qed

section \<open>Requests that are accepted\<close>




end
