(* ===== verification/DtManager.thy ===== *)
theory DtManager
  imports DtTwin "HOL-Library.List_Lexorder" "HOL-Library.Char_ord"
begin

text \<open>
  The managers of the device twin on the context they share
  (\<open>codes/edge/pkg/devicetwin/dtcontext/dtcontext.go\<close>, \<open>dtmanager/twin.go\<close>,
  \<open>dtmanager/device.go\<close>, \<open>dtmanager/membership.go\<close>): the handlers of twin updates, of device
  attributes and states, and of the node's membership.

  The context is the record \<open>'d dt_state\<close>: the list of devices, the set of devices that have a
  mutex, the database, and the messages sent so far. Handlers run one at a time, as the locks
  of the code make them do for one device. Times and message identifiers come from a clock that
  is an argument; the order in which Go ranges over a map is the function \<open>de_range\<close> of the
  environment.
\<close>

section \<open>Context\<close>

abbreviation DeviceETPrefix :: string where "DeviceETPrefix \<equiv> ''$hw/events/device/''"
abbreviation MemETPrefix :: string where "MemETPrefix \<equiv> ''$hw/events/node/''"
abbreviation CommModule :: string where "CommModule \<equiv> ''CommModule''"
abbreviation SendToEdge :: string where "SendToEdge \<equiv> ''SendToEdge''"
abbreviation SendToCloud :: string where "SendToCloud \<equiv> ''SendToCloud''"
abbreviation BusGroup :: string where "BusGroup \<equiv> ''bus''"
abbreviation OperationPublish :: string where "OperationPublish \<equiv> ''publish''"

record 'd dt_env =
  de_orm :: "'d orm"
  de_ParseFloat :: "string \<Rightarrow> bool"
  de_range :: "string fset \<Rightarrow> string list"
  de_UpdateOperation :: string

record dt_message =
  dm_group :: string
  dm_resource :: string
  dm_operation :: string
  dm_content :: dt_payload

record DTMessage =
  dtm_module :: string
  dtm_identity :: string
  dtm_action :: string
  dtm_msg :: dt_message

record 'd dt_state =
  DeviceList :: "(string, Device) fmap"
  DeviceMutex :: "string fset"
  CommChan :: "string list"
  NodeName :: string
  dt_db :: 'd
  dt_sent :: "DTMessage list"

record dt_clock =
  ck_now :: int
  ck_key :: "string \<Rightarrow> int"
  ck_delta :: BaseMessage
  ck_sync :: BaseMessage
  ck_update :: BaseMessage
  ck_online :: string

definition GetDevice :: "string \<Rightarrow> 'd dt_state \<Rightarrow> Device option" where
  "GetDevice deviceID st = fmlookup (DeviceList st) deviceID"

definition IsDeviceExist :: "string \<Rightarrow> 'd dt_state \<Rightarrow> bool" where
  "IsDeviceExist deviceID st = (fmlookup (DeviceList st) deviceID \<noteq> None)"

definition CommTo :: "string \<Rightarrow> DTMessage \<Rightarrow> 'd dt_state \<Rightarrow> go_error \<times> 'd dt_state" where
  "CommTo dtmName content st =
     (if dtmName \<in> set (CommChan st) then (nil_error, st\<lparr>dt_sent := dt_sent st @ [content]\<rparr>)
      else (Some ''Not found chan to communicate'', st))"

definition dt_Send ::
  "string \<Rightarrow> string \<Rightarrow> string \<Rightarrow> dt_message \<Rightarrow> 'd dt_state \<Rightarrow> go_error \<times> 'd dt_state" where
  "dt_Send identity action module msg st =
     CommTo module \<lparr>dtm_module = module, dtm_identity = identity, dtm_action = action,
       dtm_msg = msg\<rparr> st"

definition BuildModelMessage :: "string \<Rightarrow> string \<Rightarrow> string \<Rightarrow> dt_payload \<Rightarrow> dt_message" where
  "BuildModelMessage grp resource operation content =
     \<lparr>dm_group = grp, dm_resource = resource, dm_operation = operation, dm_content = content\<rparr>"

section \<open>Reading a device back from the database\<close>

definition SyncDeviceFromSqlite ::
  "'d dt_env \<Rightarrow> string \<Rightarrow> 'd dt_state \<Rightarrow> go_error \<times> 'd dt_state" where
  "SyncDeviceFromSqlite E deviceID st =
     (let st1 = (if GetDevice deviceID st = None
                 then st\<lparr>DeviceMutex := finsert deviceID (DeviceMutex st)\<rparr> else st);
          obm = de_orm E; d = dt_db st1
      in case QueryDevice obm deviceID d of
           Inl e \<Rightarrow> (Some e, st1)
         | Inr [] \<Rightarrow> (Some ''not found device'', st1)
         | Inr (dbDoc # _) \<Rightarrow>
             (case QueryDeviceAttr obm deviceID d of
                Inl e \<Rightarrow> (Some e, st1)
              | Inr deviceAttr \<Rightarrow>
                  (case QueryDeviceTwin obm deviceID d of
                     Inl e \<Rightarrow> (Some e, st1)
                   | Inr deviceTwin \<Rightarrow>
                       (nil_error, st1\<lparr>DeviceList := fmupd deviceID
                          \<lparr>dev_ID = deviceID, dev_Name = dbd_Name dbDoc,
                           dev_Description = dbd_Description dbDoc, dev_State = dbd_State dbDoc,
                           dev_LastOnline = dbd_LastOnline dbDoc,
                           dev_Attributes = DeviceAttrToMsgAttr deviceAttr,
                           dev_Twin = DeviceTwinToMsgTwin deviceTwin\<rparr> (DeviceList st1)\<rparr>))))"

section \<open>Sending the outcome of a twin update\<close>

definition dealUpdateResult ::
  "string \<Rightarrow> string \<Rightarrow> int \<Rightarrow> go_error \<Rightarrow> dt_payload \<Rightarrow> 'd dt_state \<Rightarrow> 'd dt_state" where
  "dealUpdateResult deviceID eventID code err payload st =
     (let topic = DeviceETPrefix @ deviceID @ ''/twin/update/result'';
          content = (case err of None \<Rightarrow> payload | Some e \<Rightarrow> BuildErrorResult eventID code e)
      in snd (dt_Send [] SendToEdge CommModule
                (BuildModelMessage BusGroup topic OperationPublish content) st))"

definition dealDelta :: "string \<Rightarrow> dt_payload \<Rightarrow> 'd dt_state \<Rightarrow> 'd dt_state" where
  "dealDelta deviceID payload st =
     snd (dt_Send [] SendToEdge CommModule
       (BuildModelMessage BusGroup (DeviceETPrefix @ deviceID @ ''/twin/update/delta'')
          OperationPublish payload) st)"

definition dealSyncResult ::
  "'d dt_env \<Rightarrow> string \<Rightarrow> BaseMessage \<Rightarrow> (string, MsgTwin) fmap \<Rightarrow> 'd dt_state \<Rightarrow> 'd dt_state" where
  "dealSyncResult E deviceID baseMessage twin st =
     snd (dt_Send [] SendToCloud CommModule
       (BuildModelMessage ''resource'' (''device/'' @ deviceID @ ''/twin/edge_updated'')
          (de_UpdateOperation E) (PSyncTwin baseMessage twin)) st)"

definition dealDocument ::
  "string \<Rightarrow> BaseMessage \<Rightarrow> (string, TwinDoc) fmap \<Rightarrow> 'd dt_state \<Rightarrow> 'd dt_state" where
  "dealDocument deviceID baseMessage twinDocument st =
     snd (dt_Send [] SendToEdge CommModule
       (BuildModelMessage BusGroup (DeviceETPrefix @ deviceID @ ''/twin/update/document'')
          OperationPublish (fst (BuildDeviceTwinDocument baseMessage twinDocument))) st)"

section \<open>Twin updates\<close>

text \<open>The end of \<open>DealDeviceTwin\<close>: document, delta and message for the cloud. The device is the
  object that was read at the start, which a re-read from the database does not change.\<close>

definition deal_outcome ::
  "'d dt_env \<Rightarrow> dt_clock \<Rightarrow> string \<Rightarrow> string \<Rightarrow> DealTwinResult \<Rightarrow> Device \<Rightarrow> 'd dt_state \<Rightarrow> 'd dt_state" where
  "deal_outcome E ck deviceID eventID r device st =
     (let st1 = (if dr_Document r \<noteq> fmempty
                 then dealDocument deviceID \<lparr>EventID = eventID, Timestamp = ck_now ck\<rparr> (dr_Document r) st
                 else st);
          (delta, ok) = BuildDeviceTwinDelta (ck_delta ck) (dev_Twin device);
          st2 = (if ok then dealDelta deviceID delta st1 else st1)
      in if dr_SyncResult r \<noteq> fmempty
         then dealSyncResult E deviceID (ck_sync ck) (dr_SyncResult r) st2 else st2)"

definition DealDeviceTwin ::
  "'d dt_env \<Rightarrow> dt_clock \<Rightarrow> string \<Rightarrow> string \<Rightarrow> (string \<times> MsgTwin option) list option \<Rightarrow> nat
     \<Rightarrow> 'd dt_state \<Rightarrow> (go_error \<times> 'd dt_state) go" where
  "DealDeviceTwin E ck deviceID eventID msgTwin dealType st =
     (case GetDevice deviceID st of
        None \<Rightarrow>
          let e = ''update rejected due to the device is not existed''
          in Ret (Some e, dealUpdateResult deviceID eventID NotFoundCode (Some e) PEmpty st)
      | Some _ \<Rightarrow>
          (case msgTwin of
             None \<Rightarrow> Ret (Some ErrorUpdate,
                       dealUpdateResult deviceID eventID BadRequestCode (Some ErrorUpdate) PEmpty st)
           | Some content \<Rightarrow>
               do {
                 (r, devices) \<leftarrow> DealMsgTwin (de_ParseFloat E) (ck_key ck) (DeviceList st) deviceID
                                   content dealType;
                 device \<leftarrow> fmlookup devices deviceID;
                 let st1 = st\<lparr>DeviceList := devices\<rparr>;
                     bm = \<lparr>EventID = eventID, Timestamp = ck_now ck\<rparr>
                 in if dealType = RestDealType \<and> dr_Err r \<noteq> nil_error
                    then
                      let st2 = snd (SyncDeviceFromSqlite E deviceID st1);
                          updateResult = BuildDeviceTwinResult bm (dr_Result r) 0
                      in Ret (dr_Err r,
                           dealUpdateResult deviceID eventID BadRequestCode (dr_Err r) updateResult st2)
                    else
                      let (d, err) =
                            (if dr_Add r \<noteq> [] \<or> dr_Delete r \<noteq> [] \<or> dr_Update r \<noteq> []
                             then retry RetryTimes
                                    (DeviceTwinTrans (de_orm E) (dr_Add r) (dr_Delete r) (dr_Update r))
                                    (dt_db st1)
                             else (dt_db st1, nil_error));
                          st2 = st1\<lparr>dt_db := d\<rparr>;
                          st3 = (if err \<noteq> nil_error then snd (SyncDeviceFromSqlite E deviceID st2)
                                 else st2);
                          st4 = (if dealType = RestDealType
                                 then dealUpdateResult deviceID eventID InternalErrorCode err
                                        (BuildDeviceTwinResult bm (dr_Result r) dealType) st3
                                 else st3)
                      in if dealType = RestDealType \<and> err \<noteq> nil_error then Ret (err, st4)
                         else Ret (nil_error, deal_outcome E ck deviceID eventID r device st4)
               }))"

definition Updated ::
  "'d dt_env \<Rightarrow> dt_clock \<Rightarrow> string \<Rightarrow> DeviceTwinUpdate option \<Rightarrow> 'd dt_state \<Rightarrow> 'd dt_state go" where
  "Updated E ck deviceID payload st =
     (case UnmarshalDeviceTwinUpdate payload of
        Inl e \<Rightarrow> Ret (dealUpdateResult [] [] BadRequestCode (Some e) PEmpty st)
      | Inr msg \<Rightarrow>
          map_option snd (DealDeviceTwin E ck deviceID (dtu_EventID msg) (dtu_Twin msg) RestDealType st))"

text \<open>\<open>None\<close> as content stands for a content that is not a byte sequence.\<close>

definition dealTwinUpdate ::
  "'d dt_env \<Rightarrow> dt_clock \<Rightarrow> string \<Rightarrow> DeviceTwinUpdate option option \<Rightarrow> 'd dt_state
     \<Rightarrow> (go_error \<times> 'd dt_state) go" where
  "dealTwinUpdate E ck resource content st =
     (case content of
        None \<Rightarrow> Ret (Some ''invalid message content'', st)
      | Some payload \<Rightarrow> do { st' \<leftarrow> Updated E ck resource payload st; Ret (nil_error, st') })"

definition dealTwinSync ::
  "'d dt_env \<Rightarrow> dt_clock \<Rightarrow> string \<Rightarrow> DeviceTwinUpdate option option \<Rightarrow> 'd dt_state
     \<Rightarrow> (go_error \<times> 'd dt_state) go" where
  "dealTwinSync E ck resource content st =
     (case content of
        None \<Rightarrow> Ret (Some ''invalid message content'', st)
      | Some payload \<Rightarrow>
          (case UnmarshalDeviceTwinUpdate payload of
             Inl e \<Rightarrow> Ret (Some e, dealUpdateResult [] [] BadRequestCode
               (Some ''unmarshal update request body failed, Please check the request'') PEmpty st)
           | Inr msg \<Rightarrow>
               do {
                 (_, st') \<leftarrow> DealDeviceTwin E ck resource (dtu_EventID msg) (dtu_Twin msg) SyncDealType st;
                 Ret (nil_error, st')
               }))"

text \<open>The request of a get is its base message, or the text of the decoding error.\<close>

definition DealGetTwin ::
  "dt_clock \<Rightarrow> string \<Rightarrow> string + BaseMessage \<Rightarrow> 'd dt_state \<Rightarrow> go_error \<times> 'd dt_state" where
  "DealGetTwin ck deviceID payload st =
     (let msg = (case payload of
                   Inl e \<Rightarrow> BuildErrorResult [] BadRequestCode (''Unmarshal twin info '' @ e)
                 | Inr edgeGet \<Rightarrow>
                     (case GetDevice deviceID st of
                        None \<Rightarrow> BuildErrorResult (EventID edgeGet) NotFoundCode
                          (''Device '' @ deviceID @ '' not found while getting twin'')
                      | Some doc \<Rightarrow> BuildDeviceTwinResult
                          \<lparr>EventID = EventID edgeGet, Timestamp = ck_now ck\<rparr>
                          (fmmap Some (dev_Twin doc)) RestDealType))
      in dt_Send [] SendToEdge CommModule
           (BuildModelMessage BusGroup (DeviceETPrefix @ deviceID @ ''/twin/get/result'')
              OperationPublish msg) st)"

definition dealTwinGet ::
  "dt_clock \<Rightarrow> string \<Rightarrow> (string + BaseMessage) option \<Rightarrow> 'd dt_state \<Rightarrow> go_error \<times> 'd dt_state" where
  "dealTwinGet ck resource content st =
     (case content of
        None \<Rightarrow> (Some ''invalid message content'', st)
      | Some payload \<Rightarrow> (nil_error, snd (DealGetTwin ck resource payload st)))"

section \<open>Device attributes\<close>

record DealAttrResult =
  ar_Add :: "db_DeviceAttr list"
  ar_Delete :: "DeviceDelete list"
  ar_Update :: "db_Update list"
  ar_Result :: "(string, MsgAttr option) fmap"
  ar_Err :: go_error

definition empty_attr_result :: DealAttrResult where
  "empty_attr_result = \<lparr>ar_Add = [], ar_Delete = [], ar_Update = [], ar_Result = fmempty,
     ar_Err = nil_error\<rparr>"

text \<open>An attribute that exists and is not deleted: the new attribute, the changed columns, and the
  entry of the result.\<close>

definition attr_change :: "MsgAttr \<Rightarrow> MsgAttr \<Rightarrow> (MsgAttr \<times> cols \<times> MsgAttr \<times> bool) go" where
  "attr_change attr msgAttr =
     (let value_changed = (ma_Value attr \<noteq> ma_Value msgAttr);
          attr1 = (if value_changed then attr\<lparr>ma_Value := ma_Value msgAttr\<rparr> else attr);
          cols1 = (if value_changed then fmupd ''value'' (CText (ma_Value msgAttr)) fmempty else fmempty);
          res1 = \<lparr>ma_Value = (if value_changed then ma_Value msgAttr else []), ma_Optional = None,
                  ma_Metadata = None\<rparr>;
          meta_changed = (ma_Metadata msgAttr \<noteq> None \<and> ma_Metadata msgAttr \<noteq> ma_Metadata attr1);
          attr2 = (if meta_changed then attr1\<lparr>ma_Metadata := ma_Metadata msgAttr\<rparr> else attr1);
          cols2 = (case ma_Metadata msgAttr of
                     Some mm \<Rightarrow> if meta_changed
                       then fmupd ''metadata'' (CTypeMeta \<lparr>tm_Type = []\<rparr>)
                              (fmupd ''attr_type'' (CText (tm_Type mm)) cols1)
                       else cols1
                   | None \<Rightarrow> cols1);
          res2 = (if meta_changed then res1\<lparr>ma_Metadata := ma_Metadata msgAttr\<rparr> else res1)
      in case ma_Optional msgAttr of
           None \<Rightarrow> Ret (attr2, cols2, res2, value_changed \<or> meta_changed)
         | Some mo \<Rightarrow>
             do {
               opt \<leftarrow> ma_Optional attr2;
               Ret (if mo \<noteq> opt \<and> opt
                    then (attr2\<lparr>ma_Optional := Some mo\<rparr>, fmupd ''optional'' (CBool mo) cols2,
                          res2\<lparr>ma_Optional := Some mo\<rparr>, True)
                    else (attr2, cols2, res2, value_changed \<or> meta_changed))
             })"

definition new_attr_row :: "string \<Rightarrow> string \<Rightarrow> MsgAttr \<Rightarrow> db_DeviceAttr" where
  "new_attr_row deviceID key msgAttr =
     (let row = (MsgAttrToDeviceAttr key msgAttr)\<lparr>dba_DeviceID := deviceID, dba_Value := ma_Value msgAttr\<rparr>;
          row1 = (case ma_Optional msgAttr of None \<Rightarrow> row | Some b \<Rightarrow> row\<lparr>dba_Optional := b\<rparr>)
      in case ma_Metadata msgAttr of
           None \<Rightarrow> row1
         | Some m \<Rightarrow> row1\<lparr>dba_AttrType := tm_Type m, dba_Metadata := Some \<lparr>tm_Type = []\<rparr>\<rparr>)"

text \<open>One turn of the loop of \<open>DealMsgAttr\<close>.\<close>

definition deal_attr ::
  "string \<Rightarrow> nat \<Rightarrow> string \<times> MsgAttr option \<Rightarrow> DealAttrResult \<times> (string, MsgAttr) fmap
     \<Rightarrow> (DealAttrResult \<times> (string, MsgAttr) fmap) go" where
  "deal_attr deviceID dealType km st =
     (let (key, msgAttr) = km; (r, attrs) = st
      in case fmlookup attrs key of
           Some attr \<Rightarrow>
             (case msgAttr of
                None \<Rightarrow>
                  if dealType = 0
                  then do {
                    opt \<leftarrow> ma_Optional attr;
                    Ret (if opt
                         then (r\<lparr>ar_Delete := ar_Delete r @ [\<lparr>dd_DeviceID = deviceID, dd_Name = key\<rparr>],
                                 ar_Result := fmupd key None (ar_Result r)\<rparr>, fmdrop key attrs)
                         else (r, attrs))
                  }
                  else Panic
              | Some m \<Rightarrow>
                  do {
                    (attr', cols, res, isChange) \<leftarrow> attr_change attr m;
                    Ret (if isChange
                         then (r\<lparr>ar_Update := ar_Update r @
                                  [\<lparr>du_DeviceID = deviceID, du_Name = key, du_Cols = cols\<rparr>],
                                 ar_Result := fmupd key (Some res) (ar_Result r)\<rparr>, fmupd key attr' attrs)
                         else (r\<lparr>ar_Result := fmdrop key (ar_Result r)\<rparr>, fmupd key attr' attrs))
                  })
         | None \<Rightarrow>
             (case msgAttr of
                None \<Rightarrow> Panic
              | Some m \<Rightarrow>
                  Ret (r\<lparr>ar_Add := ar_Add r @ [new_attr_row deviceID key m],
                         ar_Result := fmupd key (Some m) (ar_Result r)\<rparr>, fmupd key m attrs)))"

fun deal_attrs ::
  "string \<Rightarrow> nat \<Rightarrow> (string \<times> MsgAttr option) list \<Rightarrow> DealAttrResult \<times> (string, MsgAttr) fmap
     \<Rightarrow> (DealAttrResult \<times> (string, MsgAttr) fmap) go" where
  "deal_attrs deviceID dealType [] st = Ret st"
| "deal_attrs deviceID dealType (km # kms) st =
     Option.bind (deal_attr deviceID dealType km st) (deal_attrs deviceID dealType kms)"

text \<open>The second part of \<open>DealMsgAttr\<close>: a detail removes what it does not list.\<close>

definition drop_unlisted ::
  "(string fset \<Rightarrow> string list) \<Rightarrow> string \<Rightarrow> string list \<Rightarrow> DealAttrResult \<times> (string, MsgAttr) fmap
     \<Rightarrow> DealAttrResult \<times> (string, MsgAttr) fmap" where
  "drop_unlisted rng deviceID keys st =
     (let (r, attrs) = st;
          gone = filter (\<lambda>k. k \<notin> set keys) (rng (fmdom attrs))
      in (r\<lparr>ar_Delete := ar_Delete r @ map (\<lambda>k. \<lparr>dd_DeviceID = deviceID, dd_Name = k\<rparr>) gone,
            ar_Result := fold (\<lambda>k m. fmupd k None m) gone (ar_Result r)\<rparr>,
          fold fmdrop gone attrs))"

definition DealMsgAttr ::
  "'d dt_env \<Rightarrow> string \<Rightarrow> (string \<times> MsgAttr option) list \<Rightarrow> nat \<Rightarrow> 'd dt_state
     \<Rightarrow> (DealAttrResult \<times> 'd dt_state) go" where
  "DealMsgAttr E deviceID msgAttrs dealType st =
     (case GetDevice deviceID st of
        None \<Rightarrow> Ret (empty_attr_result\<lparr>ar_Err :=
                  Some (''can not get deviceID '' @ deviceID @ '' in DealMsgAttr'')\<rparr>, st)
      | Some device \<Rightarrow>
          do {
            res \<leftarrow> deal_attrs deviceID dealType msgAttrs (empty_attr_result, dev_Attributes device);
            let (r, attrs) = (if dealType > 0
                              then drop_unlisted (de_range E) deviceID (map fst msgAttrs) res else res)
            in Ret (r, st\<lparr>DeviceList :=
                 fmupd deviceID (device\<lparr>dev_Attributes := attrs\<rparr>) (DeviceList st)\<rparr>)
          })"

definition UpdateDeviceAttr ::
  "'d dt_env \<Rightarrow> dt_clock \<Rightarrow> string \<Rightarrow> (string \<times> MsgAttr option) list \<Rightarrow> string \<Rightarrow> nat \<Rightarrow> 'd dt_state
     \<Rightarrow> 'd dt_state go" where
  "UpdateDeviceAttr E ck deviceID attributes eventID dealType st =
     (case GetDevice deviceID st of
        None \<Rightarrow> Ret st
      | Some device \<Rightarrow>
          do {
            (r, st1) \<leftarrow> DealMsgAttr E (dev_ID device) attributes dealType st;
            if ar_Err r \<noteq> nil_error then Ret st1
            else if ar_Add r \<noteq> [] \<or> ar_Delete r \<noteq> [] \<or> ar_Update r \<noteq> []
            then
              let (d, err) = retry RetryTimes
                    (DeviceAttrTrans (de_orm E) (ar_Add r) (ar_Delete r) (ar_Update r)) (dt_db st1);
                  st2 = st1\<lparr>dt_db := d\<rparr>;
                  bm = \<lparr>EventID = eventID, Timestamp = ck_now ck\<rparr>
              in Ret (if err \<noteq> nil_error then snd (SyncDeviceFromSqlite E deviceID st2)
                      else snd (dt_Send deviceID SendToEdge CommModule
                             (BuildModelMessage BusGroup (DeviceETPrefix @ deviceID @ ''/updated'')
                                OperationPublish (BuildDeviceAttrUpdate bm (ar_Result r))) st2))
            else Ret st1
          })"

record DeviceUpdate =
  dvu_EventID :: string
  dvu_State :: string
  dvu_Attributes :: "(string \<times> MsgAttr option) list"

definition dealDeviceAttrUpdate ::
  "'d dt_env \<Rightarrow> dt_clock \<Rightarrow> string \<Rightarrow> string + DeviceUpdate \<Rightarrow> 'd dt_state
     \<Rightarrow> (go_error \<times> 'd dt_state) go" where
  "dealDeviceAttrUpdate E ck resource content st =
     (case content of
        Inl e \<Rightarrow> Ret (Some e, st)
      | Inr u \<Rightarrow>
          do {
            st' \<leftarrow> UpdateDeviceAttr E ck resource (dvu_Attributes u) (dvu_EventID u) 0 st;
            Ret (nil_error, st')
          })"

definition device_states :: "string list" where
  "device_states = [''online'', ''offline'', ''ok'', ''unknown'', ''disconnected'']"

definition dealDeviceStateUpdate ::
  "'d dt_env \<Rightarrow> dt_clock \<Rightarrow> string \<Rightarrow> string + DeviceUpdate \<Rightarrow> 'd dt_state \<Rightarrow> go_error \<times> 'd dt_state" where
  "dealDeviceStateUpdate E ck resource content st =
     (case content of
        Inl e \<Rightarrow> (Some e, st)
      | Inr u \<Rightarrow>
          (case GetDevice resource st of
             None \<Rightarrow> (nil_error, st)
           | Some device \<Rightarrow>
               if ToLower (dvu_State u) \<notin> set device_states then (nil_error, st)
               else
                 let (d, err) = retry RetryTimes (UpdateDeviceFields (de_orm E) (dev_ID device)
                       (fmupd ''state'' (CText (dvu_State u))
                         (fmupd ''last_online'' (CText (ck_online ck)) fmempty))) (dt_db st);
                     st1 = st\<lparr>dt_db := d\<rparr>
                 in if err \<noteq> nil_error then (err, st1)
                    else
                      let device' = device\<lparr>dev_State := dvu_State u, dev_LastOnline := ck_online ck\<rparr>;
                          st2 = st1\<lparr>DeviceList := fmupd resource device' (DeviceList st1)\<rparr>;
                          payload = BuildDeviceState (ck_update ck) device';
                          st3 = snd (dt_Send (dev_ID device') SendToEdge CommModule
                            (BuildModelMessage BusGroup
                               (DeviceETPrefix @ dev_ID device' @ ''/state/update/result'')
                               OperationPublish payload) st2);
                          st4 = snd (dt_Send resource SendToCloud CommModule
                            (BuildModelMessage ''resource''
                               (''device/'' @ dev_ID device' @ ''/state/update'')
                               (de_UpdateOperation E) payload) st3)
                      in (nil_error, st4)))"

section \<open>Membership\<close>

definition getRemoveList :: "'d dt_env \<Rightarrow> MsgDevice list \<Rightarrow> 'd dt_state \<Rightarrow> MsgDevice list" where
  "getRemoveList E devices st =
     map (\<lambda>k. \<lparr>mdv_ID = k, mdv_Name = [], mdv_Description = [], mdv_State = [],
               mdv_Attributes = None, mdv_Twin = None\<rparr>)
       (filter (\<lambda>k. \<not> list_ex (\<lambda>v. mdv_ID v = k) devices) (de_range E (fmdom (DeviceList st))))"

definition attrs_or_empty :: "MsgDevice \<Rightarrow> (string \<times> MsgAttr option) list" where
  "attrs_or_empty device = (case mdv_Attributes device of None \<Rightarrow> [] | Some l \<Rightarrow> l)"

text \<open>A device of \<open>addDevice\<close> that the context does not have yet. When the row cannot be written,
  the code unlocks the new mutex, which is locked only for a delta: without one the Go run time
  stops the process.\<close>

definition add_new_device ::
  "'d dt_env \<Rightarrow> dt_clock \<Rightarrow> MsgDevice \<Rightarrow> string \<Rightarrow> bool \<Rightarrow> nat \<Rightarrow> 'd dt_state \<Rightarrow> 'd dt_state go" where
  "add_new_device E ck device eventID delta dealType st =
     (let i = mdv_ID device;
          st1 = st\<lparr>DeviceMutex := finsert i (DeviceMutex st),
                   DeviceList := fmupd i \<lparr>dev_ID = i, dev_Name = mdv_Name device,
                     dev_Description = mdv_Description device, dev_State = mdv_State device,
                     dev_LastOnline = [], dev_Attributes = fmempty, dev_Twin = fmempty\<rparr>
                     (DeviceList st)\<rparr>;
          (d, err) = retry RetryTimes (AddDeviceTrans (de_orm E)
             [\<lparr>dbd_ID = i, dbd_Name = mdv_Name device, dbd_Description = mdv_Description device,
               dbd_State = mdv_State device, dbd_LastOnline = []\<rparr>] [] []) (dt_db st1);
          st2 = st1\<lparr>dt_db := d\<rparr>
      in if err \<noteq> nil_error
         then (if delta then Ret (st2\<lparr>DeviceList := fmdrop i (DeviceList st2)\<rparr>) else Panic)
         else
           do {
             st3 \<leftarrow> (case mdv_Twin device of
                       None \<Rightarrow> Ret st2
                     | Some _ \<Rightarrow> map_option snd (DealDeviceTwin E ck i eventID (mdv_Twin device) dealType st2));
             st4 \<leftarrow> (case mdv_Attributes device of
                       None \<Rightarrow> Ret st3
                     | Some attrs \<Rightarrow> UpdateDeviceAttr E ck i attrs eventID dealType st3);
             result \<leftarrow> MarshalMembershipUpdate (ck_update ck) [device] [];
             Ret (snd (dt_Send [] SendToEdge CommModule
               (BuildModelMessage BusGroup (MemETPrefix @ NodeName st4 @ ''/membership/updated'')
                  OperationPublish result) st4))
           })"

definition add_one_device ::
  "'d dt_env \<Rightarrow> (string \<Rightarrow> dt_clock) \<Rightarrow> string \<Rightarrow> bool \<Rightarrow> MsgDevice \<Rightarrow> 'd dt_state \<Rightarrow> 'd dt_state go" where
  "add_one_device E ckf eventID delta device st =
     (let ck = ckf (mdv_ID device); dealType = (if delta then 0 else 1)
      in case GetDevice (mdv_ID device) st of
           Some _ \<Rightarrow>
             if delta then Ret st
             else do {
               st1 \<leftarrow> UpdateDeviceAttr E ck (mdv_ID device) (attrs_or_empty device) eventID dealType st;
               map_option snd (DealDeviceTwin E ck (mdv_ID device) eventID (mdv_Twin device) dealType st1)
             }
         | None \<Rightarrow> add_new_device E ck device eventID delta dealType st)"

fun addDevice ::
  "'d dt_env \<Rightarrow> (string \<Rightarrow> dt_clock) \<Rightarrow> MsgDevice list \<Rightarrow> string \<Rightarrow> bool \<Rightarrow> 'd dt_state \<Rightarrow> 'd dt_state go" where
  "addDevice E ckf [] eventID delta st = Ret st"
| "addDevice E ckf (device # rest) eventID delta st =
     Option.bind (add_one_device E ckf (if delta then eventID else []) delta device st)
       (addDevice E ckf rest eventID delta)"

definition remove_one_device ::
  "'d dt_env \<Rightarrow> (string \<Rightarrow> dt_clock) \<Rightarrow> MsgDevice \<Rightarrow> 'd dt_state \<Rightarrow> 'd dt_state go" where
  "remove_one_device E ckf device st =
     (case GetDevice (mdv_ID device) st of
        None \<Rightarrow> Ret st
      | Some _ \<Rightarrow>
          let (d, _) = retry RetryTimes (DeleteDeviceTrans (de_orm E) [mdv_ID device]) (dt_db st);
              st1 = st\<lparr>dt_db := d, DeviceList := fmdrop (mdv_ID device) (DeviceList st),
                       DeviceMutex := DeviceMutex st |-| {|mdv_ID device|}\<rparr>
          in do {
               result \<leftarrow> MarshalMembershipUpdate (ck_update (ckf (mdv_ID device))) [] [device];
               Ret (snd (dt_Send [] SendToEdge CommModule
                 (BuildModelMessage BusGroup (MemETPrefix @ NodeName st1 @ ''/membership/updated'')
                    OperationPublish result) st1))
             })"

fun removeDevice ::
  "'d dt_env \<Rightarrow> (string \<Rightarrow> dt_clock) \<Rightarrow> MsgDevice list \<Rightarrow> 'd dt_state \<Rightarrow> 'd dt_state go" where
  "removeDevice E ckf [] st = Ret st"
| "removeDevice E ckf (device # rest) st =
     Option.bind (remove_one_device E ckf device st) (removeDevice E ckf rest)"

text \<open>\<open>Inl\<close> is the decoding error of the message.\<close>

definition dealMembershipDetail ::
  "'d dt_env \<Rightarrow> (string \<Rightarrow> dt_clock) \<Rightarrow> string + string \<times> MsgDevice list \<Rightarrow> 'd dt_state
     \<Rightarrow> (go_error \<times> 'd dt_state) go" where
  "dealMembershipDetail E ckf content st =
     (case content of
        Inl e \<Rightarrow> Ret (Some e, st)
      | Inr (eventID, devices) \<Rightarrow>
          do {
            st1 \<leftarrow> addDevice E ckf devices eventID False st;
            let toRemove = getRemoveList E devices st1
            in do {
                 st2 \<leftarrow> (if toRemove \<noteq> [] then removeDevice E ckf toRemove st1 else Ret st1);
                 Ret (nil_error, st2)
               }
          })"

definition dealMembershipUpdate ::
  "'d dt_env \<Rightarrow> (string \<Rightarrow> dt_clock) \<Rightarrow> string + string \<times> MsgDevice list \<times> MsgDevice list \<Rightarrow> 'd dt_state
     \<Rightarrow> (go_error \<times> 'd dt_state) go" where
  "dealMembershipUpdate E ckf content st =
     (case content of
        Inl e \<Rightarrow> Ret (Some e, st)
      | Inr (eventID, addDevices, removeDevices) \<Rightarrow>
          do {
            st1 \<leftarrow> (if addDevices \<noteq> [] then addDevice E ckf addDevices eventID False st else Ret st);
            st2 \<leftarrow> (if removeDevices \<noteq> [] then removeDevice E ckf removeDevices st1 else Ret st1);
            Ret (nil_error, st2)
          })"

definition dealMembershipGetInner ::
  "'d dt_env \<Rightarrow> dt_clock \<Rightarrow> string + BaseMessage \<Rightarrow> 'd dt_state \<Rightarrow> go_error \<times> 'd dt_state" where
  "dealMembershipGetInner E ck payload st =
     (let result = (case payload of
            Inl e \<Rightarrow> BuildErrorResult [] BadRequestCode (''Unmarshal get membership info '' @ e)
          | Inr edgeGet \<Rightarrow>
              BuildMembershipGetResult \<lparr>EventID = EventID edgeGet, Timestamp = ck_now ck\<rparr>
                (List.map_filter (fmlookup (DeviceList st)) (de_range E (fmdom (DeviceList st)))))
      in dt_Send [] SendToEdge CommModule
           (BuildModelMessage BusGroup (MemETPrefix @ NodeName st @ ''/membership/get/result'')
              OperationPublish result) st)"

section \<open>What the handlers leave alone\<close>

lemma dt_Send_simps [simp]:
  "DeviceList (snd (dt_Send i a m msg st)) = DeviceList st"
  "dt_db (snd (dt_Send i a m msg st)) = dt_db st"
  "CommChan (snd (dt_Send i a m msg st)) = CommChan st"
  "dt_sent (snd (dt_Send i a m msg st)) = dt_sent st @ (if m \<in> set (CommChan st)
     then [\<lparr>dtm_module = m, dtm_identity = i, dtm_action = a, dtm_msg = msg\<rparr>] else [])"
  by (simp_all add: dt_Send_def CommTo_def)

lemma deal_messages_devices [simp]:
  "DeviceList (dealUpdateResult d e c err p st) = DeviceList st"
  "DeviceList (dealDelta d p st) = DeviceList st"
  "DeviceList (dealSyncResult E d bm tw st) = DeviceList st"
  "DeviceList (dealDocument d bm doc st) = DeviceList st"
  "CommChan (dealUpdateResult d e c err p st) = CommChan st"
  "dt_db (dealUpdateResult d e c err p st) = dt_db st"
  by (simp_all add: dealUpdateResult_def dealDelta_def dealSyncResult_def dealDocument_def Let_def)

lemma deal_outcome_devices [simp]: "DeviceList (deal_outcome E ck d e r dev st) = DeviceList st"
  by (simp add: deal_outcome_def Let_def split: prod.split)

lemma SyncDeviceFromSqlite_dom:
  "deviceID |\<in>| fmdom (DeviceList st) \<Longrightarrow>
   fmdom (DeviceList (snd (SyncDeviceFromSqlite E deviceID st))) = fmdom (DeviceList st)"
  by (auto simp: SyncDeviceFromSqlite_def Let_def GetDevice_def split: sum.split list.split
      option.split)

lemma SyncDeviceFromSqlite_simps [simp]:
  "dt_db (snd (SyncDeviceFromSqlite E d st)) = dt_db st"
  "dt_sent (snd (SyncDeviceFromSqlite E d st)) = dt_sent st"
  "CommChan (snd (SyncDeviceFromSqlite E d st)) = CommChan st"
  by (simp_all add: SyncDeviceFromSqlite_def Let_def split: sum.split list.split)

lemma DealMsgTwin_dom:
  "DealMsgTwin pf now devices deviceID kms ty = Ret (r, devices') \<Longrightarrow>
   deviceID |\<in>| fmdom devices \<Longrightarrow> fmdom devices' = fmdom devices"
  by (auto simp: DealMsgTwin_def bind_eq_Some_go split: option.splits)

lemma DealDeviceTwin_dom:
  assumes "DealDeviceTwin E ck deviceID eventID msgTwin dealType st = Ret (err, st')"
  shows "fmdom (DeviceList st') = fmdom (DeviceList st)"
proof (cases "GetDevice deviceID st")
  case None
  with assms show ?thesis by (auto simp: DealDeviceTwin_def Let_def)
next
  case (Some dev)
  then have d: "deviceID |\<in>| fmdom (DeviceList st)" by (auto simp: GetDevice_def intro: fmdomI)
  show ?thesis
  proof (cases msgTwin)
    case None
    with Some assms show ?thesis by (auto simp: DealDeviceTwin_def)
  next
    case (Some content)
    with assms \<open>GetDevice deviceID st = Some dev\<close> obtain r devices where
      m: "DealMsgTwin (de_ParseFloat E) (ck_key ck) (DeviceList st) deviceID content dealType
        = Ret (r, devices)"
      by (auto simp: DealDeviceTwin_def bind_eq_Some_go)
    have dd: "fmdom devices = fmdom (DeviceList st)" using DealMsgTwin_dom [OF m d] .
    with d have "fmdom (DeviceList (snd (SyncDeviceFromSqlite E deviceID (st\<lparr>DeviceList := devices,
        dt_db := x\<rparr>)))) = fmdom devices"
      "fmdom (DeviceList (snd (SyncDeviceFromSqlite E deviceID (st\<lparr>DeviceList := devices\<rparr>))))
        = fmdom devices" for x
      by (simp_all add: SyncDeviceFromSqlite_dom)
    with assms Some \<open>GetDevice deviceID st = Some dev\<close> m dd show ?thesis
      by (auto simp: DealDeviceTwin_def bind_eq_Some_go Let_def split: if_splits prod.splits)
  qed
qed

lemma DealMsgAttr_outcome:
  assumes "GetDevice deviceID st = Some dev" and "DealMsgAttr E deviceID kms ty st = Ret (r, st')"
  obtains res attrs where "deal_attrs deviceID ty kms (empty_attr_result, dev_Attributes dev) = Ret res"
    and "(if ty > 0 then drop_unlisted (de_range E) deviceID (map fst kms) res else res) = (r, attrs)"
    and "st' = st\<lparr>DeviceList := fmupd deviceID (dev\<lparr>dev_Attributes := attrs\<rparr>) (DeviceList st)\<rparr>"
proof -
  obtain res where d: "deal_attrs deviceID ty kms (empty_attr_result, dev_Attributes dev) = Ret res"
    using assms by (cases "deal_attrs deviceID ty kms (empty_attr_result, dev_Attributes dev)")
      (auto simp: DealMsgAttr_def)
  obtain r1 attrs where u: "(if ty > 0 then drop_unlisted (de_range E) deviceID (map fst kms) res
      else res) = (r1, attrs)" by force
  have "Ret (r1, st\<lparr>DeviceList := fmupd deviceID (dev\<lparr>dev_Attributes := attrs\<rparr>) (DeviceList st)\<rparr>)
      = Ret (r, st')"
    using assms d u by (simp add: DealMsgAttr_def)
  with d u that show ?thesis by blast
qed

lemma DealMsgAttr_dom:
  assumes "DealMsgAttr E deviceID kms ty st = Ret (r, st')"
  shows "fmdom (DeviceList st') = fmdom (DeviceList st)"
proof (cases "GetDevice deviceID st")
  case None
  with assms show ?thesis by (auto simp: DealMsgAttr_def)
next
  case (Some dev)
  then have "deviceID |\<in>| fmdom (DeviceList st)" by (auto simp: GetDevice_def intro: fmdomI)
  with DealMsgAttr_outcome [OF Some assms] show ?thesis by (metis (no_types, lifting)
      dt_state.select_convs(1) dt_state.surjective dt_state.update_convs(1) finsert_absorb fmdom_fmupd)
qed

lemma UpdateDeviceAttr_dom:
  assumes "UpdateDeviceAttr E ck deviceID attrs eventID ty st = Ret st'"
  shows "fmdom (DeviceList st') = fmdom (DeviceList st)"
proof (cases "GetDevice deviceID st")
  case None
  with assms show ?thesis by (auto simp: UpdateDeviceAttr_def)
next
  case (Some dev)
  then have d: "deviceID |\<in>| fmdom (DeviceList st)" by (auto simp: GetDevice_def intro: fmdomI)
  from Some assms obtain r st1 where m: "DealMsgAttr E (dev_ID dev) attrs ty st = Ret (r, st1)"
    by (auto simp: UpdateDeviceAttr_def bind_eq_Some_go)
  have d1: "fmdom (DeviceList st1) = fmdom (DeviceList st)" using DealMsgAttr_dom [OF m] .
  with d have "fmdom (DeviceList (snd (SyncDeviceFromSqlite E deviceID (st1\<lparr>dt_db := x\<rparr>))))
      = fmdom (DeviceList st)" for x
    by (simp add: SyncDeviceFromSqlite_dom)
  with assms Some m d1 show ?thesis
    by (auto simp: UpdateDeviceAttr_def bind_eq_Some_go Let_def split: if_splits prod.splits)
qed

section \<open>Membership\<close>

lemma add_new_device_dom:
  assumes "add_new_device E ck device eventID False dealType st = Ret st'"
  shows "fmdom (DeviceList st') = finsert (mdv_ID device) (fmdom (DeviceList st))"
proof -
  let ?i = "mdv_ID device"
  obtain d err where r: "retry RetryTimes (AddDeviceTrans (de_orm E) [\<lparr>dbd_ID = ?i,
      dbd_Name = mdv_Name device, dbd_Description = mdv_Description device,
      dbd_State = mdv_State device, dbd_LastOnline = []\<rparr>] [] []) (dt_db st) = (d, err)" by force
  with assms have e: "err = nil_error" by (auto simp: add_new_device_def Let_def split: if_splits)
  let ?st2 = "st\<lparr>DeviceMutex := finsert ?i (DeviceMutex st), DeviceList := fmupd ?i \<lparr>dev_ID = ?i,
     dev_Name = mdv_Name device, dev_Description = mdv_Description device,
     dev_State = mdv_State device, dev_LastOnline = [], dev_Attributes = fmempty,
     dev_Twin = fmempty\<rparr> (DeviceList st), dt_db := d\<rparr>"
  let ?twin = "case mdv_Twin device of None \<Rightarrow> Ret ?st2 | Some _ \<Rightarrow> map_option snd
      (DealDeviceTwin E ck ?i eventID (mdv_Twin device) dealType ?st2)"
  let ?attr = "\<lambda>st3. case mdv_Attributes device of None \<Rightarrow> Ret st3 | Some attrs \<Rightarrow>
      UpdateDeviceAttr E ck ?i attrs eventID dealType st3"
  have "Option.bind ?twin (\<lambda>st3. Option.bind (?attr st3) (\<lambda>st4.
      Option.bind (MarshalMembershipUpdate (ck_update ck) [device] []) (\<lambda>result.
        Ret (snd (dt_Send [] SendToEdge CommModule (BuildModelMessage BusGroup
          (MemETPrefix @ NodeName st4 @ ''/membership/updated'') OperationPublish result) st4)))))
      = Ret st'"
    using assms r e by (simp add: add_new_device_def Let_def)
  then obtain st3 st4 where 3: "?twin = Ret st3" and 4: "?attr st3 = Ret st4"
    and s: "DeviceList st' = DeviceList st4"
    by (fastforce simp only: bind_eq_Some_go dt_Send_simps option.inject)
  have "fmdom (DeviceList st3) = finsert ?i (fmdom (DeviceList st))"
    using 3 DealDeviceTwin_dom by (fastforce split: option.splits)
  moreover have "fmdom (DeviceList st4) = fmdom (DeviceList st3)"
    using 4 by (cases "mdv_Attributes device") (simp_all add: UpdateDeviceAttr_dom)
  ultimately show ?thesis using s by simp
qed

lemma add_one_device_dom:
  assumes "add_one_device E ckf eventID False device st = Ret st'"
  shows "fmdom (DeviceList st') = finsert (mdv_ID device) (fmdom (DeviceList st))"
proof (cases "GetDevice (mdv_ID device) st")
  case None
  then have "add_new_device E (ckf (mdv_ID device)) device eventID False 1 st = Ret st'"
    using assms by (simp add: add_one_device_def Let_def)
  then show ?thesis by (rule add_new_device_dom)
next
  case (Some dev)
  then have d: "finsert (mdv_ID device) (fmdom (DeviceList st)) = fmdom (DeviceList st)"
    by (auto simp: GetDevice_def finsert_absorb intro: fmdomI)
  from Some assms obtain st1 err where
    "UpdateDeviceAttr E (ckf (mdv_ID device)) (mdv_ID device) (attrs_or_empty device) eventID 1 st = Ret st1"
    and "DealDeviceTwin E (ckf (mdv_ID device)) (mdv_ID device) eventID (mdv_Twin device) 1 st1
      = Ret (err, st')"
    by (auto simp: add_one_device_def bind_eq_Some_go Let_def)
  then show ?thesis using d UpdateDeviceAttr_dom DealDeviceTwin_dom by metis
qed

lemma addDevice_dom:
  "addDevice E ckf devices eventID False st = Ret st' \<Longrightarrow>
   fset (fmdom (DeviceList st')) = mdv_ID ` set devices \<union> fset (fmdom (DeviceList st))"
proof (induction devices arbitrary: st)
  case Nil
  then show ?case by simp
next
  case (Cons device rest)
  then obtain st1 where 1: "add_one_device E ckf [] False device st = Ret st1"
    and 2: "addDevice E ckf rest eventID False st1 = Ret st'"
    by (auto simp: bind_eq_Some_go)
  from Cons.IH [OF 2] add_one_device_dom [OF 1] show ?case by auto
qed

lemma remove_one_device_dom:
  "remove_one_device E ckf device st = Ret st' \<Longrightarrow>
   fset (fmdom (DeviceList st')) = fset (fmdom (DeviceList st)) - {mdv_ID device}"
  by (auto simp: remove_one_device_def GetDevice_def bind_eq_Some_go Let_def
      split: option.splits prod.splits dest: fmdom_notI fmdomI)

lemma removeDevice_dom:
  "removeDevice E ckf devices st = Ret st' \<Longrightarrow>
   fset (fmdom (DeviceList st')) = fset (fmdom (DeviceList st)) - mdv_ID ` set devices"
proof (induction devices arbitrary: st)
  case Nil
  then show ?case by simp
next
  case (Cons device rest)
  then obtain st1 where 1: "remove_one_device E ckf device st = Ret st1"
    and 2: "removeDevice E ckf rest st1 = Ret st'"
    by (auto simp: bind_eq_Some_go)
  from Cons.IH [OF 2] remove_one_device_dom [OF 1] show ?case by auto
qed

text \<open>Go ranges over every key of a map once.\<close>

definition range_law :: "'d dt_env \<Rightarrow> bool" where
  "range_law E \<longleftrightarrow> (\<forall>S. set (de_range E S) = fset S \<and> distinct (de_range E S))"

text \<open>C10. After a membership detail the node has exactly the devices that the detail lists: the
  device list of the context has their identifiers and no other.\<close>

theorem dealMembershipDetail_exact:
  assumes "range_law E"
    and "dealMembershipDetail E ckf (Inr (eventID, devices)) st = Ret (err, st')"
  shows "err = nil_error \<and> fset (fmdom (DeviceList st')) = mdv_ID ` set devices"
proof -
  from assms(2) obtain st1 where 1: "addDevice E ckf devices eventID False st = Ret st1"
    and 2: "(if getRemoveList E devices st1 \<noteq> [] then removeDevice E ckf (getRemoveList E devices st1)
      st1 else Ret st1) = Ret st'" and e: "err = nil_error"
    by (auto simp: dealMembershipDetail_def bind_eq_Some_go Let_def)
  have "mdv_ID ` set (getRemoveList E devices st1) =
      fset (fmdom (DeviceList st1)) - mdv_ID ` set devices"
    using assms(1) by (auto simp: getRemoveList_def range_law_def list_ex_iff image_iff)
  moreover have "removeDevice E ckf (getRemoveList E devices st1) st1 = Ret st'"
    using 2 by (auto split: if_splits)
  ultimately have "fset (fmdom (DeviceList st')) = fset (fmdom (DeviceList st1)) -
      (fset (fmdom (DeviceList st1)) - mdv_ID ` set devices)"
    using removeDevice_dom by metis
  with addDevice_dom [OF 1] e show ?thesis by auto
qed

definition demo_dt_env :: "mini_db dt_env" where
  "demo_dt_env = \<lparr>de_orm = mini_orm, de_ParseFloat = (\<lambda>_. True), de_range = sorted_list_of_fset,
     de_UpdateOperation = ''update''\<rparr>"

definition demo_dt_state :: "nat \<Rightarrow> mini_db dt_state" where
  "demo_dt_state budget = \<lparr>DeviceList = fmupd ''d1'' demo_device fmempty, DeviceMutex = {|''d1''|},
     CommChan = [CommModule], NodeName = ''edge-1'',
     dt_db = \<lparr>md_twins = [], md_snapshot = [], md_budget = budget\<rparr>, dt_sent = []\<rparr>"

definition demo_clock :: dt_clock where
  "demo_clock = \<lparr>ck_now = 5, ck_key = (\<lambda>_. 5), ck_delta = \<lparr>EventID = ''a'', Timestamp = 5\<rparr>,
     ck_sync = \<lparr>EventID = ''b'', Timestamp = 5\<rparr>, ck_update = \<lparr>EventID = ''c'', Timestamp = 5\<rparr>,
     ck_online = ''2024-01-01 00:00:00''\<rparr>"

lemma demo_range_law: "range_law demo_dt_env"
  by (simp add: range_law_def demo_dt_env_def sorted_list_of_fset.rep_eq)

theorem dealMembershipDetail_exact_witness:
  "\<exists>err st'. dealMembershipDetail demo_dt_env (\<lambda>_. demo_clock) (Inr (''e'', [])) (demo_dt_state 10)
      = Ret (err, st') \<and> fset (fmdom (DeviceList st')) = {}"
proof -
  let ?call = "dealMembershipDetail demo_dt_env (\<lambda>_. demo_clock) (Inr (''e'', [])) (demo_dt_state 10)"
  have "de_range demo_dt_env {|''d1''|} = [''d1'']"
    by (simp add: demo_dt_env_def sorted_list_of_fset.rep_eq)
  then obtain err st' where c: "?call = Ret (err, st')"
    by (cases "retry RetryTimes (DeleteDeviceTrans (de_orm demo_dt_env) [''d1''])
        (dt_db (demo_dt_state 10))")
       (simp add: dealMembershipDetail_def getRemoveList_def remove_one_device_def GetDevice_def
        demo_dt_state_def MarshalMembershipUpdate_def marshal_device_def Let_def)
  with dealMembershipDetail_exact [OF demo_range_law c] show ?thesis by auto
qed

section \<open>Attributes\<close>

lemma deal_attr_keys:
  assumes "deal_attr deviceID ty (key, m) (r, attrs) = Ret (r', attrs')" and "ty \<noteq> 0"
  shows "fset (fmdom attrs') = insert key (fset (fmdom attrs))"
proof (cases "fmlookup attrs key")
  case None
  with assms show ?thesis by (cases m) (auto simp: deal_attr_def)
next
  case (Some a)
  then have "key \<in> fset (fmdom attrs)" by (auto intro: fmdomI)
  with Some assms show ?thesis
    by (cases m) (auto simp: deal_attr_def bind_eq_Some_go split: if_splits)
qed

lemma deal_attrs_keys:
  "deal_attrs deviceID ty kms (r, attrs) = Ret (r', attrs') \<Longrightarrow> ty \<noteq> 0 \<Longrightarrow>
   fset (fmdom attrs') = fst ` set kms \<union> fset (fmdom attrs)"
proof (induction kms arbitrary: r attrs)
  case Nil
  then show ?case by simp
next
  case (Cons km kms)
  obtain key m where km: "km = (key, m)" by force
  from Cons.prems(1) obtain r1 attrs1 where 1: "deal_attr deviceID ty km (r, attrs) = Ret (r1, attrs1)"
    and 2: "deal_attrs deviceID ty kms (r1, attrs1) = Ret (r', attrs')"
    by (auto simp: bind_eq_Some_go)
  show ?case
    using Cons.IH [OF 2 Cons.prems(2)] deal_attr_keys [OF 1 [unfolded km] Cons.prems(2)] km by auto
qed

lemma fold_fmdrop_dom: "fset (fmdom (fold fmdrop ks m)) = fset (fmdom m) - set ks"
  by (induction ks arbitrary: m) auto

text \<open>C32. A detail makes the attributes of a device exactly the listed ones: afterwards the device has
  an attribute under every listed name and under no other, and every name that is dropped is in
  the list of rows to delete.\<close>

theorem DealMsgAttr_detail_exact:
  assumes "range_law E" and "GetDevice deviceID st = Some device" and "dealType > 0"
    and "DealMsgAttr E deviceID msgAttrs dealType st = Ret (r, st')"
  shows "\<exists>device'. GetDevice deviceID st' = Some device' \<and>
    fset (fmdom (dev_Attributes device')) = fst ` set msgAttrs \<and>
    fset (fmdom (dev_Attributes device)) - fst ` set msgAttrs \<subseteq> dd_Name ` set (ar_Delete r)"
proof -
  from DealMsgAttr_outcome [OF assms(2,4)] obtain res attrs
    where d: "deal_attrs deviceID dealType msgAttrs (empty_attr_result, dev_Attributes device) = Ret res"
    and u0: "(if dealType > 0 then drop_unlisted (de_range E) deviceID (map fst msgAttrs) res else res)
      = (r, attrs)"
    and st': "st' = st\<lparr>DeviceList := fmupd deviceID (device\<lparr>dev_Attributes := attrs\<rparr>) (DeviceList st)\<rparr>" .
  have u: "drop_unlisted (de_range E) deviceID (map fst msgAttrs) res = (r, attrs)"
    using u0 assms(3) by simp
  obtain r1 attrs1 where res: "res = (r1, attrs1)" by force
  have k: "fset (fmdom attrs1) = fst ` set msgAttrs \<union> fset (fmdom (dev_Attributes device))"
    using deal_attrs_keys d assms(3) res by blast
  define gone where "gone = filter (\<lambda>k. k \<notin> set (map fst msgAttrs)) (de_range E (fmdom attrs1))"
  have g: "set gone = fset (fmdom attrs1) - fst ` set msgAttrs"
    using assms(1) by (simp add: gone_def range_law_def set_diff_eq)
  have a: "attrs = fold fmdrop gone attrs1" and del: "set gone \<subseteq> dd_Name ` set (ar_Delete r)"
    using u by (auto simp: res drop_unlisted_def Let_def gone_def image_Un image_image)
  have "fset (fmdom attrs) = fst ` set msgAttrs"
    unfolding a fold_fmdrop_dom g k by blast
  moreover have "fset (fmdom (dev_Attributes device)) - fst ` set msgAttrs \<subseteq> dd_Name ` set (ar_Delete r)"
    using del unfolding g k by blast
  ultimately show ?thesis by (simp add: st' GetDevice_def)
qed

theorem DealMsgAttr_detail_exact_witness:
  "\<exists>r st' device'. DealMsgAttr demo_dt_env ''d1''
      [(''colour'', Some \<lparr>ma_Value = ''red'', ma_Optional = None, ma_Metadata = None\<rparr>)] 1
      (demo_dt_state 10) = Ret (r, st') \<and> GetDevice ''d1'' st' = Some device' \<and>
    fset (fmdom (dev_Attributes device')) = {''colour''}"
proof -
  let ?a = "[(''colour'', Some \<lparr>ma_Value = ''red'', ma_Optional = None, ma_Metadata = None\<rparr>)]"
  have g: "GetDevice ''d1'' (demo_dt_state 10) = Some demo_device"
    by (simp add: GetDevice_def demo_dt_state_def)
  obtain r st' where c: "DealMsgAttr demo_dt_env ''d1'' ?a 1 (demo_dt_state 10) = Ret (r, st')"
    using g by (simp add: DealMsgAttr_def deal_attr_def demo_device_def drop_unlisted_def Let_def)
  with DealMsgAttr_detail_exact [OF demo_range_law g _ c] show ?thesis by auto
qed

section \<open>Requests that fail\<close>

text \<open>C11. When the database does not take an update from the edge, in all five attempts, the update
  leaves no trace: every query answers as before, the device in memory is read back from the
  database, the caller gets the error, and the only message that is sent is the error answer with
  code 500.\<close>

theorem DealDeviceTwin_write_failure:
  assumes "orm_laws (de_orm E)" and "GetDevice deviceID st = Some device"
    and "DealMsgTwin (de_ParseFloat E) (ck_key ck) (DeviceList st) deviceID content RestDealType
           = Ret (r, devices)"
    and "dr_Err r = nil_error" and "dr_Add r \<noteq> [] \<or> dr_Update r \<noteq> []"
    and "retry RetryTimes (DeviceTwinTrans (de_orm E) (dr_Add r) (dr_Delete r) (dr_Update r)) (dt_db st)
           = (d, Some e)"
    and "orm_QueryDevice (de_orm E) deviceID (dt_db st) = Inr (row # rows)"
    and "orm_QueryAttr (de_orm E) deviceID (dt_db st) = Inr attrs"
    and "orm_QueryTwin (de_orm E) deviceID (dt_db st) = Inr twins"
    and "CommModule \<in> set (CommChan st)"
  shows "\<exists>st' device'. DealDeviceTwin E ck deviceID eventID (Some content) RestDealType st = Ret (Some e, st') \<and>
    same_tables (de_orm E) (dt_db st) (dt_db st') \<and> GetDevice deviceID st' = Some device' \<and>
    dev_Twin device' = DeviceTwinToMsgTwin twins \<and> dev_Attributes device' = DeviceAttrToMsgAttr attrs \<and>
    dt_sent st' = dt_sent st @ [\<lparr>dtm_module = CommModule, dtm_identity = [], dtm_action = SendToEdge,
      dtm_msg = \<lparr>dm_group = ''bus'', dm_resource = ''$hw/events/device/'' @ deviceID @ ''/twin/update/result'',
        dm_operation = ''publish'', dm_content = PError eventID 500 e\<rparr>\<rparr>]"
proof -
  have same: "same_tables (de_orm E) (dt_db st) d"
    using twin_tx.retry_error_no_effect [OF assms(1), of RetryTimes "(dr_Add r, dr_Delete r, dr_Update r)"]
      assms(6) by simp
  then have q: "orm_QueryDevice (de_orm E) deviceID d = Inr (row # rows)"
    "orm_QueryAttr (de_orm E) deviceID d = Inr attrs" "orm_QueryTwin (de_orm E) deviceID d = Inr twins"
    using assms(7-9) by (simp_all add: same_tables_def)
  have "deviceID |\<in>| fmdom (DeviceList st)"
    using assms(2) by (auto simp: GetDevice_def intro: fmdomI)
  with DealMsgTwin_dom [OF assms(3)] have "deviceID |\<in>| fmdom devices" by simp
  then obtain dev where dev: "fmlookup devices deviceID = Some dev" by auto
  have "\<exists>st'. DealDeviceTwin E ck deviceID eventID (Some content) RestDealType st = Ret (Some e, st') \<and>
    st' = dealUpdateResult deviceID eventID InternalErrorCode (Some e)
      (BuildDeviceTwinResult \<lparr>EventID = eventID, Timestamp = ck_now ck\<rparr> (dr_Result r) RestDealType)
      (snd (SyncDeviceFromSqlite E deviceID (st\<lparr>DeviceList := devices, dt_db := d\<rparr>)))"
    using assms(2-6) dev by (auto simp: DealDeviceTwin_def Let_def)
  with same q dev assms(10) show ?thesis
    by (auto simp: SyncDeviceFromSqlite_def GetDevice_def QueryDevice_def QueryDeviceAttr_def
        QueryDeviceTwin_def dealUpdateResult_def BuildErrorResult_def BuildModelMessage_def Let_def)
qed

theorem DealDeviceTwin_write_failure_witness:
  "\<exists>st' e. DealDeviceTwin demo_dt_env demo_clock ''d1'' ''e'' (Some [(''temp'', Some (demo_twin ''25'' 0 0))])
      RestDealType (demo_dt_state 0) = Ret (Some e, st') \<and>
    same_tables mini_orm (dt_db (demo_dt_state 0)) (dt_db st') \<and> length (dt_sent st') = 1"
proof -
  let ?content = "[(''temp'', Some (demo_twin ''25'' 0 0))]"
  have laws: "orm_laws (de_orm demo_dt_env)" by (simp add: demo_dt_env_def mini_orm_laws)
  have g: "GetDevice ''d1'' (demo_dt_state 0) = Some demo_device"
    by (simp add: GetDevice_def demo_dt_state_def)
  obtain r devices where c: "DealMsgTwin (de_ParseFloat demo_dt_env) (ck_key demo_clock)
      (DeviceList (demo_dt_state 0)) ''d1'' ?content RestDealType = Ret (r, devices)"
    and e: "dr_Err r = nil_error" and a: "dr_Add r = []" and d: "dr_Delete r = []"
    and u: "\<exists>x. dr_Update r = [x]"
    by (simp add: deal_eval demo_device_def demo_twin_def demo_dt_state_def demo_dt_env_def demo_clock_def)
  from u obtain x where x: "dr_Update r = [x]" by blast
  obtain db where t: "retry RetryTimes (DeviceTwinTrans (de_orm demo_dt_env) (dr_Add r) (dr_Delete r)
      (dr_Update r)) (dt_db (demo_dt_state 0)) = (db, Some ''disk full'')"
    by (simp add: a d x eval_nat_numeral DeviceTwinTrans_def run_trans_def twin_trans_ops_def
        UpdateDeviceTwinFields_def mini_orm_def mini_step_def demo_dt_env_def demo_dt_state_def)
  have q: "dr_Add r \<noteq> [] \<or> dr_Update r \<noteq> []" using x by simp
  have m: "CommModule \<in> set (CommChan (demo_dt_state 0))" by (simp add: demo_dt_state_def)
  have env: "de_orm demo_dt_env = mini_orm" and s: "dt_sent (demo_dt_state 0) = []"
    by (simp_all add: demo_dt_env_def demo_dt_state_def)
  have "orm_QueryDevice (de_orm demo_dt_env) ''d1'' (dt_db (demo_dt_state 0)) =
      Inr [\<lparr>dbd_ID = ''d1'', dbd_Name = [], dbd_Description = [], dbd_State = [], dbd_LastOnline = []\<rparr>]"
    "orm_QueryAttr (de_orm demo_dt_env) ''d1'' (dt_db (demo_dt_state 0)) = Inr []"
    "orm_QueryTwin (de_orm demo_dt_env) ''d1'' (dt_db (demo_dt_state 0)) = Inr []"
    by (simp_all add: env mini_orm_def demo_dt_state_def)
  from DealDeviceTwin_write_failure [OF laws g c e q t this m, of "''e''"]
  show ?thesis by (auto simp: env s)
qed

text \<open>C39. The answer to an update that is not well-formed does not reach the device: the only effect
  of the handler is one message with code 400, and its topic and its event identifier are
  empty where the device's are expected.\<close>

theorem Updated_invalid_answer:
  assumes "UnmarshalDeviceTwinUpdate payload = Inl e" and "CommModule \<in> set (CommChan st)"
  shows "Updated E ck deviceID payload st = Ret (st\<lparr>dt_sent := dt_sent st @
    [\<lparr>dtm_module = CommModule, dtm_identity = [], dtm_action = SendToEdge,
      dtm_msg = \<lparr>dm_group = ''bus'', dm_resource = ''$hw/events/device//twin/update/result'',
        dm_operation = ''publish'', dm_content = PError [] 400 e\<rparr>\<rparr>]\<rparr>)"
  using assms
  by (simp add: Updated_def dealUpdateResult_def dt_Send_def CommTo_def BuildErrorResult_def
      BuildModelMessage_def Let_def)

theorem Updated_invalid_answer_witness:
  "Updated demo_dt_env demo_clock ''d1'' None (demo_dt_state 0) = Ret ((demo_dt_state 0)\<lparr>dt_sent :=
    [\<lparr>dtm_module = CommModule, dtm_identity = [], dtm_action = SendToEdge,
      dtm_msg = \<lparr>dm_group = ''bus'', dm_resource = ''$hw/events/device//twin/update/result'',
        dm_operation = ''publish'', dm_content = PError [] 400 ErrorUnmarshal\<rparr>\<rparr>]\<rparr>)"
proof -
  have "UnmarshalDeviceTwinUpdate None = Inl ErrorUnmarshal"
    by (simp add: UnmarshalDeviceTwinUpdate_def)
  from Updated_invalid_answer [OF this, of "demo_dt_state 0" demo_dt_env demo_clock "''d1''"]
  show ?thesis by (simp add: demo_dt_state_def)
qed



end
