(* ===== verification/DtProcess.thy ===== *)
theory DtProcess
  imports DtManager Base64
begin

text \<open>
  How messages enter and leave the device twin: \<open>codes/edge/pkg/devicetwin/process.go\<close>
  (classification of incoming messages, distribution to the modules, loading the devices at
  start), \<open>dtmanager/communicate.go\<close> (the communication module with its table of unconfirmed
  messages), the heartbeat of \<open>dtcontext/dtcontext.go\<close>, and the handlers of
  \<open>codes/edge/pkg/eventbus/mqtt/handler.go\<close> that feed it.

  The part of the context that these functions use is the record \<open>comm_ctx\<close>. The channel of a
  module is the sequence of messages that wait in it, what beehive is asked to send is the
  sequence \<open>beehive_sent\<close>. The content of a message is a text, a byte slice, or another value;
  what JSON makes of a value is an argument. Incoming messages, the timer and heartbeats are
  the events of the communication worker.
\<close>

section \<open>Messages and context\<close>

abbreviation LifeCycleConnectETPrefix :: string where "LifeCycleConnectETPrefix \<equiv> ''$hw/events/connected/''"
abbreviation LifeCycleDisconnectETPrefix :: string where
  "LifeCycleDisconnectETPrefix \<equiv> ''$hw/events/disconnected/''"
abbreviation LifeCycle :: string where "LifeCycle \<equiv> ''LifeCycle''"
abbreviation Confirm :: string where "Confirm \<equiv> ''Confirm''"
abbreviation Connected :: string where "Connected \<equiv> ''connected''"
abbreviation Disconnected :: string where "Disconnected \<equiv> ''disconnected''"
abbreviation MemModule :: string where "MemModule \<equiv> ''MemModule''"
abbreviation TwinModule :: string where "TwinModule \<equiv> ''TwinModule''"
abbreviation DeviceModule :: string where "DeviceModule \<equiv> ''DeviceModule''"
abbreviation DMIModule :: string where "DMIModule \<equiv> ''DMIModule''"
abbreviation HubModule :: string where "HubModule \<equiv> ''websocket''"
abbreviation EventHubModule :: string where "EventHubModule \<equiv> ''eventbus''"
abbreviation CloudConnected :: string where "CloudConnected \<equiv> ''cloud_connected''"
abbreviation CloudDisconnected :: string where "CloudDisconnected \<equiv> ''cloud_disconnected''"

datatype dt_content = CString string | CBytes string | COther string

type_synonym dmsg = "dt_content message"

text \<open>\<open>model.NewMessage\<close>: a message with an identifier and the identifier of its parent.\<close>

definition NewMessage :: "string \<Rightarrow> string \<Rightarrow> dmsg" where
  "NewMessage msgID parentID = \<lparr>msg_ID = msgID, msg_ParentID = parentID, msg_ResourceVersion = [],
     msg_Source = [], msg_Group = [], msg_Operation = [], msg_Resource = [], msg_Content = COther []\<rparr>"

record routed =
  rt_Msg :: dmsg
  rt_Identity :: string
  rt_Action :: string
  rt_Type :: string

record comm_ctx =
  cc_State :: string
  cc_NodeName :: string
  ConfirmMap :: "(string, routed) fmap"
  ModulesHealth :: "(string, int) fmap"
  cc_CommChan :: "string list"
  cc_queue :: "string \<Rightarrow> routed list"
  beehive_sent :: "(string \<times> dmsg) list"

definition InitDTContext :: "string \<Rightarrow> comm_ctx" where
  "InitDTContext nodeName = \<lparr>cc_State = Disconnected, cc_NodeName = nodeName, ConfirmMap = fmempty,
     ModulesHealth = fmempty, cc_CommChan = [], cc_queue = (\<lambda>_. []), beehive_sent = []\<rparr>"

definition comm_to :: "string \<Rightarrow> routed \<Rightarrow> comm_ctx \<Rightarrow> go_error \<times> comm_ctx" where
  "comm_to dtmName content c =
     (if dtmName \<in> set (cc_CommChan c)
      then (nil_error, c\<lparr>cc_queue := (cc_queue c)(dtmName := cc_queue c dtmName @ [content])\<rparr>)
      else (Some ''Not found chan to communicate'', c))"

definition beehive_Send :: "string \<Rightarrow> dmsg \<Rightarrow> comm_ctx \<Rightarrow> comm_ctx" where
  "beehive_Send module m c = c\<lparr>beehive_sent := beehive_sent c @ [(module, m)]\<rparr>"

text \<open>The heartbeat of a module; \<open>now\<close> is the time in seconds.\<close>

definition HeartBeat :: "int \<Rightarrow> string \<Rightarrow> string \<Rightarrow> comm_ctx \<Rightarrow> go_error \<times> comm_ctx" where
  "HeartBeat now dtmName content c =
     (if content = ''ping'' then (nil_error, c\<lparr>ModulesHealth := fmupd dtmName now (ModulesHealth c)\<rparr>)
      else if content = ''stop'' then (Some ''stop'', c)
      else (nil_error, c))"

section \<open>Classification\<close>

definition EventActionMap :: "string \<Rightarrow> string \<Rightarrow> string option" where
  "EventActionMap prefix =
     (if prefix = MemETPrefix
      then map_of [(''/membership/detail/result'', ''MemDetailResult''),
             (''/membership/updated'', ''MemUpdated''), (''/membership/get'', ''MemGet'')]
      else if prefix = DeviceETPrefix
      then map_of [(''/state/get'', ''DeviceStateGet''), (''/updated'', ''DeviceUpdated''),
             (''/state/update'', ''DeviceStateUpdate''), (''/twin/update'', ''TwinUpdate''),
             (''/twin/cloud_updated'', ''TwinCloudSync''), (''/twin/get'', ''TwinGet'')]
      else Map.empty)"

definition ActionModuleList :: "(string \<times> string) list" where
  "ActionModuleList =
     [(''MemDetailResult'', MemModule), (''MemGet'', MemModule), (''MemUpdated'', MemModule),
      (''TwinGet'', TwinModule), (''TwinUpdate'', TwinModule), (''TwinCloudSync'', TwinModule),
      (''DeviceUpdated'', DeviceModule), (''DeviceStateGet'', DeviceModule),
      (''DeviceStateUpdate'', DeviceModule), (Connected, CommModule), (Disconnected, CommModule),
      (LifeCycle, CommModule), (Confirm, CommModule), (''MetaDeviceOperation'', DMIModule)]"

definition ActionModuleMap :: "string \<Rightarrow> string option" where
  "ActionModuleMap = map_of ActionModuleList"

text \<open>A message of the event bus: \<open>None\<close> as action is the result false. The identity is looked for
  from the left of the topic.\<close>

definition classify_topic :: "string \<Rightarrow> (string \<times> string) option go" where
  "classify_topic topic =
     (let splitString = Split topic ''/''
      in if length splitString = 4
         then Ret (if HasPrefix topic LifeCycleConnectETPrefix \<or> HasPrefix topic LifeCycleDisconnectETPrefix
                   then Some ([], LifeCycle) else None)
         else if length splitString \<le> 3 then Panic
         else
           let identity = splitString ! 3
           in case Index topic identity of
                None \<Rightarrow> Panic
              | Some loc \<Rightarrow>
                  Ret (case EventActionMap (take loc topic) (drop (loc + length identity) topic) of
                         None \<Rightarrow> None
                       | Some action \<Rightarrow> Some (identity, action)))"

text \<open>The content as bytes: a byte slice as it is, anything else through JSON.\<close>

definition to_bytes :: "(dt_content \<Rightarrow> string option) \<Rightarrow> dt_content \<Rightarrow> string option" where
  "to_bytes marshal content = (case content of CBytes b \<Rightarrow> Some b | _ \<Rightarrow> marshal content)"

definition classify_resource :: "string \<Rightarrow> string \<Rightarrow> (string \<times> string) option go" where
  "classify_resource resource operation =
     (if Contains resource ''membership/detail'' then Ret (Some ([], ''MemDetailResult''))
      else if Contains resource ''membership'' then Ret (Some ([], ''MemUpdated''))
      else if Contains resource ''twin/cloud_updated''
      then (let resources = Split resource ''/''
            in if length resources < 2 then Panic else Ret (Some (resources ! 1, ''TwinCloudSync'')))
      else if Contains operation ''updated''
      then (let resources = Split resource ''/''
            in Ret (Some (if length resources = 2 \<and> resources ! 0 = ''device''
                          then (resources ! 1, ''DeviceUpdated'') else ([], []))))
      else Ret None)"

definition classifyMsg ::
  "(dt_content \<Rightarrow> string option) \<Rightarrow> routed \<Rightarrow> (bool \<times> routed) go" where
  "classifyMsg marshal message =
     (let m = rt_Msg message; src = msg_Source m
      in if src = ''bus'' then
           (case DecodeString (msg_Resource m) of
              None \<Rightarrow> Ret (False, message)
            | Some topic \<Rightarrow>
                do {
                  r \<leftarrow> classify_topic topic;
                  (case r of
                     None \<Rightarrow> Ret (False, message)
                   | Some (identity, action) \<Rightarrow>
                       (case msg_Content m of
                          CString s \<Rightarrow> Ret (True, message\<lparr>rt_Msg := m\<lparr>msg_Content := CBytes s\<rparr>,
                                         rt_Identity := identity, rt_Action := action\<rparr>)
                        | _ \<Rightarrow> Panic))
                })
         else if src = ''edgemgr'' \<or> src = ''devicecontroller'' then
           (case to_bytes marshal (msg_Content m) of
              None \<Rightarrow> Ret (False, message)
            | Some b \<Rightarrow>
                let message' = message\<lparr>rt_Msg := m\<lparr>msg_Content := CBytes b\<rparr>\<rparr>
                in do {
                  r \<leftarrow> classify_resource (msg_Resource m) (msg_Operation m);
                  (case r of
                     None \<Rightarrow> Ret (False, message')
                   | Some (identity, action) \<Rightarrow>
                       Ret (True, message'\<lparr>rt_Identity := identity, rt_Action := action\<rparr>))
                })
         else if src = ''edgehub'' then
           Ret (if msg_Resource m = ''node/connection'' then (True, message\<lparr>rt_Action := LifeCycle\<rparr>)
                else (False, message))
         else if src = ''meta'' then
           (case to_bytes marshal (msg_Content m) of
              None \<Rightarrow> Ret (False, message)
            | Some b \<Rightarrow> Ret (True, message\<lparr>rt_Msg := m\<lparr>msg_Content := CBytes b\<rparr>,
                               rt_Action := ''MetaDeviceOperation''\<rparr>))
         else Ret (False, message))"

text \<open>\<open>distributeMsg\<close>; \<open>None\<close> is a value that is not a message, \<open>confirmID\<close> the identifier of the
  confirmation that is made.\<close>

definition distributeMsg ::
  "(dt_content \<Rightarrow> string option) \<Rightarrow> string \<Rightarrow> dmsg option \<Rightarrow> comm_ctx \<Rightarrow> (go_error \<times> comm_ctx) go" where
  "distributeMsg marshal confirmID mo c =
     (case mo of
        None \<Rightarrow> Ret (Some ''distribute message, msg is nil'', c)
      | Some m \<Rightarrow>
          if msg_ParentID m \<noteq> []
          then Ret (comm_to CommModule \<lparr>rt_Msg = NewMessage confirmID (msg_ParentID m), rt_Identity = [],
                      rt_Action = Confirm, rt_Type = []\<rparr> c)
          else do {
            (found, message) \<leftarrow> classifyMsg marshal
               \<lparr>rt_Msg = m, rt_Identity = [], rt_Action = [], rt_Type = []\<rparr>;
            if \<not> found then Ret (Some ''not found action'', c)
            else (case ActionModuleMap (rt_Action message) of
                    Some moduleName \<Rightarrow> Ret (comm_to moduleName message c)
                  | None \<Rightarrow> Ret (Some (''not found deal module for msg, action: '' @ rt_Action message), c))
          })"

text \<open>The event bus: what a message of an MQTT topic becomes.\<close>

definition handleDeviceTwin :: "string \<Rightarrow> string \<Rightarrow> string \<Rightarrow> dmsg" where
  "handleDeviceTwin msgID topic payload =
     (BuildRouter (NewMessage msgID []) BusGroup ''user'' (EncodeToString topic) ''response'')
       \<lparr>msg_Content := CString payload\<rparr>"

definition handleUploadTopic :: "string \<Rightarrow> string \<Rightarrow> string \<Rightarrow> string \<Rightarrow> dmsg" where
  "handleUploadTopic uploadOperation msgID topic payload =
     (BuildRouter (NewMessage msgID []) BusGroup ''user'' topic uploadOperation)
       \<lparr>msg_Content := CString payload\<rparr>"

section \<open>Modules\<close>

definition moduleNames :: "string list" where
  "moduleNames = [MemModule, TwinModule, DeviceModule, CommModule, DMIModule]"

definition RegisterDTModule :: "string \<Rightarrow> comm_ctx \<Rightarrow> comm_ctx" where
  "RegisterDTModule name c =
     c\<lparr>cc_CommChan := (if name \<in> set (cc_CommChan c) then cc_CommChan c else cc_CommChan c @ [name]),
       cc_queue := (cc_queue c)(name := [])\<rparr>"

definition start_context :: "string \<Rightarrow> comm_ctx" where
  "start_context nodeName = fold RegisterDTModule moduleNames (InitDTContext nodeName)"

text \<open>The modules that the health loop starts again: those whose last heartbeat is more than two
  minutes old.\<close>

definition stale_modules :: "int \<Rightarrow> comm_ctx \<Rightarrow> string list" where
  "stale_modules now c =
     filter (\<lambda>m. case fmlookup (ModulesHealth c) m of None \<Rightarrow> False | Some h \<Rightarrow> now - h > 60 * 2) moduleNames"

text \<open>The actions for which the worker of a module has a callback.\<close>

definition callback_actions :: "string \<Rightarrow> string list" where
  "callback_actions module =
     (if module = MemModule then [''MemGet'', ''MemUpdated'', ''MemDetailResult'']
      else if module = TwinModule then [''TwinUpdate'', ''TwinGet'', ''TwinCloudSync'']
      else if module = DeviceModule then [''DeviceUpdated'', ''DeviceStateUpdate'']
      else if module = CommModule then [SendToCloud, SendToEdge, LifeCycle, Confirm]
      else if module = DMIModule then [''MetaDeviceOperation'']
      else [])"

section \<open>Loading the devices at start\<close>

definition proc_SyncDeviceFromSqlite ::
  "'d dt_env \<Rightarrow> string \<Rightarrow> 'd dt_state \<Rightarrow> go_error \<times> 'd dt_state" where
  "proc_SyncDeviceFromSqlite E deviceID st =
     (let st1 = (if GetDevice deviceID st = None
                 then st\<lparr>DeviceMutex := finsert deviceID (DeviceMutex st)\<rparr> else st);
          obm = de_orm E; d = dt_db st1
      in case QueryDevice obm deviceID d of
           Inl e \<Rightarrow> (Some e, st1)
         | Inr [] \<Rightarrow> (Some ''Not found device from db'', st1)
         | Inr (device # _) \<Rightarrow>
             (case QueryDeviceAttr obm deviceID d of
                Inl e \<Rightarrow> (Some e, st1)
              | Inr attributes \<Rightarrow>
                  (case QueryDeviceTwin obm deviceID d of
                     Inl e \<Rightarrow> (Some e, st1)
                   | Inr twins \<Rightarrow>
                       (nil_error, st1\<lparr>DeviceList := fmupd deviceID
                          \<lparr>dev_ID = deviceID, dev_Name = dbd_Name device,
                           dev_Description = dbd_Description device, dev_State = dbd_State device,
                           dev_LastOnline = dbd_LastOnline device,
                           dev_Attributes = DeviceAttrToMsgAttr attributes,
                           dev_Twin = DeviceTwinToMsgTwin twins\<rparr> (DeviceList st1)\<rparr>))))"

definition SyncSqlite :: "'d dt_env \<Rightarrow> 'd dt_state \<Rightarrow> go_error \<times> 'd dt_state" where
  "SyncSqlite E st =
     (case QueryDeviceAll (de_orm E) (dt_db st) of
        Inl e \<Rightarrow> (Some e, st)
      | Inr rows \<Rightarrow>
          (nil_error, fold (\<lambda>device s. snd (proc_SyncDeviceFromSqlite E (dbd_ID device) s)) rows st))"

section \<open>Communication\<close>

text \<open>What the communication module takes from outside: the identifier and the body of the detail
  request that \<open>detailRequest\<close> builds.\<close>

record comm_env =
  ce_detail_ID :: string
  ce_detail_JSON :: "string \<Rightarrow> string"

definition dealSendToEdge :: "dmsg \<Rightarrow> comm_ctx \<Rightarrow> go_error \<times> comm_ctx" where
  "dealSendToEdge m c = (nil_error, beehive_Send EventHubModule m c)"

definition confirm_entry :: "dmsg \<Rightarrow> routed" where
  "confirm_entry m = \<lparr>rt_Msg = m, rt_Identity = [], rt_Action = SendToCloud, rt_Type = CommModule\<rparr>"

definition dealSendToCloud :: "dmsg \<Rightarrow> comm_ctx \<Rightarrow> go_error \<times> comm_ctx" where
  "dealSendToCloud m c =
     (if cc_State c = Disconnected then (nil_error, c)
      else let c1 = beehive_Send HubModule m c
           in (nil_error, c1\<lparr>ConfirmMap := fmupd (msg_ID m) (confirm_entry m) (ConfirmMap c1)\<rparr>))"

definition detailRequest :: "comm_env \<Rightarrow> comm_ctx \<Rightarrow> go_error \<times> comm_ctx" where
  "detailRequest E c =
     (let m = (BuildRouter (NewMessage (ce_detail_ID E) []) ''twin'' ''resource'' ''membership/detail'' ''get'')
                \<lparr>msg_Content := CString (ce_detail_JSON E (cc_NodeName c))\<rparr>;
          c1 = c\<lparr>ConfirmMap := fmupd (msg_ID m) (confirm_entry m) (ConfirmMap c)\<rparr>
      in (nil_error, beehive_Send HubModule m c1))"

definition dealLifeCycle :: "comm_env \<Rightarrow> dmsg \<Rightarrow> comm_ctx \<Rightarrow> go_error \<times> comm_ctx" where
  "dealLifeCycle E m c =
     (let connectedInfo = (case msg_Content m of CString s \<Rightarrow> s | _ \<Rightarrow> [])
      in if connectedInfo = CloudConnected
         then (let (err, c1) = (if cc_State c = Disconnected then detailRequest E c else (nil_error, c))
               in if err \<noteq> nil_error then (err, c1) else (nil_error, c1\<lparr>cc_State := Connected\<rparr>))
         else if connectedInfo = CloudDisconnected then (nil_error, c\<lparr>cc_State := Disconnected\<rparr>)
         else (nil_error, c))"

definition dealConfirm :: "dmsg \<Rightarrow> comm_ctx \<Rightarrow> go_error \<times> comm_ctx" where
  "dealConfirm m c = (nil_error, c\<lparr>ConfirmMap := fmdrop (msg_ParentID m) (ConfirmMap c)\<rparr>)"

definition ActionCallBack :: "comm_env \<Rightarrow> string \<Rightarrow> (dmsg \<Rightarrow> comm_ctx \<Rightarrow> go_error \<times> comm_ctx) option" where
  "ActionCallBack E =
     map_of [(SendToCloud, dealSendToCloud), (SendToEdge, dealSendToEdge),
             (LifeCycle, dealLifeCycle E), (Confirm, dealConfirm)]"

text \<open>A message at the worker; a failure or a missing callback is only logged.\<close>

definition comm_deal :: "comm_env \<Rightarrow> routed \<Rightarrow> comm_ctx \<Rightarrow> comm_ctx" where
  "comm_deal E dtMsg c =
     (case ActionCallBack E (rt_Action dtMsg) of
        Some fn \<Rightarrow> snd (fn (rt_Msg dtMsg) c)
      | None \<Rightarrow> c)"

text \<open>\<open>checkConfirm\<close> with the entries of the table in the order in which it is ranged over.\<close>

definition checkConfirm :: "comm_env \<Rightarrow> (string fset \<Rightarrow> string list) \<Rightarrow> comm_ctx \<Rightarrow> comm_ctx" where
  "checkConfirm E rng c =
     fold (\<lambda>key c'. case fmlookup (ConfirmMap c') key of None \<Rightarrow> c' | Some dtmsg \<Rightarrow> comm_deal E dtmsg c')
       (rng (fmdom (ConfirmMap c))) c"

text \<open>The loop of the communication worker over the events it selects.\<close>

datatype comm_event = Receive routed | Timer | Beat int string

fun comm_step ::
  "(string fset \<Rightarrow> string list) \<Rightarrow> comm_env \<times> comm_event \<Rightarrow> comm_ctx \<Rightarrow> go_error \<times> comm_ctx" where
  "comm_step rng (E, Receive m) c = (nil_error, comm_deal E m c)"
| "comm_step rng (E, Timer) c = (nil_error, checkConfirm E rng c)"
| "comm_step rng (E, Beat now v) c = HeartBeat now CommModule v c"

fun CommWorker_Start ::
  "(string fset \<Rightarrow> string list) \<Rightarrow> (comm_env \<times> comm_event) list \<Rightarrow> comm_ctx \<Rightarrow> comm_ctx" where
  "CommWorker_Start rng [] c = c"
| "CommWorker_Start rng (ev # evs) c =
     (case comm_step rng ev c of
        (None, c') \<Rightarrow> CommWorker_Start rng evs c'
      | (Some _, c') \<Rightarrow> c')"

section \<open>Routing of topics\<close>

lemma Index_from_ge: "Index_from n s sub = Some m \<Longrightarrow> n \<le> m"
  by (induction s arbitrary: n) (fastforce split: if_splits)+

lemma Index_from_here: "HasPrefix s sub \<Longrightarrow> Index_from n s sub = Some n"
  by (cases s) (auto simp: HasPrefix_def)

lemma Index_from_first:
  "\<exists>m. Index_from n (a @ sub @ b) sub = Some m \<and> m \<le> n + length a"
proof (induction a arbitrary: n)
  case Nil
  show ?case by (simp add: Index_from_here)
next
  case (Cons x a)
  show ?case
  proof (cases "HasPrefix (x # a @ sub @ b) sub")
    case True
    then show ?thesis by simp
  next
    case False
    obtain m where "Index_from (Suc n) (a @ sub @ b) sub = Some m" "m \<le> Suc n + length a"
      using Cons.IH [of "Suc n"] by blast
    with False show ?thesis by simp
  qed
qed

lemma Index_occurrence: "\<exists>loc. Index (a @ sub @ b) sub = Some loc \<and> loc \<le> length a"
  using Index_from_first [of 0 a sub b] by (force simp: Index_def)

lemma Index_at_prefix:
  "(\<And>n. n < length a \<Longrightarrow> \<not> HasPrefix (drop n (a @ sub @ b)) sub) \<Longrightarrow> Index (a @ sub @ b) sub = Some (length a)"
proof -
  have "(\<And>n. n < length a \<Longrightarrow> \<not> HasPrefix (drop n (a @ sub @ b)) sub) \<Longrightarrow>
      Index_from k (a @ sub @ b) sub = Some (k + length a)" for k
  proof (induction a arbitrary: k)
    case Nil
    show ?case by (simp add: Index_from_here)
  next
    case (Cons x a)
    have "\<not> HasPrefix (x # a @ sub @ b) sub" using Cons.prems [of 0] by simp
    moreover have "Index_from (Suc k) (a @ sub @ b) sub = Some (Suc k + length a)"
      using Cons.prems [of "Suc _"] by (intro Cons.IH) simp
    ultimately show ?case by simp
  qed
  then show "(\<And>n. n < length a \<Longrightarrow> \<not> HasPrefix (drop n (a @ sub @ b)) sub) \<Longrightarrow> ?thesis"
    by (simp add: Index_def)
qed

lemma EventActionMap_keys:
  assumes "EventActionMap prefix suffix = Some action"
  obtains rest where "prefix = MemETPrefix \<or> prefix = DeviceETPrefix" and "suffix = CHR ''/'' # rest"
  using assms by (auto simp: EventActionMap_def split: if_splits)

lemma EventActionMap_module: "EventActionMap prefix suffix = Some action \<Longrightarrow> ActionModuleMap action \<noteq> None"
  by (auto simp: EventActionMap_def ActionModuleMap_def ActionModuleList_def split: if_splits)

lemma EventActionMap_shorter:
  assumes "prefix = MemETPrefix \<or> prefix = DeviceETPrefix" and "loc < length prefix"
  shows "EventActionMap (take loc prefix) suffix = None"
proof -
  have "take loc prefix \<noteq> MemETPrefix \<and> take loc prefix \<noteq> DeviceETPrefix"
  proof (rule ccontr)
    assume a: "\<not> ?thesis"
    then have "loc = 16 \<or> loc = 18" using assms(2) by (auto dest!: arg_cong [where f = length])
    with a assms show False by auto
  qed
  then show ?thesis by (simp add: EventActionMap_def)
qed

lemma topic_segments:
  assumes "EventActionMap prefix suffix = Some action" and "CHR ''/'' \<notin> set identity"
  shows "\<exists>a b c d ds. Split (prefix @ identity @ suffix) ''/'' = a # b # c # identity # d # ds"
proof -
  obtain rest where p: "prefix = MemETPrefix \<or> prefix = DeviceETPrefix" and s: "suffix = CHR ''/'' # rest"
    using EventActionMap_keys [OF assms(1)] .
  have "split_on CHR ''/'' (identity @ CHR ''/'' # rest) = identity # split_on CHR ''/'' rest"
    by (rule split_on_append_sep [OF assms(2)])
  moreover obtain d ds where "split_on CHR ''/'' rest = d # ds"
    using split_on_not_Nil by (metis neq_Nil_conv)
  ultimately show ?thesis using p s by auto
qed

lemma classify_topic_device:
  assumes "EventActionMap prefix suffix = Some action" and "CHR ''/'' \<notin> set identity"
  shows "classify_topic (prefix @ identity @ suffix) =
    Ret (if Index (prefix @ identity @ suffix) identity = Some (length prefix)
         then Some (identity, action) else None)"
proof -
  obtain a b c d ds where seg: "Split (prefix @ identity @ suffix) ''/'' = a # b # c # identity # d # ds"
    using topic_segments [OF assms] by blast
  obtain loc where loc: "Index (prefix @ identity @ suffix) identity = Some loc" "loc \<le> length prefix"
    using Index_occurrence by blast
  have "EventActionMap (take loc (prefix @ identity @ suffix)) x = None" if "loc \<noteq> length prefix" for x
  proof -
    have "prefix = MemETPrefix \<or> prefix = DeviceETPrefix"
      by (rule EventActionMap_keys [OF assms(1)])
    moreover have "loc < length prefix" using that loc(2) by simp
    ultimately show ?thesis using EventActionMap_shorter [of prefix loc x] by simp
  qed
  with seg loc assms(1) show ?thesis
    by (cases "loc = length prefix") (simp_all add: classify_topic_def Let_def)
qed

text \<open>C18. A message that the event bus takes from a device or membership topic reaches the module
  that handles its action, with its payload and the identity of the topic, exactly when the
  first occurrence of the identity in the topic is the one behind the prefix; otherwise it is
  refused. An identity that also occurs in the prefix, such as \<open>device\<close>, is never served.\<close>

theorem distributeMsg_device_topic:
  assumes "EventActionMap prefix suffix = Some action" and "ActionModuleMap action = Some module"
    and "CHR ''/'' \<notin> set identity" and "module \<in> set (cc_CommChan c)"
  shows "distributeMsg marshal confirmID (Some (handleDeviceTwin msgID (prefix @ identity @ suffix) payload)) c =
    Ret (if Index (prefix @ identity @ suffix) identity = Some (length prefix)
         then (nil_error, c\<lparr>cc_queue := (cc_queue c)(module := cc_queue c module @
           [\<lparr>rt_Msg = (handleDeviceTwin msgID (prefix @ identity @ suffix) payload)\<lparr>msg_Content := CBytes payload\<rparr>,
             rt_Identity = identity, rt_Action = action, rt_Type = []\<rparr>])\<rparr>)
         else (Some ''not found action'', c))"
  using classify_topic_device [OF assms(1,3)] assms(2,4)
  by (simp add: distributeMsg_def classifyMsg_def handleDeviceTwin_def NewMessage_def comm_to_def Let_def)

lemmas start_eval = start_context_def moduleNames_def RegisterDTModule_def InitDTContext_def

theorem distributeMsg_device_topic_witness:
  "(\<exists>r. distributeMsg (\<lambda>_. None) ''c'' (Some (handleDeviceTwin ''m'' ''$hw/events/device/sensor-1/twin/update'' ''{}''))
      (start_context ''edge-1'') = Ret (nil_error, r) \<and> map rt_Identity (cc_queue r TwinModule) = [''sensor-1'']) \<and>
   distributeMsg (\<lambda>_. None) ''c'' (Some (handleDeviceTwin ''m'' ''$hw/events/device/device/twin/update'' ''{}''))
      (start_context ''edge-1'') = Ret (Some ''not found action'', start_context ''edge-1'')"
proof -
  have m: "EventActionMap DeviceETPrefix ''/twin/update'' = Some ''TwinUpdate''"
    "ActionModuleMap ''TwinUpdate'' = Some TwinModule"
    by (simp_all add: EventActionMap_def ActionModuleMap_def ActionModuleList_def)
  have c: "TwinModule \<in> set (cc_CommChan (start_context ''edge-1''))" by (simp add: start_eval)
  have i: "Index (DeviceETPrefix @ ''sensor-1'' @ ''/twin/update'') ''sensor-1'' = Some (length DeviceETPrefix)"
    "Index (DeviceETPrefix @ ''device'' @ ''/twin/update'') ''device'' = Some 11"
    by (simp_all add: Index_def HasPrefix_def)
  have q: "cc_queue (start_context ''edge-1'') TwinModule = []" by (simp add: start_eval)
  show ?thesis
    using distributeMsg_device_topic [OF m, of "''sensor-1''" "start_context ''edge-1''" "\<lambda>_. None" "''c''" "''m''" "''{}''"]
      distributeMsg_device_topic [OF m, of "''device''" "start_context ''edge-1''" "\<lambda>_. None" "''c''" "''m''" "''{}''"]
      c i q by simp
qed



text \<open>Every action that a module is responsible for has a callback there, except three.\<close>

lemma actions_without_callback:
  "filter (\<lambda>(action, module). action \<notin> set (callback_actions module)) ActionModuleList =
   [(''DeviceStateGet'', DeviceModule), (Connected, CommModule), (Disconnected, CommModule)]"
  by (simp add: ActionModuleList_def callback_actions_def)

lemma callbacks_agree: "set (callback_actions CommModule) = dom (ActionCallBack E)"
  by (auto simp: callback_actions_def ActionCallBack_def split: if_splits)

text \<open>A life cycle message that arrives over the event bus is queued with a byte slice as content, and
  the handler, which looks for a text, ignores it.\<close>

lemma bus_lifecycle_ignored:
  assumes "classifyMsg marshal \<lparr>rt_Msg = handleDeviceTwin msgID topic payload, rt_Identity = [], rt_Action = [],
      rt_Type = []\<rparr> = Ret (True, r)" and "rt_Action r = LifeCycle"
  shows "comm_deal E r c = c"
proof -
  have "msg_Content (rt_Msg r) = CBytes payload"
    using assms(1) by (auto simp: classifyMsg_def handleDeviceTwin_def NewMessage_def Let_def bind_eq_Some_go
        split: option.splits)
  with assms(2) show ?thesis
    by (simp add: comm_deal_def ActionCallBack_def dealLifeCycle_def)
qed

section \<open>Loading at start\<close>

lemma proc_Sync_db [simp]: "dt_db (snd (proc_SyncDeviceFromSqlite E i st)) = dt_db st"
  by (simp add: proc_SyncDeviceFromSqlite_def Let_def split: sum.split list.split)

lemma proc_Sync_others:
  "j \<noteq> i \<Longrightarrow> GetDevice j (snd (proc_SyncDeviceFromSqlite E i st)) = GetDevice j st"
  by (simp add: proc_SyncDeviceFromSqlite_def GetDevice_def Let_def split: sum.split list.split)

definition stored_device :: "'d orm \<Rightarrow> 'd \<Rightarrow> string \<Rightarrow> Device option" where
  "stored_device obm d i =
     (case (orm_QueryDevice obm i d, orm_QueryAttr obm i d, orm_QueryTwin obm i d) of
        (Inr (device # _), Inr attributes, Inr twins) \<Rightarrow>
          Some \<lparr>dev_ID = i, dev_Name = dbd_Name device, dev_Description = dbd_Description device,
            dev_State = dbd_State device, dev_LastOnline = dbd_LastOnline device,
            dev_Attributes = DeviceAttrToMsgAttr attributes, dev_Twin = DeviceTwinToMsgTwin twins\<rparr>
      | _ \<Rightarrow> None)"

lemma proc_Sync_loads:
  "GetDevice i (snd (proc_SyncDeviceFromSqlite E i st)) =
   (case stored_device (de_orm E) (dt_db st) i of None \<Rightarrow> GetDevice i st | Some dev \<Rightarrow> Some dev)"
  by (simp add: proc_SyncDeviceFromSqlite_def stored_device_def GetDevice_def QueryDevice_def
      QueryDeviceAttr_def QueryDeviceTwin_def Let_def split: sum.split list.split)

lemma sync_fold_loads:
  "GetDevice i (fold (\<lambda>device s. snd (proc_SyncDeviceFromSqlite E (dbd_ID device) s)) rows st) =
   (if i \<in> dbd_ID ` set rows
    then (case stored_device (de_orm E) (dt_db st) i of None \<Rightarrow> GetDevice i st | Some dev \<Rightarrow> Some dev)
    else GetDevice i st)"
proof (induction rows arbitrary: st)
  case Nil
  then show ?case by simp
next
  case (Cons r rows)
  let ?st1 = "snd (proc_SyncDeviceFromSqlite E (dbd_ID r) st)"
  show ?case
    using Cons.IH [of ?st1] proc_Sync_loads [of "dbd_ID r" E st] proc_Sync_others [of i "dbd_ID r" E st]
    by (cases "i = dbd_ID r") (auto split: option.splits)
qed

lemma sync_fold_db:
  "dt_db (fold (\<lambda>device s. snd (proc_SyncDeviceFromSqlite E (dbd_ID device) s)) rows st) = dt_db st"
  by (induction rows arbitrary: st) simp_all

text \<open>C34. At start the list of devices becomes what the database holds: if the table of devices can
  be read, then afterwards a device of the table has the value of its stored rows where they
  can be read, every other device is as before, and the database is untouched.\<close>

theorem SyncSqlite_loads:
  "case orm_QueryDeviceAll (de_orm E) (dt_db st) of
     Inl e \<Rightarrow> SyncSqlite E st = (Some e, st)
   | Inr rows \<Rightarrow> fst (SyncSqlite E st) = nil_error \<and> dt_db (snd (SyncSqlite E st)) = dt_db st \<and>
       GetDevice i (snd (SyncSqlite E st)) =
         (if i \<in> dbd_ID ` set rows
          then (case stored_device (de_orm E) (dt_db st) i of None \<Rightarrow> GetDevice i st | Some dev \<Rightarrow> Some dev)
          else GetDevice i st)"
  by (simp add: SyncSqlite_def QueryDeviceAll_def sync_fold_loads sync_fold_db split: sum.split)

section \<open>Unconfirmed messages\<close>

definition confirm_get :: "comm_ctx \<Rightarrow> string \<Rightarrow> routed option" where
  "confirm_get c k = fmlookup (ConfirmMap c) k"

definition confirm_put :: "string \<Rightarrow> routed \<Rightarrow> comm_ctx \<Rightarrow> comm_ctx" where
  "confirm_put k e c = c\<lparr>ConfirmMap := fmupd k e (ConfirmMap c)\<rparr>"

definition confirm_del :: "string \<Rightarrow> comm_ctx \<Rightarrow> comm_ctx" where
  "confirm_del k c = c\<lparr>ConfirmMap := fmdrop k (ConfirmMap c)\<rparr>"

interpretation confirms: registry confirm_get confirm_put confirm_del
  by unfold_locales (simp_all add: confirm_get_def confirm_put_def confirm_del_def)

lemma confirm_get_Send [simp]: "confirm_get (beehive_Send md m c) = confirm_get c"
  by (simp add: confirm_get_def beehive_Send_def fun_eq_iff)

lemma confirm_get_State [simp]: "confirm_get (c\<lparr>cc_State := x\<rparr>) = confirm_get c"
  by (simp add: confirm_get_def fun_eq_iff)

text \<open>The invariant of the table: an entry is a message to be sent to the cloud, under its own
  identifier, that was handed to the hub at least once.\<close>

definition confirm_inv :: "comm_ctx \<Rightarrow> bool" where
  "confirm_inv c \<longleftrightarrow> (\<forall>k e. confirm_get c k = Some e \<longrightarrow>
     e = confirm_entry (rt_Msg e) \<and> msg_ID (rt_Msg e) = k \<and> (HubModule, rt_Msg e) \<in> set (beehive_sent c))"

lemma send_store_eq:
  "dealSendToCloud m c = (nil_error, if cc_State c = Disconnected then c
     else confirm_put (msg_ID m) (confirm_entry m) (beehive_Send HubModule m c))"
  by (simp add: dealSendToCloud_def confirm_put_def Let_def)

lemma detail_store_eq:
  "\<exists>m. msg_ID m = ce_detail_ID E \<and>
     detailRequest E c = (nil_error, beehive_Send HubModule m (confirm_put (msg_ID m) (confirm_entry m) c))"
  by (rule exI [of _ "(BuildRouter (NewMessage (ce_detail_ID E) []) ''twin'' ''resource'' ''membership/detail'' ''get'')
        \<lparr>msg_Content := CString (ce_detail_JSON E (cc_NodeName c))\<rparr>"])
     (simp add: detailRequest_def confirm_put_def NewMessage_def Let_def)

text \<open>What a received message does to the context, by cases on its action.\<close>

lemma comm_deal_cases:
  obtains (same) "comm_deal E r c = c"
  | (state) s where "comm_deal E r c = c\<lparr>cc_State := s\<rparr>"
  | (edge) "comm_deal E r c = beehive_Send EventHubModule (rt_Msg r) c"
  | (cloud) "rt_Action r = SendToCloud" "cc_State c \<noteq> Disconnected"
      "comm_deal E r c = confirm_put (msg_ID (rt_Msg r)) (confirm_entry (rt_Msg r)) (beehive_Send HubModule (rt_Msg r) c)"
  | (detail) m where "rt_Action r = LifeCycle" "msg_ID m = ce_detail_ID E"
      "comm_deal E r c = (beehive_Send HubModule m (confirm_put (msg_ID m) (confirm_entry m) c))\<lparr>cc_State := Connected\<rparr>"
  | (confirm) "rt_Action r = Confirm" "comm_deal E r c = confirm_del (msg_ParentID (rt_Msg r)) c"
proof -
  obtain m where m: "msg_ID m = ce_detail_ID E"
    "detailRequest E c = (nil_error, beehive_Send HubModule m (confirm_put (msg_ID m) (confirm_entry m) c))"
    using detail_store_eq by blast
  consider "rt_Action r = SendToCloud" | "rt_Action r = SendToEdge" | "rt_Action r = LifeCycle"
    | "rt_Action r = Confirm" | "ActionCallBack E (rt_Action r) = None"
    by (force simp: ActionCallBack_def)
  then show ?thesis
  proof cases
    case 1
    then show ?thesis using cloud same
      by (cases "cc_State c = Disconnected") (simp_all add: comm_deal_def ActionCallBack_def send_store_eq)
  next
    case 2
    then show ?thesis using edge by (simp add: comm_deal_def ActionCallBack_def dealSendToEdge_def)
  next
    case 3
    then have "comm_deal E r c = snd (dealLifeCycle E (rt_Msg r) c)"
      by (simp add: comm_deal_def ActionCallBack_def)
    with 3 m show ?thesis using same state detail by (auto simp: dealLifeCycle_def Let_def split: if_splits)
  next
    case 4
    then show ?thesis using confirm
      by (simp add: comm_deal_def ActionCallBack_def dealConfirm_def confirm_del_def)
  next
    case 5
    then show ?thesis using same by (simp add: comm_deal_def)
  qed
qed

lemma beehive_sent_put [simp]: "beehive_sent (confirm_put k e c) = beehive_sent c"
  and beehive_sent_del [simp]: "beehive_sent (confirm_del k c) = beehive_sent c"
  and beehive_sent_Send [simp]: "beehive_sent (beehive_Send md m c) = beehive_sent c @ [(md, m)]"
  by (simp_all add: confirm_put_def confirm_del_def beehive_Send_def)

lemma confirm_entry_Msg [simp]: "rt_Msg (confirm_entry m) = m"
  by (simp add: confirm_entry_def)

lemma comm_deal_inv: "confirm_inv c \<Longrightarrow> confirm_inv (comm_deal E r c)"
  by (cases rule: comm_deal_cases [of E r c])
     (auto simp: confirm_inv_def confirms.lookup_store confirms.lookup_remove split: if_splits)

lemma confirm_put_same: "confirm_get c k = Some e \<Longrightarrow> confirm_put k e c = c"
proof -
  assume "confirm_get c k = Some e"
  then have "fmupd k e (ConfirmMap c) = ConfirmMap c" by (intro fmap_ext) (auto simp: confirm_get_def)
  then show ?thesis by (simp add: confirm_put_def)
qed

lemma resend_one:
  assumes "confirm_inv c" and "confirm_get c k = Some e"
  shows "comm_deal E e c = (if cc_State c = Disconnected then c else beehive_Send HubModule (rt_Msg e) c)"
proof -
  have e: "e = confirm_entry (rt_Msg e)" and k: "msg_ID (rt_Msg e) = k"
    using assms by (auto simp: confirm_inv_def)
  then have "rt_Action e = SendToCloud" by (metis confirm_entry_def routed.select_convs(3))
  then have "comm_deal E e c = (if cc_State c = Disconnected then c
      else confirm_put k e (beehive_Send HubModule (rt_Msg e) c))"
    using e k by (simp add: comm_deal_def ActionCallBack_def send_store_eq)
  then show ?thesis using assms(2) by (simp add: confirm_put_same)
qed

definition resends :: "comm_ctx \<Rightarrow> string list \<Rightarrow> (string \<times> dmsg) list" where
  "resends c ks = map (\<lambda>k. (HubModule, rt_Msg (the (confirm_get c k)))) ks"

lemma Send_inv: "confirm_inv c \<Longrightarrow> confirm_inv (beehive_Send md m c)"
  by (auto simp: confirm_inv_def)

lemma resend_all:
  "confirm_inv c \<Longrightarrow> set ks \<subseteq> dom (confirm_get c) \<Longrightarrow>
   fold (\<lambda>key c'. case fmlookup (ConfirmMap c') key of None \<Rightarrow> c' | Some dtmsg \<Rightarrow> comm_deal E dtmsg c') ks c =
   (if cc_State c = Disconnected then c else c\<lparr>beehive_sent := beehive_sent c @ resends c ks\<rparr>)"
proof (induction ks arbitrary: c)
  case Nil
  then show ?case by (simp add: resends_def)
next
  case (Cons k ks)
  then obtain e where e: "confirm_get c k = Some e" by auto
  let ?c1 = "comm_deal E e c"
  have 1: "?c1 = (if cc_State c = Disconnected then c else beehive_Send HubModule (rt_Msg e) c)"
    using resend_one [OF Cons.prems(1) e] .
  have g: "confirm_get ?c1 = confirm_get c" using 1 by simp
  have "confirm_inv ?c1" using comm_deal_inv [OF Cons.prems(1)] .
  moreover have "set ks \<subseteq> dom (confirm_get ?c1)" using Cons.prems(2) g by simp
  ultimately have ih: "fold (\<lambda>key c'. case fmlookup (ConfirmMap c') key of None \<Rightarrow> c' | Some dtmsg \<Rightarrow>
      comm_deal E dtmsg c') ks ?c1 =
      (if cc_State ?c1 = Disconnected then ?c1 else ?c1\<lparr>beehive_sent := beehive_sent ?c1 @ resends ?c1 ks\<rparr>)"
    by (rule Cons.IH)
  have "fmlookup (ConfirmMap c) k = Some e" using e by (simp add: confirm_get_def)
  then show ?case
    using ih by (simp add: 1 e resends_def) (simp add: beehive_Send_def e)
qed

definition visits_all :: "(string fset \<Rightarrow> string list) \<Rightarrow> bool" where
  "visits_all rng \<longleftrightarrow> (\<forall>S. set (rng S) = fset S \<and> distinct (rng S))"

lemma dom_confirm_get: "dom (confirm_get c) = fset (fmdom (ConfirmMap c))"
  by (auto simp: confirm_get_def fmlookup_dom_iff)

lemma checkConfirm_eq:
  assumes "confirm_inv c" and "visits_all rng"
  shows "checkConfirm E rng c = (if cc_State c = Disconnected then c
    else c\<lparr>beehive_sent := beehive_sent c @ resends c (rng (fmdom (ConfirmMap c)))\<rparr>)"
  unfolding checkConfirm_def
  using assms by (intro resend_all) (simp_all add: visits_all_def dom_confirm_get)

lemma checkConfirm_get:
  "confirm_inv c \<Longrightarrow> visits_all rng \<Longrightarrow> confirm_get (checkConfirm E rng c) = confirm_get c"
  by (simp add: checkConfirm_eq confirm_get_def fun_eq_iff)

lemma HeartBeat_get: "HeartBeat now md v c = (err, c') \<Longrightarrow> confirm_get c' = confirm_get c \<and>
    beehive_sent c' = beehive_sent c"
  by (auto simp: HeartBeat_def confirm_get_def fun_eq_iff split: if_splits)

lemma comm_step_inv:
  assumes "confirm_inv c" and "visits_all rng" and "comm_step rng ev c = (err, c')"
  shows "confirm_inv c'"
proof -
  obtain E x where ev: "ev = (E, x)" by force
  show ?thesis
  proof (cases x)
    case (Receive m)
    with assms ev show ?thesis by (auto intro: comm_deal_inv)
  next
    case Timer
    have "set (beehive_sent c) \<subseteq> set (beehive_sent (checkConfirm E rng c))"
      using checkConfirm_eq [OF assms(1,2), of E] by auto
    with Timer assms ev show ?thesis by (auto simp: confirm_inv_def checkConfirm_get)
  next
    case (Beat now v)
    with assms ev HeartBeat_get [of now CommModule v c err c'] show ?thesis by (auto simp: confirm_inv_def)
  qed
qed

text \<open>The worker as a state machine with this invariant.\<close>

interpretation comm: step_system "\<lambda>c. ConfirmMap c = fmempty"
  "\<lambda>c c'. \<exists>rng ev err. visits_all rng \<and> comm_step rng ev c = (err, c')" confirm_inv
proof unfold_locales
  show "confirm_inv c" if "ConfirmMap c = fmempty" for c
    using that by (simp add: confirm_inv_def confirm_get_def)
qed (blast intro: comm_step_inv)

lemma CommWorker_inv:
  assumes "visits_all rng" and "confirm_inv c"
  shows "confirm_inv (CommWorker_Start rng evs c)"
  using assms(2)
proof (induction evs arbitrary: c)
  case Nil
  then show ?case by simp
next
  case (Cons ev evs)
  obtain err c' where s: "comm_step rng ev c = (err, c')" by force
  have "confirm_inv c'" using comm.inv_step [OF Cons.prems] s assms(1) by blast
  with Cons.IH s show ?case by (cases err) simp_all
qed

text \<open>The events that leave the entry of an identifier alone: no confirmation of it, and no new message
  under it.\<close>

fun leaves_entry :: "string \<Rightarrow> comm_env \<times> comm_event \<Rightarrow> bool" where
  "leaves_entry k (E, Receive r) \<longleftrightarrow>
     (if rt_Action r = Confirm then msg_ParentID (rt_Msg r) \<noteq> k
      else if rt_Action r = SendToCloud then msg_ID (rt_Msg r) \<noteq> k
      else if rt_Action r = LifeCycle then ce_detail_ID E \<noteq> k
      else True)"
| "leaves_entry k (E, _) \<longleftrightarrow> True"

lemma comm_deal_keeps: "leaves_entry k (E, Receive m) \<Longrightarrow> confirm_get (comm_deal E m c) k = confirm_get c k"
  by (cases rule: comm_deal_cases [of E m c])
     (simp_all add: confirms.lookup_store confirms.lookup_remove)

lemma comm_step_keeps:
  assumes "confirm_inv c" and "visits_all rng" and "leaves_entry k ev" and "comm_step rng ev c = (err, c')"
  shows "confirm_get c' k = confirm_get c k"
proof -
  obtain E x where ev: "ev = (E, x)" by force
  show ?thesis
  proof (cases x)
    case (Receive m)
    with assms(3,4) ev show ?thesis using comm_deal_keeps [of k E m c] by simp
  next
    case Timer
    with assms ev show ?thesis by (auto simp: checkConfirm_get)
  next
    case (Beat now v)
    with assms ev HeartBeat_get [of now CommModule v c err c'] show ?thesis by simp
  qed
qed

lemma CommWorker_keeps:
  assumes "visits_all rng" and "confirm_inv c" and "list_all (leaves_entry k) evs"
  shows "confirm_get (CommWorker_Start rng evs c) k = confirm_get c k"
  using assms(2,3)
proof (induction evs arbitrary: c)
  case Nil
  then show ?case by simp
next
  case (Cons ev evs)
  obtain err c' where s: "comm_step rng ev c = (err, c')" by force
  have "confirm_inv c'" and "confirm_get c' k = confirm_get c k"
    using comm_step_inv [OF Cons.prems(1) assms(1) s] comm_step_keeps [OF Cons.prems(1) assms(1) _ s]
      Cons.prems(2) by simp_all
  with Cons s show ?case by (cases err) simp_all
qed

lemma count_map_unique:
  "distinct ks \<Longrightarrow> k0 \<in> set ks \<Longrightarrow> (\<And>k. k \<in> set ks \<Longrightarrow> f k = y \<longleftrightarrow> k = k0) \<Longrightarrow> count_list (map f ks) y = 1"
proof (induction ks)
  case Nil
  then show ?case by simp
next
  case (Cons a ks)
  show ?case
  proof (cases "a = k0")
    case True
    with Cons.prems have "y \<notin> set (map f ks)" by (auto simp: image_iff)
    with True Cons.prems show ?thesis by simp
  next
    case False
    with Cons show ?thesis by simp
  qed
qed

text \<open>C4. A message for the cloud is delivered at least once. In a run of the communication worker
  from its start, once the message is accepted while the cloud is connected it is handed to the
  hub, and as long as it is not confirmed, whatever else happens and also across
  disconnections, every timer event that finds the cloud connected hands it to the hub once
  more.\<close>

theorem unconfirmed_message_is_resent:
  assumes "visits_all rng" and "c = CommWorker_Start rng evs0 (start_context nodeName)"
    and "cc_State c \<noteq> Disconnected" and "list_all (leaves_entry (msg_ID m)) evs"
    and "c' = CommWorker_Start rng evs (snd (dealSendToCloud m c))"
  shows "beehive_sent (snd (dealSendToCloud m c)) = beehive_sent c @ [(HubModule, m)] \<and>
    fmlookup (ConfirmMap c') (msg_ID m) = Some (confirm_entry m) \<and>
    (\<exists>more. beehive_sent (checkConfirm E rng c') = beehive_sent c' @ more \<and>
       count_list more (HubModule, m) = (if cc_State c' = Disconnected then 0 else 1))"
proof -
  have start: "confirm_inv (start_context nodeName)"
    by (rule comm.inv_start) (simp add: start_eval)
  let ?c1 = "snd (dealSendToCloud m c)"
  have 1: "?c1 = confirm_put (msg_ID m) (confirm_entry m) (beehive_Send HubModule m c)"
    using assms(3) by (simp add: send_store_eq)
  have i1: "confirm_inv ?c1"
    using comm_deal_inv [of c E "confirm_entry m"] CommWorker_inv [OF assms(1) start] assms(2)
    by (simp add: comm_deal_def ActionCallBack_def confirm_entry_def)
  have "confirm_get c' (msg_ID m) = confirm_get ?c1 (msg_ID m)"
    using CommWorker_keeps [OF assms(1) i1 assms(4)] assms(5) by simp
  then have g: "confirm_get c' (msg_ID m) = Some (confirm_entry m)" by (simp add: 1)
  have i': "confirm_inv c'" using CommWorker_inv [OF assms(1) i1] assms(5) by simp
  let ?ks = "rng (fmdom (ConfirmMap c'))"
  have ks: "set ?ks = dom (confirm_get c')" "distinct ?ks"
    using assms(1) by (simp_all add: visits_all_def dom_confirm_get)
  have own: "(HubModule, rt_Msg (the (confirm_get c' k))) = (HubModule, m) \<longleftrightarrow> k = msg_ID m"
    if "k \<in> set ?ks" for k
    using that ks(1) i' g by (auto simp: confirm_inv_def dom_def)
  have "count_list (resends c' ?ks) (HubModule, m) = 1"
    unfolding resends_def using own g ks by (intro count_map_unique [of _ "msg_ID m"]) auto
  then show ?thesis
    using g 1 checkConfirm_eq [OF i' assms(1), of E] by (simp add: confirm_get_def)
qed

lemma visits_sorted: "visits_all sorted_list_of_fset"
  by (simp add: visits_all_def sorted_list_of_fset.rep_eq)

definition demo_comm :: comm_env where
  "demo_comm = \<lparr>ce_detail_ID = ''d'', ce_detail_JSON = (\<lambda>n. n)\<rparr>"

definition demo_up :: routed where
  "demo_up = \<lparr>rt_Msg = (NewMessage ''u'' [])\<lparr>msg_Content := CString CloudConnected\<rparr>, rt_Identity = [],
     rt_Action = LifeCycle, rt_Type = []\<rparr>"

theorem unconfirmed_message_is_resent_witness:
  "\<exists>c'. c' = CommWorker_Start sorted_list_of_fset [(demo_comm, Beat 1 ''ping'')]
      (snd (dealSendToCloud (NewMessage ''m'' []) (CommWorker_Start sorted_list_of_fset
        [(demo_comm, Receive demo_up)] (start_context ''n'')))) \<and>
    (\<exists>more. beehive_sent (checkConfirm demo_comm sorted_list_of_fset c') = beehive_sent c' @ more \<and>
       count_list more (HubModule, NewMessage ''m'' []) = 1)"
proof -
  let ?c = "CommWorker_Start sorted_list_of_fset [(demo_comm, Receive demo_up)] (start_context ''n'')"
  let ?m = "NewMessage ''m'' []"
  let ?evs = "[(demo_comm, Beat 1 ''ping'')]"
  let ?c' = "CommWorker_Start sorted_list_of_fset ?evs (snd (dealSendToCloud ?m ?c))"
  have con: "cc_State ?c = Connected" "cc_State ?c' = Connected"
    by (simp_all add: comm_deal_def ActionCallBack_def demo_up_def dealLifeCycle_def detailRequest_def
        beehive_Send_def NewMessage_def Let_def dealSendToCloud_def HeartBeat_def)
  have evs: "list_all (leaves_entry (msg_ID ?m)) ?evs" by simp
  have "cc_State ?c \<noteq> Disconnected" by (simp only: con) simp
  from unconfirmed_message_is_resent [OF visits_sorted refl this evs refl, of demo_comm] con(2)
  show ?thesis by (auto simp del: CommWorker_Start.simps)
qed

text \<open>C33. The answer of the cloud ends the resending of the message it answers and of no other: a
  message with a parent identifier is distributed to the communication module as a confirmation,
  whatever its source and content, and dealing with the confirmation removes exactly the entry
  of the parent identifier from the table.\<close>

theorem distributeMsg_confirms:
  assumes "msg_ParentID m \<noteq> []" and "CommModule \<in> set (cc_CommChan c)"
  shows "\<exists>r. distributeMsg marshal confirmID (Some m) c = Ret (nil_error,
      c\<lparr>cc_queue := (cc_queue c)(CommModule := cc_queue c CommModule @ [r])\<rparr>) \<and>
    (\<forall>E c'. comm_deal E r c' = c'\<lparr>ConfirmMap := fmdrop (msg_ParentID m) (ConfirmMap c')\<rparr>)"
  using assms
  by (intro exI [of _ "\<lparr>rt_Msg = NewMessage confirmID (msg_ParentID m), rt_Identity = [], rt_Action = Confirm,
        rt_Type = []\<rparr>"])
     (simp add: distributeMsg_def comm_to_def comm_deal_def ActionCallBack_def dealConfirm_def NewMessage_def)

theorem distributeMsg_confirms_witness:
  "\<exists>r c'. distributeMsg (\<lambda>_. None) ''c'' (Some (NewMessage ''a'' ''m'')) (start_context ''n'') = Ret (nil_error, c') \<and>
     cc_queue c' CommModule = [r] \<and> ConfirmMap (comm_deal demo_comm r
       (snd (dealSendToCloud (NewMessage ''m'' []) ((start_context ''n'')\<lparr>cc_State := Connected\<rparr>)))) = fmempty"
proof -
  let ?c = "snd (dealSendToCloud (NewMessage ''m'' []) ((start_context ''n'')\<lparr>cc_State := Connected\<rparr>))"
  have "msg_ParentID (NewMessage ''a'' ''m'') \<noteq> []" "CommModule \<in> set (cc_CommChan (start_context ''n''))"
    by (simp_all add: NewMessage_def start_eval)
  from distributeMsg_confirms [OF this, of "\<lambda>_. None" "''c''"] obtain r where
    r: "distributeMsg (\<lambda>_. None) ''c'' (Some (NewMessage ''a'' ''m'')) (start_context ''n'') = Ret (nil_error,
      (start_context ''n'')\<lparr>cc_queue := (cc_queue (start_context ''n''))
        (CommModule := cc_queue (start_context ''n'') CommModule @ [r])\<rparr>)"
    and d: "\<forall>E c'. comm_deal E r c' = c'\<lparr>ConfirmMap := fmdrop (msg_ParentID (NewMessage ''a'' ''m'')) (ConfirmMap c')\<rparr>"
    by blast
  have q: "cc_queue (start_context ''n'') CommModule = []" by (simp add: start_eval)
  have "ConfirmMap ?c = fmupd ''m'' (confirm_entry (NewMessage ''m'' [])) fmempty"
    by (simp add: dealSendToCloud_def beehive_Send_def NewMessage_def start_eval Let_def)
  then have "ConfirmMap (comm_deal demo_comm r ?c) = fmempty"
    using d by (auto simp: NewMessage_def intro: fmap_ext)
  with r q show ?thesis by simp
qed

end
