(* ===== verification/Spec2Isabelle.thy ===== *)
theory Spec2Isabelle
  imports SessionManager DtCoherence DtProcess
begin

text \<open>
  A verification development for the cloud and edge cores of laTAPE.
\<close>

section \<open>The resynchronisation loop\<close>

lemma built_name:
  assumes "CHR ''.'' \<notin> set uid"
  shows "getNodeName (BuildObjectSyncName node uid) = node"
    and "getObjectUID (BuildObjectSyncName node uid) = uid"
  using assms
  by (simp_all add: getNodeName_def getObjectUID_def BuildObjectSyncName_def split_on_last Join_split_on)

lemma built_message_route:
  assumes "resource_args_ok (E, node, ns, t, r)" and "BuildResource E node ns t r = Inr (msg_Resource m)"
  shows "dispatcher_GetNodeID E m = Inr node" and "GetNamespace E m = Inr ns"
proof -
  have s: "split_on CHR ''/'' (msg_Resource m) = resource_parts (E, node, ns, t, r)"
    using res_path.split_build [OF assms(1)] assms(2) by simp
  show "dispatcher_GetNodeID E m = Inr node"
    using s assms(1) by (simp add: dispatcher_GetNodeID_def resource_parts_def resource_args_ok_def)
  show "GetNamespace E m = Inr ns"
    using getElementByIndex_built [OF assms] assms(1)
    by (simp add: GetNamespace_def resource_parts_def resource_args_ok_def Let_def)
qed

text \<open>C6. The loop that keeps an edge node in step with the cluster comes to rest. For a record that
  lags behind its object, the sync controller sends one update; the dispatcher reads from it the
  node of the record; when the node has acknowledged it, the session asks the API server to keep
  the object's version in that same record; and with the record so updated the sync controller
  sends nothing more.\<close>

theorem confirmed_update_is_not_resent:
  assumes "resource_args_ok (h_ext H, node, os_Namespace s, ToLower (os_ObjectKind s), os_ObjectName s)"
    and "os_Namespace s \<noteq> NullNamespace" and "UpdateOperation (h_ext H) \<noteq> DeleteOperation (h_ext H)"
    and "os_Name s = BuildObjectSyncName node uid" and "CHR ''.'' \<notin> set uid"
    and "ParseGroupVersion_ok env (os_ObjectAPIVersion s)"
    and "lister_Get env (os_ObjectAPIVersion s) (os_ObjectKind s) (os_Namespace s) (os_ObjectName s)
           = Some (LFound (Some obj))"
    and "meta_Accessor (h_ext H) obj = Inr om" and "om_UID om = uid"
    and "ParseUint (om_ResourceVersion om) = Some v" and "ParseUint (os_StatusVersion s) = Some u" and "u < v"
    and "ns_nodeID (ch_sessions w ns) = node"
    and "sy_Get (h_client H) (InNamespace (os_Namespace s)) (os_Name s) (api_of w) = SyncFound s"
  shows "\<exists>m s'. reconcileObjectSync (h_ext H) env newID s = Ret [Send (DefaultContextSendModuleName (h_ext H)) m] \<and>
    dispatcher_GetNodeID (h_ext H) m = Inr node \<and>
    s' = s\<lparr>os_StatusVersion := om_ResourceVersion om\<rparr> \<and>
    api_of (saveSuccessPoint H ns m w) =
      fst (sy_UpdateStatus (h_client H) (InNamespace (os_Namespace s)) s' (api_of w)) \<and>
    reconcileObjectSync (h_ext H) env newID' s' = Ret []"
proof -
  let ?E = "h_ext H"
  obtain path where path: "BuildResource ?E node (os_Namespace s) (ToLower (os_ObjectKind s)) (os_ObjectName s) = Inr path"
    using res_path.build_total [OF assms(1)] by auto
  define m where "m = \<lparr>msg_ID = newID, msg_ParentID = [], msg_ResourceVersion = om_ResourceVersion om,
    msg_Source = EdgeControllerModuleName, msg_Group = GroupResource, msg_Operation = UpdateOperation ?E,
    msg_Resource = path, msg_Content = obj\<rparr>"
  have names: "getNodeName (os_Name s) = node" "getObjectUID (os_Name s) = uid"
    using built_name [OF assms(5)] assms(4) by simp_all
  have ver: "os_StatusVersion s \<noteq> []" "om_ResourceVersion om \<noteq> []"
    using assms(10,11) by auto
  have "reconcileObjectSync ?E env newID s = Ret [Send (DefaultContextSendModuleName ?E) m]"
    using assms(6-12) names ver path
    by (simp add: reconcileObjectSync_def sendEvents_def CompareResourceVersion_parsed
        buildEdgeControllerMessage_def new_message_def GetObjectResourceVersion_def m_def)
  moreover have "reconcileObjectSync ?E env newID' (s\<lparr>os_StatusVersion := om_ResourceVersion om\<rparr>) = Ret []"
    using assms(6-10) names ver
    by (simp add: reconcileObjectSync_def sendEvents_def CompareResourceVersion_parsed)
  moreover have r: "dispatcher_GetNodeID ?E m = Inr node" "GetNamespace ?E m = Inr (os_Namespace s)"
    using built_message_route [OF assms(1), of m] path by (simp_all add: m_def)
  moreover have "api_of (saveSuccessPoint H ns m w) = fst (sy_UpdateStatus (h_client H)
      (InNamespace (os_Namespace s)) (s\<lparr>os_StatusVersion := om_ResourceVersion om\<rparr>) (api_of w))"
  proof -
    have "GetMessageUID ?E m = Inr uid" using assms(8,9) by (simp add: GetMessageUID_def m_def)
    moreover have "msg_Operation m \<noteq> DeleteOperation ?E" "msg_Group m = GroupResource"
      "msg_ResourceVersion m = om_ResourceVersion om"
      using assms(3) by (simp_all add: m_def)
    ultimately show ?thesis
      using assms(2,4,13,14) r(2)
      by (simp add: saveSuccessPoint_def saveNamespaceResourceSuccess_def Let_def)
  qed
  ultimately show ?thesis by blast
qed

theorem confirmed_update_is_not_resent_witness:
  "\<exists>m. reconcileObjectSync demo_ext demo_env ''m1'' demo_sync = Ret [Send ''cloudhub'' m] \<and>
    api_of (saveSuccessPoint demo_hub 0 m (set_api [demo_sync] demo_world)) =
      [demo_sync\<lparr>os_StatusVersion := ''9''\<rparr>] \<and>
    reconcileObjectSync demo_ext demo_env ''m2'' (demo_sync\<lparr>os_StatusVersion := ''9''\<rparr>) = Ret []"
proof -
  let ?om = "\<lparr>om_UID = ''u1'', om_DeletionTimestamp = None, om_ResourceVersion = ''9''\<rparr>"
  let ?w = "set_api [demo_sync] demo_world"
  have E: "h_ext demo_hub = demo_ext" by (simp add: demo_hub_def)
  have low: "ToLower (os_ObjectKind demo_sync) = ''pod''" by code_simp
  have 1: "resource_args_ok (h_ext demo_hub, ''edge-1'', os_Namespace demo_sync,
      ToLower (os_ObjectKind demo_sync), os_ObjectName demo_sync)"
    unfolding low by (simp add: resource_args_ok_def slash_free_def demo_sync_def E demo_ext_def ext_of_def)
  have 2: "os_Namespace demo_sync \<noteq> NullNamespace" by (simp add: demo_sync_def)
  have 3: "UpdateOperation (h_ext demo_hub) \<noteq> DeleteOperation (h_ext demo_hub)"
    by (simp add: E demo_ext_def ext_of_def)
  have 4: "os_Name demo_sync = BuildObjectSyncName ''edge-1'' ''u1''"
    by (simp add: demo_sync_def BuildObjectSyncName_def)
  have 5: "CHR ''.'' \<notin> set ''u1''" by simp
  have 6: "ParseGroupVersion_ok demo_env (os_ObjectAPIVersion demo_sync)"
    and 7: "lister_Get demo_env (os_ObjectAPIVersion demo_sync) (os_ObjectKind demo_sync)
      (os_Namespace demo_sync) (os_ObjectName demo_sync) = Some (LFound (Some ''9''))"
    by (simp_all add: demo_env_def)
  have 8: "meta_Accessor (h_ext demo_hub) ''9'' = Inr ?om"
    by (simp add: E demo_ext_def demo_meta_def ext_of_def)
  have 9: "om_UID ?om = ''u1''" and 10: "ParseUint (om_ResourceVersion ?om) = Some 9"
    and 11: "ParseUint (os_StatusVersion demo_sync) = Some 7"
    by (simp_all add: demo_sync_def ParseUint_def digit_val_def)
  have 12: "(7::nat) < 9" by simp
  have 13: "ns_nodeID (ch_sessions ?w 0) = ''edge-1''"
    by (simp add: set_api_def demo_world_def NewNodeSession_def)
  have 14: "sy_Get (h_client demo_hub) (InNamespace (os_Namespace demo_sync)) (os_Name demo_sync)
      (api_of ?w) = SyncFound demo_sync"
    by (simp add: api_of_def set_api_def demo_hub_def)
  have a: "fst (sy_UpdateStatus (h_client demo_hub) (InNamespace (os_Namespace demo_sync))
      (demo_sync\<lparr>os_StatusVersion := ''9''\<rparr>) (api_of ?w)) = [demo_sync\<lparr>os_StatusVersion := ''9''\<rparr>]"
    by (simp add: api_of_def set_api_def demo_hub_def)
  have d: "DefaultContextSendModuleName demo_ext = ''cloudhub''" by (simp add: demo_ext_def ext_of_def)
  show ?thesis
    using confirmed_update_is_not_resent [OF 1 2 3 4 5 6 7 8 9 10 11 12 13 14, of "''m1''" "''m2''"] a d
    by (auto simp: E)
qed

end
